(* ===== verification/Protun_Prelude.thy ===== *)
theory Protun_Prelude
  imports Main "HOL-Library.Word" "HOL-Library.Monad_Syntax"
begin

text \<open>
  Shared vocabulary of the development: the machine integers of the Rust sources as
  words, durations and instants as numbers of nanoseconds, the loop combinator
  \<open>iterate\<close> with its partial and total correctness rules, and the generic list
  lemmas the component theories use.

  A Rust loop that may run for ever, or whose body may panic (the crate is built with
  \<^verbatim>\<open>panic = "abort"\<close>), is an instance of \<open>iterate\<close>: the value \<open>None\<close> means that
  control does not come back.
\<close>

section \<open>Collections of rules\<close>

named_theorems conn_frame \<open>which fields an operation of the connection leaves alone\<close>
named_theorems conn_keep \<open>preservation of the connection invariants\<close>
named_theorems model_defs \<open>definitions unfolded when a concrete run is evaluated\<close>

section \<open>Machine types\<close>

type_synonym u8 = "8 word"
type_synonym u16 = "16 word"
type_synonym u32 = "32 word"
type_synonym u64 = "64 word"
type_synonym i16 = "16 word"
type_synonym i32 = "32 word"
type_synonym i64 = "64 word"
type_synonym bytes = "u8 list"

text \<open>
  \<^verbatim>\<open>std::time::Duration\<close> and the instants built from it by \<^verbatim>\<open>Instant::from_duration\<close>,
  both in nanoseconds.
\<close>

type_synonym duration = nat
type_synonym instant = nat
type_synonym system_time = nat

definition from_secs :: "nat \<Rightarrow> duration" where
  "from_secs s = s * 1000000000"

definition from_millis :: "nat \<Rightarrow> duration" where
  "from_millis ms = ms * 1000000"

definition as_millis :: "duration \<Rightarrow> nat" where
  "as_millis d = d div 1000000"

text \<open>A duration is representable when its whole seconds fit in a \<open>u64\<close>.\<close>

definition duration_fits :: "duration \<Rightarrow> bool" where
  "duration_fits d \<longleftrightarrow> d div 1000000000 < 2 ^ 64"

lemma as_millis_from_millis [simp]: "as_millis (from_millis ms) = ms"
  by (simp add: as_millis_def from_millis_def)

section \<open>Loops\<close>

text \<open>
  \<open>iterate f s\<close> runs the body \<open>f\<close> from the state \<open>s\<close>: \<open>Some (Inl s')\<close> goes round
  again from \<open>s'\<close>, \<open>Some (Inr r)\<close> leaves the loop with \<open>r\<close> and \<open>None\<close> is a body that
  does not come back.
\<close>

partial_function (option) iterate :: "('s \<Rightarrow> ('s + 'r) option) \<Rightarrow> 's \<Rightarrow> 'r option" where
  "iterate f s = Option.bind (f s) (\<lambda>x. case x of Inl s' \<Rightarrow> iterate f s' | Inr r \<Rightarrow> Some r)"

text \<open>A \<^verbatim>\<open>while\<close> loop whose body may itself not return.\<close>

definition while_loop :: "('s \<Rightarrow> bool) \<Rightarrow> ('s \<Rightarrow> 's option) \<Rightarrow> 's \<Rightarrow> 's option" where
  "while_loop b f = iterate (\<lambda>s. if b s then map_option Inl (f s) else Some (Inr s))"

lemma iterate_return [simp]: "f s = Some (Inr r) \<Longrightarrow> iterate f s = Some r"
  by (simp add: iterate.simps)

lemma iterate_again: "f s = Some (Inl s') \<Longrightarrow> iterate f s = iterate f s'"
  by (subst iterate.simps) simp

lemma iterate_abort: "f s = None \<Longrightarrow> iterate f s = None"
  by (simp add: iterate.simps)

text \<open>Partial correctness: an invariant of the body holds when the loop is left.\<close>

lemma iterate_rule:
  fixes f :: "'s \<Rightarrow> ('s + 'r) option"
  assumes ret: "iterate f s = Some r"
    and start: "I s"
    and keep: "\<And>s s'. I s \<Longrightarrow> f s = Some (Inl s') \<Longrightarrow> I s'"
    and leave: "\<And>s r. I s \<Longrightarrow> f s = Some (Inr r) \<Longrightarrow> Q r"
  shows "Q r"
proof -
  have "I s \<longrightarrow> Q r"
  proof (rule iterate.raw_induct [where P = "\<lambda>g s r. g = f \<longrightarrow> I s \<longrightarrow> Q r", THEN mp, OF _ ret refl])
    fix it :: "('s \<Rightarrow> ('s + 'r) option) \<Rightarrow> 's \<Rightarrow> 'r option" and g s r
    assume IH: "\<And>g s r. it g s = Some r \<Longrightarrow> g = f \<longrightarrow> I s \<longrightarrow> Q r"
      and eq: "Option.bind (g s) (\<lambda>x. case x of Inl s' \<Rightarrow> it g s' | Inr r \<Rightarrow> Some r) = Some r"
    show "g = f \<longrightarrow> I s \<longrightarrow> Q r"
    proof (intro impI)
      assume g: "g = f" and "I s"
      from eq obtain x where x: "f s = Some x"
        and rest: "(case x of Inl s' \<Rightarrow> it f s' | Inr r \<Rightarrow> Some r) = Some r"
        unfolding g by (auto simp: bind_eq_Some_conv)
      show "Q r"
      proof (cases x)
        case (Inl s')
        with x \<open>I s\<close> have "I s'" by (simp add: keep)
        with rest Inl IH [of f s' r] show ?thesis by simp
      next
        case (Inr r')
        with x rest \<open>I s\<close> leave show ?thesis by auto
      qed
    qed
  qed
  with start show ?thesis by simp
qed

text \<open>Total correctness: a measure that the body decreases under the invariant.\<close>

lemma iterate_total:
  fixes m :: "'s \<Rightarrow> nat"
  assumes "I s"
    and body: "\<And>s. I s \<Longrightarrow> (\<exists>r. f s = Some (Inr r)) \<or> (\<exists>s'. f s = Some (Inl s') \<and> I s' \<and> m s' < m s)"
  shows "\<exists>r. iterate f s = Some r"
  using assms(1)
proof (induction "m s" arbitrary: s rule: less_induct)
  case less
  from body [OF less.prems] show ?case
  proof
    assume "\<exists>s'. f s = Some (Inl s') \<and> I s' \<and> m s' < m s"
    then obtain s' where s': "f s = Some (Inl s')" "I s'" "m s' < m s" by blast
    then show ?thesis using less.hyps [of s'] by (simp add: iterate_again)
  qed auto
qed

text \<open>Divergence: a set of states that the body never leaves.\<close>

lemma iterate_diverges:
  assumes "I s"
    and body: "\<And>s. I s \<Longrightarrow> \<exists>s'. f s = Some (Inl s') \<and> I s'"
  shows "iterate f s = None"
proof (cases "iterate f s")
  case (Some r)
  have False
    by (rule iterate_rule [OF Some, where I = I]) (use assms body in fastforce)+
  then show ?thesis ..
qed

lemma while_loop_stop [simp]: "\<not> b s \<Longrightarrow> while_loop b f s = Some s"
  by (simp add: while_loop_def)

lemma while_loop_step: "b s \<Longrightarrow> while_loop b f s = Option.bind (f s) (while_loop b f)"
  by (subst while_loop_def, subst iterate.simps) (cases "f s"; simp add: while_loop_def)

text \<open>One unfolding, for closed runs.\<close>

lemma while_loop_unfold:
  "while_loop b f s = (if b s then Option.bind (f s) (while_loop b f) else Some s)"
  by (simp add: while_loop_step)

lemma while_loop_rule:
  assumes "while_loop b f s = Some r" and "I s"
    and "\<And>s s'. I s \<Longrightarrow> b s \<Longrightarrow> f s = Some s' \<Longrightarrow> I s'"
  shows "I r \<and> \<not> b r"
  using assms(1) unfolding while_loop_def
  by (rule iterate_rule [where I = I]) (use assms in \<open>auto split: if_splits\<close>)

lemma while_loop_total:
  fixes m :: "'s \<Rightarrow> nat"
  assumes "I s"
    and "\<And>s. I s \<Longrightarrow> b s \<Longrightarrow> \<exists>s'. f s = Some s' \<and> I s' \<and> m s' < m s"
  shows "\<exists>r. while_loop b f s = Some r"
  unfolding while_loop_def
  by (rule iterate_total [where I = I and m = m]) (use assms in fastforce)+

section \<open>Folding a partial step over a list\<close>

text \<open>A \<^verbatim>\<open>for\<close> loop whose body may not return.\<close>

fun for_each :: "('x \<Rightarrow> 's \<Rightarrow> 's option) \<Rightarrow> 'x list \<Rightarrow> 's \<Rightarrow> 's option" where
  "for_each f [] s = Some s"
| "for_each f (x # xs) s = Option.bind (f x s) (for_each f xs)"

lemma for_each_append: "for_each f (xs @ ys) s = Option.bind (for_each f xs s) (for_each f ys)"
proof (induction xs arbitrary: s)
  case (Cons x xs)
  then show ?case by (cases "f x s") simp_all
qed simp

lemma for_each_rule:
  assumes "for_each f xs s = Some r" and "I s"
    and "\<And>x s s'. x \<in> set xs \<Longrightarrow> I s \<Longrightarrow> f x s = Some s' \<Longrightarrow> I s'"
  shows "I r"
  using assms
proof (induction xs arbitrary: s)
  case (Cons x xs)
  then show ?case by (auto simp: bind_eq_Some_conv)
qed simp

lemma for_each_total:
  assumes "I s" and "\<And>x s. I s \<Longrightarrow> \<exists>s'. f x s = Some s' \<and> I s'"
  shows "\<exists>r. for_each f xs s = Some r \<and> I r"
  using assms(1)
proof (induction xs arbitrary: s)
  case (Cons x xs)
  from assms(2) [OF Cons.prems] obtain s' where "f x s = Some s'" "I s'" by blast
  with Cons.IH show ?case by auto
qed simp

lemma fold_rule:
  assumes "I s" and "\<And>x s. x \<in> set xs \<Longrightarrow> I s \<Longrightarrow> I (f x s)"
  shows "I (fold f xs s)"
  using assms by (induction xs arbitrary: s) auto

section \<open>Machines driven by a sequence of operations\<close>

text \<open>The outputs and the final state of a sequence of operations.\<close>

fun run_machine :: "('op \<Rightarrow> 's \<Rightarrow> 'out \<times> 's) \<Rightarrow> 'op list \<Rightarrow> 's \<Rightarrow> 'out list \<times> 's" where
  "run_machine step [] s = ([], s)"
| "run_machine step (op # ops) s =
     (let (x, s) = step op s; (xs, s) = run_machine step ops s in (x # xs, s))"

declare run_machine.simps(2) [simp del]

lemma run_machine_Cons:
  "run_machine step (op # ops) s =
     (fst (step op s) # fst (run_machine step ops (snd (step op s))),
      snd (run_machine step ops (snd (step op s))))"
  by (simp add: run_machine.simps(2) split_beta)

lemma run_machine_append:
  "run_machine step (xs @ ys) s =
     (fst (run_machine step xs s) @ fst (run_machine step ys (snd (run_machine step xs s))),
      snd (run_machine step ys (snd (run_machine step xs s))))"
  by (induction xs arbitrary: s) (simp_all add: run_machine_Cons)

text \<open>An invariant that every operation keeps is kept by every sequence of them.\<close>

locale op_machine =
  fixes step :: "'op \<Rightarrow> 's \<Rightarrow> 'out \<times> 's"
    and inv :: "'s \<Rightarrow> bool"
  assumes step_inv: "inv s \<Longrightarrow> inv (snd (step op s))"
begin

lemma run_inv: "inv s \<Longrightarrow> inv (snd (run_machine step ops s))"
  by (induction ops arbitrary: s) (simp_all add: run_machine_Cons step_inv)

end

section \<open>Lists\<close>

lemma last_snoc_or [simp]: "last (d # xs @ [x]) = x"
  by simp

lemma distinct_adj_Cons_snoc:
  "distinct_adj (d # xs) \<Longrightarrow> x \<noteq> last (d # xs) \<Longrightarrow> distinct_adj (d # xs @ [x])"
proof (induction xs arbitrary: d)
  case (Cons y ys)
  then show ?case by (cases ys) auto
qed simp

lemma find_filter_hd: "List.find P xs = (case filter P xs of [] \<Rightarrow> None | x # _ \<Rightarrow> Some x)"
  by (induction xs) auto

end
