(* ===== verification/Net_Types.thy ===== *)
theory Net_Types
  imports Protun_Prelude
begin

text \<open>
  What the sources use of the Rust standard library: \<^verbatim>\<open>std::io::ErrorKind\<close> and
  \<^verbatim>\<open>std::io::Error\<close>, the address types of \<^verbatim>\<open>std::net\<close> and their textual form (the
  \<^verbatim>\<open>Display\<close> instances, which give a peer without a tag its identifier).
\<close>

section \<open>I/O errors\<close>

datatype error_kind =
    NotFound | PermissionDenied | ConnectionRefused | ConnectionReset | HostUnreachable
  | NetworkUnreachable | ConnectionAborted | NotConnected | AddrInUse | AddrNotAvailable
  | NetworkDown | BrokenPipe | AlreadyExists | WouldBlock | NotADirectory | IsADirectory
  | DirectoryNotEmpty | ReadOnlyFilesystem | StaleNetworkFileHandle | InvalidInput | InvalidData
  | TimedOut | WriteZero | StorageFull | NotSeekable | QuotaExceeded | FileTooLarge
  | ResourceBusy | ExecutableFileBusy | Deadlock | CrossesDevices | TooManyLinks
  | InvalidFilename | ArgumentListTooLong | Interrupted | Unsupported | UnexpectedEof
  | OutOfMemory | OtherKind | Uncategorized

record io_error =
  io_kind :: error_kind
  io_message :: string
  io_raw_os_error :: "int option"

type_synonym 'a io_result = "io_error + 'a"

text \<open>\<^verbatim>\<open>io::Error::new(kind, message)\<close>.\<close>

definition io_error_new :: "error_kind \<Rightarrow> string \<Rightarrow> io_error" where
  "io_error_new k msg = \<lparr>io_kind = k, io_message = msg, io_raw_os_error = None\<rparr>"

lemma io_kind_new [simp]: "io_kind (io_error_new k msg) = k"
  and io_message_new [simp]: "io_message (io_error_new k msg) = msg"
  by (simp_all add: io_error_new_def)

section \<open>Numbers as text\<close>

definition digit_char :: "nat \<Rightarrow> char" where
  "digit_char d = ''0123456789abcdef'' ! d"

fun to_base :: "nat \<Rightarrow> nat \<Rightarrow> string" where
  "to_base b n = (if n < b \<or> b < 2 then [digit_char n] else to_base b (n div b) @ [digit_char (n mod b)])"

declare to_base.simps [simp del]

abbreviation to_decimal :: "nat \<Rightarrow> string" where
  "to_decimal \<equiv> to_base 10"

abbreviation to_hex :: "nat \<Rightarrow> string" where
  "to_hex \<equiv> to_base 16"

text \<open>The textual form of a \<^verbatim>\<open>usize\<close> joined by a separator, \<^verbatim>\<open>[String]::join\<close>.\<close>

fun join_strings :: "string \<Rightarrow> string list \<Rightarrow> string" where
  "join_strings sep [] = []"
| "join_strings sep [x] = x"
| "join_strings sep (x # xs) = x @ sep @ join_strings sep xs"

section \<open>Addresses\<close>

text \<open>
  An IPv4 address is its four octets; \<^verbatim>\<open>Ipv6Addr::new\<close> takes the eight 16-bit segments.
\<close>

datatype ipv4_addr = Ipv4Addr u8 u8 u8 u8
datatype ipv6_addr = Ipv6Addr u16 u16 u16 u16 u16 u16 u16 u16

datatype ip_addr = V4 ipv4_addr | V6 ipv6_addr

fun ipv4_octets :: "ipv4_addr \<Rightarrow> u8 list" where
  "ipv4_octets (Ipv4Addr a b c d) = [a, b, c, d]"

fun ipv6_segments :: "ipv6_addr \<Rightarrow> u16 list" where
  "ipv6_segments (Ipv6Addr a b c d e f g h) = [a, b, c, d, e, f, g, h]"

text \<open>\<^verbatim>\<open>Ipv6Addr::to_ipv4_mapped\<close>: the address \<^verbatim>\<open>::ffff:a.b.c.d\<close>.\<close>

fun to_ipv4_mapped :: "ipv6_addr \<Rightarrow> ipv4_addr option" where
  "to_ipv4_mapped (Ipv6Addr a b c d e f g h) =
     (if a = 0 \<and> b = 0 \<and> c = 0 \<and> d = 0 \<and> e = 0 \<and> f = 0xffff
      then Some (Ipv4Addr (ucast (drop_bit 8 g)) (ucast g) (ucast (drop_bit 8 h)) (ucast h))
      else None)"

definition ipv4_to_string :: "ipv4_addr \<Rightarrow> string" where
  "ipv4_to_string a = join_strings ''.'' (map (\<lambda>b. to_decimal (unat b)) (ipv4_octets a))"

text \<open>The longest run of zero segments, the first one of that length: (start, length).\<close>

fun zero_span :: "nat \<Rightarrow> nat \<times> nat \<Rightarrow> nat \<times> nat \<Rightarrow> u16 list \<Rightarrow> nat \<times> nat" where
  "zero_span i cur longest [] = longest"
| "zero_span i cur longest (s # ss) =
     (if s = 0 then
        let cur' = (if snd cur = 0 then (i, 1) else (fst cur, Suc (snd cur)))
        in zero_span (Suc i) cur' (if snd cur' > snd longest then cur' else longest) ss
      else zero_span (Suc i) (0, 0) longest ss)"

definition fmt_subslice :: "u16 list \<Rightarrow> string" where
  "fmt_subslice segs = join_strings '':'' (map (\<lambda>s. to_hex (unat s)) segs)"

definition ipv6_to_string :: "ipv6_addr \<Rightarrow> string" where
  "ipv6_to_string a =
     (case to_ipv4_mapped a of
        Some v4 \<Rightarrow> ''::ffff:'' @ ipv4_to_string v4
      | None \<Rightarrow>
        let segs = ipv6_segments a; (start, len) = zero_span 0 (0, 0) (0, 0) segs in
        if len > 1 then fmt_subslice (take start segs) @ ''::'' @ fmt_subslice (drop (start + len) segs)
        else fmt_subslice segs)"

fun ip_to_string :: "ip_addr \<Rightarrow> string" where
  "ip_to_string (V4 a) = ipv4_to_string a"
| "ip_to_string (V6 a) = ipv6_to_string a"

text \<open>
  \<^verbatim>\<open>SocketAddr\<close>: the sources read only \<^verbatim>\<open>ip()\<close> and \<^verbatim>\<open>port()\<close> of it, and whether it is a
  V4 or a V6 address.
\<close>

record socket_addr =
  sa_ip :: ip_addr
  sa_port :: u16

text \<open>Three addresses as the standard library prints them.\<close>

lemmas display_defs = ipv4_to_string_def ipv6_to_string_def fmt_subslice_def
  to_base.simps digit_char_def

lemma ipv4_example: "ip_to_string (V4 (Ipv4Addr 10 2 0 1)) = ''10.2.0.1''"
  by (simp add: display_defs)

lemma ipv6_example: "ip_to_string (V6 (Ipv6Addr 0x2a07 0xb944 0 0 0 0 2 1)) = ''2a07:b944::2:1''"
  by (simp add: display_defs)

lemma ipv6_mapped_example:
  "ip_to_string (V6 (Ipv6Addr 0 0 0 0 0 0xffff 0x0a02 1)) = ''::ffff:10.2.0.1''"
  by (simp add: display_defs)

end
