(* ===== verification/Api_Types.thy ===== *)
theory Api_Types
  imports Net_Types
begin

text \<open>
  The public data model of the library: \<^verbatim>\<open>src/api/connection.rs\<close>, \<^verbatim>\<open>state.rs\<close>,
  \<^verbatim>\<open>events.rs\<close> and \<^verbatim>\<open>local_agent.rs\<close>, with the default features of the crate (unix, mio,
  local-agent). Structs are records, enums are datatypes with the constructors of the
  source; record fields carry a short prefix, since field names are constants in HOL.
  The newtype \<^verbatim>\<open>IpAddress\<close> is its content. Floating-point fields are only ever moved
  by the sources, and are held as their bit patterns.
\<close>

section \<open>Keys, peers and files (\<^verbatim>\<open>api/connection.rs\<close>)\<close>

definition CLIENT_PRIV_KEY_SIZE_BYTES :: nat where
  "CLIENT_PRIV_KEY_SIZE_BYTES = 32"

definition PEER_PUB_KEY_SIZE_BYTES :: nat where
  "PEER_PUB_KEY_SIZE_BYTES = 32"

datatype wg_client_private_key = WgClientPrivateKey bytes
datatype wg_peer_public_key = WgPeerPublicKey bytes

record peer_info =
  pi_peer_id :: string
  pi_server_ip :: ip_addr
  pi_server_public_key :: wg_peer_public_key
  pi_udp_ports :: "u16 list"
  pi_tcp_ports :: "u16 list"
  pi_tls_ports :: "u16 list"
  pi_priority :: i32
  pi_exit_label :: "string option"

datatype file_write_mode = Append | Overwrite

datatype pcap_file = Path string file_write_mode | Fd int

record pcap_file_info =
  pf_file :: pcap_file
  pf_max_bytes :: "u64 option"

datatype tun_stream_info = NoTun | TunFd int

datatype connectivity_event = Up | Down | NetworkSwitch

datatype cache_key = Certificate | PrivateKey | ApiSession

record cookie =
  ck_name :: string
  ck_value :: string

record fork_selector_info =
  fs_selector :: string
  fs_cookies :: "cookie list"

section \<open>Local agent (\<^verbatim>\<open>api/local_agent.rs\<close>)\<close>

datatype netshield_level =
    NetshieldNone | MalwareFilter | AdsAndMalwareFilter | AdultAndAdsAndMalwareFilter

record local_agent_settings =
  las_split_tcp :: "bool option"
  las_netshield_level :: "netshield_level option"
  las_soft_jail :: "bool option"
  las_port_forwarding :: "bool option"
  las_random_nat :: "bool option"
  las_circumvention_routing :: "bool option"

definition local_agent_settings_default :: local_agent_settings where
  "local_agent_settings_default =
     \<lparr>las_split_tcp = None, las_netshield_level = None, las_soft_jail = None,
      las_port_forwarding = None, las_random_nat = None, las_circumvention_routing = None\<rparr>"

record coordinates =
  co_latitude :: u64
  co_longitude :: u64

datatype restriction =
    Streaming string
  | Torrent string
  | OtherRestriction string string

record agent_connection_info =
  ai_server_exit_v4 :: "ip_addr option"
  ai_server_exit_v6 :: "ip_addr option"
  ai_user_isp_ip :: "string option"
  ai_user_isp_country_code :: "string option"
  ai_user_isp_name :: "string option"
  ai_user_isp_coordinates :: "coordinates option"
  ai_restrictions :: "restriction list"
  ai_groups :: "string list"
  ai_settings :: local_agent_settings

definition agent_connection_info_default :: agent_connection_info where
  "agent_connection_info_default =
     \<lparr>ai_server_exit_v4 = None, ai_server_exit_v6 = None, ai_user_isp_ip = None,
      ai_user_isp_country_code = None, ai_user_isp_name = None, ai_user_isp_coordinates = None,
      ai_restrictions = [], ai_groups = [], ai_settings = local_agent_settings_default\<rparr>"

datatype wait_jail_reason =
    BadUserBehavior string
  | DisabledUser string
  | LowPlan string
  | Need2FA string
  | PendingInvoice string
  | SessionOverLimit string
  | WaitingClientChallengeReply string
  | Internal string
  | OtherJail u64 string

section \<open>Connection state (\<^verbatim>\<open>api/state.rs\<close>)\<close>

datatype protocol = WireguardUdp | WireguardTcp | Stealth

record peer_connection_info =
  pci_peer_id :: string
  pci_entry_ip :: ip_addr
  pci_protocol :: protocol
  pci_port :: u16

datatype interface_error = IoError string

datatype interface_state =
    InterfaceUp "interface_error option"
  | InterfaceDown "interface_error option"

datatype disconnect_reason = TunEstablishError string

datatype peer_connection_wait_reason = WaitingForNetwork

datatype agent_connection_wait_reason = SoftJailed | HardJailed "wait_jail_reason list"

datatype connection_state =
    Disconnected "disconnect_reason option"
  | Connecting "peer_connection_info list" "peer_connection_wait_reason list"
  | ConnectingToLocalAgent peer_connection_info "agent_connection_wait_reason option"
  | Connected peer_connection_info "agent_connection_info option"

record vpn_state =
  vs_interface_state :: interface_state
  vs_connection_state :: connection_state

section \<open>Events (\<^verbatim>\<open>api/events.rs\<close>)\<close>

datatype capture_stop_reason =
    Request pcap_file_info
  | MaxSizeReached pcap_file_info
  | CaptureDisconnected pcap_file_info
  | AlreadyStopped

datatype local_agent_setting_type =
    NetshieldLevel | Bouncing | PortForwarding | SplitTcp | SafeMode | RandomNat

datatype error_event =
    ApiSessionExpired
  | LocalAgentSettingPolicyRefused local_agent_setting_type
  | CertificateRefreshFatalError

record connection_stats =
  cs_timestamp_ms :: i64
  cs_received_bytes :: u64
  cs_sent_bytes :: u64
  cs_time_since_last_handshake :: duration
  cs_estimated_loss :: u32
  cs_estimated_round_trip_time :: duration

record local_agent_stats =
  st_bytes_received :: "u64 option"
  st_bytes_sent :: "u64 option"
  st_malicious_blocked :: "u64 option"
  st_ads_blocked :: "u64 option"
  st_trackers_blocked :: "u64 option"
  st_adult_content_blocked :: "u64 option"
  st_data_saved :: "u64 option"

datatype event =
    ConnectionStats connection_stats
  | PacketCaptureStarted pcap_file_info
  | PacketCaptureStopped capture_stop_reason
  | LocalAgentStats local_agent_stats
  | ErrorEvent error_event

section \<open>Configuration (\<^verbatim>\<open>api/connection.rs\<close>)\<close>

datatype connection_mode =
    NoLocalAgent wg_client_private_key
  | LocalAgent string string local_agent_settings \<comment> \<open>user agent, app version, settings\<close>

record initial_connection_config =
  ic_peers :: "peer_info list"
  ic_network_available :: bool
  ic_pcap_file :: "pcap_file_info option"
  ic_connection_mode :: connection_mode

record config_update =
  cu_peers :: "peer_info list option"
  cu_settings :: "local_agent_settings option"
  cu_tun :: "tun_stream_info option"

definition config_update_is_empty :: "config_update \<Rightarrow> bool" where
  "config_update_is_empty u =
     (if cu_peers u \<noteq> None then False
      else if cu_settings u \<noteq> None then False
      else if cu_tun u \<noteq> None then False
      else True)"

end
