(* ===== verification/Pvpn_Types.thy ===== *)
theory Pvpn_Types
  imports Api_Types
begin

text \<open>
  What the sources see of the \<^verbatim>\<open>pvpnclient\<close> crate, which is not part of the repository:
  the constructors and fields that the sources match on or build, and the trait
  \<^verbatim>\<open>PvpnClient\<close> (\<^verbatim>\<open>src/connection/pvpn_client.rs\<close>) through which the connection loop
  drives it. The behaviour of the client is a parameter: a record \<open>pvpn_client\<close> with one
  function per trait method over an abstract client state \<open>'c\<close>.

  Stream identifiers wrap an \<open>i32\<close>. The values of the well-known identifiers are not in
  the repository, so they are a parameter as well (the record \<open>stream_ids\<close>).
\<close>

section \<open>Streams and actions\<close>

type_synonym stream_id = int

record stream_ids =
  TUN_STREAM_ID :: stream_id
  PCAP_STREAM_ID :: stream_id
  PRIVKEY_STREAM_ID :: stream_id
  CERT_STREAM_ID :: stream_id
  MUON_AUTH_STREAM_ID :: stream_id

datatype vpn_stream_kind = Udp | NotUdp

record open_stream =
  os_kind :: vpn_stream_kind
  os_addr :: socket_addr

text \<open>Socket options are passed on and never inspected.\<close>

typedecl socket_option

datatype system_error =
    SysAddressInUse | SysAddrNotAvailable | SysAlreadyExists | SysBrokenPipe
  | SysConnectionAborted | SysConnectionRefused | SysConnectionReset | SysHostUnreachable
  | SysInterrupted | SysInvalidData | SysInvalidInput | SysNetworkDown | SysNetworkUnreachable
  | SysNotConnected | SysNotFound | SysPermissionDenied | SysQuotaExceeded | SysResourceBusy
  | SysTimeout | SysUnexpectedEof | SysWouldBlock | SysWriteZero | SysUnknown "int option"

datatype action_kind =
    ActOpen open_stream "bytes option"
  | ActWrite bytes
  | ActSet socket_option
  | ActClose
  | ActShutdown
  | ActRead bytes
  | ActError system_error
  | ActDone

datatype action = Action (act_stream: stream_id) (act_kind: action_kind)

section \<open>Peers and tunnel\<close>

datatype peer_addr = AddrIpv4 ipv4_addr | AddrIpv6 ipv6_addr | AddrBoth ipv4_addr ipv6_addr

text \<open>
  A \<^verbatim>\<open>Peer\<close> as its builder is given it; \<^verbatim>\<open>peer.tag()\<close> reads the tag.
\<close>

record peer =
  p_addr :: peer_addr
  p_public_key :: bytes
  p_tag :: "string option"
  p_udp_ports :: "u16 list"
  p_tcp_ports :: "u16 list"
  p_tls_ports :: "u16 list"
  p_priority :: i16
  p_bouncing_labels :: "string list"

datatype vpn_protocol = VpnWireguardUdp | VpnWireguardTcp | VpnStealth

datatype tunnel_info =
    TunnelConnected vpn_protocol socket_addr peer
  | TunnelConnecting vpn_protocol socket_addr peer
  | TunnelDisconnected

record tunnel_stats =
  ts_rx :: u64
  ts_tx :: u64
  ts_time_since_last_handshake :: duration
  ts_estimated_loss :: u32
  ts_estimated_rtt :: duration

section \<open>Local agent\<close>

datatype pvpn_netshield_level =
    PvpnNetshieldNone | PvpnMalwareFilter | PvpnAdsAndMalwareFilter
  | PvpnAdultAndAdsAndMalwareFilter

record session_settings =
  ss_split_tcp :: "bool option"
  ss_netshield_level :: "pvpn_netshield_level option"
  ss_softjail :: "bool option"
  ss_port_forwarding :: "bool option"
  ss_random_nat :: "bool option"
  ss_circumvention_routing :: "bool option"

record settings =
  se_authorized_protocols :: "vpn_protocol list"
  se_tls_snis :: "string list"
  se_session_settings :: session_settings

datatype local_agent_selector =
    SelInfoEstablished | SelInfoGroups | SelInfoRemote | SelRestrictions
  | SelSettingsCircumventionRouting | SelSettingsLabel | SelSettingsNetshieldLevel
  | SelSettingsPortForwarding | SelSettingsRandomNat | SelSettingsSoftjail
  | SelSettingsSplitTcp | SelJails
  | SelStatsBytesSent | SelStatsBytesReceived | SelStatsNetshieldBlockCountAds
  | SelStatsNetshieldBlockCountMalicious | SelStatsNetshieldBlockCountTracking
  | SelStatsNetshieldBlockCountAdult

datatype pvpn_restriction =
    PvpnStreaming string | PvpnTorrent string | PvpnOtherRestriction string string

datatype handled_jail =
    SystemErrorJail string | ExpiredCertificate string | RevokedCertificate string
  | KeyAlreadyUsed string | InvalidCertificateSignature string

datatype to_handle_jail =
    RequireRecent2FA string | Expired2FA string | Require2FA string
  | WaitingClientChallengeReplyJail string | PolicyViolation1 string | PolicyViolation2 string
  | BadUserBehaviorJail string | DisabledUserJail string | SessionOverLimitJail string
  | FreeSessionOverLimit string | BasicSessionOverLimit string | PlusSessionOverLimit string
  | VisionarySessionOverLimit string | ProSessionOverLimit string | GuestSession string
  | RestrictedServer string | NoCertificateProvided string
  | SessionInstallationInProgress string | UnknownJail u64 string

datatype jail = InternallyHandled handled_jail | ToHandle to_handle_jail

text \<open>
  \<^verbatim>\<open>Jails\<close> wraps a \<^verbatim>\<open>HashSet<Jail>\<close>; a value of the model lists the set in the order in
  which it is iterated. \<open>ValOther\<close> stands for the values the handler does not know.
\<close>

datatype local_agent_value =
    ValInfoEstablished "system_time option"
  | ValInfoGroups "string list option"
  | ValInfoPlatform "string option"
  | ValInfoRemote "string option"
  | ValInfoRemoteReal "string option"
  | ValInfoRemoteRealLocationCode "string option"
  | ValInfoExitIpv4 "ipv4_addr option"
  | ValInfoExitIpv6 "ipv6_addr option"
  | ValRestrictions "pvpn_restriction list option"
  | ValSettingsCircumventionRouting "bool option"
  | ValSettingsLabel "string option"
  | ValSettingsNetshieldLevel "pvpn_netshield_level option"
  | ValSettingsPortForwarding "bool option"
  | ValSettingsRandomNat "bool option"
  | ValSettingsSoftjail "bool option"
  | ValSettingsSplitTcp "bool option"
  | ValStatsBytesReceived "u64 option"
  | ValStatsBytesSent "u64 option"
  | ValStatsNetshieldBlockCountMalicious "u64 option"
  | ValStatsNetshieldBlockCountAds "u64 option"
  | ValStatsNetshieldBlockCountTracking "u64 option"
  | ValStatsNetshieldBlockCountAdult "u64 option"
  | ValJails "jail list option"
  | ValOther

datatype local_agent_server_error =
    UnknownFeatureRequest | BadMessageSyntax | SessionNotFound | SessionError
  | NetshieldLevelPolicyRefused | BouncingPolicyRefused | PortFwPolicyRefused
  | SplitTcpPolicyRefused | SafeModePolicyRefused | RandomNatPolicyRefused
  | NetshieldLevelSystemErr | NetshieldLevelInvalidInput | BouncingSystemErr
  | BouncingInvalidInput | PortFwSystemErr | PortFwInvalidInput | PortFwNotAvailable
  | RandomNatSystemErr | RandomNatInvalidInput | SplitTcpSystemErr | SplitTcpInvalidInput
  | SoftJailSystemErr | SoftJailInvalidInput | SafeModeSystemErr | SafeModeInvalidInput
  | ConflictBouncingVsRandomNat | ConflictBouncingVsSplitTcp | ConflictBouncingVsPortFw
  | OtherServerError string | UnknownField

datatype local_agent_error =
    MuonAuthError string | MuonErrorOnCertRefresh string | TooManyTriesOnCertRefresh
  | ServerError local_agent_server_error

datatype local_agent_message =
    AgentValue local_agent_value
  | AgentError local_agent_error
  | MuonForkSelectorNeeded
  | LocalAgentConnected

text \<open>\<^verbatim>\<open>RawCookie\<close>, of which the sources set the name and the value.\<close>

record raw_cookie =
  rc_name :: string
  rc_value :: string

datatype local_agent_action =
    Watch local_agent_selector
  | Get local_agent_selector
  | ProvideAuthForkSelector string "raw_cookie list"

section \<open>The trait \<^verbatim>\<open>PvpnClient\<close>\<close>

text \<open>
  One field per method. Reading a clock moves the client state, since two readings of
  the clock need not agree.
\<close>

type_synonym deadline = "duration option"

record 'c pvpn_client =
  pc_set_current_time :: "'c \<Rightarrow> (instant \<times> system_time) \<times> 'c"
  pc_need_pull :: "'c \<Rightarrow> bool"
  pc_peer_add :: "peer \<Rightarrow> 'c \<Rightarrow> 'c"
  pc_peer_remove :: "peer_addr \<Rightarrow> 'c \<Rightarrow> 'c"
  pc_pull :: "'c \<Rightarrow> action option \<times> 'c"
  pc_push :: "action \<Rightarrow> 'c \<Rightarrow> 'c"
  pc_push_error :: "stream_id \<Rightarrow> error_kind \<Rightarrow> 'c \<Rightarrow> 'c"
  pc_get_tunnel_info :: "'c \<Rightarrow> tunnel_info option \<times> 'c"
  pc_wakeup_deadline :: "'c \<Rightarrow> deadline"
  pc_notify_network_change :: "'c \<Rightarrow> 'c"
  pc_notify_network_down :: "'c \<Rightarrow> 'c"
  pc_get_stats :: "'c \<Rightarrow> tunnel_stats option \<times> 'c"
  pc_monotonic_now :: "'c \<Rightarrow> instant \<times> 'c"
  pc_set_packet_capture_enabled :: "bool \<Rightarrow> 'c \<Rightarrow> 'c"
  pc_set_settings :: "settings \<Rightarrow> 'c \<Rightarrow> 'c"
  pc_pull_local_agent :: "'c \<Rightarrow> local_agent_message option \<times> 'c"
  pc_push_local_agent :: "local_agent_action \<Rightarrow> 'c \<Rightarrow> 'c"

end
