(* ===== verification/Type_Conversions.thy ===== *)
theory Type_Conversions
  imports Pvpn_Types
begin

text \<open>
  Conversions between the public types and those of the client crate:
  \<^verbatim>\<open>src/api/type_conversions.rs\<close>, \<^verbatim>\<open>src/connection/util.rs\<close> and the conversions at the end of
  \<^verbatim>\<open>src/connection/pvpn_connection.rs\<close>. The parsers of keys, certificates and sessions
  belong to other crates and are parameters.
\<close>

section \<open>Keys\<close>

definition client_private_key_try_from :: "bytes \<Rightarrow> string + wg_client_private_key" where
  "client_private_key_try_from value =
     (if length value = CLIENT_PRIV_KEY_SIZE_BYTES then Inr (WgClientPrivateKey value)
      else Inl (''private key must be '' @ to_decimal CLIENT_PRIV_KEY_SIZE_BYTES @ '' bytes''))"

fun client_private_key_into :: "wg_client_private_key \<Rightarrow> bytes" where
  "client_private_key_into (WgClientPrivateKey b) = b"

definition peer_public_key_try_from :: "bytes \<Rightarrow> string + wg_peer_public_key" where
  "peer_public_key_try_from value =
     (if length value = PEER_PUB_KEY_SIZE_BYTES then Inr (WgPeerPublicKey value)
      else Inl (''peer public key must be '' @ to_decimal PEER_PUB_KEY_SIZE_BYTES @ '' bytes''))"

fun peer_public_key_into :: "wg_peer_public_key \<Rightarrow> bytes" where
  "peer_public_key_into (WgPeerPublicKey b) = b"

text \<open>The keys as the client takes them.\<close>

fun wireguard_private_key_from :: "wg_client_private_key \<Rightarrow> bytes" where
  "wireguard_private_key_from (WgClientPrivateKey b) = b"

fun wireguard_public_key_from :: "wg_peer_public_key \<Rightarrow> bytes" where
  "wireguard_public_key_from (WgPeerPublicKey b) = b"

section \<open>Events and settings\<close>

definition event_from_tunnel_stats :: "tunnel_stats \<Rightarrow> i64 \<Rightarrow> event" where
  "event_from_tunnel_stats v timestamp_ms = ConnectionStats
     \<lparr>cs_timestamp_ms = timestamp_ms, cs_received_bytes = ts_rx v, cs_sent_bytes = ts_tx v,
      cs_time_since_last_handshake = ts_time_since_last_handshake v,
      cs_estimated_loss = ts_estimated_loss v, cs_estimated_round_trip_time = ts_estimated_rtt v\<rparr>"

fun netshield_into_pvpn :: "netshield_level \<Rightarrow> pvpn_netshield_level" where
  "netshield_into_pvpn NetshieldNone = PvpnNetshieldNone"
| "netshield_into_pvpn MalwareFilter = PvpnMalwareFilter"
| "netshield_into_pvpn AdsAndMalwareFilter = PvpnAdsAndMalwareFilter"
| "netshield_into_pvpn AdultAndAdsAndMalwareFilter = PvpnAdultAndAdsAndMalwareFilter"

fun netshield_from_pvpn :: "pvpn_netshield_level \<Rightarrow> netshield_level" where
  "netshield_from_pvpn PvpnNetshieldNone = NetshieldNone"
| "netshield_from_pvpn PvpnMalwareFilter = MalwareFilter"
| "netshield_from_pvpn PvpnAdsAndMalwareFilter = AdsAndMalwareFilter"
| "netshield_from_pvpn PvpnAdultAndAdsAndMalwareFilter = AdultAndAdsAndMalwareFilter"

definition session_settings_from :: "local_agent_settings \<Rightarrow> session_settings" where
  "session_settings_from v =
     \<lparr>ss_split_tcp = las_split_tcp v,
      ss_netshield_level = map_option netshield_into_pvpn (las_netshield_level v),
      ss_softjail = las_soft_jail v, ss_port_forwarding = las_port_forwarding v,
      ss_random_nat = las_random_nat v, ss_circumvention_routing = las_circumvention_routing v\<rparr>"

fun restriction_from_pvpn :: "pvpn_restriction \<Rightarrow> restriction" where
  "restriction_from_pvpn (PvpnStreaming reason) = Streaming reason"
| "restriction_from_pvpn (PvpnTorrent reason) = Torrent reason"
| "restriction_from_pvpn (PvpnOtherRestriction name reason) = OtherRestriction name reason"

fun protocol_from_vpn :: "vpn_protocol \<Rightarrow> protocol" where
  "protocol_from_vpn VpnWireguardUdp = WireguardUdp"
| "protocol_from_vpn VpnWireguardTcp = WireguardTcp"
| "protocol_from_vpn VpnStealth = Stealth"

definition pvpn_settings :: "session_settings \<Rightarrow> settings" where
  "pvpn_settings session =
     \<lparr>se_authorized_protocols = [VpnWireguardUdp, VpnWireguardTcp, VpnStealth],
      se_tls_snis = [], se_session_settings = session\<rparr>"

section \<open>Client mode\<close>

text \<open>
  \<open>'k\<close>, \<open>'t\<close> and \<open>'m\<close> are the parsed private key, certificate and API session; a parser
  returns the debug text of its error.
\<close>

datatype ('k, 't, 'm) pvpn_client_mode =
    ModeLocalAgent string string "'k option" "'t option" "'m option"
  | ModeNoLocalAgent bytes

record ('k, 't, 'm) secret_parsers =
  sp_private_key :: "bytes \<Rightarrow> string + 'k"
  sp_certificate :: "bytes \<Rightarrow> string + 't"
  sp_muon_auth :: "bytes \<Rightarrow> string + 'm"

definition parse_secret :: "string \<Rightarrow> (bytes \<Rightarrow> string + 'x) \<Rightarrow> bytes \<Rightarrow> 'x io_result" where
  "parse_secret what parse data =
     (case parse data of
        Inr v \<Rightarrow> Inr v
      | Inl e \<Rightarrow> Inl (io_error_new InvalidData (what @ e)))"

definition to_private_key :: "('k, 't, 'm) secret_parsers \<Rightarrow> bytes \<Rightarrow> 'k io_result" where
  "to_private_key ps = parse_secret ''Failed to parse private key: '' (sp_private_key ps)"

definition to_certificate :: "('k, 't, 'm) secret_parsers \<Rightarrow> bytes \<Rightarrow> 't io_result" where
  "to_certificate ps = parse_secret ''Failed to parse certificate: '' (sp_certificate ps)"

definition to_muon_auth :: "('k, 't, 'm) secret_parsers \<Rightarrow> bytes \<Rightarrow> 'm io_result" where
  "to_muon_auth ps = parse_secret ''Failed to parse muon auth: '' (sp_muon_auth ps)"

definition raw_cookie_from :: "cookie \<Rightarrow> raw_cookie" where
  "raw_cookie_from c = \<lparr>rc_name = ck_name c, rc_value = ck_value c\<rparr>"

definition muon_cookies_from :: "cookie list \<Rightarrow> raw_cookie list" where
  "muon_cookies_from cookies = map raw_cookie_from cookies"

text \<open>\<^verbatim>\<open>Option<Result<T, E>>::transpose\<close>.\<close>

definition transpose_option :: "('e + 'x) option \<Rightarrow> 'e + 'x option" where
  "transpose_option r = (case r of None \<Rightarrow> Inr None | Some (Inr v) \<Rightarrow> Inr (Some v) | Some (Inl e) \<Rightarrow> Inl e)"

fun to_pvpn_client_mode ::
  "('k, 't, 'm) secret_parsers \<Rightarrow> (cache_key \<Rightarrow> bytes option) \<Rightarrow> connection_mode
     \<Rightarrow> ('k, 't, 'm) pvpn_client_mode io_result" where
  "to_pvpn_client_mode ps cache_get (NoLocalAgent key) =
     Inr (ModeNoLocalAgent (wireguard_private_key_from key))"
| "to_pvpn_client_mode ps cache_get (LocalAgent user_agent app_version _) =
     (case transpose_option (map_option (to_private_key ps) (cache_get PrivateKey)) of
        Inl e \<Rightarrow> Inl e
      | Inr private_key \<Rightarrow>
     (case transpose_option (map_option (to_certificate ps) (cache_get Certificate)) of
        Inl e \<Rightarrow> Inl e
      | Inr certificate \<Rightarrow>
     (case transpose_option (map_option (to_muon_auth ps) (cache_get ApiSession)) of
        Inl e \<Rightarrow> Inl e
      | Inr muon_auth \<Rightarrow>
          Inr (ModeLocalAgent app_version user_agent private_key certificate muon_auth))))"

section \<open>Errors and peers (\<^verbatim>\<open>connection/util.rs\<close>)\<close>

fun error_kind_to_socket_err :: "error_kind \<Rightarrow> system_error" where
  "error_kind_to_socket_err AddrInUse = SysAddressInUse"
| "error_kind_to_socket_err AddrNotAvailable = SysAddrNotAvailable"
| "error_kind_to_socket_err AlreadyExists = SysAlreadyExists"
| "error_kind_to_socket_err BrokenPipe = SysBrokenPipe"
| "error_kind_to_socket_err ConnectionAborted = SysConnectionAborted"
| "error_kind_to_socket_err ConnectionRefused = SysConnectionRefused"
| "error_kind_to_socket_err ConnectionReset = SysConnectionReset"
| "error_kind_to_socket_err HostUnreachable = SysHostUnreachable"
| "error_kind_to_socket_err Interrupted = SysInterrupted"
| "error_kind_to_socket_err InvalidData = SysInvalidData"
| "error_kind_to_socket_err InvalidInput = SysInvalidInput"
| "error_kind_to_socket_err NetworkDown = SysNetworkDown"
| "error_kind_to_socket_err NetworkUnreachable = SysNetworkUnreachable"
| "error_kind_to_socket_err NotConnected = SysNotConnected"
| "error_kind_to_socket_err NotFound = SysNotFound"
| "error_kind_to_socket_err PermissionDenied = SysPermissionDenied"
| "error_kind_to_socket_err QuotaExceeded = SysQuotaExceeded"
| "error_kind_to_socket_err ResourceBusy = SysResourceBusy"
| "error_kind_to_socket_err TimedOut = SysTimeout"
| "error_kind_to_socket_err UnexpectedEof = SysUnexpectedEof"
| "error_kind_to_socket_err WouldBlock = SysWouldBlock"
| "error_kind_to_socket_err WriteZero = SysWriteZero"
| "error_kind_to_socket_err _ = SysUnknown None"

text \<open>
  \<^verbatim>\<open>to_non_zero_vec\<close> drops the zero ports, so the \<^verbatim>\<open>unwrap\<close> of the conversion to
  \<^verbatim>\<open>NonZeroU16\<close> that follows the filter cannot fail. \<^verbatim>\<open>PeerAddr::try_from\<close> is called with
  exactly one address and gives the variant of that address.
\<close>

definition to_non_zero_vec :: "u16 list \<Rightarrow> u16 list" where
  "to_non_zero_vec ports = filter (\<lambda>x. x \<noteq> 0) ports"

definition peer_info_addr :: "peer_info \<Rightarrow> peer_addr" where
  "peer_info_addr p = (case pi_server_ip p of V4 a \<Rightarrow> AddrIpv4 a | V6 a \<Rightarrow> AddrIpv6 a)"

definition as_peer :: "peer_info \<Rightarrow> peer" where
  "as_peer p =
     \<lparr>p_addr = peer_info_addr p,
      p_public_key = wireguard_public_key_from (pi_server_public_key p),
      p_tag = Some (pi_peer_id p),
      p_udp_ports = to_non_zero_vec (pi_udp_ports p),
      p_tcp_ports = to_non_zero_vec (pi_tcp_ports p),
      p_tls_ports = to_non_zero_vec (pi_tls_ports p),
      p_priority = ucast (pi_priority p),
      p_bouncing_labels = (case pi_exit_label p of Some label \<Rightarrow> [label] | None \<Rightarrow> [])\<rparr>"

definition get_peer_id :: "peer \<Rightarrow> socket_addr \<Rightarrow> string" where
  "get_peer_id p addr = (case p_tag p of Some t \<Rightarrow> t | None \<Rightarrow> ip_to_string (sa_ip addr))"

definition get_peer_connection_info :: "peer \<Rightarrow> socket_addr \<Rightarrow> vpn_protocol \<Rightarrow> peer_connection_info" where
  "get_peer_connection_info p addr proto =
     \<lparr>pci_peer_id = get_peer_id p addr, pci_entry_ip = sa_ip addr,
      pci_protocol = protocol_from_vpn proto, pci_port = sa_port addr\<rparr>"

section \<open>Lemmas\<close>

lemma netshield_roundtrip [simp]:
  "netshield_from_pvpn (netshield_into_pvpn l) = l"
  "netshield_into_pvpn (netshield_from_pvpn l') = l'"
  by (cases l; simp) (cases l'; simp)

lemma inj_netshield_into_pvpn: "inj netshield_into_pvpn"
  by (metis injI netshield_roundtrip(1))

lemma peer_info_addr_inj: "peer_info_addr p = peer_info_addr q \<longleftrightarrow> pi_server_ip p = pi_server_ip q"
  by (auto simp: peer_info_addr_def split: ip_addr.splits)

lemma p_addr_as_peer [simp]: "p_addr (as_peer p) = peer_info_addr p"
  by (simp add: as_peer_def)

text \<open>
  The truncation \<^verbatim>\<open>priority as i16\<close> keeps every priority that fits in an \<open>i16\<close>.
\<close>

lemma sint_ucast_16:
  fixes w :: i32
  assumes "- (2 ^ 15) \<le> sint w" and "sint w < 2 ^ 15"
  shows "sint (ucast w :: i16) = sint w"
proof -
  have "sint (ucast w :: i16) = signed_take_bit 15 (sint w)"
    by (simp add: sint_uint signed_take_bit_take_bit unsigned_ucast_eq take_bit_word_eq_self)
  also have "\<dots> = sint w"
    using assms by (intro signed_take_bit_int_eq_self) simp_all
  finally show ?thesis .
qed

lemma session_settings_from_inj: "session_settings_from v = session_settings_from w \<Longrightarrow> v = w"
proof -
  assume "session_settings_from v = session_settings_from w"
  then show ?thesis
    unfolding session_settings_from_def
    using option.inj_map [OF inj_netshield_into_pvpn, THEN injD]
    by (cases v; cases w) auto
qed

section \<open>Properties\<close>

text \<open>A private key is accepted exactly when it has 32 bytes, and the accepted key
  gives those bytes back: decoding and encoding are inverse on keys of the right length
  and every other length is an error.\<close>

theorem client_private_key_roundtrip:
  "client_private_key_try_from v = Inr k \<longleftrightarrow>
     length v = CLIENT_PRIV_KEY_SIZE_BYTES \<and> client_private_key_into k = v"
  by (cases k) (auto simp: client_private_key_try_from_def)

text \<open>The priority handed to the client is the low half of the configured one: for
  priorities that fit in 16 bits the client orders two peers as the configuration does.\<close>

theorem as_peer_priority_order:
  assumes "- (2 ^ 15) \<le> sint (pi_priority p)" and "sint (pi_priority p) < 2 ^ 15"
    and "- (2 ^ 15) \<le> sint (pi_priority q)" and "sint (pi_priority q) < 2 ^ 15"
  shows "sint (p_priority (as_peer p)) < sint (p_priority (as_peer q)) \<longleftrightarrow>
         sint (pi_priority p) < sint (pi_priority q)"
  using sint_ucast_16 [OF assms(1,2)] sint_ucast_16 [OF assms(3,4)] by (simp add: as_peer_def)

definition example_peer :: "string \<Rightarrow> ip_addr \<Rightarrow> i32 \<Rightarrow> peer_info" where
  "example_peer name ip prio =
     \<lparr>pi_peer_id = name, pi_server_ip = ip, pi_server_public_key = WgPeerPublicKey (replicate 32 0),
      pi_udp_ports = [51820], pi_tcp_ports = [], pi_tls_ports = [], pi_priority = prio,
      pi_exit_label = None\<rparr>"

theorem as_peer_priority_order_witness:
  "sint (p_priority (as_peer (example_peer ''a'' (V4 (Ipv4Addr 10 0 0 1)) (- 3)))) <
   sint (p_priority (as_peer (example_peer ''b'' (V4 (Ipv4Addr 10 0 0 2)) 7)))"
  using as_peer_priority_order [of "example_peer ''a'' (V4 (Ipv4Addr 10 0 0 1)) (- 3)"
      "example_peer ''b'' (V4 (Ipv4Addr 10 0 0 2)) 7"]
  by (simp add: example_peer_def)


text \<open>Each local agent setting reaches the session settings of the client: two
  different settings are never sent as the same ones.\<close>

theorem session_settings_faithful:
  "pvpn_settings (session_settings_from v) = pvpn_settings (session_settings_from w) \<longleftrightarrow> v = w"
  by (auto simp: pvpn_settings_def dest: session_settings_from_inj)

text \<open>Which errors the client can tell apart: two kinds of I/O error are reported as the
  same system error only when they are equal or both are reported as unknown.\<close>

theorem error_kind_to_socket_err_separates:
  "error_kind_to_socket_err k = error_kind_to_socket_err k' \<longleftrightarrow>
     k = k' \<or> (error_kind_to_socket_err k = SysUnknown None \<and>
               error_kind_to_socket_err k' = SysUnknown None)"
  by (cases k; cases k'; simp)

text \<open>Creating the client mode fails exactly on a stored secret that does not parse, with
  the error of the first one in the order private key, certificate, session.\<close>

theorem to_pvpn_client_mode_fails_iff:
  "to_pvpn_client_mode ps cache_get (LocalAgent ua ver las) = Inl e \<longleftrightarrow>
     (let k = map_option (to_private_key ps) (cache_get PrivateKey);
          t = map_option (to_certificate ps) (cache_get Certificate);
          m = map_option (to_muon_auth ps) (cache_get ApiSession)
      in k = Some (Inl e) \<or>
         (\<nexists>e'. k = Some (Inl e')) \<and> t = Some (Inl e) \<or>
         (\<nexists>e'. k = Some (Inl e')) \<and> (\<nexists>e'. t = Some (Inl e')) \<and> m = Some (Inl e))"
  by (auto simp: transpose_option_def Let_def split: option.splits sum.splits)

end
