(* ===== verification/Sanitized_Peers.thy ===== *)
theory Sanitized_Peers
  imports Type_Conversions "HOL-Library.Sublist"
begin

text \<open>
  \<^verbatim>\<open>src/connection/sanitized_peers.rs\<close>: the candidate peers without duplicated entry
  addresses. The model follows the code (one pass that keeps the best index of each address
  and the list of losing indices, then a filter); \<open>best_in\<close> is the specification it is proved
  against.
\<close>

section \<open>The pass over the peers\<close>

text \<open>\<^verbatim>\<open>best_peer_for_ip\<close> and \<^verbatim>\<open>duplicates_idx\<close>.\<close>

type_synonym scan_state = "(ip_addr \<rightharpoonup> nat \<times> i32) \<times> nat list"

definition sanitize_step :: "scan_state \<Rightarrow> nat \<times> peer_info \<Rightarrow> scan_state" where
  "sanitize_step st ip_peer =
     (let (best, dups) = st; (index, peer) = ip_peer; ip = pi_server_ip peer in
      case best ip of
        Some (existing_index, existing_priority) \<Rightarrow>
          if sint (pi_priority peer) < sint existing_priority
          then (best(ip \<mapsto> (index, pi_priority peer)), dups @ [existing_index])
          else (best, dups @ [index])
      | None \<Rightarrow> (best(ip \<mapsto> (index, pi_priority peer)), dups))"

definition sanitize_scan :: "peer_info list \<Rightarrow> scan_state" where
  "sanitize_scan peers = foldl sanitize_step (Map.empty, []) (enumerate 0 peers)"

definition sanitized_peers_from :: "peer_info list \<Rightarrow> peer_info list" where
  "sanitized_peers_from peers =
     (let dups = snd (sanitize_scan peers) in
      if dups = [] then peers
      else map snd (filter (\<lambda>(index, peer). index \<notin> set dups) (enumerate 0 peers)))"

definition sanitized_contains :: "peer_info list \<Rightarrow> peer_info \<Rightarrow> bool" where
  "sanitized_contains peers p = List.member peers p"

definition sanitized_is_empty :: "peer_info list \<Rightarrow> bool" where
  "sanitized_is_empty peers = (peers = [])"

section \<open>Specification\<close>

text \<open>
  Index \<open>i\<close> beats index \<open>j\<close> when both have the same address and \<open>i\<close> has the numerically
  lower priority, or the same one and comes first.
\<close>

definition peer_beats :: "peer_info list \<Rightarrow> nat \<Rightarrow> nat \<Rightarrow> bool" where
  "peer_beats peers i j \<longleftrightarrow>
     pi_server_ip (peers ! i) = pi_server_ip (peers ! j) \<and>
     (sint (pi_priority (peers ! i)) < sint (pi_priority (peers ! j)) \<or>
      pi_priority (peers ! i) = pi_priority (peers ! j) \<and> i < j)"

definition best_in :: "peer_info list \<Rightarrow> nat \<Rightarrow> bool" where
  "best_in peers i \<longleftrightarrow> i < length peers \<and> (\<forall>j < length peers. \<not> peer_beats peers j i)"

definition best_peers :: "peer_info list \<Rightarrow> peer_info list" where
  "best_peers peers = map (nth peers) (filter (best_in peers) [0..<length peers])"

section \<open>The pass computes the specification\<close>

lemma sanitize_scan_snoc:
  "sanitize_scan (xs @ [x]) = sanitize_step (sanitize_scan xs) (length xs, x)"
  by (simp add: sanitize_scan_def enumerate_append_eq)

lemma peer_beats_irrefl [simp]: "\<not> peer_beats xs i i"
  by (simp add: peer_beats_def)

lemma peer_beats_trans: "peer_beats xs i j \<Longrightarrow> peer_beats xs j k \<Longrightarrow> peer_beats xs i k"
  by (auto simp: peer_beats_def)

lemma peer_beats_total:
  "pi_server_ip (xs ! i) = pi_server_ip (xs ! j) \<Longrightarrow> i \<noteq> j \<Longrightarrow> peer_beats xs i j \<or> peer_beats xs j i"
proof -
  assume "pi_server_ip (xs ! i) = pi_server_ip (xs ! j)" "i \<noteq> j"
  moreover have "sint (pi_priority (xs ! i)) = sint (pi_priority (xs ! j)) \<Longrightarrow>
      pi_priority (xs ! i) = pi_priority (xs ! j)"
    by (rule signed_word_eqI)
  ultimately show ?thesis
    unfolding peer_beats_def by (metis linorder_neqE_nat linorder_less_linear)
qed

lemma peer_beats_snoc [simp]:
  "i < length xs \<Longrightarrow> j < length xs \<Longrightarrow> peer_beats (xs @ [x]) i j = peer_beats xs i j"
  by (simp add: peer_beats_def nth_append)

lemma best_in_unique:
  assumes "best_in xs i" "best_in xs j" "pi_server_ip (xs ! i) = pi_server_ip (xs ! j)"
  shows "i = j"
  using assms peer_beats_total [of xs i j] by (auto simp: best_in_def)

text \<open>What the pass knows after a prefix: the best index of each address and the losers.\<close>

definition scan_correct :: "peer_info list \<Rightarrow> scan_state \<Rightarrow> bool" where
  "scan_correct xs st \<longleftrightarrow>
     (\<forall>ip i p. fst st ip = Some (i, p) \<longrightarrow>
        best_in xs i \<and> pi_server_ip (xs ! i) = ip \<and> pi_priority (xs ! i) = p) \<and>
     (\<forall>i < length xs. fst st (pi_server_ip (xs ! i)) \<noteq> None) \<and>
     (\<forall>i. i \<in> set (snd st) \<longleftrightarrow> i < length xs \<and> \<not> best_in xs i)"

lemma scan_correctI:
  assumes "\<And>ip i p. best ip = Some (i, p) \<Longrightarrow>
      best_in xs i \<and> pi_server_ip (xs ! i) = ip \<and> pi_priority (xs ! i) = p"
    and "\<And>i. i < length xs \<Longrightarrow> best (pi_server_ip (xs ! i)) \<noteq> None"
    and "\<And>i. i \<in> set dups \<longleftrightarrow> i < length xs \<and> \<not> best_in xs i"
  shows "scan_correct xs (best, dups)"
  using assms by (simp add: scan_correct_def)

lemma scan_correctD:
  assumes "scan_correct xs (best, dups)"
  shows "best ip = Some (i, p) \<Longrightarrow> best_in xs i \<and> pi_server_ip (xs ! i) = ip \<and> pi_priority (xs ! i) = p"
    and "i < length xs \<Longrightarrow> best (pi_server_ip (xs ! i)) \<noteq> None"
    and "i \<in> set dups \<longleftrightarrow> i < length xs \<and> \<not> best_in xs i"
  using assms by (auto simp: scan_correct_def)

lemma best_in_snoc_old:
  assumes "i < length xs"
  shows "best_in (xs @ [x]) i \<longleftrightarrow> best_in xs i \<and> \<not> peer_beats (xs @ [x]) (length xs) i"
  using assms by (auto simp: best_in_def less_Suc_eq)

text \<open>Beating the best index of an address is beating every index of that address.\<close>

lemma best_in_snoc_new:
  assumes "best_in xs i" "pi_server_ip (xs ! i) = pi_server_ip x"
  shows "best_in (xs @ [x]) (length xs) \<longleftrightarrow> peer_beats (xs @ [x]) (length xs) i"
proof
  assume "best_in (xs @ [x]) (length xs)"
  with assms show "peer_beats (xs @ [x]) (length xs) i"
    using peer_beats_total [of "xs @ [x]" "length xs" i] by (auto simp: best_in_def nth_append)
next
  assume b: "peer_beats (xs @ [x]) (length xs) i"
  have "\<not> peer_beats (xs @ [x]) j (length xs)" if "j < length xs" for j
    using peer_beats_trans [of "xs @ [x]" j "length xs" i] b that assms(1) by (auto simp: best_in_def)
  then show "best_in (xs @ [x]) (length xs)" by (auto simp: best_in_def less_Suc_eq)
qed

lemma peer_beats_last:
  assumes "i < length xs" "pi_server_ip (xs ! i) = pi_server_ip x"
  shows "peer_beats (xs @ [x]) (length xs) i \<longleftrightarrow> sint (pi_priority x) < sint (pi_priority (xs ! i))"
  using assms by (simp add: peer_beats_def nth_append)

lemma peer_beats_last_ip: "peer_beats (xs @ [x]) (length xs) i \<Longrightarrow> i < length xs \<Longrightarrow> pi_server_ip (xs ! i) = pi_server_ip x"
  by (simp add: peer_beats_def nth_append)


text \<open>
  The three cases of a step: a new address, a better peer for a known address, and a
  peer that loses.
\<close>

lemma best_in_snoc_fresh:
  assumes "\<And>i. i < length xs \<Longrightarrow> pi_server_ip (xs ! i) \<noteq> pi_server_ip x"
  shows "best_in (xs @ [x]) i \<longleftrightarrow> best_in xs i \<or> i = length xs"
proof (cases "i < length xs")
  case True
  with assms show ?thesis by (auto simp: best_in_snoc_old dest: peer_beats_last_ip)
next
  case False
  have "\<not> peer_beats (xs @ [x]) j (length xs)" if "j < length xs" for j
    using assms [OF that] that by (simp add: peer_beats_def nth_append)
  then have "best_in (xs @ [x]) (length xs)" by (simp add: best_in_def less_Suc_eq)
  with False show ?thesis by (auto simp: best_in_def)
qed

lemma best_in_lt: "best_in xs i \<Longrightarrow> i < length xs"
  by (simp add: best_in_def)

lemma best_in_snoc_known:
  assumes "best_in xs k" "pi_server_ip (xs ! k) = pi_server_ip x"
  shows "best_in (xs @ [x]) i \<longleftrightarrow>
    (if sint (pi_priority x) < sint (pi_priority (xs ! k)) then best_in xs i \<and> i \<noteq> k \<or> i = length xs
     else best_in xs i)"
proof -
  have k: "k < length xs" using assms(1) by (rule best_in_lt)
  note beats = peer_beats_last [OF k assms(2)]
  consider "i < length xs" | "i = length xs" | "i > length xs" by linarith
  then show ?thesis
  proof cases
    case 1
    have "i = k" if "best_in xs i" "peer_beats (xs @ [x]) (length xs) i"
      using peer_beats_last_ip [OF that(2) 1] that(1) assms best_in_unique [of xs i k] by simp
    with 1 beats show ?thesis unfolding best_in_snoc_old [OF 1] by auto
  next
    case 2
    then show ?thesis using best_in_snoc_new [OF assms] beats k by (auto dest: best_in_lt)
  qed (auto dest: best_in_lt)
qed

lemma scan_step_fresh:
  assumes sc: "scan_correct xs (best, dups)" and None: "best (pi_server_ip x) = None"
  shows "scan_correct (xs @ [x]) (best(pi_server_ip x \<mapsto> (length xs, pi_priority x)), dups)"
proof -
  note D = scan_correctD [OF sc]
  have new: "\<And>i. i < length xs \<Longrightarrow> pi_server_ip (xs ! i) \<noteq> pi_server_ip x"
    using D(2) None by metis
  have fresh: "best_in (xs @ [x]) i \<longleftrightarrow> best_in xs i \<or> i = length xs" for i
    by (rule best_in_snoc_fresh) (rule new)
  show ?thesis
  proof (rule scan_correctI)
    fix ip i p assume "(best(pi_server_ip x \<mapsto> (length xs, pi_priority x))) ip = Some (i, p)"
    then consider "ip = pi_server_ip x" "i = length xs" "p = pi_priority x" | "best ip = Some (i, p)"
      by (cases "ip = pi_server_ip x") auto
    then show "best_in (xs @ [x]) i \<and> pi_server_ip ((xs @ [x]) ! i) = ip \<and> pi_priority ((xs @ [x]) ! i) = p"
    proof cases
      case 1
      then show ?thesis by (simp add: fresh)
    next
      case 2
      from D(1) [OF this] best_in_lt [of xs i] show ?thesis by (simp add: fresh nth_append)
    qed
  next
    fix i show "i \<in> set dups \<longleftrightarrow> i < length (xs @ [x]) \<and> \<not> best_in (xs @ [x]) i"
      using D(3) [of i] fresh [of i] by (simp add: less_Suc_eq) blast
  qed (use D(2) in \<open>auto simp: nth_append less_Suc_eq\<close>)
qed

lemma scan_step_known:
  assumes sc: "scan_correct xs (best, dups)" and Some: "best (pi_server_ip x) = Some (k, q)"
  shows "scan_correct (xs @ [x])
    (if sint (pi_priority x) < sint q
     then (best(pi_server_ip x \<mapsto> (length xs, pi_priority x)), dups @ [k])
     else (best, dups @ [length xs]))"
proof -
  note D = scan_correctD [OF sc]
  from D(1) [OF Some] have k: "best_in xs k" "pi_server_ip (xs ! k) = pi_server_ip x" "pi_priority (xs ! k) = q"
    by auto
  note known = best_in_snoc_known [OF k(1,2), unfolded k(3)]
  have lt: "k < length xs" by (rule best_in_lt [OF k(1)])
  show ?thesis
  proof (cases "sint (pi_priority x) < sint q")
    case True
    have "scan_correct (xs @ [x]) (best(pi_server_ip x \<mapsto> (length xs, pi_priority x)), dups @ [k])"
    proof (rule scan_correctI)
      fix ip i p assume "(best(pi_server_ip x \<mapsto> (length xs, pi_priority x))) ip = Some (i, p)"
      then show "best_in (xs @ [x]) i \<and> pi_server_ip ((xs @ [x]) ! i) = ip \<and> pi_priority ((xs @ [x]) ! i) = p"
        using D(1) [of ip i p] known [of i] True k(2) best_in_lt [of xs i]
        by (auto simp: nth_append split: if_splits)
    next
      fix i show "i \<in> set (dups @ [k]) \<longleftrightarrow> i < length (xs @ [x]) \<and> \<not> best_in (xs @ [x]) i"
        using D(3) [of i] known [of i] True lt k(1) by auto
    qed (use D(2) in \<open>auto simp: nth_append less_Suc_eq\<close>)
    with True show ?thesis by simp
  next
    case False
    have "scan_correct (xs @ [x]) (best, dups @ [length xs])"
    proof (rule scan_correctI)
      fix ip i p assume "best ip = Some (i, p)"
      then show "best_in (xs @ [x]) i \<and> pi_server_ip ((xs @ [x]) ! i) = ip \<and> pi_priority ((xs @ [x]) ! i) = p"
        using D(1) [of ip i p] known [of i] False best_in_lt [of xs i]
        by (auto simp: nth_append split: if_splits)
    next
      fix i show "i \<in> set (dups @ [length xs]) \<longleftrightarrow> i < length (xs @ [x]) \<and> \<not> best_in (xs @ [x]) i"
        using D(3) [of i] known [of i] False best_in_lt [of xs i] by auto
    qed (use D(2) Some in \<open>auto simp: nth_append less_Suc_eq\<close>)
    with False show ?thesis by simp
  qed
qed

lemma sanitize_scan_correct: "scan_correct xs (sanitize_scan xs)"
proof (induction xs rule: rev_induct)
  case Nil
  show ?case by (simp add: sanitize_scan_def scan_correct_def)
next
  case (snoc x xs)
  obtain best dups where st: "sanitize_scan xs = (best, dups)" by (cases "sanitize_scan xs")
  show ?case
  proof (cases "best (pi_server_ip x)")
    case None
    with scan_step_fresh [OF snoc.IH [unfolded st] None] show ?thesis
      by (simp add: sanitize_scan_snoc st sanitize_step_def)
  next
    case (Some a)
    obtain k q where "a = (k, q)" by (cases a)
    with Some scan_step_known [OF snoc.IH [unfolded st], of x k q] show ?thesis
      by (simp add: sanitize_scan_snoc st sanitize_step_def)
  qed
qed

lemma duplicates_eq: "i \<in> set (snd (sanitize_scan xs)) \<longleftrightarrow> i < length xs \<and> \<not> best_in xs i"
  using sanitize_scan_correct [of xs] by (simp add: scan_correct_def)

lemma filter_enumerate:
  "map snd (filter (\<lambda>(i, x). P i) (enumerate 0 xs)) = map (nth xs) (filter P [0..<length xs])"
proof (induction xs rule: rev_induct)
  case (snoc x xs)
  have "map (nth (xs @ [x])) (filter P [0..<length xs]) = map (nth xs) (filter P [0..<length xs])"
    by (auto simp: nth_append)
  with snoc show ?case by (simp add: enumerate_append_eq)
qed simp

lemma best_peers_all:
  assumes "\<And>i. i < length xs \<Longrightarrow> best_in xs i"
  shows "best_peers xs = xs"
proof -
  have "filter (best_in xs) [0..<length xs] = [0..<length xs]"
    using assms by (simp add: filter_id_conv)
  then show ?thesis by (simp add: best_peers_def map_nth)
qed

lemma sanitized_peers_eq: "sanitized_peers_from peers = best_peers peers"
proof (cases "snd (sanitize_scan peers) = []")
  case True
  then have "\<And>i. i < length peers \<Longrightarrow> best_in peers i"
    using duplicates_eq [of _ peers] by auto
  with True show ?thesis by (simp add: sanitized_peers_from_def best_peers_all)
next
  case False
  have "filter (\<lambda>i. i \<notin> set (snd (sanitize_scan peers))) [0..<length peers]
      = filter (best_in peers) [0..<length peers]"
    by (rule filter_cong) (auto simp: duplicates_eq)
  with False show ?thesis
    by (simp add: sanitized_peers_from_def best_peers_def filter_enumerate)
qed

section \<open>What the connection relies on\<close>

lemma best_exists:
  assumes "i < length xs"
  obtains k where "best_in xs k" "pi_server_ip (xs ! k) = pi_server_ip (xs ! i)"
proof -
  obtain best dups where st: "sanitize_scan xs = (best, dups)" by (cases "sanitize_scan xs")
  note D = scan_correctD [OF sanitize_scan_correct [of xs, unfolded st]]
  from D(2) [OF assms] obtain k q where "best (pi_server_ip (xs ! i)) = Some (k, q)" by auto
  from D(1) [OF this] that show thesis by blast
qed

lemma in_best_peers: "p \<in> set (best_peers xs) \<longleftrightarrow> (\<exists>i. best_in xs i \<and> p = xs ! i)"
  by (auto simp: best_peers_def dest: best_in_lt)

lemma sanitized_subset: "set (sanitized_peers_from xs) \<subseteq> set xs"
  by (auto simp: sanitized_peers_eq in_best_peers dest!: best_in_lt)

lemma sanitized_subseq: "subseq (sanitized_peers_from xs) xs"
  using subseq_map [OF subseq_filter_left, of "nth xs" "best_in xs" "[0..<length xs]"]
  by (simp add: sanitized_peers_eq best_peers_def map_nth)

lemma sanitized_ips: "pi_server_ip ` set (sanitized_peers_from xs) = pi_server_ip ` set xs"
proof
  show "pi_server_ip ` set xs \<subseteq> pi_server_ip ` set (sanitized_peers_from xs)"
  proof
    fix ip assume "ip \<in> pi_server_ip ` set xs"
    then obtain i where "i < length xs" "ip = pi_server_ip (xs ! i)" by (auto simp: in_set_conv_nth)
    with best_exists [of i xs] show "ip \<in> pi_server_ip ` set (sanitized_peers_from xs)"
      by (metis image_eqI in_best_peers sanitized_peers_eq)
  qed
qed (use sanitized_subset in blast)

lemma distinct_ips_sanitized: "distinct (map pi_server_ip (sanitized_peers_from xs))"
proof -
  have "inj_on (\<lambda>i. pi_server_ip (xs ! i)) (set (filter (best_in xs) [0..<length xs]))"
    by (auto intro!: inj_onI dest: best_in_unique)
  then show ?thesis
    by (simp add: sanitized_peers_eq best_peers_def distinct_map comp_def)
qed

lemma distinct_ips_best:
  assumes "distinct (map pi_server_ip xs)" "i < length xs"
  shows "best_in xs i"
  using assms by (auto simp: best_in_def peer_beats_def distinct_conv_nth)

lemma sanitized_id: "distinct (map pi_server_ip xs) \<Longrightarrow> sanitized_peers_from xs = xs"
  by (simp add: sanitized_peers_eq best_peers_all distinct_ips_best)

text \<open>C11: sanitising a list of peers keeps, in their order, exactly one peer for each entry
  address of the list: the one with the numerically lowest priority, the first of them on
  a tie.\<close>

theorem sanitized_peers_correct:
  "sanitized_peers_from peers = best_peers peers \<and>
   subseq (sanitized_peers_from peers) peers \<and>
   distinct (map pi_server_ip (sanitized_peers_from peers)) \<and>
   pi_server_ip ` set (sanitized_peers_from peers) = pi_server_ip ` set peers"
  using sanitized_peers_eq sanitized_subseq sanitized_ips distinct_ips_sanitized by blast

text \<open>Sanitising is idempotent, and a list without duplicated addresses is kept as it is.\<close>

theorem sanitized_peers_idempotent:
  "sanitized_peers_from (sanitized_peers_from peers) = sanitized_peers_from peers \<and>
   (distinct (map pi_server_ip peers) \<longleftrightarrow> sanitized_peers_from peers = peers)"
  using distinct_ips_sanitized sanitized_id by metis

end
