(* ===== verification/Network_Recovery.thy ===== *)
theory Network_Recovery
  imports Pvpn_Types
begin

text \<open>
  \<^verbatim>\<open>src/connection/network_recovery_handler.rs\<close> and \<^verbatim>\<open>src/connection/constants.rs\<close>: the
  exponential backoff with which the connection asks the client to recover from network
  errors the system has not announced. The callback of \<^verbatim>\<open>on_resumed\<close> is the boolean in the
  result of the model (true when it is called), and the clock closure of \<^verbatim>\<open>wakeup_delay\<close> is a
  function on the state of the caller.
\<close>

section \<open>The handler\<close>

text \<open>The maximal delay depends on the \<^verbatim>\<open>android\<close> feature of the crate.\<close>

definition MAX_DELAYED_NETWORK_CHANGE_DURATION :: "bool \<Rightarrow> duration" where
  "MAX_DELAYED_NETWORK_CHANGE_DURATION android = (if android then from_secs 30 else from_secs 10)"

definition INITIAL_DELAYED_NETWORK_CHANGE_DURATION :: duration where
  "INITIAL_DELAYED_NETWORK_CHANGE_DURATION = from_secs 1"

record network_recovery_handler =
  nr_send_at :: "instant option"
  nr_delay :: duration
  nr_available :: bool
  nr_initial :: duration
  nr_max :: duration

definition network_recovery_new :: "bool \<Rightarrow> bool \<Rightarrow> network_recovery_handler" where
  "network_recovery_new android network_available =
     \<lparr>nr_send_at = None, nr_delay = INITIAL_DELAYED_NETWORK_CHANGE_DURATION,
      nr_available = network_available, nr_initial = INITIAL_DELAYED_NETWORK_CHANGE_DURATION,
      nr_max = MAX_DELAYED_NETWORK_CHANGE_DURATION android\<rparr>"

definition is_network_available :: "network_recovery_handler \<Rightarrow> bool" where
  "is_network_available h = nr_available h"

definition on_resumed :: "instant \<Rightarrow> network_recovery_handler \<Rightarrow> bool \<times> network_recovery_handler" where
  "on_resumed now h =
     (case nr_send_at h of
        Some notify_at \<Rightarrow>
          if nr_available h \<and> now \<ge> notify_at
          then (True, h\<lparr>nr_send_at := None, nr_delay := min (nr_delay h * 2) (nr_max h)\<rparr>)
          else (False, h)
      | None \<Rightarrow> (False, h))"

definition wakeup_delay ::
  "('c \<Rightarrow> instant \<times> 'c) \<Rightarrow> network_recovery_handler \<Rightarrow> 'c \<Rightarrow> duration option \<times> 'c" where
  "wakeup_delay now h c =
     (case nr_send_at h of
        Some notify_at \<Rightarrow>
          if nr_available h
          then let (t, c') = now c in (Some (if notify_at > t then notify_at - t else 0), c')
          else (None, c)
      | None \<Rightarrow> (None, c))"

definition on_successful_socket_open :: "network_recovery_handler \<Rightarrow> network_recovery_handler" where
  "on_successful_socket_open h = h\<lparr>nr_send_at := None\<rparr>"

definition on_connected :: "network_recovery_handler \<Rightarrow> network_recovery_handler" where
  "on_connected h = h\<lparr>nr_send_at := None, nr_delay := nr_initial h\<rparr>"

definition recovery_on_connectivity_change ::
  "connectivity_event \<Rightarrow> network_recovery_handler \<Rightarrow> network_recovery_handler" where
  "recovery_on_connectivity_change event h =
     (let h = h\<lparr>nr_send_at := None, nr_delay := nr_initial h\<rparr> in
      case event of
        Up \<Rightarrow> h\<lparr>nr_available := True\<rparr>
      | NetworkSwitch \<Rightarrow> h\<lparr>nr_available := True\<rparr>
      | Down \<Rightarrow> h\<lparr>nr_available := False\<rparr>)"

definition on_stream_error ::
  "io_error \<Rightarrow> instant \<Rightarrow> network_recovery_handler \<Rightarrow> network_recovery_handler" where
  "on_stream_error err now h =
     (if nr_available h then
        case io_kind err of
          NetworkUnreachable \<Rightarrow> h\<lparr>nr_send_at := Some (now + nr_delay h)\<rparr>
        | NetworkDown \<Rightarrow> h\<lparr>nr_send_at := Some (now + nr_delay h)\<rparr>
        | _ \<Rightarrow> h
      else h)"

section \<open>Calls as events\<close>

text \<open>
  The handler as a state machine: one event per method that changes it, and the runs of
  the machine with the notifications they give.
\<close>

datatype recovery_event =
    Resumed instant
  | SocketOpened
  | TunnelUp
  | Connectivity connectivity_event
  | StreamError io_error instant

fun recovery_step :: "recovery_event \<Rightarrow> network_recovery_handler \<Rightarrow> bool \<times> network_recovery_handler" where
  "recovery_step (Resumed now) h = on_resumed now h"
| "recovery_step SocketOpened h = (False, on_successful_socket_open h)"
| "recovery_step TunnelUp h = (False, on_connected h)"
| "recovery_step (Connectivity e) h = (False, recovery_on_connectivity_change e h)"
| "recovery_step (StreamError err now) h = (False, on_stream_error err now h)"

fun recovery_run :: "recovery_event list \<Rightarrow> network_recovery_handler \<Rightarrow> nat \<times> network_recovery_handler" where
  "recovery_run [] h = (0, h)"
| "recovery_run (e # es) h =
     (let (b, h') = recovery_step e h; (n, h'') = recovery_run es h'
      in (if b then Suc n else n, h''))"

definition is_network_error :: "error_kind \<Rightarrow> bool" where
  "is_network_error k \<longleftrightarrow> k = NetworkUnreachable \<or> k = NetworkDown"

fun is_network_error_event :: "recovery_event \<Rightarrow> bool" where
  "is_network_error_event (StreamError err now) = is_network_error (io_kind err)"
| "is_network_error_event _ = False"

definition recovery_inv :: "network_recovery_handler \<Rightarrow> bool" where
  "recovery_inv h \<longleftrightarrow>
     (nr_send_at h \<noteq> None \<longrightarrow> nr_available h) \<and>
     nr_initial h \<le> nr_delay h \<and> nr_delay h \<le> nr_max h"

section \<open>Lemmas\<close>

lemma on_stream_error_eq:
  "on_stream_error err now h =
     (if nr_available h \<and> is_network_error (io_kind err)
      then h\<lparr>nr_send_at := Some (now + nr_delay h)\<rparr> else h)"
  by (auto simp: on_stream_error_def is_network_error_def split: error_kind.splits)

lemma recovery_on_connectivity_change_eq:
  "recovery_on_connectivity_change e h =
     h\<lparr>nr_send_at := None, nr_delay := nr_initial h, nr_available := e \<noteq> Down\<rparr>"
  by (cases e) (simp_all add: recovery_on_connectivity_change_def)

lemmas recovery_eqs = on_resumed_def on_successful_socket_open_def on_connected_def
  recovery_on_connectivity_change_eq on_stream_error_eq is_network_available_def

lemma recovery_new_inv [intro]: "recovery_inv (network_recovery_new android avail)"
  by (simp add: recovery_inv_def network_recovery_new_def from_secs_def
      INITIAL_DELAYED_NETWORK_CHANGE_DURATION_def MAX_DELAYED_NETWORK_CHANGE_DURATION_def)

lemma recovery_op_inv [intro]:
  assumes "recovery_inv h"
  shows "recovery_inv (snd (on_resumed now h))"
    and "recovery_inv (on_successful_socket_open h)"
    and "recovery_inv (on_connected h)"
    and "recovery_inv (recovery_on_connectivity_change e h)"
    and "recovery_inv (on_stream_error err now h)"
  using assms by (auto simp: recovery_inv_def recovery_eqs split: option.splits)

lemma recovery_step_inv: "recovery_inv h \<Longrightarrow> recovery_inv (snd (recovery_step e h))"
  by (cases e) auto

lemma recovery_step_const [simp]:
  "nr_max (snd (recovery_step e h)) = nr_max h"
  "nr_initial (snd (recovery_step e h)) = nr_initial h"
  by (cases e; auto simp: recovery_eqs split: option.splits)+

interpretation recovery: op_machine recovery_step recovery_inv
  by unfold_locales (rule recovery_step_inv)

lemma recovery_run_machine: "snd (recovery_run es h) = snd (run_machine recovery_step es h)"
  by (induction es arbitrary: h) (simp_all add: run_machine_Cons split_beta Let_def)

lemma recovery_run_inv: "recovery_inv h \<Longrightarrow> recovery_inv (snd (recovery_run es h))"
  unfolding recovery_run_machine by (rule recovery.run_inv)

lemma recovery_run_const:
  "nr_max (snd (recovery_run es h)) = nr_max h \<and> nr_initial (snd (recovery_run es h)) = nr_initial h"
  by (induction es arbitrary: h) (simp_all add: Let_def split_beta)

lemma fst_on_resumed:
  "fst (on_resumed now h) \<longleftrightarrow> nr_available h \<and> (\<exists>t. nr_send_at h = Some t \<and> t \<le> now)"
  by (auto simp: on_resumed_def split: option.splits)

text \<open>A pending notification is paid for by a network error that has not fired yet.\<close>

definition pending :: "network_recovery_handler \<Rightarrow> nat" where
  "pending h = (if nr_send_at h = None then 0 else 1)"

definition network_errors :: "recovery_event list \<Rightarrow> nat" where
  "network_errors es = length (filter is_network_error_event es)"

lemma recovery_step_credit:
  "of_bool (fst (recovery_step e h)) + pending (snd (recovery_step e h)) \<le>
     pending h + network_errors [e]"
  by (cases e) (auto simp: pending_def network_errors_def recovery_eqs split: option.splits)

lemma recovery_run_credit: "fst (recovery_run es h) \<le> pending h + network_errors es"
proof (induction es arbitrary: h)
  case (Cons e es)
  have "fst (recovery_run (e # es) h) =
      of_bool (fst (recovery_step e h)) + fst (recovery_run es (snd (recovery_step e h)))"
    by (simp add: Let_def split_beta)
  moreover have "network_errors (e # es) = network_errors [e] + network_errors es"
    by (simp add: network_errors_def)
  ultimately show ?case
    using Cons.IH [of "snd (recovery_step e h)"] recovery_step_credit [of e h] by linarith
qed simp

text \<open>One round: a network error, then waking up once the delay has passed.\<close>

definition backoff_round :: "io_error \<Rightarrow> instant \<Rightarrow> instant \<Rightarrow> recovery_event list" where
  "backoff_round err now wake = [StreamError err now, Resumed wake]"

lemma backoff_round_step:
  assumes "nr_available h" and "is_network_error (io_kind err)" and "now + nr_delay h \<le> wake"
  shows "recovery_run (backoff_round err now wake) h =
     (1, h\<lparr>nr_send_at := None, nr_delay := min (nr_delay h * 2) (nr_max h)\<rparr>)"
  using assms by (simp add: backoff_round_def on_stream_error_eq on_resumed_def)

lemma recovery_run_append:
  "recovery_run (es @ fs) h =
     (fst (recovery_run es h) + fst (recovery_run fs (snd (recovery_run es h))),
      snd (recovery_run fs (snd (recovery_run es h))))"
  by (induction es arbitrary: h) (simp_all add: Let_def split_beta)

fun backoff_rounds :: "nat \<Rightarrow> io_error \<Rightarrow> instant \<Rightarrow> network_recovery_handler \<Rightarrow> recovery_event list" where
  "backoff_rounds 0 err now h = []"
| "backoff_rounds (Suc n) err now h =
     (let r = backoff_round err now (now + nr_delay h)
      in r @ backoff_rounds n err (now + nr_delay h) (snd (recovery_run r h)))"

lemma min_double_power: "min ((2::nat) ^ n * min (d * 2) m) m = min (2 ^ Suc n * d) m"
proof (cases "d * 2 \<le> m")
  case False
  then have "m \<le> 2 ^ Suc n * d"
    by simp (metis linorder_not_le mult.commute mult.left_commute mult_le_mono1 nat_mult_1 one_le_numeral one_le_power order_trans less_imp_le_nat)
  moreover have "m \<le> 2 ^ n * m" by simp
  ultimately show ?thesis using False by (simp only: min_absorb2 if_False min_def [of "d * 2"])
qed (simp add: mult.commute mult.left_commute min_def)

lemma backoff_rounds_delay:
  assumes "nr_available h" and "is_network_error (io_kind err)" and "nr_delay h \<le> nr_max h"
  shows "fst (recovery_run (backoff_rounds n err now h) h) = n \<and>
    nr_delay (snd (recovery_run (backoff_rounds n err now h) h)) = min (2 ^ n * nr_delay h) (nr_max h)"
  using assms
proof (induction n arbitrary: now h)
  case (Suc n)
  let ?h' = "h\<lparr>nr_send_at := None, nr_delay := min (nr_delay h * 2) (nr_max h)\<rparr>"
  have round: "recovery_run (backoff_round err now (now + nr_delay h)) h = (1, ?h')"
    using Suc.prems by (intro backoff_round_step) simp_all
  have IH: "fst (recovery_run (backoff_rounds n err (now + nr_delay h) ?h') ?h') = n \<and>
      nr_delay (snd (recovery_run (backoff_rounds n err (now + nr_delay h) ?h') ?h')) =
        min (2 ^ n * nr_delay ?h') (nr_max ?h')"
    using Suc.prems by (intro Suc.IH) simp_all
  show ?case
    using IH min_double_power [of n "nr_delay h" "nr_max h"]
    by (simp add: Let_def recovery_run_append round)
qed simp

section \<open>Properties\<close>

text \<open>In every run of a new handler the delay stays between one second and the maximum
  of the platform, a notification is pending only while the system reports a network, and
  doubling the delay never leaves the range of a \<^verbatim>\<open>Duration\<close>, so it never panics.\<close>

theorem recovery_delay_bounded:
  "let h = snd (recovery_run es (network_recovery_new android avail))
   in INITIAL_DELAYED_NETWORK_CHANGE_DURATION \<le> nr_delay h \<and>
      nr_delay h \<le> MAX_DELAYED_NETWORK_CHANGE_DURATION android \<and>
      (nr_send_at h = None \<or> nr_available h) \<and> duration_fits (nr_delay h * 2)"
proof -
  let ?new = "network_recovery_new android avail"
  let ?h = "snd (recovery_run es ?new)"
  have inv: "recovery_inv ?h" by (intro recovery_run_inv recovery_new_inv)
  have const: "nr_max ?h = MAX_DELAYED_NETWORK_CHANGE_DURATION android"
    "nr_initial ?h = INITIAL_DELAYED_NETWORK_CHANGE_DURATION"
    using recovery_run_const [of es ?new] by (simp_all add: network_recovery_new_def)
  with inv have "nr_delay ?h \<le> from_secs 30"
    by (auto simp: recovery_inv_def MAX_DELAYED_NETWORK_CHANGE_DURATION_def from_secs_def split: if_splits)
  then have "nr_delay ?h * 2 div 1000000000 \<le> 60" by (simp add: from_secs_def)
  with inv const show ?thesis by (auto simp: recovery_inv_def duration_fits_def Let_def)
qed



text \<open>The wake-up delay is neither too short nor too long: when it is some \<open>d\<close>, resuming
  \<open>d\<close> after the clock reading notifies the client, and resuming earlier does not.\<close>

theorem wakeup_delay_exact:
  assumes "wakeup_delay clock h c = (Some d, c')"
  shows "fst (on_resumed (fst (clock c) + d) h) \<and>
         \<not> (\<exists>t < fst (clock c) + d. fst (clock c) \<le> t \<and> fst (on_resumed t h))"
  using assms by (auto simp: wakeup_delay_def fst_on_resumed split: option.splits if_splits prod.splits)

theorem wakeup_delay_exact_witness:
  "fst (on_resumed (1500000000 + 500000000)
     (on_stream_error (io_error_new NetworkUnreachable ''x'') 1000000000 (network_recovery_new False True)))"
proof -
  let ?h = "on_stream_error (io_error_new NetworkUnreachable ''x'') 1000000000 (network_recovery_new False True)"
  have "wakeup_delay (\<lambda>c. (c, c)) ?h 1500000000 = (Some 500000000, 1500000000)"
    by (simp add: wakeup_delay_def on_stream_error_def network_recovery_new_def
        INITIAL_DELAYED_NETWORK_CHANGE_DURATION_def from_secs_def)
  from wakeup_delay_exact [OF this] show ?thesis by simp
qed

text \<open>The client is never notified more often than there were network errors on its
  sockets, whatever else happens in between.\<close>

theorem recovery_notifications_bounded:
  "fst (recovery_run es (network_recovery_new android avail)) \<le>
     length (filter is_network_error_event es)"
  using recovery_run_credit [of es "network_recovery_new android avail"]
  by (simp add: pending_def network_errors_def network_recovery_new_def)

end
