(* ===== verification/Local_Agent_Handler.thy ===== *)
theory Local_Agent_Handler
  imports Type_Conversions
begin

text \<open>
  \<^verbatim>\<open>src/connection/local_agent_handler.rs\<close>: the state machine fed with the messages of the
  local agent. It decides the connection state reported once the tunnel to the peer is up,
  turns errors into events and collects the six statistics of one report into one event.
  Arithmetic on \<^verbatim>\<open>u64\<close> wraps, as in the release profile.
\<close>

section \<open>Statistics accumulator\<close>

record stats_accumulator =
  sa_bytes_received :: "u64 option option"
  sa_bytes_sent :: "u64 option option"
  sa_malicious_blocked :: "u64 option option"
  sa_ads_blocked :: "u64 option option"
  sa_trackers_blocked :: "u64 option option"
  sa_adult_content_blocked :: "u64 option option"

definition stats_accumulator_default :: stats_accumulator where
  "stats_accumulator_default =
     \<lparr>sa_bytes_received = None, sa_bytes_sent = None, sa_malicious_blocked = None,
      sa_ads_blocked = None, sa_trackers_blocked = None, sa_adult_content_blocked = None\<rparr>"

definition AVG_AD_SIZE_BYTES :: u64 where "AVG_AD_SIZE_BYTES = 200 * 1024"
definition AVG_TRACKER_SIZE_BYTES :: u64 where "AVG_TRACKER_SIZE_BYTES = 50 * 1024"
definition AVG_MALICIOUS_SIZE_BYTES :: u64 where "AVG_MALICIOUS_SIZE_BYTES = 750 * 1024"
definition AVG_ADULT_CONTENT_SIZE_BYTES :: u64 where "AVG_ADULT_CONTENT_SIZE_BYTES = 1454 * 1024"

definition add_saved :: "u64 option \<Rightarrow> u64 \<Rightarrow> u64 \<Rightarrow> u64" where
  "add_saved blocked avg saved = (case blocked of Some n \<Rightarrow> saved + n * avg | None \<Rightarrow> saved)"

fun update_local_agent_stats_with_estimates :: "event \<Rightarrow> event" where
  "update_local_agent_stats_with_estimates (LocalAgentStats st) =
     (let saved = 0;
          saved = add_saved (st_malicious_blocked st) AVG_MALICIOUS_SIZE_BYTES saved;
          saved = add_saved (st_ads_blocked st) AVG_AD_SIZE_BYTES saved;
          saved = add_saved (st_trackers_blocked st) AVG_TRACKER_SIZE_BYTES saved;
          saved = add_saved (st_adult_content_blocked st) AVG_ADULT_CONTENT_SIZE_BYTES saved
      in LocalAgentStats (st\<lparr>st_data_saved := Some saved\<rparr>))"
| "update_local_agent_stats_with_estimates e = e"

definition stats_reset :: "stats_accumulator \<Rightarrow> stats_accumulator" where
  "stats_reset sa = sa\<lparr>sa_bytes_received := None, sa_bytes_sent := None, sa_malicious_blocked := None,
     sa_ads_blocked := None, sa_trackers_blocked := None, sa_adult_content_blocked := None\<rparr>"

definition emit_event_when_full :: "stats_accumulator \<Rightarrow> event option \<times> stats_accumulator" where
  "emit_event_when_full sa =
     (case (sa_bytes_received sa, sa_bytes_sent sa, sa_malicious_blocked sa, sa_ads_blocked sa,
            sa_trackers_blocked sa, sa_adult_content_blocked sa) of
        (Some received, Some sent, Some malicious, Some ads, Some trackers, Some adult) \<Rightarrow>
          let stats = LocalAgentStats
            \<lparr>st_bytes_received = received, st_bytes_sent = sent, st_malicious_blocked = malicious,
             st_ads_blocked = ads, st_trackers_blocked = trackers, st_adult_content_blocked = adult,
             st_data_saved = None\<rparr>
          in (Some (update_local_agent_stats_with_estimates stats), stats_reset sa)
      | _ \<Rightarrow> (None, sa))"

section \<open>The handler\<close>

record local_agent_handler =
  lh_is_connected :: bool
  lh_last_peer :: "peer_connection_info option"
  lh_agent_info :: agent_connection_info
  lh_established_ts :: "system_time option"
  lh_exit_label :: "string option"
  lh_jails :: "wait_jail_reason list"
  lh_restrictions :: "restriction list"
  lh_local_agent_stats :: stats_accumulator

definition local_agent_handler_new :: local_agent_handler where
  "local_agent_handler_new =
     \<lparr>lh_is_connected = False, lh_last_peer = None, lh_agent_info = agent_connection_info_default,
      lh_established_ts = None, lh_exit_label = None, lh_jails = [], lh_restrictions = [],
      lh_local_agent_stats = stats_accumulator_default\<rparr>"

definition get_wait_reason :: "local_agent_handler \<Rightarrow> agent_connection_wait_reason option" where
  "get_wait_reason h =
     (if las_soft_jail (ai_settings (lh_agent_info h)) = Some True then Some SoftJailed
      else if lh_jails h \<noteq> [] then Some (HardJailed (lh_jails h))
      else None)"

definition handler_get_state :: "local_agent_handler \<Rightarrow> peer_connection_info \<Rightarrow> connection_state" where
  "handler_get_state h peer =
     (case get_wait_reason h of
        Some wait_reason \<Rightarrow> ConnectingToLocalAgent peer (Some wait_reason)
      | None \<Rightarrow>
          if lh_is_connected h then Connected peer (Some (lh_agent_info h))
          else ConnectingToLocalAgent peer None)"

definition on_connected_to_peer :: "peer_connection_info \<Rightarrow> local_agent_handler \<Rightarrow> local_agent_handler" where
  "on_connected_to_peer peer h =
     (let h = (case lh_last_peer h of
                 Some last_peer \<Rightarrow>
                   if peer \<noteq> last_peer then
                     h\<lparr>lh_is_connected := False, lh_established_ts := None, lh_exit_label := None,
                       lh_agent_info := agent_connection_info_default, lh_jails := []\<rparr>
                   else h
               | None \<Rightarrow> h)
      in h\<lparr>lh_last_peer := Some peer, lh_local_agent_stats := stats_reset (lh_local_agent_stats h)\<rparr>)"

fun jail_wait_reason :: "jail \<Rightarrow> wait_jail_reason" where
  "jail_wait_reason (InternallyHandled (SystemErrorJail m)) = Internal m"
| "jail_wait_reason (InternallyHandled (ExpiredCertificate m)) = Internal m"
| "jail_wait_reason (InternallyHandled (RevokedCertificate m)) = Internal m"
| "jail_wait_reason (InternallyHandled (KeyAlreadyUsed m)) = Internal m"
| "jail_wait_reason (InternallyHandled (InvalidCertificateSignature m)) = Internal m"
| "jail_wait_reason (ToHandle (RequireRecent2FA m)) = Need2FA m"
| "jail_wait_reason (ToHandle (Expired2FA m)) = Need2FA m"
| "jail_wait_reason (ToHandle (Require2FA m)) = Need2FA m"
| "jail_wait_reason (ToHandle (WaitingClientChallengeReplyJail m)) = WaitingClientChallengeReply m"
| "jail_wait_reason (ToHandle (PolicyViolation1 m)) = LowPlan m"
| "jail_wait_reason (ToHandle (PolicyViolation2 m)) = PendingInvoice m"
| "jail_wait_reason (ToHandle (BadUserBehaviorJail m)) = BadUserBehavior m"
| "jail_wait_reason (ToHandle (DisabledUserJail m)) = DisabledUser m"
| "jail_wait_reason (ToHandle (SessionOverLimitJail m)) = SessionOverLimit m"
| "jail_wait_reason (ToHandle (FreeSessionOverLimit m)) = SessionOverLimit m"
| "jail_wait_reason (ToHandle (BasicSessionOverLimit m)) = SessionOverLimit m"
| "jail_wait_reason (ToHandle (PlusSessionOverLimit m)) = SessionOverLimit m"
| "jail_wait_reason (ToHandle (VisionarySessionOverLimit m)) = SessionOverLimit m"
| "jail_wait_reason (ToHandle (ProSessionOverLimit m)) = SessionOverLimit m"
| "jail_wait_reason (ToHandle (GuestSession m)) = Internal m"
| "jail_wait_reason (ToHandle (RestrictedServer m)) = Internal m"
| "jail_wait_reason (ToHandle (NoCertificateProvided m)) = Internal m"
| "jail_wait_reason (ToHandle (SessionInstallationInProgress m)) = Internal m"
| "jail_wait_reason (ToHandle (UnknownJail code m)) = OtherJail code m"

definition handle_jails :: "jail list option \<Rightarrow> local_agent_handler \<Rightarrow> event option \<times> local_agent_handler" where
  "handle_jails jails h =
     (let h = h\<lparr>lh_jails := []\<rparr> in
      (None, case jails of
               Some js \<Rightarrow> h\<lparr>lh_jails := lh_jails h @ map jail_wait_reason js\<rparr>
             | None \<Rightarrow> h))"

definition policy_refused :: "local_agent_setting_type \<Rightarrow> event option" where
  "policy_refused setting = Some (ErrorEvent (LocalAgentSettingPolicyRefused setting))"

fun handle_error :: "local_agent_error \<Rightarrow> event option" where
  "handle_error (MuonAuthError _) = Some (ErrorEvent ApiSessionExpired)"
| "handle_error (MuonErrorOnCertRefresh _) = Some (ErrorEvent CertificateRefreshFatalError)"
| "handle_error TooManyTriesOnCertRefresh = Some (ErrorEvent CertificateRefreshFatalError)"
| "handle_error (ServerError NetshieldLevelPolicyRefused) = policy_refused NetshieldLevel"
| "handle_error (ServerError BouncingPolicyRefused) = policy_refused Bouncing"
| "handle_error (ServerError PortFwPolicyRefused) = policy_refused PortForwarding"
| "handle_error (ServerError SplitTcpPolicyRefused) = policy_refused SplitTcp"
| "handle_error (ServerError SafeModePolicyRefused) = policy_refused SafeMode"
| "handle_error (ServerError RandomNatPolicyRefused) = policy_refused RandomNat"
| "handle_error (ServerError _) = None"

text \<open>Updates of the parts of the handler.\<close>

definition upd_info :: "(agent_connection_info \<Rightarrow> agent_connection_info) \<Rightarrow> local_agent_handler \<Rightarrow> local_agent_handler" where
  "upd_info f h = h\<lparr>lh_agent_info := f (lh_agent_info h)\<rparr>"

definition upd_settings :: "(local_agent_settings \<Rightarrow> local_agent_settings) \<Rightarrow> local_agent_handler \<Rightarrow> local_agent_handler" where
  "upd_settings f = upd_info (\<lambda>i. i\<lparr>ai_settings := f (ai_settings i)\<rparr>)"

definition accumulate :: "(stats_accumulator \<Rightarrow> stats_accumulator) \<Rightarrow> local_agent_handler \<Rightarrow> event option \<times> local_agent_handler" where
  "accumulate f h =
     (let (ev, sa) = emit_event_when_full (f (lh_local_agent_stats h))
      in (ev, h\<lparr>lh_local_agent_stats := sa\<rparr>))"

fun handle_value :: "local_agent_value \<Rightarrow> local_agent_handler \<Rightarrow> event option \<times> local_agent_handler" where
  "handle_value (ValInfoEstablished timestamp) h = (None, h\<lparr>lh_established_ts := timestamp\<rparr>)"
| "handle_value (ValInfoGroups v) h =
     (None, upd_info (\<lambda>i. i\<lparr>ai_groups := case v of Some g \<Rightarrow> g | None \<Rightarrow> []\<rparr>) h)"
| "handle_value (ValInfoPlatform _) h = (None, h)"
| "handle_value (ValInfoRemote _) h = (None, h)"
| "handle_value (ValInfoRemoteReal address) h = (None, upd_info (\<lambda>i. i\<lparr>ai_user_isp_ip := address\<rparr>) h)"
| "handle_value (ValInfoRemoteRealLocationCode code) h =
     (None, upd_info (\<lambda>i. i\<lparr>ai_user_isp_country_code := code\<rparr>) h)"
| "handle_value (ValInfoExitIpv4 address) h =
     (None, upd_info (\<lambda>i. i\<lparr>ai_server_exit_v4 := map_option V4 address\<rparr>) h)"
| "handle_value (ValInfoExitIpv6 address) h =
     (None, upd_info (\<lambda>i. i\<lparr>ai_server_exit_v6 := map_option V6 address\<rparr>) h)"
| "handle_value (ValRestrictions r) h =
     (None, h\<lparr>lh_restrictions := case r of Some rs \<Rightarrow> map restriction_from_pvpn rs | None \<Rightarrow> []\<rparr>)"
| "handle_value (ValSettingsCircumventionRouting v) h =
     (None, upd_settings (\<lambda>s. s\<lparr>las_circumvention_routing := v\<rparr>) h)"
| "handle_value (ValSettingsLabel v) h = (None, h\<lparr>lh_exit_label := v\<rparr>)"
| "handle_value (ValSettingsNetshieldLevel v) h =
     (None, upd_settings (\<lambda>s. s\<lparr>las_netshield_level := map_option netshield_from_pvpn v\<rparr>) h)"
| "handle_value (ValSettingsPortForwarding v) h =
     (None, upd_settings (\<lambda>s. s\<lparr>las_port_forwarding := v\<rparr>) h)"
| "handle_value (ValSettingsRandomNat v) h = (None, upd_settings (\<lambda>s. s\<lparr>las_random_nat := v\<rparr>) h)"
| "handle_value (ValSettingsSoftjail v) h = (None, upd_settings (\<lambda>s. s\<lparr>las_soft_jail := v\<rparr>) h)"
| "handle_value (ValSettingsSplitTcp v) h = (None, upd_settings (\<lambda>s. s\<lparr>las_split_tcp := v\<rparr>) h)"
| "handle_value (ValStatsBytesReceived v) h = accumulate (\<lambda>a. a\<lparr>sa_bytes_received := Some v\<rparr>) h"
| "handle_value (ValStatsBytesSent v) h = accumulate (\<lambda>a. a\<lparr>sa_bytes_sent := Some v\<rparr>) h"
| "handle_value (ValStatsNetshieldBlockCountMalicious v) h =
     accumulate (\<lambda>a. a\<lparr>sa_malicious_blocked := Some v\<rparr>) h"
| "handle_value (ValStatsNetshieldBlockCountAds v) h = accumulate (\<lambda>a. a\<lparr>sa_ads_blocked := Some v\<rparr>) h"
| "handle_value (ValStatsNetshieldBlockCountTracking v) h =
     accumulate (\<lambda>a. a\<lparr>sa_trackers_blocked := Some v\<rparr>) h"
| "handle_value (ValStatsNetshieldBlockCountAdult v) h =
     accumulate (\<lambda>a. a\<lparr>sa_adult_content_blocked := Some v\<rparr>) h"
| "handle_value (ValJails jails) h = handle_jails jails h"
| "handle_value ValOther h = (None, h)"

fun handle_local_agent_message ::
  "local_agent_message \<Rightarrow> local_agent_handler \<Rightarrow> event option \<times> local_agent_handler" where
  "handle_local_agent_message (AgentValue v) h = handle_value v h"
| "handle_local_agent_message (AgentError e) h = (handle_error e, h)"
| "handle_local_agent_message MuonForkSelectorNeeded h = (Some (ErrorEvent ApiSessionExpired), h)"
| "handle_local_agent_message LocalAgentConnected h = (None, h\<lparr>lh_is_connected := True\<rparr>)"

definition local_agent_selectors_to_watch :: "local_agent_selector list" where
  "local_agent_selectors_to_watch =
     [SelInfoEstablished, SelInfoGroups, SelInfoRemote, SelRestrictions,
      SelSettingsCircumventionRouting, SelSettingsLabel, SelSettingsNetshieldLevel,
      SelSettingsPortForwarding, SelSettingsRandomNat, SelSettingsSoftjail, SelSettingsSplitTcp,
      SelJails]"

section \<open>Runs of the handler\<close>

text \<open>The two ways the connection drives the handler.\<close>

datatype handler_op = AgentMessage local_agent_message | ConnectedTo peer_connection_info

fun handler_step :: "handler_op \<Rightarrow> local_agent_handler \<Rightarrow> event option \<times> local_agent_handler" where
  "handler_step (AgentMessage m) h = handle_local_agent_message m h"
| "handler_step (ConnectedTo peer) h = (None, on_connected_to_peer peer h)"

definition handler_run :: "handler_op list \<Rightarrow> local_agent_handler \<Rightarrow> event option list \<times> local_agent_handler" where
  "handler_run = run_machine handler_step"

lemma accumulate_info [simp]:
  "lh_agent_info (snd (accumulate f h)) = lh_agent_info h"
  "lh_jails (snd (accumulate f h)) = lh_jails h"
  "lh_is_connected (snd (accumulate f h)) = lh_is_connected h"
  "lh_last_peer (snd (accumulate f h)) = lh_last_peer h"
  by (simp_all add: accumulate_def split_beta)

lemma accumulate_stats:
  "fst (accumulate f h) = fst (emit_event_when_full (f (lh_local_agent_stats h)))"
  "lh_local_agent_stats (snd (accumulate f h)) = snd (emit_event_when_full (f (lh_local_agent_stats h)))"
  by (simp_all add: accumulate_def split_beta)

definition no_restrictions :: "local_agent_handler \<Rightarrow> bool" where
  "no_restrictions h \<longleftrightarrow> ai_restrictions (lh_agent_info h) = []"

lemma handle_value_no_restrictions: "no_restrictions h \<Longrightarrow> no_restrictions (snd (handle_value v h))"
  by (cases v) (simp_all add: no_restrictions_def upd_info_def upd_settings_def handle_jails_def
      Let_def split: option.splits)

interpretation restrictions: op_machine handler_step no_restrictions
proof
  fix op h assume inv: "no_restrictions h"
  show "no_restrictions (snd (handler_step op h))"
  proof (cases op)
    case (AgentMessage m)
    with inv show ?thesis by (cases m) (simp_all add: handle_value_no_restrictions, simp_all add: no_restrictions_def)
  next
    case (ConnectedTo p)
    with inv show ?thesis
      by (simp add: no_restrictions_def on_connected_to_peer_def agent_connection_info_default_def
          Let_def split: option.splits)
  qed
qed

section \<open>Statistics in any order\<close>

datatype stat_kind = BytesReceived | BytesSent | Malicious | Ads | Trackers | Adult

fun stat_value :: "stat_kind \<Rightarrow> u64 option \<Rightarrow> local_agent_value" where
  "stat_value BytesReceived v = ValStatsBytesReceived v"
| "stat_value BytesSent v = ValStatsBytesSent v"
| "stat_value Malicious v = ValStatsNetshieldBlockCountMalicious v"
| "stat_value Ads v = ValStatsNetshieldBlockCountAds v"
| "stat_value Trackers v = ValStatsNetshieldBlockCountTracking v"
| "stat_value Adult v = ValStatsNetshieldBlockCountAdult v"

definition stat_message :: "stat_kind \<times> u64 option \<Rightarrow> handler_op" where
  "stat_message kv = AgentMessage (AgentValue (stat_value (fst kv) (snd kv)))"

text \<open>What the accumulator holds, as a map from the kinds of statistics.\<close>

fun stat_of :: "stats_accumulator \<Rightarrow> stat_kind \<Rightarrow> u64 option option" where
  "stat_of a BytesReceived = sa_bytes_received a"
| "stat_of a BytesSent = sa_bytes_sent a"
| "stat_of a Malicious = sa_malicious_blocked a"
| "stat_of a Ads = sa_ads_blocked a"
| "stat_of a Trackers = sa_trackers_blocked a"
| "stat_of a Adult = sa_adult_content_blocked a"

definition stats_report :: "(stat_kind \<rightharpoonup> u64 option) \<Rightarrow> event" where
  "stats_report m = update_local_agent_stats_with_estimates (LocalAgentStats
     \<lparr>st_bytes_received = the (m BytesReceived), st_bytes_sent = the (m BytesSent),
      st_malicious_blocked = the (m Malicious), st_ads_blocked = the (m Ads),
      st_trackers_blocked = the (m Trackers), st_adult_content_blocked = the (m Adult),
      st_data_saved = None\<rparr>)"

lemma all_stat_kinds: "(\<forall>k. P k) \<longleftrightarrow>
    P BytesReceived \<and> P BytesSent \<and> P Malicious \<and> P Ads \<and> P Trackers \<and> P Adult"
  by (metis stat_kind.exhaust)

lemma stats_total: "dom (stat_of a) = UNIV \<longleftrightarrow> (\<forall>k. stat_of a k \<noteq> None)"
  by (auto simp: dom_def)

lemma emit_full:
  "emit_event_when_full a =
     (if dom (stat_of a) = UNIV then (Some (stats_report (stat_of a)), stats_reset a) else (None, a))"
  unfolding stats_total
  by (auto simp: emit_event_when_full_def all_stat_kinds stats_report_def Let_def split: option.splits)

lemma stat_of_reset [simp]: "stat_of (stats_reset a) = Map.empty"
  by (rule ext, rename_tac k, case_tac k) (simp_all add: stats_reset_def)

abbreviation stats_of :: "local_agent_handler \<Rightarrow> stat_kind \<rightharpoonup> u64 option" where
  "stats_of h \<equiv> stat_of (lh_local_agent_stats h)"

lemma stat_of_put:
  "stat_of (a\<lparr>sa_bytes_received := Some v\<rparr>) = (stat_of a)(BytesReceived \<mapsto> v)"
  "stat_of (a\<lparr>sa_bytes_sent := Some v\<rparr>) = (stat_of a)(BytesSent \<mapsto> v)"
  "stat_of (a\<lparr>sa_malicious_blocked := Some v\<rparr>) = (stat_of a)(Malicious \<mapsto> v)"
  "stat_of (a\<lparr>sa_ads_blocked := Some v\<rparr>) = (stat_of a)(Ads \<mapsto> v)"
  "stat_of (a\<lparr>sa_trackers_blocked := Some v\<rparr>) = (stat_of a)(Trackers \<mapsto> v)"
  "stat_of (a\<lparr>sa_adult_content_blocked := Some v\<rparr>) = (stat_of a)(Adult \<mapsto> v)"
  by (rule ext, rename_tac k, case_tac k, simp_all)+

text \<open>One statistic: the map is updated, and emptied by an event once it is total.\<close>

lemma stat_message_step:
  "fst (handler_step (stat_message (k, v)) h) =
     (if dom ((stats_of h)(k \<mapsto> v)) = UNIV then Some (stats_report ((stats_of h)(k \<mapsto> v))) else None)"
  "stats_of (snd (handler_step (stat_message (k, v)) h)) =
     (if dom ((stats_of h)(k \<mapsto> v)) = UNIV then Map.empty else (stats_of h)(k \<mapsto> v))"
  by (cases k; simp add: stat_message_def accumulate_stats emit_full stat_of_put)+

lemma stats_of_new: "stats_of local_agent_handler_new = Map.empty"
  by (rule ext, rename_tac k, case_tac k)
    (simp_all add: local_agent_handler_new_def stats_accumulator_default_def)

text \<open>While a kind is missing nothing is reported and the map only grows.\<close>

lemma stats_incomplete:
  assumes "k \<notin> dom (stats_of h)" "k \<notin> fst ` set xs"
  shows "fst (handler_run (map stat_message xs) h) = replicate (length xs) None \<and>
    stats_of (snd (handler_run (map stat_message xs) h)) = stats_of h ++ map_of (rev xs)"
  using assms
proof (induction xs arbitrary: h)
  case (Cons x xs)
  obtain l v where x: "x = (l, v)" by (cases x)
  let ?h = "snd (handler_step (stat_message x) h)"
  have part: "dom ((stats_of h)(l \<mapsto> v)) \<noteq> UNIV"
    using Cons.prems by (auto simp: x)
  then have step: "fst (handler_step (stat_message x) h) = None" "stats_of ?h = (stats_of h)(l \<mapsto> v)"
    unfolding x stat_message_step by simp_all
  have IH: "fst (handler_run (map stat_message xs) ?h) = replicate (length xs) None \<and>
    stats_of (snd (handler_run (map stat_message xs) ?h)) = stats_of ?h ++ map_of (rev xs)"
    using Cons.prems by (intro Cons.IH) (auto simp: step(2), auto simp: x)
  show ?case using IH step
    by (simp add: handler_run_def run_machine_Cons x map_add_upd_left [symmetric] map_of_append)
qed (simp add: handler_run_def)


section \<open>The reported state as a function of the history\<close>

definition soft_jail_values :: "local_agent_message list \<Rightarrow> bool option list" where
  "soft_jail_values ms =
     List.map_filter (\<lambda>m. case m of AgentValue (ValSettingsSoftjail v) \<Rightarrow> Some v | _ \<Rightarrow> None) ms"

definition jail_values :: "local_agent_message list \<Rightarrow> wait_jail_reason list list" where
  "jail_values ms =
     List.map_filter (\<lambda>m. case m of
         AgentValue (ValJails None) \<Rightarrow> Some []
       | AgentValue (ValJails (Some js)) \<Rightarrow> Some (map jail_wait_reason js)
       | _ \<Rightarrow> None) ms"

definition soft_jail :: "local_agent_handler \<Rightarrow> bool option" where
  "soft_jail h = las_soft_jail (ai_settings (lh_agent_info h))"

lemma history_step:
  "soft_jail (snd (handle_local_agent_message m h)) = last (soft_jail h # soft_jail_values [m])"
  "lh_jails (snd (handle_local_agent_message m h)) = last (lh_jails h # jail_values [m])"
  "lh_is_connected (snd (handle_local_agent_message m h)) \<longleftrightarrow> lh_is_connected h \<or> m = LocalAgentConnected"
proof -
  show "soft_jail (snd (handle_local_agent_message m h)) = last (soft_jail h # soft_jail_values [m])"
    by (cases m; simp add: soft_jail_def soft_jail_values_def map_filter_simps;
        rename_tac v; case_tac v; simp add: upd_settings_def upd_info_def handle_jails_def Let_def split: option.split)
  show "lh_jails (snd (handle_local_agent_message m h)) = last (lh_jails h # jail_values [m])"
    by (cases m; simp add: jail_values_def map_filter_simps;
        rename_tac v; case_tac v; simp add: upd_settings_def upd_info_def handle_jails_def Let_def split: option.split)
  show "lh_is_connected (snd (handle_local_agent_message m h)) \<longleftrightarrow> lh_is_connected h \<or> m = LocalAgentConnected"
    by (cases m; simp; rename_tac v; case_tac v;
        simp add: upd_settings_def upd_info_def handle_jails_def Let_def split: option.split)
qed

lemma values_Cons:
  "soft_jail_values (m # ms) = soft_jail_values [m] @ soft_jail_values ms"
  "jail_values (m # ms) = jail_values [m] @ jail_values ms"
  by (simp_all add: soft_jail_values_def jail_values_def map_filter_simps split: option.split)

lemma last_Cons_append: "last (last (d # xs) # ys) = last (d # xs @ ys)"
  by (cases ys) auto

lemma history_run:
  "soft_jail (snd (handler_run (map AgentMessage ms) h)) = last (soft_jail h # soft_jail_values ms) \<and>
   lh_jails (snd (handler_run (map AgentMessage ms) h)) = last (lh_jails h # jail_values ms) \<and>
   (lh_is_connected (snd (handler_run (map AgentMessage ms) h)) \<longleftrightarrow>
      lh_is_connected h \<or> LocalAgentConnected \<in> set ms)"
proof (induction ms arbitrary: h)
  case Nil
  show ?case by (simp add: handler_run_def soft_jail_values_def jail_values_def map_filter_simps)
next
  case (Cons m ms)
  have run: "snd (handler_run (map AgentMessage (m # ms)) h) =
      snd (handler_run (map AgentMessage ms) (snd (handle_local_agent_message m h)))"
    by (simp add: handler_run_def run_machine_Cons)
  note IH = Cons.IH [of "snd (handle_local_agent_message m h)", unfolded history_step]
  show ?case
    unfolding run values_Cons [of m ms] using IH last_Cons_append by auto
qed

section \<open>The estimate of saved data\<close>

definition blocked_count :: "u64 option \<Rightarrow> nat" where
  "blocked_count blocked = (case blocked of Some n \<Rightarrow> unat n | None \<Rightarrow> 0)"

lemma add_saved_eq: "add_saved blocked avg saved = saved + word_of_nat (blocked_count blocked) * avg"
  by (simp add: add_saved_def blocked_count_def split: option.split)

section \<open>Properties\<close>

text \<open>C13: The reported state is a function of what the agent has said so far: the latest soft
  jail setting and the latest list of jails decide whether the connection waits and for
  what (the soft jail first); without a jail it is connected exactly when the agent has ever
  announced its connection.\<close>

theorem handler_state_from_history:
  "let h' = snd (handler_run (map AgentMessage ms) h);
       jails = last (lh_jails h # jail_values ms)
   in handler_get_state h' peer =
     (if last (soft_jail h # soft_jail_values ms) = Some True
      then ConnectingToLocalAgent peer (Some SoftJailed)
      else if jails \<noteq> [] then ConnectingToLocalAgent peer (Some (HardJailed jails))
      else if lh_is_connected h \<or> LocalAgentConnected \<in> set ms
      then Connected peer (Some (lh_agent_info h'))
      else ConnectingToLocalAgent peer None)"
  using history_run [of ms h]
  by (simp add: Let_def handler_get_state_def get_wait_reason_def soft_jail_def)

text \<open>Connecting to another peer forgets jails, settings and the agent's connection, so that
  nothing of the previous peer is reported for the new one; reconnecting to the same peer
  changes nothing of what is reported.\<close>

theorem handler_peer_change:
  "handler_get_state (on_connected_to_peer peer h) peer =
     (if lh_last_peer h \<in> {None, Some peer} then handler_get_state h peer
      else ConnectingToLocalAgent peer None)"
  by (auto simp: on_connected_to_peer_def handler_get_state_def get_wait_reason_def Let_def
      agent_connection_info_default_def local_agent_settings_default_def split: option.splits)

text \<open>C14: The statistics of a report arrive as six values in any order, some possibly repeated:
  nothing is emitted until the last kind is there, and then exactly one event with the
  latest value of each kind, after which the accumulator is empty.\<close>

theorem stats_event_once:
  assumes "stats_of h = Map.empty" and "fst ` set xs \<noteq> UNIV" and "fst ` set (xs @ [kv]) = UNIV"
  shows "let r = handler_run (map stat_message (xs @ [kv])) h
         in fst r = replicate (length xs) None @ [Some (stats_report (map_of (rev (xs @ [kv]))))] \<and>
            stats_of (snd r) = Map.empty"
proof -
  obtain k v where kv: "kv = (k, v)" by (cases kv)
  from assms(2) obtain l where "l \<notin> fst ` set xs" by auto
  then have pre: "fst (handler_run (map stat_message xs) h) = replicate (length xs) None"
      "stats_of (snd (handler_run (map stat_message xs) h)) = map_of (rev xs)"
    using stats_incomplete [of l h xs] assms(1) by simp_all
  have "dom ((map_of (rev xs))(k \<mapsto> v)) = UNIV"
    using assms(3) by (simp add: kv dom_map_of_conv_image_fst)
  then show ?thesis
    using pre stat_message_step [of k v "snd (handler_run (map stat_message xs) h)"]
    by (simp add: handler_run_def run_machine_append run_machine_Cons kv)
qed

theorem stats_event_once_witness:
  "fst (handler_run (map stat_message ([(Ads, Some 2), (BytesSent, None), (Adult, None), (Ads, Some 3),
       (Trackers, Some 1), (BytesReceived, Some 7)] @ [(Malicious, None)])) local_agent_handler_new) =
     [None, None, None, None, None, None, Some (LocalAgentStats
       \<lparr>st_bytes_received = Some 7, st_bytes_sent = None, st_malicious_blocked = None,
        st_ads_blocked = Some 3, st_trackers_blocked = Some 1, st_adult_content_blocked = None,
        st_data_saved = Some 665600\<rparr>)]"
proof -
  let ?xs = "[(Ads, Some 2), (BytesSent, None), (Adult, None), (Ads, Some 3),
       (Trackers, Some 1), (BytesReceived, Some 7)] :: (stat_kind \<times> u64 option) list"
  note stats_of_new
  moreover have "Malicious \<notin> fst ` set ?xs" by simp
  then have "fst ` set ?xs \<noteq> UNIV" by blast
  moreover have "fst ` set (?xs @ [(Malicious, None)]) = UNIV"
    using stat_kind.exhaust by (auto simp: image_iff)
  ultimately show ?thesis
    using stats_event_once [of local_agent_handler_new ?xs "(Malicious, None)"]
    by (simp add: Let_def stats_report_def add_saved_def AVG_AD_SIZE_BYTES_def AVG_TRACKER_SIZE_BYTES_def)
qed

text \<open>The estimate of the data saved by NetShield is the exact weighted sum of the block
  counts (0 for a missing one) as long as that sum is below \<open>2 ^ 64\<close>; beyond it wraps.\<close>

theorem data_saved_exact:
  "let weighted = blocked_count (st_malicious_blocked st) * 768000 + blocked_count (st_ads_blocked st) * 204800 +
                  blocked_count (st_trackers_blocked st) * 51200 + blocked_count (st_adult_content_blocked st) * 1488896
   in update_local_agent_stats_with_estimates (LocalAgentStats st) =
        LocalAgentStats (st\<lparr>st_data_saved := Some (word_of_nat weighted)\<rparr>) \<and>
      (unat (word_of_nat weighted :: u64) = weighted \<longleftrightarrow> weighted < 2 ^ 64)"
  by (simp add: Let_def add_saved_eq AVG_MALICIOUS_SIZE_BYTES_def AVG_AD_SIZE_BYTES_def
        AVG_TRACKER_SIZE_BYTES_def AVG_ADULT_CONTENT_SIZE_BYTES_def unat_of_nat
        mod_eq_self_iff_div_eq_0 div_eq_0_iff)

text \<open>The restrictions announced by the agent never reach the reported agent information:
  they are stored beside it, and its own list stays empty in every run.\<close>

theorem restrictions_never_reported:
  "ai_restrictions (lh_agent_info (snd (handler_run ops local_agent_handler_new))) = []"
proof -
  have "no_restrictions local_agent_handler_new"
    by (simp add: no_restrictions_def local_agent_handler_new_def agent_connection_info_default_def)
  from restrictions.run_inv [OF this, of ops] show ?thesis
    by (simp add: no_restrictions_def handler_run_def)
qed

text \<open>A report of statistics whose values come in two batches, with an update of the
  connection state between them and neither batch complete, is lost: no event is emitted,
  although all six kinds may have been received.\<close>

theorem stats_split_lost:
  assumes "stats_of h = Map.empty" and "fst ` set xs \<noteq> UNIV" and "fst ` set ys \<noteq> UNIV"
  shows "set (fst (handler_run (map stat_message xs @ [ConnectedTo peer] @ map stat_message ys) h)) \<subseteq> {None}"
proof -
  from assms(2,3) obtain k l where kl: "k \<notin> fst ` set xs" "l \<notin> fst ` set ys" by auto
  let ?h = "snd (handler_run (map stat_message xs) h)"
  have fst: "fst (handler_run (map stat_message xs) h) = replicate (length xs) None"
    using stats_incomplete [of k h xs] kl assms(1) by simp
  have "stats_of (on_connected_to_peer peer ?h) = Map.empty"
    by (simp add: on_connected_to_peer_def Let_def split: option.splits)
  then have "fst (handler_run (map stat_message ys) (on_connected_to_peer peer ?h)) = replicate (length ys) None"
    using stats_incomplete [of l "on_connected_to_peer peer ?h" ys] kl by simp
  with fst show ?thesis
    by (auto simp: handler_run_def run_machine_append run_machine_Cons)
qed

theorem stats_split_lost_witness:
  "\<exists>xs ys peer. fst ` set (xs @ ys) = UNIV \<and>
     set (fst (handler_run (map stat_message xs @ [ConnectedTo peer] @ map stat_message ys)
        local_agent_handler_new)) \<subseteq> {None}"
proof -
  let ?xs = "[(Ads, Some 2), (BytesSent, None), (Adult, None)] :: (stat_kind \<times> u64 option) list"
  let ?ys = "[(Trackers, Some 1), (BytesReceived, Some 7), (Malicious, None)] :: (stat_kind \<times> u64 option) list"
  let ?p = "\<lparr>pci_peer_id = ''p'', pci_entry_ip = V4 (Ipv4Addr 10 0 0 1), pci_protocol = WireguardUdp,
              pci_port = 51820\<rparr>"
  have "Malicious \<notin> fst ` set ?xs" "Ads \<notin> fst ` set ?ys" by simp_all
  then have "fst ` set ?xs \<noteq> UNIV" "fst ` set ?ys \<noteq> UNIV" by blast+
  from stats_split_lost [OF stats_of_new this, of ?p]
  have "set (fst (handler_run (map stat_message ?xs @ [ConnectedTo ?p] @ map stat_message ?ys)
        local_agent_handler_new)) \<subseteq> {None}" .
  moreover have "fst ` set (?xs @ ?ys) = UNIV"
    using stat_kind.exhaust by (auto simp: image_iff)
  ultimately show ?thesis by blast
qed

end
