(* ===== verification/Pcap_Stream.thy ===== *)
theory Pcap_Stream
  imports Api_Types
begin

text \<open>
  \<^verbatim>\<open>src/connection/pcap_stream.rs\<close>: the file the packet capture is written to. The file
  system is a parameter: a record of the calls the sources make, over a state \<open>'w\<close> of the
  outside world; an open file is its descriptor.
\<close>

section \<open>File system\<close>

type_synonym file_handle = int

record 'w file_system =
  fs_parent :: "string \<Rightarrow> string option"
  fs_create_dir_all :: "string \<Rightarrow> 'w \<Rightarrow> unit io_result \<times> 'w"
  fs_open :: "bool \<Rightarrow> string \<Rightarrow> 'w \<Rightarrow> file_handle io_result \<times> 'w" \<comment> \<open>create, write; append as given\<close>
  fs_len :: "file_handle \<Rightarrow> 'w \<Rightarrow> u64 io_result"
  fs_write_all :: "file_handle \<Rightarrow> bytes \<Rightarrow> 'w \<Rightarrow> unit io_result \<times> 'w"
  fs_sync_all :: "file_handle \<Rightarrow> 'w \<Rightarrow> unit io_result \<times> 'w"

section \<open>The stream\<close>

record pcap_stream =
  ps_file_info :: pcap_file_info
  ps_file :: file_handle
  ps_size :: u64
  ps_max_bytes :: "u64 option"
  ps_at_max_size :: bool

definition pcap_open :: "'w file_system \<Rightarrow> pcap_file \<Rightarrow> 'w \<Rightarrow> file_handle io_result \<times> 'w" where
  "pcap_open fs pf w =
     (case pf of
        Path path mode \<Rightarrow>
          let append = (case mode of Append \<Rightarrow> True | Overwrite \<Rightarrow> False);
              (created, w) = (case fs_parent fs path of
                                Some parent \<Rightarrow> fs_create_dir_all fs parent w
                              | None \<Rightarrow> (Inr (), w))
          in (case created of Inl e \<Rightarrow> (Inl e, w) | Inr _ \<Rightarrow> fs_open fs append path w)
      | Fd fd \<Rightarrow> (Inr fd, w))"

definition pcap_new :: "'w file_system \<Rightarrow> pcap_file_info \<Rightarrow> 'w \<Rightarrow> pcap_stream io_result \<times> 'w" where
  "pcap_new fs info w =
     (case pcap_open fs (pf_file info) w of
        (Inl e, w) \<Rightarrow> (Inl e, w)
      | (Inr handle, w) \<Rightarrow>
          (case fs_len fs handle w of
             Inl e \<Rightarrow> (Inl e, w)
           | Inr len \<Rightarrow>
               (Inr \<lparr>ps_file_info = info, ps_file = handle, ps_size = len,
                     ps_max_bytes = pf_max_bytes info, ps_at_max_size = False\<rparr>, w)))"

definition pcap_over_max :: "bytes \<Rightarrow> pcap_stream \<Rightarrow> bool" where
  "pcap_over_max data ps =
     (case ps_max_bytes ps of
        Some max_size \<Rightarrow> ps_size ps + word_of_nat (length data) > max_size
      | None \<Rightarrow> False)"

definition pcap_write :: "'w file_system \<Rightarrow> bytes \<Rightarrow> pcap_stream \<times> 'w \<Rightarrow> pcap_stream \<times> 'w" where
  "pcap_write fs data = (\<lambda>(ps, w).
     if ps_at_max_size ps then (ps, w)
     else if pcap_over_max data ps then (ps\<lparr>ps_at_max_size := True\<rparr>, w)
     else (case fs_write_all fs (ps_file ps) data w of
             (Inl e, w) \<Rightarrow> (ps, w)
           | (Inr _, w) \<Rightarrow> (ps\<lparr>ps_size := ps_size ps + word_of_nat (length data)\<rparr>, w)))"

definition pcap_drop :: "'w file_system \<Rightarrow> pcap_stream \<Rightarrow> 'w \<Rightarrow> 'w" where
  "pcap_drop fs ps w = snd (fs_sync_all fs (ps_file ps) w)"

section \<open>What a capture contains\<close>

text \<open>The longest prefix of the packets that fits into a budget of bytes.\<close>

fun fitting :: "nat \<Rightarrow> bytes list \<Rightarrow> bytes list" where
  "fitting budget [] = []"
| "fitting budget (d # ds) =
     (if length d \<le> budget then d # fitting (budget - length d) ds else [])"

lemma pcap_write_same [simp]:
  "ps_file (fst (pcap_write fs d (ps, w))) = ps_file ps"
  "ps_max_bytes (fst (pcap_write fs d (ps, w))) = ps_max_bytes ps"
  "ps_file_info (fst (pcap_write fs d (ps, w))) = ps_file_info ps"
  by (auto simp: pcap_write_def split: prod.splits sum.splits)

lemma pcap_write_at_max [simp]:
  "ps_at_max_size ps \<Longrightarrow> fold (pcap_write fs) ds (ps, w) = (ps, w)"
  by (induction ds) (simp_all add: pcap_write_def)

lemma fitting_concat_le: "length (concat (fitting b ds)) \<le> b"
  by (induction b ds rule: fitting.induct) auto

lemma unat_add_len:
  assumes "unat (s :: u64) + n < 2 ^ 64"
  shows "unat (s + word_of_nat n) = unat s + n"
proof -
  have "unat (s + word_of_nat n) = (unat s + n) mod 2 ^ 64"
    by (simp add: unat_word_ariths unat_of_nat mod_add_right_eq)
  with assms show ?thesis by simp
qed

text \<open>A file system that appends what it is given.\<close>

definition appending :: "'w file_system \<Rightarrow> file_handle \<Rightarrow> ('w \<Rightarrow> bytes) \<Rightarrow> bool" where
  "appending fs f contents \<longleftrightarrow>
     (\<forall>d w. fst (fs_write_all fs f d w) = Inr () \<and>
            contents (snd (fs_write_all fs f d w)) = contents w @ d)"

lemma pcap_write_fits:
  assumes "appending fs (ps_file ps) contents" and "\<not> ps_at_max_size ps"
    and "ps_max_bytes ps = Some m" and "unat (ps_size ps) + length d < 2 ^ 64"
  shows "fst (pcap_write fs d (ps, w)) =
      (if length d + unat (ps_size ps) \<le> unat m then ps\<lparr>ps_size := ps_size ps + word_of_nat (length d)\<rparr>
       else ps\<lparr>ps_at_max_size := True\<rparr>)"
    and "contents (snd (pcap_write fs d (ps, w))) =
      contents w @ (if length d + unat (ps_size ps) \<le> unat m then d else [])"
proof -
  have over: "pcap_over_max d ps \<longleftrightarrow> \<not> length d + unat (ps_size ps) \<le> unat m"
    using assms(3,4) by (simp add: pcap_over_max_def word_less_nat_alt unat_add_len not_le add.commute)
  obtain u w' where w': "fs_write_all fs (ps_file ps) d w = (u, w')" by (cases "fs_write_all fs (ps_file ps) d w")
  have "u = Inr ()" "contents w' = contents w @ d"
    using assms(1) w' unfolding appending_def by (metis fst_conv, metis snd_conv)
  with over w' assms(2)
  show "fst (pcap_write fs d (ps, w)) =
      (if length d + unat (ps_size ps) \<le> unat m then ps\<lparr>ps_size := ps_size ps + word_of_nat (length d)\<rparr>
       else ps\<lparr>ps_at_max_size := True\<rparr>)"
    and "contents (snd (pcap_write fs d (ps, w))) =
      contents w @ (if length d + unat (ps_size ps) \<le> unat m then d else [])"
    by (simp_all add: pcap_write_def)
qed

lemma pcap_captures:
  assumes "appending fs (ps_file ps) contents" and "\<not> ps_at_max_size ps"
    and "ps_max_bytes ps = Some m" and "unat (ps_size ps) \<le> unat m"
    and "unat (ps_size ps) + length (concat ds) < 2 ^ 64"
  shows "contents (snd (fold (pcap_write fs) ds (ps, w))) =
           contents w @ concat (fitting (unat m - unat (ps_size ps)) ds) \<and>
         (ps_at_max_size (fst (fold (pcap_write fs) ds (ps, w))) \<longleftrightarrow>
           fitting (unat m - unat (ps_size ps)) ds \<noteq> ds) \<and>
         unat (ps_size (fst (fold (pcap_write fs) ds (ps, w)))) \<le> unat m"
  using assms
proof (induction ds arbitrary: ps w)
  case (Cons d ds)
  have len: "unat (ps_size ps) + length d < 2 ^ 64" using Cons.prems(5) by simp
  obtain ps' w' where w': "pcap_write fs d (ps, w) = (ps', w')" by (cases "pcap_write fs d (ps, w)")
  note step = pcap_write_fits [OF Cons.prems(1-3) len, of w, unfolded w', simplified]
  show ?case
  proof (cases "length d + unat (ps_size ps) \<le> unat m")
    case True
    have size: "unat (ps_size ps') = unat (ps_size ps) + length d"
      using step True unat_add_len [OF len] by simp
    have "contents (snd (fold (pcap_write fs) ds (ps', w'))) =
           contents w' @ concat (fitting (unat m - unat (ps_size ps')) ds) \<and>
         (ps_at_max_size (fst (fold (pcap_write fs) ds (ps', w'))) \<longleftrightarrow>
           fitting (unat m - unat (ps_size ps')) ds \<noteq> ds) \<and>
         unat (ps_size (fst (fold (pcap_write fs) ds (ps', w')))) \<le> unat m"
      using Cons.prems step True size by (intro Cons.IH) simp_all
    moreover have "length d \<le> unat m - unat (ps_size ps)" using True by linarith
    ultimately show ?thesis using step True size by (simp add: w' add.commute)
  next
    case False
    moreover from this have "\<not> length d \<le> unat m - unat (ps_size ps)" using Cons.prems(4) by linarith
    ultimately show ?thesis using step Cons.prems by (simp add: w')
  qed
qed simp

section \<open>Properties\<close>

text \<open>C15: A capture with a size limit holds, after what the file held before, exactly the
  longest prefix of the packets whose total size stays within the limit: whole packets, and
  nothing after the first that does not fit; the stream says so, and its size never exceeds
  the limit.\<close>

theorem pcap_captures_fitting_prefix:
  assumes "appending fs (ps_file ps) contents" and "\<not> ps_at_max_size ps"
    and "ps_max_bytes ps = Some m" and "unat (ps_size ps) \<le> unat m"
    and "unat (ps_size ps) + length (concat ds) < 2 ^ 64"
  shows "let r = fold (pcap_write fs) ds (ps, w); kept = fitting (unat m - unat (ps_size ps)) ds
         in contents (snd r) = contents w @ concat kept \<and> (ps_at_max_size (fst r) \<longleftrightarrow> kept \<noteq> ds) \<and>
            unat (ps_size (fst r)) \<le> unat m"
  using pcap_captures [OF assms] by (simp add: Let_def)

text \<open>The concrete file system of the witnesses: one file, its content the state.\<close>

definition one_file_fs :: "bytes file_system" where
  "one_file_fs =
     \<lparr>fs_parent = (\<lambda>_. None), fs_create_dir_all = (\<lambda>_ w. (Inr (), w)), fs_open = (\<lambda>_ _ w. (Inr 3, w)),
      fs_len = (\<lambda>_ w. Inr (word_of_nat (length w))), fs_write_all = (\<lambda>_ d w. (Inr (), w @ d)),
      fs_sync_all = (\<lambda>_ w. (Inr (), w))\<rparr>"

lemma one_file_appending: "appending one_file_fs f id"
  by (simp add: appending_def one_file_fs_def)

theorem pcap_captures_fitting_prefix_witness:
  "let ps = \<lparr>ps_file_info = \<lparr>pf_file = Fd 3, pf_max_bytes = Some 5\<rparr>, ps_file = 3, ps_size = 1,
             ps_max_bytes = Some 5, ps_at_max_size = False\<rparr>;
       r = fold (pcap_write one_file_fs) [[1, 2], [3], [4, 5], [6]] (ps, [9])
   in snd r = [9, 1, 2, 3] \<and> ps_at_max_size (fst r)"
  using pcap_captures_fitting_prefix [OF one_file_appending,
      of "\<lparr>ps_file_info = \<lparr>pf_file = Fd 3, pf_max_bytes = Some 5\<rparr>, ps_file = 3, ps_size = 1,
           ps_max_bytes = Some 5, ps_at_max_size = False\<rparr>" 5 "[[1, 2], [3], [4, 5], [6]]" "[9]"]
  by (simp add: Let_def)



end
