(* ===== verification/Streams.thy ===== *)
theory Streams
  imports Pvpn_Types
begin

text \<open>
  \<^verbatim>\<open>src/connection/streams.rs\<close>: the traits \<^verbatim>\<open>Stream\<close> and \<^verbatim>\<open>Streams\<close> between the connection loop
  and the sockets of a platform. A value of \<^verbatim>\<open>dyn Streams\<close> is a state \<open>'s\<close> together with the
  record \<open>streams_ops\<close> of its methods; the methods of one \<^verbatim>\<open>Stream\<close>, which the loop reaches
  through \<^verbatim>\<open>get_stream\<close>, take the identifier of the stream. The locale \<open>stream_set\<close> is the
  contract of the trait as the loop relies on it. The method \<^verbatim>\<open>update_tun\<close> exists only with
  the feature \<^verbatim>\<open>mio\<close>: it is the extension \<open>tun_streams_ops\<close> of the record, and
  \<open>tun_stream_set\<close> extends the contract.
\<close>

section \<open>Results\<close>

datatype would_block = WouldBlockYes | WouldBlockNo

datatype pending_write = PendingYes | PendingNo

definition pending_write_from :: "bool \<Rightarrow> pending_write" where
  "pending_write_from value = (if value then PendingYes else PendingNo)"

text \<open>The number of payload bytes, the offset at which they start, and the two flags.\<close>

datatype stream_result =
    StreamOk (sr_bytes_count: nat) (sr_start_offset: nat) (sr_would_block: would_block)
      (sr_pending_write: pending_write)
  | StreamErr io_error
  | StreamClosed

definition stream_ok :: "nat \<Rightarrow> would_block \<Rightarrow> pending_write \<Rightarrow> stream_result" where
  "stream_ok bytes_count wb pw = StreamOk bytes_count 0 wb pw"

record poll_result =
  pr_stream_id :: stream_id
  pr_is_readable :: bool
  pr_is_writable :: bool
  pr_is_error :: bool

text \<open>The buffer after a read of \<open>bs\<close> into it.\<close>

definition read_into :: "bytes \<Rightarrow> bytes \<Rightarrow> bytes" where
  "read_into buf bs = take (length buf) bs @ drop (length bs) buf"

section \<open>The methods\<close>

text \<open>
  \<open>so_read\<close> is given the buffer and returns what it holds afterwards. A write may loop, and
  \<open>None\<close> says that it does not come back.
\<close>

record 's streams_ops =
  so_has_stream :: "stream_id \<Rightarrow> 's \<Rightarrow> bool"
  so_read :: "stream_id \<Rightarrow> bytes \<Rightarrow> 's \<Rightarrow> stream_result \<times> bytes \<times> 's"
  so_write :: "stream_id \<Rightarrow> bytes \<Rightarrow> 's \<Rightarrow> (stream_result \<times> 's) option"
  so_write_from_buffer :: "stream_id \<Rightarrow> 's \<Rightarrow> (stream_result \<times> 's) option"
  so_set_option :: "stream_id \<Rightarrow> socket_option \<Rightarrow> 's \<Rightarrow> 's"
  so_shutdown_write :: "stream_id \<Rightarrow> 's \<Rightarrow> 's"
  so_open_new_tcp_stream :: "stream_id \<Rightarrow> socket_addr \<Rightarrow> 's \<Rightarrow> unit io_result \<times> 's"
  so_open_new_udp_stream :: "stream_id \<Rightarrow> socket_addr \<Rightarrow> 's \<Rightarrow> unit io_result \<times> 's"
  so_close_stream :: "stream_id \<Rightarrow> 's \<Rightarrow> 's"
  so_poll :: "deadline \<Rightarrow> 's \<Rightarrow> poll_result list io_result \<times> 's"
  so_set_poll_enable_wait_for_write :: "stream_id \<Rightarrow> bool \<Rightarrow> 's \<Rightarrow> 's"
  so_get_tun_interface_state :: "interface_error option \<Rightarrow> 's \<Rightarrow> interface_state"

record 's tun_streams_ops = "'s streams_ops" +
  so_update_tun :: "tun_stream_info \<Rightarrow> 's \<Rightarrow> unit io_result \<times> 's"

section \<open>Calls\<close>

text \<open>
  Sequences of calls on a set of streams, with the success of each, and the set of streams
  they should leave: the abstract specification of the trait.
\<close>

datatype streams_call =
    CallOpenTcp stream_id socket_addr
  | CallOpenUdp stream_id socket_addr
  | CallClose stream_id
  | CallPoll deadline
  | CallWaitForWrite stream_id bool
  | CallRead stream_id bytes
  | CallWrite stream_id bytes
  | CallFlush stream_id
  | CallSetOption stream_id socket_option
  | CallShutdown stream_id

datatype tun_streams_call = StreamsCall streams_call | CallUpdateTun tun_stream_info

definition succeeded :: "'x io_result \<Rightarrow> bool" where
  "succeeded r = (case r of Inl _ \<Rightarrow> False | Inr _ \<Rightarrow> True)"

fun streams_call_step ::
  "('s, 'x) streams_ops_scheme \<Rightarrow> streams_call \<Rightarrow> 's \<Rightarrow> (bool \<times> 's) option" where
  "streams_call_step ops (CallOpenTcp i a) s =
     Some (map_prod succeeded id (so_open_new_tcp_stream ops i a s))"
| "streams_call_step ops (CallOpenUdp i a) s =
     Some (map_prod succeeded id (so_open_new_udp_stream ops i a s))"
| "streams_call_step ops (CallClose i) s = Some (True, so_close_stream ops i s)"
| "streams_call_step ops (CallPoll dl) s = Some (map_prod succeeded id (so_poll ops dl s))"
| "streams_call_step ops (CallWaitForWrite i b) s =
     Some (True, so_set_poll_enable_wait_for_write ops i b s)"
| "streams_call_step ops (CallRead i buf) s = Some (True, snd (snd (so_read ops i buf s)))"
| "streams_call_step ops (CallWrite i d) s = map_option (map_prod (\<lambda>_. True) id) (so_write ops i d s)"
| "streams_call_step ops (CallFlush i) s =
     map_option (map_prod (\<lambda>_. True) id) (so_write_from_buffer ops i s)"
| "streams_call_step ops (CallSetOption i opt) s = Some (True, so_set_option ops i opt s)"
| "streams_call_step ops (CallShutdown i) s = Some (True, so_shutdown_write ops i s)"

fun tun_call_step ::
  "('s, 'x) tun_streams_ops_scheme \<Rightarrow> tun_streams_call \<Rightarrow> 's \<Rightarrow> (bool \<times> 's) option" where
  "tun_call_step ops (StreamsCall c) s = streams_call_step ops c s"
| "tun_call_step ops (CallUpdateTun info) s = Some (map_prod succeeded id (so_update_tun ops info s))"

fun calls_run :: "('c \<Rightarrow> 's \<Rightarrow> (bool \<times> 's) option) \<Rightarrow> 'c list \<Rightarrow> 's \<Rightarrow> (bool list \<times> 's) option" where
  "calls_run step [] s = Some ([], s)"
| "calls_run step (c # cs) s =
     (case step c s of
        None \<Rightarrow> None
      | Some (b, s) \<Rightarrow> map_option (map_prod (Cons b) id) (calls_run step cs s))"

fun ids_after :: "streams_call \<Rightarrow> bool \<Rightarrow> stream_id set \<Rightarrow> stream_id set" where
  "ids_after (CallOpenTcp i _) b S = (if b then insert i S else S)"
| "ids_after (CallOpenUdp i _) b S = (if b then insert i S else S)"
| "ids_after (CallClose i) b S = S - {i}"
| "ids_after _ b S = S"

fun tun_ids_after :: "stream_ids \<Rightarrow> tun_streams_call \<Rightarrow> bool \<Rightarrow> stream_id set \<Rightarrow> stream_id set" where
  "tun_ids_after ids (StreamsCall c) b S = ids_after c b S"
| "tun_ids_after ids (CallUpdateTun info) b S =
     (if b \<and> info \<noteq> NoTun then insert (TUN_STREAM_ID ids) S else S - {TUN_STREAM_ID ids})"

text \<open>If every step follows the specification, so does every run.\<close>

lemma calls_run_refines:
  assumes step: "\<And>c s b s'. ok s \<Longrightarrow> step c s = Some (b, s') \<Longrightarrow> ok s' \<and> view s' = after c b (view s)"
    and "ok s" "calls_run step cs s = Some (bs, s')"
  shows "ok s' \<and> view s' = fold (\<lambda>(c, b). after c b) (zip cs bs) (view s)"
  using assms(2,3)
proof (induction cs arbitrary: s bs)
  case (Cons c cs)
  then obtain b s1 bs' where st: "step c s = Some (b, s1)"
    and rest: "calls_run step cs s1 = Some (bs', s')" "bs = b # bs'"
    by (auto split: option.splits)
  from step [OF Cons.prems(1) st] Cons.IH [OF _ rest(1)] rest(2) show ?case by simp
qed simp

section \<open>The contract\<close>

text \<open>
  What the loop may rely on: only opening, closing and updating the tun device change which
  streams exist, and they change it for the stream they are called with; polling reports on
  existing streams; the interface is up exactly while the tun stream exists. The laws hold
  for states that satisfy the implementation's own invariant \<open>ok\<close>, which every method keeps.
\<close>

locale stream_set =
  fixes ops :: "('s, 'x) streams_ops_scheme"
    and ids :: stream_ids
    and ok :: "'s \<Rightarrow> bool"
  assumes read_law: "ok s \<Longrightarrow> so_read ops i buf s = (res, buf', s') \<Longrightarrow>
        ok s' \<and> so_has_stream ops j s' = so_has_stream ops j s"
    and write_law: "ok s \<Longrightarrow> so_write ops i d s = Some (res, s') \<Longrightarrow>
        ok s' \<and> so_has_stream ops j s' = so_has_stream ops j s"
    and write_from_buffer_law: "ok s \<Longrightarrow> so_write_from_buffer ops i s = Some (res, s') \<Longrightarrow>
        ok s' \<and> so_has_stream ops j s' = so_has_stream ops j s"
    and set_option_law: "ok s \<Longrightarrow>
        ok (so_set_option ops i opt s) \<and>
        so_has_stream ops j (so_set_option ops i opt s) = so_has_stream ops j s"
    and shutdown_write_law: "ok s \<Longrightarrow>
        ok (so_shutdown_write ops i s) \<and>
        so_has_stream ops j (so_shutdown_write ops i s) = so_has_stream ops j s"
    and wait_for_write_law: "ok s \<Longrightarrow>
        ok (so_set_poll_enable_wait_for_write ops i b s) \<and>
        so_has_stream ops j (so_set_poll_enable_wait_for_write ops i b s) = so_has_stream ops j s"
    and open_tcp_law: "ok s \<Longrightarrow> so_open_new_tcp_stream ops i a s = (r, s') \<Longrightarrow>
        ok s' \<and> (so_has_stream ops j s' \<longleftrightarrow> so_has_stream ops j s \<or> r = Inr () \<and> j = i)"
    and open_udp_law: "ok s \<Longrightarrow> so_open_new_udp_stream ops i a s = (r, s') \<Longrightarrow>
        ok s' \<and> (so_has_stream ops j s' \<longleftrightarrow> so_has_stream ops j s \<or> r = Inr () \<and> j = i)"
    and close_law: "ok s \<Longrightarrow>
        ok (so_close_stream ops i s) \<and>
        (so_has_stream ops j (so_close_stream ops i s) \<longleftrightarrow> so_has_stream ops j s \<and> j \<noteq> i)"
    and poll_law: "ok s \<Longrightarrow> so_poll ops dl s = (polled, s') \<Longrightarrow>
        ok s' \<and> so_has_stream ops j s' = so_has_stream ops j s"
    and poll_known: "ok s \<Longrightarrow> so_poll ops dl s = (Inr results, s') \<Longrightarrow> p \<in> set results \<Longrightarrow>
        so_has_stream ops (pr_stream_id p) s"
    and tun_state_law: "so_get_tun_interface_state ops e s =
        (if so_has_stream ops (TUN_STREAM_ID ids) s then InterfaceUp e else InterfaceDown e)"
begin

text \<open>Every sequence of calls leaves the streams of the abstract specification.\<close>

lemma step_refines:
  assumes "ok s" "streams_call_step ops c s = Some (b, s')"
  shows "ok s' \<and> {j. so_has_stream ops j s'} = ids_after c b {j. so_has_stream ops j s}"
proof (cases c)
  case (CallOpenTcp i a)
  with assms open_tcp_law [OF assms(1), of i a] show ?thesis
    by (auto simp: succeeded_def map_prod_def split: prod.splits sum.splits)
next
  case (CallOpenUdp i a)
  with assms open_udp_law [OF assms(1), of i a] show ?thesis
    by (auto simp: succeeded_def map_prod_def split: prod.splits sum.splits)
next
  case (CallPoll dl)
  with assms poll_law [OF assms(1), of dl] show ?thesis by (cases "so_poll ops dl s") auto
next
  case (CallRead i buf)
  with assms read_law [OF assms(1), of i buf] show ?thesis by (cases "so_read ops i buf s") auto
next
  case (CallWrite i d)
  with assms write_law [OF assms(1), of i d] show ?thesis by auto
next
  case (CallFlush i)
  with assms write_from_buffer_law [OF assms(1), of i] show ?thesis by auto
qed (use assms close_law wait_for_write_law set_option_law shutdown_write_law in auto)

lemma run_refines:
  assumes "ok s" "calls_run (streams_call_step ops) cs s = Some (bs, s')"
  shows "ok s' \<and> {j. so_has_stream ops j s'} =
    fold (\<lambda>(c, b). ids_after c b) (zip cs bs) {j. so_has_stream ops j s}"
  by (rule calls_run_refines [where ok = ok and after = ids_after and step = "streams_call_step ops" and
        view = "\<lambda>s. {j. so_has_stream ops j s}", OF step_refines assms])

text \<open>Opening or closing any other stream leaves the interface as it is.\<close>

lemma interface_unaffected:
  assumes "ok s" "i \<noteq> TUN_STREAM_ID ids"
  shows "so_get_tun_interface_state ops e (so_close_stream ops i s) = so_get_tun_interface_state ops e s"
    and "so_get_tun_interface_state ops e (snd (so_open_new_tcp_stream ops i a s)) =
         so_get_tun_interface_state ops e s"
    and "so_get_tun_interface_state ops e (snd (so_open_new_udp_stream ops i a s)) =
         so_get_tun_interface_state ops e s"
  using assms close_law [OF assms(1), of i "TUN_STREAM_ID ids"]
    open_tcp_law [OF assms(1) prod.collapse [symmetric], of i a "TUN_STREAM_ID ids"]
    open_udp_law [OF assms(1) prod.collapse [symmetric], of i a "TUN_STREAM_ID ids"]
  by (simp_all add: tun_state_law)

end

text \<open>
  With the feature \<^verbatim>\<open>mio\<close>: replacing the tun device closes the old one, and registers a new
  one if there is one.
\<close>

locale tun_stream_set = stream_set ops ids ok
  for ops :: "('s, 'x) tun_streams_ops_scheme" and ids :: stream_ids and ok :: "'s \<Rightarrow> bool" +
  assumes update_tun_law: "ok s \<Longrightarrow> so_update_tun ops info s = (r, s') \<Longrightarrow>
        ok s' \<and> (so_has_stream ops j s' \<longleftrightarrow>
          (if j = TUN_STREAM_ID ids then r = Inr () \<and> info \<noteq> NoTun else so_has_stream ops j s))"
begin

lemma tun_step_refines:
  assumes "ok s" "tun_call_step ops c s = Some (b, s')"
  shows "ok s' \<and> {j. so_has_stream ops j s'} = tun_ids_after ids c b {j. so_has_stream ops j s}"
proof (cases c)
  case (StreamsCall c')
  with step_refines [OF assms(1), of c'] assms(2) show ?thesis by simp
next
  case (CallUpdateTun info)
  with assms update_tun_law [OF assms(1), of info] show ?thesis
    by (auto simp: succeeded_def map_prod_def split: prod.splits sum.splits if_splits)
qed

lemma tun_run_refines:
  assumes "ok s" "calls_run (tun_call_step ops) cs s = Some (bs, s')"
  shows "ok s' \<and> {j. so_has_stream ops j s'} =
    fold (\<lambda>(c, b). tun_ids_after ids c b) (zip cs bs) {j. so_has_stream ops j s}"
  by (rule calls_run_refines [where ok = ok and after = "tun_ids_after ids" and step = "tun_call_step ops" and
        view = "\<lambda>s. {j. so_has_stream ops j s}", OF tun_step_refines assms])

text \<open>Replacing the tun device: the interface is up exactly when a device was registered.\<close>

lemma interface_after_update_tun:
  assumes "ok s" "so_update_tun ops info s = (r, s')"
  shows "so_get_tun_interface_state ops e s' =
     (if r = Inr () \<and> info \<noteq> NoTun then InterfaceUp e else InterfaceDown e)"
  using update_tun_law [OF assms, of "TUN_STREAM_ID ids"] by (simp add: tun_state_law)

end

end
