(* ===== verification/Pvpn_Connection.thy ===== *)
theory Pvpn_Connection
  imports Sanitized_Peers Network_Recovery Local_Agent_Handler Pcap_Stream Streams
begin

text \<open>
  \<^verbatim>\<open>src/connection/pvpn_connection.rs\<close>: the thread that owns a VPN connection. Its state is the
  record \<open>conn\<close>; what it calls (the client library, the streams, the file system, the clock)
  is the record \<open>conn_env\<close> of operations over the states \<open>'c\<close>, \<open>'s\<close> and \<open>'w\<close> that \<open>conn\<close>
  carries. What it tells its owner is the list \<open>cn_outputs\<close>, in order: the calls of the state
  and event callbacks and of the persistent cache. The channel of messages is the list
  \<open>cn_inbox\<close>.

  An operation that runs a loop of unknown length, or that may panic, returns an option;
  \<open>None\<close> means that it does not come back.
\<close>

section \<open>Messages and state\<close>

datatype pvpn_message =
    Disconnect
  | ConnectivityChange connectivity_event
  | StartPacketCapture pcap_file_info
  | StopPacketCapture
  | RequestStats
  | Update config_update
  | ProvideApiForkSelector fork_selector_info
  | RequestLocalAgentStats

datatype out = StateChanged vpn_state | EventOut event | CachePut cache_key bytes

record ('c, 's, 'w) conn_env =
  ce_client :: "'c pvpn_client"
  ce_streams :: "'s tun_streams_ops"
  ce_fs :: "'w file_system"
  ce_realtime_clock :: "'w \<Rightarrow> duration \<times> 'w"
  ce_ids :: stream_ids
  ce_android :: bool

record ('c, 's, 'w) conn =
  cn_client :: 'c
  cn_streams :: 's
  cn_world :: 'w
  cn_inbox :: "pvpn_message list"
  cn_outputs :: "out list"
  cn_connection_state :: connection_state
  cn_peers :: "peer_info list"
  cn_stream_read_buffer :: bytes
  cn_should_stop :: bool
  cn_current_tun_error :: "interface_error option"
  cn_network_recovery_handler :: network_recovery_handler
  cn_pcap_stream :: "pcap_stream option"
  cn_local_agent_settings :: "local_agent_settings option"
  cn_local_agent_handler :: "local_agent_handler option"

definition STREAM_BUFFER_SIZE :: nat where
  "STREAM_BUFFER_SIZE = 65536"

definition STATS_SELECTORS :: "local_agent_selector list" where
  "STATS_SELECTORS = [SelStatsBytesSent, SelStatsBytesReceived, SelStatsNetshieldBlockCountAds,
     SelStatsNetshieldBlockCountMalicious, SelStatsNetshieldBlockCountTracking,
     SelStatsNetshieldBlockCountAdult]"

text \<open>Calls on the client and on the streams.\<close>

definition client_do :: "('c \<Rightarrow> 'c) \<Rightarrow> ('c, 's, 'w) conn \<Rightarrow> ('c, 's, 'w) conn" where
  "client_do f c = c\<lparr>cn_client := f (cn_client c)\<rparr>"

definition client_get :: "('c \<Rightarrow> 'x \<times> 'c) \<Rightarrow> ('c, 's, 'w) conn \<Rightarrow> 'x \<times> ('c, 's, 'w) conn" where
  "client_get f c = (let (x, cl) = f (cn_client c) in (x, c\<lparr>cn_client := cl\<rparr>))"

definition streams_do :: "('s \<Rightarrow> 's) \<Rightarrow> ('c, 's, 'w) conn \<Rightarrow> ('c, 's, 'w) conn" where
  "streams_do f c = c\<lparr>cn_streams := f (cn_streams c)\<rparr>"

definition streams_get :: "('s \<Rightarrow> 'x \<times> 's) \<Rightarrow> ('c, 's, 'w) conn \<Rightarrow> 'x \<times> ('c, 's, 'w) conn" where
  "streams_get f c = (let (x, st) = f (cn_streams c) in (x, c\<lparr>cn_streams := st\<rparr>))"

definition recovery_do :: "(network_recovery_handler \<Rightarrow> network_recovery_handler) \<Rightarrow>
    ('c, 's, 'w) conn \<Rightarrow> ('c, 's, 'w) conn" where
  "recovery_do f c = c\<lparr>cn_network_recovery_handler := f (cn_network_recovery_handler c)\<rparr>"

section \<open>Reporting\<close>

definition emit_event :: "event \<Rightarrow> ('c, 's, 'w) conn \<Rightarrow> ('c, 's, 'w) conn" where
  "emit_event ev c = c\<lparr>cn_outputs := cn_outputs c @ [EventOut ev]\<rparr>"

definition set_state ::
  "('c, 's, 'w) conn_env \<Rightarrow> connection_state \<Rightarrow> ('c, 's, 'w) conn \<Rightarrow> ('c, 's, 'w) conn" where
  "set_state env new_state c =
     (if new_state \<noteq> cn_connection_state c
      then let c = c\<lparr>cn_connection_state := new_state\<rparr>
           in c\<lparr>cn_outputs := cn_outputs c @
                 [StateChanged \<lparr>vs_interface_state =
                    so_get_tun_interface_state (ce_streams env) (cn_current_tun_error c) (cn_streams c),
                  vs_connection_state = cn_connection_state c\<rparr>]\<rparr>
      else c)"

definition cache_put :: "cache_key \<Rightarrow> bytes \<Rightarrow> ('c, 's, 'w) conn \<Rightarrow> ('c, 's, 'w) conn" where
  "cache_put k v c = c\<lparr>cn_outputs := cn_outputs c @ [CachePut k v]\<rparr>"

fun to_tun_error :: "stream_result \<Rightarrow> interface_error option" where
  "to_tun_error (StreamOk _ _ _ _) = None"
| "to_tun_error (StreamErr e) = Some (IoError (io_message e))"
| "to_tun_error StreamClosed = Some (IoError ''Stream closed'')"

definition network_unavailable_state :: "tunnel_info option \<Rightarrow> connection_state" where
  "network_unavailable_state info =
     (let peers = (case info of
          Some (TunnelConnected protocol peer_addr peer) \<Rightarrow> [get_peer_connection_info peer peer_addr protocol]
        | Some (TunnelConnecting protocol peer_addr peer) \<Rightarrow> [get_peer_connection_info peer peer_addr protocol]
        | _ \<Rightarrow> [])
      in Connecting peers [WaitingForNetwork])"

definition get_peer_connection_state ::
  "tunnel_info option \<Rightarrow> ('c, 's, 'w) conn \<Rightarrow> connection_state \<times> ('c, 's, 'w) conn" where
  "get_peer_connection_state info c =
     (if \<not> is_network_available (cn_network_recovery_handler c) then (network_unavailable_state info, c)
      else case info of
        Some (TunnelConnected protocol peer_addr peer) \<Rightarrow>
          let i = get_peer_connection_info peer peer_addr protocol in
          (case cn_local_agent_handler c of
             Some handler \<Rightarrow>
               let handler = on_connected_to_peer i handler
               in (handler_get_state handler i, c\<lparr>cn_local_agent_handler := Some handler\<rparr>)
           | None \<Rightarrow> (Connected i None, c))
      | Some (TunnelConnecting protocol peer_addr peer) \<Rightarrow>
          (Connecting [get_peer_connection_info peer peer_addr protocol] [], c)
      | Some TunnelDisconnected \<Rightarrow>
          (if \<not> sanitized_is_empty (cn_peers c) then Connecting [] [] else Disconnected None, c)
      | None \<Rightarrow> (Disconnected None, c))"

definition update_state :: "('c, 's, 'w) conn_env \<Rightarrow> ('c, 's, 'w) conn \<Rightarrow> ('c, 's, 'w) conn" where
  "update_state env c =
     (let (info, c) = client_get (pc_get_tunnel_info (ce_client env)) c;
          (new_state, c) = get_peer_connection_state info c;
          c = set_state env new_state c
      in case cn_connection_state c of
           Connected _ _ \<Rightarrow> recovery_do on_connected c
         | _ \<Rightarrow> c)"

section \<open>Packet capture\<close>

text \<open>Replacing or clearing the capture drops the previous stream, which is synced.\<close>

definition put_pcap ::
  "('c, 's, 'w) conn_env \<Rightarrow> pcap_stream option \<Rightarrow> ('c, 's, 'w) conn \<Rightarrow> ('c, 's, 'w) conn" where
  "put_pcap env ps c =
     c\<lparr>cn_pcap_stream := ps,
       cn_world := (case cn_pcap_stream c of
                      Some old \<Rightarrow> pcap_drop (ce_fs env) old (cn_world c)
                    | None \<Rightarrow> cn_world c)\<rparr>"

definition start_packet_capture ::
  "('c, 's, 'w) conn_env \<Rightarrow> pcap_file_info \<Rightarrow> ('c, 's, 'w) conn \<Rightarrow> ('c, 's, 'w) conn" where
  "start_packet_capture env file_info c =
     (case pcap_new (ce_fs env) file_info (cn_world c) of
        (Inr stream, w) \<Rightarrow>
          let c = put_pcap env (Some stream) (c\<lparr>cn_world := w\<rparr>);
              c = client_do (pc_set_packet_capture_enabled (ce_client env) True) c
          in emit_event (PacketCaptureStarted file_info) c
      | (Inl e, w) \<Rightarrow> c\<lparr>cn_world := w\<rparr>)"

definition stop_packet_capture ::
  "('c, 's, 'w) conn_env \<Rightarrow> (pcap_file_info \<Rightarrow> capture_stop_reason) \<Rightarrow> ('c, 's, 'w) conn \<Rightarrow> ('c, 's, 'w) conn" where
  "stop_packet_capture env reason c =
     (let c = client_do (pc_set_packet_capture_enabled (ce_client env) False) c
      in case cn_pcap_stream c of
           Some stream \<Rightarrow>
             let info = ps_file_info stream;
                 c = put_pcap env None c
             in emit_event (PacketCaptureStopped (reason info)) c
         | None \<Rightarrow> emit_event (PacketCaptureStopped AlreadyStopped) c)"

section \<open>Streams\<close>

definition handle_stream_error ::
  "('c, 's, 'w) conn_env \<Rightarrow> stream_id \<Rightarrow> io_error \<Rightarrow> ('c, 's, 'w) conn \<Rightarrow> ('c, 's, 'w) conn" where
  "handle_stream_error env i err c =
     (if i > TUN_STREAM_ID (ce_ids env)
      then let (now, c) = client_get (pc_monotonic_now (ce_client env)) c;
               c = recovery_do (on_stream_error err now) c
           in client_do (pc_push_error (ce_client env) i (io_kind err)) c
      else c)"

definition handle_stream_write_result ::
  "('c, 's, 'w) conn_env \<Rightarrow> stream_id \<Rightarrow> stream_result \<Rightarrow> ('c, 's, 'w) conn \<Rightarrow> ('c, 's, 'w) conn" where
  "handle_stream_write_result env i res c =
     (let c = (if i = TUN_STREAM_ID (ce_ids env) then c\<lparr>cn_current_tun_error := to_tun_error res\<rparr> else c)
      in case res of
           StreamOk _ _ _ pw \<Rightarrow>
             let c = streams_do (so_set_poll_enable_wait_for_write (ce_streams env) i (pw = PendingYes)) c
             in if pw = PendingNo \<and> i > TUN_STREAM_ID (ce_ids env)
                then client_do (pc_push (ce_client env) (Action i ActDone)) c else c
         | StreamErr e \<Rightarrow> handle_stream_error env i e c
         | StreamClosed \<Rightarrow> client_do (pc_push (ce_client env) (Action i ActClose)) c)"

definition handle_write ::
  "('c, 's, 'w) conn_env \<Rightarrow> stream_id \<Rightarrow> bytes \<Rightarrow> ('c, 's, 'w) conn \<Rightarrow> ('c, 's, 'w) conn option" where
  "handle_write env i data c =
     (if i = PCAP_STREAM_ID (ce_ids env) then
        (case cn_pcap_stream c of
           Some stream \<Rightarrow>
             let (stream, w) = pcap_write (ce_fs env) data (stream, cn_world c);
                 c = c\<lparr>cn_pcap_stream := Some stream, cn_world := w\<rparr>
             in Some (if ps_at_max_size stream then stop_packet_capture env MaxSizeReached c else c)
         | None \<Rightarrow> Some c)
      else if i = PRIVKEY_STREAM_ID (ce_ids env) then Some (cache_put PrivateKey data c)
      else if i = CERT_STREAM_ID (ce_ids env) then Some (cache_put Certificate data c)
      else if i = MUON_AUTH_STREAM_ID (ce_ids env) then Some (cache_put ApiSession data c)
      else if so_has_stream (ce_streams env) i (cn_streams c) then
        map_option (\<lambda>(res, st). handle_stream_write_result env i res (c\<lparr>cn_streams := st\<rparr>))
          (so_write (ce_streams env) i data (cn_streams c))
      else Some c)"

definition handle_open ::
  "('c, 's, 'w) conn_env \<Rightarrow> stream_id \<Rightarrow> open_stream \<Rightarrow> ('c, 's, 'w) conn \<Rightarrow> ('c, 's, 'w) conn" where
  "handle_open env i target c =
     (let is_udp = (os_kind target = Udp);
          (open_result, c) =
            streams_get (if is_udp then so_open_new_udp_stream (ce_streams env) i (os_addr target)
                         else so_open_new_tcp_stream (ce_streams env) i (os_addr target)) c
      in case open_result of
           Inr _ \<Rightarrow>
             let c = recovery_do on_successful_socket_open c
             in if \<not> is_udp then streams_do (so_set_poll_enable_wait_for_write (ce_streams env) i True) c
                else c
         | Inl e \<Rightarrow> handle_stream_error env i e c)"

definition handle_action ::
  "('c, 's, 'w) conn_env \<Rightarrow> action \<Rightarrow> ('c, 's, 'w) conn \<Rightarrow> ('c, 's, 'w) conn option" where
  "handle_action env action c =
     (let i = act_stream action in
      case act_kind action of
        ActOpen target first_write \<Rightarrow>
          let c = handle_open env i target c
          in (case first_write of Some data \<Rightarrow> handle_write env i data c | None \<Rightarrow> Some c)
      | ActWrite data \<Rightarrow> handle_write env i data c
      | ActSet opt \<Rightarrow>
          Some (if so_has_stream (ce_streams env) i (cn_streams c)
                then streams_do (so_set_option (ce_streams env) i opt) c else c)
      | ActClose \<Rightarrow> Some (streams_do (so_close_stream (ce_streams env) i) c)
      | ActShutdown \<Rightarrow>
          Some (if so_has_stream (ce_streams env) i (cn_streams c)
                then streams_do (so_shutdown_write (ce_streams env) i) c else c)
      | ActRead _ \<Rightarrow> Some c
      | ActError _ \<Rightarrow> Some c
      | ActDone \<Rightarrow> Some c)"

text \<open>The two loops of \<^verbatim>\<open>pull_from_client\<close>: actions, then messages of the local agent.\<close>

definition pull_actions ::
  "('c, 's, 'w) conn_env \<Rightarrow> ('c, 's, 'w) conn \<Rightarrow> ('c, 's, 'w) conn option" where
  "pull_actions env =
     while_loop (\<lambda>c. pc_need_pull (ce_client env) (cn_client c))
       (\<lambda>c. let (pulled, c) = client_get (pc_pull (ce_client env)) c
            in case pulled of Some action \<Rightarrow> handle_action env action c | None \<Rightarrow> Some c)"

definition pull_local_agent_round ::
  "('c, 's, 'w) conn_env \<Rightarrow> ('c, 's, 'w) conn \<Rightarrow> (('c, 's, 'w) conn + ('c, 's, 'w) conn) option" where
  "pull_local_agent_round env c =
     (let (pulled, c) = client_get (pc_pull_local_agent (ce_client env)) c
      in Some (case pulled of
           None \<Rightarrow> Inr c
         | Some message \<Rightarrow> Inl
             (case cn_local_agent_handler c of
                None \<Rightarrow> c
              | Some handler \<Rightarrow>
                  let (ev, handler) = handle_local_agent_message message handler;
                      c = c\<lparr>cn_local_agent_handler := Some handler\<rparr>
                  in (case ev of Some ev \<Rightarrow> emit_event ev c | None \<Rightarrow> c))))"

definition pull_from_client ::
  "('c, 's, 'w) conn_env \<Rightarrow> ('c, 's, 'w) conn \<Rightarrow> ('c, 's, 'w) conn option" where
  "pull_from_client env c =
     Option.bind (pull_actions env c) (\<lambda>c.
       case cn_local_agent_handler c of
         Some _ \<Rightarrow> iterate (pull_local_agent_round env) c
       | None \<Rightarrow> Some c)"

text \<open>
  One readable stream: what is done with the result of the read, with the streams to read
  again. The slice of the buffer panics when the result points outside of it.
\<close>

definition handle_read_result ::
  "('c, 's, 'w) conn_env \<Rightarrow> stream_id \<Rightarrow> stream_result \<Rightarrow> stream_id list \<times> ('c, 's, 'w) conn
     \<Rightarrow> (stream_id list \<times> ('c, 's, 'w) conn) option" where
  "handle_read_result env i res = (\<lambda>(next_ids, c).
     case res of
       StreamOk bytes_read start_offset wb _ \<Rightarrow>
         map_option (Pair (if wb = WouldBlockNo \<and> bytes_read > 0 then next_ids @ [i] else next_ids))
           (if bytes_read > 0 \<and> is_network_available (cn_network_recovery_handler c)
            then if start_offset + bytes_read \<le> length (cn_stream_read_buffer c)
                 then pull_from_client env
                        (client_do (pc_push (ce_client env) (Action i
                           (ActRead (take bytes_read (drop start_offset (cn_stream_read_buffer c)))))) c)
                 else None
            else Some c)
     | StreamErr e \<Rightarrow> Some (next_ids, handle_stream_error env i e c)
     | StreamClosed \<Rightarrow> Some (next_ids, client_do (pc_push (ce_client env) (Action i ActClose)) c))"

definition read_one_stream ::
  "('c, 's, 'w) conn_env \<Rightarrow> stream_id \<Rightarrow> stream_id list \<times> ('c, 's, 'w) conn
     \<Rightarrow> (stream_id list \<times> ('c, 's, 'w) conn) option" where
  "read_one_stream env i = (\<lambda>(next_ids, c).
     if so_has_stream (ce_streams env) i (cn_streams c) then
       let (res, buf, st) = so_read (ce_streams env) i (cn_stream_read_buffer c) (cn_streams c);
           c = c\<lparr>cn_stream_read_buffer := buf, cn_streams := st\<rparr>;
           c = (if i = TUN_STREAM_ID (ce_ids env) then c\<lparr>cn_current_tun_error := to_tun_error res\<rparr> else c)
       in handle_read_result env i res (next_ids, c)
     else Some (next_ids, c))"

definition read_from_streams ::
  "('c, 's, 'w) conn_env \<Rightarrow> stream_id list \<Rightarrow> ('c, 's, 'w) conn \<Rightarrow> ('c, 's, 'w) conn option" where
  "read_from_streams env stream_ids c =
     map_option snd
       (while_loop (\<lambda>(is, c). length is > 0)
          (\<lambda>(is, c). for_each (read_one_stream env) is ([], c)) (stream_ids, c))"

definition handle_poll_result ::
  "('c, 's, 'w) conn_env \<Rightarrow> poll_result \<Rightarrow> stream_id list \<times> ('c, 's, 'w) conn
     \<Rightarrow> (stream_id list \<times> ('c, 's, 'w) conn) option" where
  "handle_poll_result env res = (\<lambda>(readable, c).
     let i = pr_stream_id res;
         readable = (if pr_is_readable res then readable @ [i] else readable)
     in if pr_is_writable res \<and> so_has_stream (ce_streams env) i (cn_streams c)
        then map_option (\<lambda>(r, st). (readable, handle_stream_write_result env i r (c\<lparr>cn_streams := st\<rparr>)))
               (so_write_from_buffer (ce_streams env) i (cn_streams c))
        else Some (readable, c))"

definition handle_poll_results ::
  "('c, 's, 'w) conn_env \<Rightarrow> poll_result list \<Rightarrow> ('c, 's, 'w) conn \<Rightarrow> ('c, 's, 'w) conn option" where
  "handle_poll_results env results c =
     Option.bind (for_each (handle_poll_result env) results ([], c))
       (\<lambda>(readable, c). read_from_streams env readable c)"

definition poll_deadline ::
  "('c, 's, 'w) conn_env \<Rightarrow> ('c, 's, 'w) conn \<Rightarrow> duration option \<times> ('c, 's, 'w) conn" where
  "poll_deadline env c =
     (let pvpn_delay = pc_wakeup_deadline (ce_client env) (cn_client c);
          (network_handler_delay, c) =
            client_get (wakeup_delay (pc_monotonic_now (ce_client env)) (cn_network_recovery_handler c)) c
      in case network_handler_delay of
           Some delay \<Rightarrow> (case pvpn_delay of None \<Rightarrow> Some delay | Some d \<Rightarrow> Some (min d delay), c)
         | None \<Rightarrow> (pvpn_delay, c))"

definition poll_from_streams ::
  "('c, 's, 'w) conn_env \<Rightarrow> ('c, 's, 'w) conn \<Rightarrow> ('c, 's, 'w) conn option" where
  "poll_from_streams env c =
     (let (dl, c) = poll_deadline env c;
          (poll_results, c) = streams_get (so_poll (ce_streams env) dl) c;
          (now, c) = client_get (pc_set_current_time (ce_client env)) c;
          (notify, handler) = on_resumed (fst now) (cn_network_recovery_handler c);
          c = c\<lparr>cn_network_recovery_handler := handler\<rparr>;
          c = (if notify then client_do (pc_notify_network_change (ce_client env)) c else c)
      in case poll_results of
           Inr results \<Rightarrow> handle_poll_results env results c
         | Inl e \<Rightarrow> Some c)"

section \<open>Messages\<close>

definition on_connectivity_change ::
  "('c, 's, 'w) conn_env \<Rightarrow> connectivity_event \<Rightarrow> tunnel_info option \<Rightarrow> ('c, 's, 'w) conn \<Rightarrow> ('c, 's, 'w) conn" where
  "on_connectivity_change env ev info c =
     (let c = recovery_do (recovery_on_connectivity_change ev) c
      in if is_network_available (cn_network_recovery_handler c)
         then client_do (pc_notify_network_change (ce_client env)) c
         else set_state env (network_unavailable_state info)
                (client_do (pc_notify_network_down (ce_client env)) c))"

definition update_local_agent_settings ::
  "('c, 's, 'w) conn_env \<Rightarrow> local_agent_settings \<Rightarrow> ('c, 's, 'w) conn \<Rightarrow> ('c, 's, 'w) conn" where
  "update_local_agent_settings env new c =
     (case cn_local_agent_settings c of
        Some current \<Rightarrow>
          if current \<noteq> new
          then client_do (pc_set_settings (ce_client env) (pvpn_settings (session_settings_from new)))
                 (c\<lparr>cn_local_agent_settings := Some new\<rparr>)
          else c
      | None \<Rightarrow> c)"

definition update_peers ::
  "('c, 's, 'w) conn_env \<Rightarrow> peer_info list \<Rightarrow> ('c, 's, 'w) conn \<Rightarrow> ('c, 's, 'w) conn" where
  "update_peers env new_peers c =
     (if cn_peers c = new_peers then c
      else let
        c = fold (\<lambda>old_peer c. if \<not> sanitized_contains new_peers old_peer
              then client_do (pc_peer_remove (ce_client env) (peer_info_addr old_peer)) c else c) (cn_peers c) c;
        c = fold (\<lambda>new_peer c. if \<not> sanitized_contains (cn_peers c) new_peer
              then client_do (pc_peer_add (ce_client env) (as_peer new_peer)) c else c) new_peers c
      in c\<lparr>cn_peers := new_peers\<rparr>)"

definition update_tun ::
  "('c, 's, 'w) conn_env \<Rightarrow> tun_stream_info \<Rightarrow> ('c, 's, 'w) conn \<Rightarrow> ('c, 's, 'w) conn" where
  "update_tun env info c =
     (case streams_get (so_update_tun (ce_streams env) info) c of
        (Inl e, c) \<Rightarrow> c
      | (Inr _, c) \<Rightarrow> c\<lparr>cn_current_tun_error := None\<rparr>)"

definition apply_update ::
  "('c, 's, 'w) conn_env \<Rightarrow> config_update \<Rightarrow> ('c, 's, 'w) conn \<Rightarrow> ('c, 's, 'w) conn" where
  "apply_update env u c =
     (let c = (case cu_peers u of Some peers \<Rightarrow> update_peers env (sanitized_peers_from peers) c | None \<Rightarrow> c);
          c = (case cu_settings u of Some new \<Rightarrow> update_local_agent_settings env new c | None \<Rightarrow> c)
      in case cu_tun u of Some info \<Rightarrow> update_tun env info c | None \<Rightarrow> c)"

definition request_stats :: "('c, 's, 'w) conn_env \<Rightarrow> ('c, 's, 'w) conn \<Rightarrow> ('c, 's, 'w) conn" where
  "request_stats env c =
     (case client_get (pc_get_stats (ce_client env)) c of
        (Some stats, c) \<Rightarrow>
          let (now, w) = ce_realtime_clock env (cn_world c)
          in emit_event (event_from_tunnel_stats stats (word_of_nat (as_millis now))) (c\<lparr>cn_world := w\<rparr>)
      | (None, c) \<Rightarrow> c)"

fun handle_message :: "('c, 's, 'w) conn_env \<Rightarrow> pvpn_message \<Rightarrow> ('c, 's, 'w) conn \<Rightarrow> ('c, 's, 'w) conn" where
  "handle_message env Disconnect c = c\<lparr>cn_should_stop := True\<rparr>"
| "handle_message env (ConnectivityChange ev) c =
     (let (info, c) = client_get (pc_get_tunnel_info (ce_client env)) c
      in on_connectivity_change env ev info c)"
| "handle_message env (StartPacketCapture info) c = start_packet_capture env info c"
| "handle_message env StopPacketCapture c = stop_packet_capture env Request c"
| "handle_message env RequestStats c = request_stats env c"
| "handle_message env (Update u) c = apply_update env u c"
| "handle_message env (ProvideApiForkSelector info) c =
     client_do (pc_push_local_agent (ce_client env)
       (ProvideAuthForkSelector (fs_selector info) (muon_cookies_from (fs_cookies info)))) c"
| "handle_message env RequestLocalAgentStats c =
     fold (\<lambda>sel. client_do (pc_push_local_agent (ce_client env) (Get sel))) STATS_SELECTORS c"

text \<open>\<^verbatim>\<open>while let Ok(m) = try_recv()\<close>, left by a \<^verbatim>\<open>break\<close> after a disconnect.\<close>

fun drain_inbox ::
  "('c, 's, 'w) conn_env \<Rightarrow> pvpn_message list \<Rightarrow> ('c, 's, 'w) conn \<Rightarrow> ('c, 's, 'w) conn" where
  "drain_inbox env [] c = c\<lparr>cn_inbox := []\<rparr>"
| "drain_inbox env (m # ms) c =
     (let c = handle_message env m c
      in if m = Disconnect then c\<lparr>cn_inbox := ms\<rparr> else drain_inbox env ms c)"

definition handle_messages ::
  "('c, 's, 'w) conn_env \<Rightarrow> ('c, 's, 'w) conn \<Rightarrow> bool \<times> ('c, 's, 'w) conn" where
  "handle_messages env c =
     (let c = drain_inbox env (cn_inbox c) c in (\<not> cn_should_stop c, c))"

section \<open>Life of the thread\<close>

definition pvpn_connection_new ::
  "('c, 's, 'w) conn_env \<Rightarrow> 'c \<Rightarrow> 's \<Rightarrow> 'w \<Rightarrow> bool \<Rightarrow> peer_info list \<Rightarrow> pcap_file_info option
     \<Rightarrow> local_agent_settings option \<Rightarrow> ('c, 's, 'w) conn" where
  "pvpn_connection_new env client streams world network_available peers pcap_file_info settings =
     (let handler = (case settings of None \<Rightarrow> None | Some _ \<Rightarrow> Some local_agent_handler_new);
          c = \<lparr>cn_client = client, cn_streams = streams, cn_world = world, cn_inbox = [],
               cn_outputs = [], cn_connection_state = Disconnected None,
               cn_peers = sanitized_peers_from peers,
               cn_stream_read_buffer = replicate STREAM_BUFFER_SIZE 0, cn_should_stop = False,
               cn_current_tun_error = None,
               cn_network_recovery_handler = network_recovery_new (ce_android env) network_available,
               cn_pcap_stream = None, cn_local_agent_settings = settings,
               cn_local_agent_handler = handler\<rparr>;
          c = fold (\<lambda>p. client_do (pc_peer_add (ce_client env) (as_peer p))) (cn_peers c) c;
          c = (if \<not> is_network_available (cn_network_recovery_handler c)
               then set_state env (Connecting [] [WaitingForNetwork])
                      (client_do (pc_notify_network_down (ce_client env)) c)
               else c);
          c = (case pcap_file_info of Some info \<Rightarrow> start_packet_capture env info c | None \<Rightarrow> c)
      in case settings of
           Some s \<Rightarrow>
             client_do (pc_set_settings (ce_client env) (pvpn_settings (session_settings_from s)))
               (fold (\<lambda>sel. client_do (pc_push_local_agent (ce_client env) (Watch sel)))
                  local_agent_selectors_to_watch c)
         | None \<Rightarrow> c)"

text \<open>One round of the loop of \<^verbatim>\<open>run\<close>; \<open>Inr\<close> leaves it.\<close>

definition loop_iteration ::
  "('c, 's, 'w) conn_env \<Rightarrow> ('c, 's, 'w) conn \<Rightarrow> (('c, 's, 'w) conn + ('c, 's, 'w) conn) option" where
  "loop_iteration env c =
     (let (continue, c) = handle_messages env c
      in if \<not> continue then Some (Inr c)
         else let (_, c) = client_get (pc_set_current_time (ce_client env)) c
              in Option.bind (pull_from_client env c) (\<lambda>c.
                   map_option Inl (poll_from_streams env (update_state env c))))"

definition on_connection_loop_end :: "('c, 's, 'w) conn_env \<Rightarrow> ('c, 's, 'w) conn \<Rightarrow> ('c, 's, 'w) conn" where
  "on_connection_loop_end env c =
     (let c = (if cn_pcap_stream c \<noteq> None then stop_packet_capture env CaptureDisconnected c else c)
      in case cn_connection_state c of
           Disconnected _ \<Rightarrow> c
         | _ \<Rightarrow> set_state env (Disconnected None) c)"

definition run :: "('c, 's, 'w) conn_env \<Rightarrow> ('c, 's, 'w) conn \<Rightarrow> ('c, 's, 'w) conn option" where
  "run env c = map_option (on_connection_loop_end env) (iterate (loop_iteration env) c)"

end
