(* ===== verification/Connection_Invariants.thy ===== *)
theory Connection_Invariants
  imports Pvpn_Connection
begin

text \<open>
  The connection thread as a state machine, and its invariants. The locale \<open>conn_invariant\<close>
  names what a predicate has to satisfy to hold throughout the life of the thread: it is
  kept by each elementary update the operations are made of. The operations, the loop and
  the reachable states are treated once, inside the locale; each invariant of the
  connection is an interpretation.
\<close>

section \<open>The thread\<close>

datatype ('c, 's, 'w) thread = Running "('c, 's, 'w) conn" | Finished "('c, 's, 'w) conn"

text \<open>A message arrives, the loop runs once more, or the loop is left.\<close>

inductive thread_step :: "('c, 's, 'w) conn_env \<Rightarrow> ('c, 's, 'w) thread \<Rightarrow> ('c, 's, 'w) thread \<Rightarrow> bool"
  for env :: "('c, 's, 'w) conn_env" where
  deliver: "thread_step env (Running c) (Running (c\<lparr>cn_inbox := cn_inbox c @ [m]\<rparr>))"
| again: "loop_iteration env c = Some (Inl c') \<Longrightarrow> thread_step env (Running c) (Running c')"
| leave: "loop_iteration env c = Some (Inr c') \<Longrightarrow>
    thread_step env (Running c) (Finished (on_connection_loop_end env c'))"

inductive_cases thread_step_RunningE: "thread_step env (Running c) t"
inductive_simps thread_step_Finished [simp]: "thread_step env (Finished c) t"

fun thread_conn :: "('c, 's, 'w) thread \<Rightarrow> ('c, 's, 'w) conn" where
  "thread_conn (Running c) = c"
| "thread_conn (Finished c) = c"

abbreviation thread_reach ::
  "('c, 's, 'w) conn_env \<Rightarrow> ('c, 's, 'w) thread \<Rightarrow> ('c, 's, 'w) thread \<Rightarrow> bool" where
  "thread_reach env \<equiv> (thread_step env)\<^sup>*\<^sup>*"

section \<open>Elementary updates\<close>

definition network_up :: "('c, 's, 'w) conn \<Rightarrow> bool" where
  "network_up c = nr_available (cn_network_recovery_handler c)"

text \<open>
  The states the code may set: a connected one only while the network is up, with the
  agent's information exactly in local agent mode, and waiting for the agent only in that
  mode.
\<close>

fun proposed :: "connection_state \<Rightarrow> ('c, 's, 'w) conn \<Rightarrow> bool" where
  "proposed (Connected _ i) c \<longleftrightarrow> network_up c \<and> (i \<noteq> None \<longleftrightarrow> cn_local_agent_handler c \<noteq> None)"
| "proposed (ConnectingToLocalAgent _ _) c \<longleftrightarrow> network_up c \<and> cn_local_agent_handler c \<noteq> None"
| "proposed _ c \<longleftrightarrow> True"

locale conn_invariant =
  fixes env :: "('c, 's, 'w) conn_env"
    and I :: "('c, 's, 'w) conn \<Rightarrow> bool"
  assumes client_law: "I c \<Longrightarrow> I (c\<lparr>cn_client := cl\<rparr>)"
    and streams_law: "I c \<Longrightarrow> I (c\<lparr>cn_streams := st\<rparr>)"
    and world_law: "I c \<Longrightarrow> I (c\<lparr>cn_world := w\<rparr>)"
    and inbox_law: "I c \<Longrightarrow> I (c\<lparr>cn_inbox := ms\<rparr>)"
    and buffer_law: "I c \<Longrightarrow> I (c\<lparr>cn_stream_read_buffer := buf\<rparr>)"
    and tun_error_law: "I c \<Longrightarrow> I (c\<lparr>cn_current_tun_error := err\<rparr>)"
    and stop_law: "I c \<Longrightarrow> I (c\<lparr>cn_should_stop := True\<rparr>)"
    and event_law: "I c \<Longrightarrow> I (emit_event ev c)"
    and cache_law: "I c \<Longrightarrow> I (cache_put k v c)"
    and state_law: "I c \<Longrightarrow> proposed s c \<Longrightarrow> I (set_state env s c)"
    and recovery_law: "I c \<Longrightarrow> nr_available h = nr_available (cn_network_recovery_handler c) \<Longrightarrow>
      (recovery_inv (cn_network_recovery_handler c) \<Longrightarrow> recovery_inv h) \<Longrightarrow>
      I (c\<lparr>cn_network_recovery_handler := h\<rparr>)"
    and connectivity_law: "I c \<Longrightarrow> I (on_connectivity_change env ce info c)"
    and pcap_law: "I c \<Longrightarrow> (\<And>ps. p = Some ps \<Longrightarrow> \<not> ps_at_max_size ps) \<Longrightarrow> I (c\<lparr>cn_pcap_stream := p\<rparr>)"
    and handler_law: "I c \<Longrightarrow> cn_local_agent_handler c \<noteq> None \<Longrightarrow>
      I (c\<lparr>cn_local_agent_handler := Some lh\<rparr>)"
    and settings_law: "I c \<Longrightarrow> cn_local_agent_settings c \<noteq> None \<Longrightarrow>
      I (c\<lparr>cn_local_agent_settings := Some las\<rparr>)"
    and peers_law: "I c \<Longrightarrow> distinct (map pi_server_ip peers) \<Longrightarrow> I (c\<lparr>cn_peers := peers\<rparr>)"
begin

lemmas simple_laws = client_law streams_law world_law inbox_law buffer_law tun_error_law stop_law
  event_law cache_law

section \<open>Operations\<close>

lemma client_do_keeps: "I c \<Longrightarrow> I (client_do f c)"
  by (simp add: client_do_def client_law)

lemma client_get_keeps: "I c \<Longrightarrow> client_get f c = (x, c') \<Longrightarrow> I c'"
  by (auto simp: client_get_def client_law split: prod.splits)

lemma streams_do_keeps: "I c \<Longrightarrow> I (streams_do f c)"
  by (simp add: streams_do_def streams_law)

lemma streams_get_keeps: "I c \<Longrightarrow> streams_get f c = (x, c') \<Longrightarrow> I c'"
  by (auto simp: streams_get_def streams_law split: prod.splits)

lemma recovery_do_keeps:
  assumes "I c"
  shows "I (recovery_do on_successful_socket_open c)"
    and "I (recovery_do on_connected c)"
    and "I (recovery_do (on_stream_error err now) c)"
  using assms unfolding recovery_do_def
  by (auto intro!: recovery_law simp: recovery_eqs recovery_inv_def)

lemmas call_keeps = client_do_keeps streams_do_keeps recovery_do_keeps

lemma handle_stream_error_keeps: "I c \<Longrightarrow> I (handle_stream_error env i err c)"
  by (auto simp: handle_stream_error_def Let_def split: prod.split
      intro!: call_keeps dest: client_get_keeps)

lemma handle_stream_write_result_keeps: "I c \<Longrightarrow> I (handle_stream_write_result env i res c)"
  by (auto simp: handle_stream_write_result_def Let_def split: stream_result.split
      intro!: call_keeps simple_laws handle_stream_error_keeps)

lemma put_pcap_keeps: "I c \<Longrightarrow> (\<And>ps. p = Some ps \<Longrightarrow> \<not> ps_at_max_size ps) \<Longrightarrow> I (put_pcap env p c)"
  unfolding put_pcap_def by (rule world_law, rule pcap_law)

lemma pcap_new_not_at_max: "pcap_new fs info w = (Inr ps, w') \<Longrightarrow> \<not> ps_at_max_size ps"
  by (auto simp: pcap_new_def split: prod.splits sum.splits)

lemma start_packet_capture_keeps: "I c \<Longrightarrow> I (start_packet_capture env info c)"
  by (auto simp: start_packet_capture_def Let_def split: prod.split sum.split
      intro!: call_keeps simple_laws put_pcap_keeps dest: pcap_new_not_at_max)

lemma stop_packet_capture_keeps: "I c \<Longrightarrow> I (stop_packet_capture env reason c)"
  by (auto simp: stop_packet_capture_def Let_def split: option.split
      intro!: call_keeps simple_laws put_pcap_keeps)

text \<open>Stopping at the maximal size: the full stream is gone before anything else happens.\<close>

lemma stop_packet_capture_full:
  assumes "I c"
  shows "I (stop_packet_capture env reason (c\<lparr>cn_pcap_stream := Some ps, cn_world := w\<rparr>))"
proof -
  have eq: "put_pcap env None (client_do f (c\<lparr>cn_pcap_stream := Some ps, cn_world := w\<rparr>)) =
      (client_do f c)\<lparr>cn_pcap_stream := None, cn_world := pcap_drop (ce_fs env) ps w\<rparr>" for f
    by (simp add: put_pcap_def client_do_def)
  have "cn_pcap_stream (client_do f (c\<lparr>cn_pcap_stream := Some ps, cn_world := w\<rparr>)) = Some ps" for f
    by (simp add: client_do_def)
  then show ?thesis
    unfolding stop_packet_capture_def Let_def
    by (simp add: eq) (intro event_law world_law pcap_law call_keeps assms, simp)
qed

lemma handle_write_keeps:
  assumes "I c" "handle_write env i data c = Some c'"
  shows "I c'"
proof (cases "i = PCAP_STREAM_ID (ce_ids env)")
  case True
  show ?thesis
  proof (cases "cn_pcap_stream c")
    case None
    with assms True show ?thesis by (simp add: handle_write_def)
  next
    case (Some ps)
    obtain ps' w where w: "pcap_write (ce_fs env) data (ps, cn_world c) = (ps', w)"
      by (cases "pcap_write (ce_fs env) data (ps, cn_world c)")
    with assms True Some show ?thesis
      by (auto simp: handle_write_def Let_def intro!: stop_packet_capture_full world_law pcap_law split: if_splits)
  qed
next
  case False
  with assms show ?thesis
    by (auto simp: handle_write_def intro!: simple_laws handle_stream_write_result_keeps split: if_splits)
qed

lemma handle_open_keeps: "I c \<Longrightarrow> I (handle_open env i target c)"
  by (auto simp: handle_open_def Let_def split: prod.split sum.split
      intro!: call_keeps handle_stream_error_keeps dest: streams_get_keeps)

lemma handle_action_keeps: "I c \<Longrightarrow> handle_action env a c = Some c' \<Longrightarrow> I c'"
  by (auto simp: handle_action_def Let_def intro!: call_keeps handle_open_keeps
      dest: handle_write_keeps [rotated] split: action_kind.splits option.splits if_splits)

lemma pull_actions_keeps:
  assumes "I c" "pull_actions env c = Some c'"
  shows "I c'"
  by (rule while_loop_rule [OF assms(2) [unfolded pull_actions_def], where I = I, THEN conjunct1])
    (use assms(1) in \<open>auto dest: client_get_keeps handle_action_keeps [rotated] split: prod.splits option.splits\<close>)

lemma local_agent_message_keeps:
  "I c \<Longrightarrow> pull_local_agent_round env c = Some (Inl c') \<Longrightarrow> I c'"
  "I c \<Longrightarrow> pull_local_agent_round env c = Some (Inr c') \<Longrightarrow> I c'"
  by (auto simp: pull_local_agent_round_def Let_def intro!: simple_laws handler_law
      dest: client_get_keeps split: prod.splits option.splits)

lemma pull_from_client_keeps:
  assumes "I c" "pull_from_client env c = Some c'"
  shows "I c'"
proof -
  from assms(2) obtain c1 where c1: "pull_actions env c = Some c1"
    and rest: "(case cn_local_agent_handler c1 of Some _ \<Rightarrow> iterate (pull_local_agent_round env) c1
                | None \<Rightarrow> Some c1) = Some c'"
    by (auto simp: pull_from_client_def bind_eq_Some_conv)
  have inv: "I c1" by (rule pull_actions_keeps [OF assms(1) c1])
  show ?thesis
  proof (cases "cn_local_agent_handler c1")
    case (Some h)
    with rest have "iterate (pull_local_agent_round env) c1 = Some c'" by simp
    then show ?thesis
      by (rule iterate_rule [where I = I and Q = I]) (use inv local_agent_message_keeps in blast)+
  qed (use rest inv in simp)
qed

lemma handle_read_result_keeps:
  assumes "I c" "handle_read_result env i res (is, c) = Some (is', c')"
  shows "I c'"
  using assms
  by (auto simp: handle_read_result_def intro!: call_keeps handle_stream_error_keeps
      dest: pull_from_client_keeps [OF client_do_keeps, rotated] split: stream_result.splits if_splits)

lemma read_one_stream_keeps:
  assumes "I c" "read_one_stream env i (is, c) = Some (is', c')"
  shows "I c'"
proof (cases "so_has_stream (ce_streams env) i (cn_streams c)")
  case True
  obtain res buf st where rd: "so_read (ce_streams env) i (cn_stream_read_buffer c) (cn_streams c) = (res, buf, st)"
    by (cases "so_read (ce_streams env) i (cn_stream_read_buffer c) (cn_streams c)") auto
  define c1 where "c1 = c\<lparr>cn_stream_read_buffer := buf, cn_streams := st\<rparr>"
  have c1: "I c1" "I (c1\<lparr>cn_current_tun_error := to_tun_error res\<rparr>)"
    using assms(1) by (simp_all add: c1_def simple_laws)
  have "read_one_stream env i (is, c) = handle_read_result env i res
     (is, if i = TUN_STREAM_ID (ce_ids env) then c1\<lparr>cn_current_tun_error := to_tun_error res\<rparr> else c1)"
    by (simp add: read_one_stream_def c1_def True rd Let_def)
  with assms(2) c1 show ?thesis by (auto dest: handle_read_result_keeps [rotated] split: if_splits)
next
  case False
  with assms show ?thesis by (simp add: read_one_stream_def)
qed

lemma read_from_streams_keeps:
  assumes "I c" "read_from_streams env is c = Some c'"
  shows "I c'"
proof -
  from assms(2) obtain is' where loop: "while_loop (\<lambda>(is, c). length is > 0)
      (\<lambda>(is, c). for_each (read_one_stream env) is ([], c)) (is, c) = Some (is', c')"
    by (auto simp: read_from_streams_def)
  have "(\<lambda>(is, c). I c) (is', c')"
  proof (rule while_loop_rule [OF loop, where I = "\<lambda>(is, c). I c", THEN conjunct1])
    fix s s' assume inv: "(\<lambda>(is, c). I c) s"
      and run: "(\<lambda>(is, c). for_each (read_one_stream env) is ([], c)) s = Some s'"
    obtain js d where s: "s = (js, d)" by (cases s)
    have "for_each (read_one_stream env) js ([], d) = Some s'" using run by (simp add: s)
    then show "(\<lambda>(is, c). I c) s'"
      by (rule for_each_rule [where I = "\<lambda>(is, c). I c"])
        (use inv read_one_stream_keeps in \<open>auto simp: s\<close>)
  qed (use assms(1) in simp)
  then show ?thesis by simp
qed

lemma handle_poll_results_keeps:
  assumes "I c" "handle_poll_results env results c = Some c'"
  shows "I c'"
proof -
  from assms(2) obtain js d where d: "for_each (handle_poll_result env) results ([], c) = Some (js, d)"
    and rest: "read_from_streams env js d = Some c'"
    by (auto simp: handle_poll_results_def bind_eq_Some_conv)
  have "(\<lambda>(is, c). I c) (js, d)"
    by (rule for_each_rule [OF d, where I = "\<lambda>(is, c). I c"])
      (use assms(1) in \<open>auto simp: handle_poll_result_def Let_def
         intro!: handle_stream_write_result_keeps simple_laws split: if_splits\<close>)
  with rest read_from_streams_keeps show ?thesis by auto
qed

lemma poll_deadline_keeps: "I c \<Longrightarrow> poll_deadline env c = (dl, c') \<Longrightarrow> I c'"
  by (auto simp: poll_deadline_def Let_def dest: client_get_keeps split: prod.splits option.splits)

lemma on_resumed_keeps:
  "I c \<Longrightarrow> I (c\<lparr>cn_network_recovery_handler := snd (on_resumed now (cn_network_recovery_handler c))\<rparr>)"
  by (rule recovery_law) (auto simp: on_resumed_def recovery_inv_def split: option.split)

lemma poll_from_streams_keeps:
  assumes "I c" "poll_from_streams env c = Some c'"
  shows "I c'"
proof -
  obtain dl c1 where c1: "poll_deadline env c = (dl, c1)" by (cases "poll_deadline env c")
  obtain r c2 where c2: "streams_get (so_poll (ce_streams env) dl) c1 = (r, c2)"
    by (cases "streams_get (so_poll (ce_streams env) dl) c1")
  obtain now c3 where c3: "client_get (pc_set_current_time (ce_client env)) c2 = (now, c3)"
    by (cases "client_get (pc_set_current_time (ce_client env)) c2")
  obtain notify h where h: "on_resumed (fst now) (cn_network_recovery_handler c3) = (notify, h)"
    by (cases "on_resumed (fst now) (cn_network_recovery_handler c3)")
  have "I c3"
    by (rule client_get_keeps [OF streams_get_keeps [OF poll_deadline_keeps [OF assms(1) c1] c2] c3])
  from on_resumed_keeps [OF this, of "fst now"]
  have keep: "I (c3\<lparr>cn_network_recovery_handler := h\<rparr>)" by (simp add: h)
  show ?thesis
    using assms(2) keep client_do_keeps [OF keep]
    by (auto simp: poll_from_streams_def Let_def c1 c2 c3 h dest: handle_poll_results_keeps [rotated]
        split: sum.splits if_splits)
qed

lemma get_peer_connection_state_keeps:
  assumes "I c" "get_peer_connection_state info c = (s, c')"
  shows "I c'" and "proposed s c'"
  using assms
  by (auto simp: get_peer_connection_state_def network_unavailable_state_def Let_def network_up_def
      handler_get_state_def is_network_available_def intro!: handler_law
      split: if_splits option.splits tunnel_info.splits)

lemma update_state_keeps: "I c \<Longrightarrow> I (update_state env c)"
  by (auto simp: update_state_def Let_def intro!: state_law call_keeps
      dest: client_get_keeps get_peer_connection_state_keeps [rotated]
      split: prod.split connection_state.split)

lemma update_local_agent_settings_keeps: "I c \<Longrightarrow> I (update_local_agent_settings env las c)"
  by (auto simp: update_local_agent_settings_def intro!: call_keeps settings_law split: option.split)

lemma update_peers_keeps:
  assumes "I c" "distinct (map pi_server_ip peers)"
  shows "I (update_peers env peers c)"
proof -
  have fold_keeps: "I (fold (\<lambda>p c. if P p c then client_do (f p) c else c) ps c)" if "I c" for P f ps c
    by (rule fold_rule [where I = I]) (use that in \<open>auto intro: call_keeps\<close>)
  show ?thesis
    using assms unfolding update_peers_def Let_def
    by (auto intro!: peers_law fold_keeps)
qed

lemma update_tun_keeps: "I c \<Longrightarrow> I (update_tun env info c)"
  by (auto simp: update_tun_def intro!: simple_laws dest: streams_get_keeps split: prod.split sum.split)

lemma apply_update_keeps: "I c \<Longrightarrow> I (apply_update env u c)"
  by (auto simp: apply_update_def Let_def distinct_ips_sanitized
      intro!: update_tun_keeps update_local_agent_settings_keeps update_peers_keeps split: option.split)

lemma request_stats_keeps: "I c \<Longrightarrow> I (request_stats env c)"
  by (auto simp: request_stats_def Let_def intro!: simple_laws dest: client_get_keeps
      split: prod.split option.split)

lemma fold_client_do_keeps: "I c \<Longrightarrow> I (fold (\<lambda>x. client_do (f x)) xs c)"
  by (rule fold_rule [where I = I]) (auto intro: call_keeps)

lemma handle_message_keeps: "I c \<Longrightarrow> I (handle_message env m c)"
  by (cases m) (auto simp: Let_def intro!: simple_laws call_keeps connectivity_law fold_client_do_keeps
      start_packet_capture_keeps stop_packet_capture_keeps request_stats_keeps apply_update_keeps
      dest: client_get_keeps split: prod.split)

lemma drain_inbox_keeps: "I c \<Longrightarrow> I (drain_inbox env ms c)"
  by (induction ms arbitrary: c) (auto simp: Let_def intro!: inbox_law stop_law handle_message_keeps)

lemma loop_iteration_keeps:
  "I c \<Longrightarrow> loop_iteration env c = Some (Inl c') \<Longrightarrow> I c'"
  "I c \<Longrightarrow> loop_iteration env c = Some (Inr c') \<Longrightarrow> I c'"
  by (auto simp: loop_iteration_def handle_messages_def Let_def bind_eq_Some_conv
      dest!: poll_from_streams_keeps [rotated] pull_from_client_keeps [rotated]
      intro: drain_inbox_keeps update_state_keeps client_get_keeps split: prod.splits if_splits)

lemma on_connection_loop_end_keeps: "I c \<Longrightarrow> I (on_connection_loop_end env c)"
  by (auto simp: on_connection_loop_end_def Let_def intro!: stop_packet_capture_keeps state_law
      split: connection_state.split)

lemma new_keeps:
  assumes "\<And>c. cn_outputs c = [] \<Longrightarrow> cn_connection_state c = Disconnected None \<Longrightarrow>
      cn_network_recovery_handler c = network_recovery_new (ce_android env) avail \<Longrightarrow>
      cn_peers c = sanitized_peers_from peers \<Longrightarrow> cn_pcap_stream c = None \<Longrightarrow>
      cn_local_agent_settings c = las \<Longrightarrow>
      cn_local_agent_handler c = map_option (\<lambda>_. local_agent_handler_new) las \<Longrightarrow> I c"
  shows "I (pvpn_connection_new env cl st w avail peers pcap las)"
  unfolding pvpn_connection_new_def Let_def
  by (auto intro!: call_keeps fold_client_do_keeps start_packet_capture_keeps state_law assms
      split: option.split)

text \<open>The invariant of a started thread holds for ever.\<close>

lemma thread_step_keeps: "thread_step env t t' \<Longrightarrow> I (thread_conn t) \<Longrightarrow> I (thread_conn t')"
  by (induction rule: thread_step.induct)
    (auto intro: inbox_law loop_iteration_keeps on_connection_loop_end_keeps)

lemma reach_keeps: "thread_reach env t t' \<Longrightarrow> I (thread_conn t) \<Longrightarrow> I (thread_conn t')"
  by (induction rule: rtranclp_induct) (auto intro: thread_step_keeps)

end

section \<open>Invariants of the connection\<close>

definition state_reports :: "out list \<Rightarrow> connection_state list" where
  "state_reports os =
     List.map_filter (\<lambda>out. case out of StateChanged v \<Rightarrow> Some (vs_connection_state v) | _ \<Rightarrow> None) os"

lemma state_reports_simps [simp]:
  "state_reports [] = []"
  "state_reports (os @ [StateChanged v]) = state_reports os @ [vs_connection_state v]"
  "state_reports (os @ [EventOut ev]) = state_reports os"
  "state_reports (os @ [CachePut k b]) = state_reports os"
  by (simp_all add: state_reports_def map_filter_def)

lemma set_state_fields [simp]:
  "cn_connection_state (set_state env s c) = s"
  "cn_network_recovery_handler (set_state env s c) = cn_network_recovery_handler c"
  "cn_local_agent_handler (set_state env s c) = cn_local_agent_handler c"
  "cn_local_agent_settings (set_state env s c) = cn_local_agent_settings c"
  "cn_pcap_stream (set_state env s c) = cn_pcap_stream c"
  "cn_peers (set_state env s c) = cn_peers c"
  "cn_inbox (set_state env s c) = cn_inbox c"
  "cn_client (set_state env s c) = cn_client c"
  "cn_streams (set_state env s c) = cn_streams c"
  by (simp_all add: set_state_def Let_def)

lemma set_state_reports:
  "state_reports (cn_outputs (set_state env s c)) =
     state_reports (cn_outputs c) @ (if s = cn_connection_state c then [] else [s])"
  by (simp add: set_state_def Let_def)

lemma emit_event_fields [simp]:
  "cn_connection_state (emit_event ev c) = cn_connection_state c"
  "cn_network_recovery_handler (emit_event ev c) = cn_network_recovery_handler c"
  "cn_local_agent_handler (emit_event ev c) = cn_local_agent_handler c"
  "cn_local_agent_settings (emit_event ev c) = cn_local_agent_settings c"
  "cn_pcap_stream (emit_event ev c) = cn_pcap_stream c"
  "cn_peers (emit_event ev c) = cn_peers c"
  "state_reports (cn_outputs (emit_event ev c)) = state_reports (cn_outputs c)"
  by (simp_all add: emit_event_def)

lemma cache_put_fields [simp]:
  "cn_connection_state (cache_put k v c) = cn_connection_state c"
  "cn_network_recovery_handler (cache_put k v c) = cn_network_recovery_handler c"
  "cn_local_agent_handler (cache_put k v c) = cn_local_agent_handler c"
  "cn_local_agent_settings (cache_put k v c) = cn_local_agent_settings c"
  "cn_pcap_stream (cache_put k v c) = cn_pcap_stream c"
  "cn_peers (cache_put k v c) = cn_peers c"
  "state_reports (cn_outputs (cache_put k v c)) = state_reports (cn_outputs c)"
  by (simp_all add: cache_put_def)

lemma network_unavailable_not_connected:
  "\<exists>peers. network_unavailable_state info = Connecting peers [WaitingForNetwork]"
  by (simp add: network_unavailable_state_def Let_def)

subsection \<open>Every change is reported once\<close>

definition reports_ok :: "('c, 's, 'w) conn \<Rightarrow> bool" where
  "reports_ok c \<longleftrightarrow>
     distinct_adj (Disconnected None # state_reports (cn_outputs c)) \<and>
     last (Disconnected None # state_reports (cn_outputs c)) = cn_connection_state c"

lemma reports_ok_set_state: "reports_ok c \<Longrightarrow> reports_ok (set_state env s c)"
  by (auto simp: reports_ok_def set_state_reports intro: distinct_adj_Cons_snoc)

interpretation reports: conn_invariant env reports_ok for env
  by unfold_locales
    (auto simp: on_connectivity_change_def Let_def intro!: reports_ok_set_state,
     auto simp: reports_ok_def recovery_do_def client_do_def)

subsection \<open>Local agent mode\<close>

fun mode_state :: "bool \<Rightarrow> connection_state \<Rightarrow> bool" where
  "mode_state agent (Connected _ i) = ((i \<noteq> None) = agent)"
| "mode_state agent (ConnectingToLocalAgent _ _) = agent"
| "mode_state agent _ = True"

definition mode_ok :: "bool \<Rightarrow> ('c, 's, 'w) conn \<Rightarrow> bool" where
  "mode_ok agent c \<longleftrightarrow>
     (cn_local_agent_handler c \<noteq> None) = agent \<and> (cn_local_agent_settings c \<noteq> None) = agent \<and>
     list_all (mode_state agent) (state_reports (cn_outputs c))"

lemma mode_ok_set_state: "mode_ok agent c \<Longrightarrow> mode_state agent s \<Longrightarrow> mode_ok agent (set_state env s c)"
  by (simp add: mode_ok_def set_state_reports)

lemma proposed_mode: "proposed s c \<Longrightarrow> mode_ok agent c \<Longrightarrow> mode_state agent s"
  by (cases s) (auto simp: mode_ok_def)

interpretation mode: conn_invariant env "mode_ok agent" for env agent
proof (unfold_locales, goal_cases)
  case (10 c s)
  show ?case by (rule mode_ok_set_state [OF 10(1) proposed_mode [OF 10(2,1)]])
next
  case (12 c ce info)
  obtain peers where "network_unavailable_state info = Connecting peers [WaitingForNetwork]"
    using network_unavailable_not_connected by blast
  then show ?case
    using 12 by (auto simp: on_connectivity_change_def Let_def intro!: mode_ok_set_state)
      (simp_all add: mode_ok_def recovery_do_def client_do_def)
qed (auto simp: mode_ok_def)

subsection \<open>Never connected without a network\<close>

fun reaches_peer :: "connection_state \<Rightarrow> bool" where
  "reaches_peer (Connected _ _) = True"
| "reaches_peer (ConnectingToLocalAgent _ _) = True"
| "reaches_peer _ = False"

definition offline_ok :: "('c, 's, 'w) conn \<Rightarrow> bool" where
  "offline_ok c \<longleftrightarrow> network_up c \<or> \<not> reaches_peer (cn_connection_state c)"

interpretation offline: conn_invariant env offline_ok for env
proof (unfold_locales, goal_cases)
  case (10 c s)
  then show ?case by (cases s) (auto simp: offline_ok_def network_up_def)
next
  case (12 c ce info)
  obtain peers where "network_unavailable_state info = Connecting peers [WaitingForNetwork]"
    using network_unavailable_not_connected by blast
  then show ?case
    by (auto simp: offline_ok_def on_connectivity_change_def Let_def network_up_def is_network_available_def
        client_do_def)
qed (simp_all add: offline_ok_def network_up_def)

subsection \<open>Resources\<close>

definition resources_ok :: "('c, 's, 'w) conn \<Rightarrow> bool" where
  "resources_ok c \<longleftrightarrow>
     recovery_inv (cn_network_recovery_handler c) \<and> distinct (map pi_server_ip (cn_peers c)) \<and>
     (case cn_pcap_stream c of Some ps \<Rightarrow> \<not> ps_at_max_size ps | None \<Rightarrow> True)"

interpretation resources: conn_invariant env resources_ok for env
proof (unfold_locales, goal_cases)
  case (12 c ce info)
  then show ?case
    by (auto simp: resources_ok_def on_connectivity_change_def Let_def recovery_do_def client_do_def)
next
  case (13 c p)
  then show ?case by (simp add: resources_ok_def split: option.split)
qed (simp_all add: resources_ok_def)

section \<open>Started threads\<close>

lemma new_reports_ok: "reports_ok (pvpn_connection_new env cl st w avail peers pcap las)"
  by (rule reports.new_keeps) (simp add: reports_ok_def)

lemma new_mode_ok: "mode_ok (las \<noteq> None) (pvpn_connection_new env cl st w avail peers pcap las)"
  by (rule mode.new_keeps) (auto simp: mode_ok_def)

lemma new_offline_ok: "offline_ok (pvpn_connection_new env cl st w avail peers pcap las)"
  by (rule offline.new_keeps) (simp add: offline_ok_def)

lemma new_resources_ok: "resources_ok (pvpn_connection_new env cl st w avail peers pcap las)"
  by (rule resources.new_keeps) (simp add: resources_ok_def recovery_new_inv distinct_ips_sanitized)

text \<open>A finished thread came out of the loop.\<close>

lemma reach_Finished:
  assumes "thread_reach env (Running c0) (Finished c)"
  obtains c1 c2 where "thread_reach env (Running c0) (Running c1)"
    "loop_iteration env c1 = Some (Inr c2)" "c = on_connection_loop_end env c2"
  using assms
proof (cases rule: rtranclp.cases)
  case (rtrancl_into_rtrancl b)
  then obtain c1 where b: "b = Running c1" by (cases b) auto
  from rtrancl_into_rtrancl(2) [unfolded b] obtain c2 where
    "loop_iteration env c1 = Some (Inr c2)" "c = on_connection_loop_end env c2"
    by (auto elim: thread_step_RunningE)
  with rtrancl_into_rtrancl(1) [unfolded b] that show thesis by blast
qed

lemma loop_end_state:
  "cn_pcap_stream (on_connection_loop_end env c) = None"
  "\<exists>r. cn_connection_state (on_connection_loop_end env c) = Disconnected r"
  by (auto simp: on_connection_loop_end_def stop_packet_capture_def put_pcap_def emit_event_def
      client_do_def Let_def split: connection_state.split option.split)

section \<open>Draining the inbox\<close>

lemma drain_until_disconnect:
  assumes "Disconnect \<notin> set ms"
  shows "drain_inbox env (ms @ Disconnect # rest) c =
    (fold (handle_message env) ms c)\<lparr>cn_should_stop := True, cn_inbox := rest\<rparr>"
  using assms by (induction ms arbitrary: c) (auto simp: Let_def)

end
