(* ===== verification/Write_Queue.thy ===== *)
theory Write_Queue
  imports Streams
begin

text \<open>
  The write buffers of the TCP streams (\<^verbatim>\<open>src/connection/mio/tcp.rs\<close> and
  \<^verbatim>\<open>src/connection/windows/tcp.rs\<close>) run the same loop: take the first buffer, write it, put
  back what was not taken. They differ in what they do with an error. The locale
  \<open>write_queue\<close> states what a round of the loop does and derives that no byte is lost,
  repeated or reordered and that the loop comes back; both streams are interpretations.
\<close>

section \<open>What a write does to the device\<close>

text \<open>
  The documented behaviour of \<^verbatim>\<open>Write::write\<close>: a successful write takes a prefix of the data,
  a failed one takes nothing. \<open>sent\<close> is what the device has taken so far.
\<close>

definition write_contract :: "(bytes \<Rightarrow> 'w \<Rightarrow> nat io_result \<times> 'w) \<Rightarrow> ('w \<Rightarrow> bytes) \<Rightarrow> bool" where
  "write_contract wr sent \<longleftrightarrow>
     (\<forall>d w. case wr d w of
              (Inr n, w') \<Rightarrow> n \<le> length d \<and> sent w' = sent w @ take n d
            | (Inl e, w') \<Rightarrow> sent w' = sent w)"

text \<open>A device that never takes zero bytes of a non-empty write without an error.\<close>

definition write_progress :: "(bytes \<Rightarrow> 'w \<Rightarrow> nat io_result \<times> 'w) \<Rightarrow> bool" where
  "write_progress wr \<longleftrightarrow> (\<forall>d w. d \<noteq> [] \<longrightarrow> fst (wr d w) \<noteq> Inr 0)"

lemma write_contractD:
  assumes "write_contract wr sent"
  shows "wr d w = (Inr n, w') \<Longrightarrow> n \<le> length d"
    and "wr d w = (Inr n, w') \<Longrightarrow> sent w' = sent w @ take n d"
    and "wr d w = (Inl e, w') \<Longrightarrow> sent w' = sent w"
  using assms unfolding write_contract_def by (force split: prod.splits sum.splits)+

lemma write_progressD:
  "write_progress wr \<Longrightarrow> wr d w = (Inr n, w') \<Longrightarrow> d \<noteq> [] \<Longrightarrow> 0 < n"
  unfolding write_progress_def by (metis fst_conv gr0I)

text \<open>All bytes a connection was given and still has: those the device took and those waiting.\<close>

definition queue_flow :: "('w \<Rightarrow> bytes) \<Rightarrow> bytes list \<Rightarrow> 'w \<Rightarrow> bytes" where
  "queue_flow sent buffer w = sent w @ concat buffer"

section \<open>The loop\<close>

locale write_queue =
  fixes wr :: "bytes \<Rightarrow> 'w \<Rightarrow> nat io_result \<times> 'w"
    and round :: "nat \<times> bytes list \<times> 'w \<Rightarrow> ((nat \<times> bytes list \<times> 'w) + ('r \<times> bytes list \<times> 'w)) option"
    and finished :: "nat \<Rightarrow> 'r"
    and failed :: "nat \<Rightarrow> io_error \<Rightarrow> 'r"
  assumes round_empty: "round (n, [], w) = Some (Inr (finished n, [], w))"
    and round_taken: "wr d w = (Inr c, w') \<Longrightarrow>
      round (n, d # rest, w) = Some (Inl (n + c, if c < length d then drop c d # rest else rest, w'))"
    and round_failed: "wr d w = (Inl e, w') \<Longrightarrow> round (n, d # rest, w) = Some (Inr (failed n e, d # rest, w'))"
begin

lemma round_flow:
  assumes "write_contract wr sent" and "round (n, buffer, w) = Some (Inl (n', buffer', w'))"
  shows "queue_flow sent buffer' w' = queue_flow sent buffer w \<and> length (sent w') + n = length (sent w) + n'"
proof -
  obtain d rest where b: "buffer = d # rest" using assms(2) by (cases buffer) (auto simp: round_empty)
  obtain r v where sw: "wr d w = (r, v)" by (cases "wr d w")
  with assms(2) b obtain c where c: "r = Inr c" by (cases r) (auto simp: round_failed)
  note C = write_contractD(1,2) [OF assms(1) sw [unfolded c]]
  have "n' = n + c" "w' = v" "buffer' = (if c < length d then drop c d # rest else rest)"
    using assms(2) round_taken [OF sw [unfolded c], of n rest] b by auto
  then show ?thesis using C b by (auto simp: queue_flow_def)
qed

lemma round_done:
  assumes "write_contract wr sent" and "round (n, buffer, w) = Some (Inr (r, buffer', w'))"
  shows "buffer' = buffer \<and> sent w' = sent w \<and>
     (r = finished n \<and> buffer = [] \<or> (\<exists>e. r = failed n e \<and> buffer \<noteq> []))"
proof (cases buffer)
  case (Cons d rest)
  obtain q v where sw: "wr d w = (q, v)" by (cases "wr d w")
  with assms(2) Cons obtain e where e: "q = Inl e" by (cases q) (auto simp: round_taken)
  with assms(2) Cons round_failed [OF sw [unfolded e], of n rest] write_contractD(3) [OF assms(1) sw [unfolded e]]
  show ?thesis by auto
qed (use assms(2) in \<open>auto simp: round_empty\<close>)

text \<open>A run of the loop keeps the flow, counts the bytes and empties the buffer or fails.\<close>

lemma flush_correct:
  assumes C: "write_contract wr sent" and run: "iterate round (0, buffer, w) = Some (r, buffer', w')"
  shows "queue_flow sent buffer' w' = queue_flow sent buffer w \<and>
     (\<exists>n. length (sent w') = length (sent w) + n \<and>
       (r = finished n \<and> buffer' = [] \<or> (\<exists>e. r = failed n e \<and> buffer' \<noteq> [])))"
proof -
  let ?I = "\<lambda>(n, b, v). queue_flow sent b v = queue_flow sent buffer w \<and> length (sent v) = length (sent w) + n"
  let ?Q = "\<lambda>(r, b, v). queue_flow sent b v = queue_flow sent buffer w \<and>
      (\<exists>n. length (sent v) = length (sent w) + n \<and>
       (r = finished n \<and> b = [] \<or> (\<exists>e. r = failed n e \<and> b \<noteq> [])))"
  have "?Q (r, buffer', w')"
  proof (rule iterate_rule [OF run, where I = ?I and Q = ?Q])
    fix s s' assume inv: "?I s" and step: "round s = Some (Inl s')"
    obtain n b v where s: "s = (n, b, v)" by (cases s) auto
    obtain n' b' v' where s': "s' = (n', b', v')" by (cases s') auto
    from round_flow [OF C step [unfolded s s']] inv show "?I s'" by (simp add: s s')
  next
    fix s q assume inv: "?I s" and step: "round s = Some (Inr q)"
    obtain n b v where s: "s = (n, b, v)" by (cases s) auto
    obtain r' b' v' where q: "q = (r', b', v')" by (cases q) auto
    from round_done [OF C step [unfolded s q]] inv show "?Q q" by (auto simp: s q queue_flow_def)
  qed simp
  then show ?thesis by simp
qed

text \<open>A device that makes progress lets the loop come back.\<close>

lemma flush_returns:
  assumes P: "write_progress wr"
  shows "\<exists>r. iterate round (n, buffer, w) = Some r"
proof (rule iterate_total [where I = "\<lambda>_. True" and m = "\<lambda>(n :: nat, buffer, v :: 'w). \<Sum>d\<leftarrow>buffer. Suc (length d)"])
  fix s :: "nat \<times> bytes list \<times> 'w"
  let ?m = "\<lambda>(n :: nat, buffer, v :: 'w). \<Sum>d\<leftarrow>buffer. Suc (length (d :: bytes))"
  obtain n buffer v where s: "s = (n, buffer, v)" by (cases s) auto
  show "(\<exists>r. round s = Some (Inr r)) \<or> (\<exists>s'. round s = Some (Inl s') \<and> True \<and> ?m s' < ?m s)"
  proof (cases buffer)
    case (Cons d rest)
    obtain q v' where sw: "wr d v = (q, v')" by (cases "wr d v")
    show ?thesis
    proof (cases q)
      case (Inl e)
      then show ?thesis using round_failed [OF sw [unfolded Inl]] by (simp add: s Cons)
    next
      case (Inr c)
      have "0 < c \<or> d = []" using write_progressD [OF P sw [unfolded Inr]] by auto
      with round_taken [OF sw [unfolded Inr], of n rest] show ?thesis by (auto simp: s Cons)
    qed
  qed (simp add: s round_empty)
qed simp

end

section \<open>Runs of writes and flushes\<close>

text \<open>
  The calls the connection makes on a TCP stream: a write puts the data at the end of the
  buffer and flushes, a flush only flushes.
\<close>

datatype tcp_op = TcpWrite bytes | TcpFlush

fun tcp_written :: "tcp_op \<Rightarrow> bytes" where
  "tcp_written (TcpWrite data) = data"
| "tcp_written TcpFlush = []"

text \<open>
  A stream \<open>'t\<close> with a buffer, whose \<open>step\<close> carries out a call on the stream and the world:
  if every call keeps the flow, adding what was written, so does every sequence of calls.
\<close>

lemma tcp_ops_flow:
  assumes returns: "\<And>op st w. P st \<Longrightarrow> \<exists>st' w'. step op (st, w) = Some (st', w')"
    and flow: "\<And>op st w st' w'. P st \<Longrightarrow> step op (st, w) = Some (st', w') \<Longrightarrow>
      P st' \<and> queue_flow sent (buf st') w' = queue_flow sent (buf st) w @ tcp_written op"
    and "P st"
  shows "\<exists>st' w'. for_each step ops (st, w) = Some (st', w') \<and> P st' \<and>
    queue_flow sent (buf st') w' = queue_flow sent (buf st) w @ concat (map tcp_written ops)"
  using \<open>P st\<close>
proof (induction ops arbitrary: st w)
  case (Cons op ops)
  from returns [OF Cons.prems] obtain st1 w1 where step: "step op (st, w) = Some (st1, w1)" by blast
  note f = flow [OF Cons.prems step]
  from Cons.IH [OF f [THEN conjunct1], of w1] step f show ?case by auto
qed simp

end
