(* ===== verification/Mio_Sockets.thy ===== *)
theory Mio_Sockets
  imports Write_Queue
begin

text \<open>
  The streams of \<^verbatim>\<open>src/connection/mio\<close>: \<^verbatim>\<open>tcp.rs\<close>, \<^verbatim>\<open>udp.rs\<close>, \<^verbatim>\<open>tun_unix.rs\<close>, \<^verbatim>\<open>tun_apple.rs\<close> and
  the sockets of \<^verbatim>\<open>socket_factory_unix.rs\<close>. The operating system and the crates \<^verbatim>\<open>mio\<close>,
  \<^verbatim>\<open>socket2\<close> and \<^verbatim>\<open>libc\<close> are the record \<open>sys\<close> of the calls the sources make, over a state \<open>'w\<close>
  of the outside world. A read gives the bytes it puts at the front of the buffer.

  Sizes are natural numbers: every \<^verbatim>\<open>usize\<close> here counts bytes of a buffer in memory.
\<close>

section \<open>The operating system\<close>

type_synonym fd = int

datatype interest = Readable | ReadableWritable

datatype sock_domain = DomainIpv4 | DomainIpv6

datatype sock_type = SockStream | SockDgram

datatype sock_protocol = ProtocolUdp

record mio_event =
  ev_token :: nat
  ev_is_readable :: bool
  ev_is_writable :: bool
  ev_is_error :: bool

record 'w sys =
  sys_read :: "fd \<Rightarrow> nat \<Rightarrow> 'w \<Rightarrow> bytes io_result \<times> 'w"
  sys_write :: "fd \<Rightarrow> bytes \<Rightarrow> 'w \<Rightarrow> nat io_result \<times> 'w"
  sys_recv :: "fd \<Rightarrow> nat \<Rightarrow> 'w \<Rightarrow> bytes io_result \<times> 'w"
  sys_send :: "fd \<Rightarrow> bytes \<Rightarrow> 'w \<Rightarrow> nat io_result \<times> 'w"
  sys_shutdown_write :: "fd \<Rightarrow> 'w \<Rightarrow> 'w"
  sys_close :: "fd \<Rightarrow> 'w \<Rightarrow> 'w"
  sys_local_addr :: "fd \<Rightarrow> 'w \<Rightarrow> socket_addr io_result"
  sys_socket :: "sock_domain \<Rightarrow> sock_type \<Rightarrow> sock_protocol option \<Rightarrow> 'w \<Rightarrow> fd io_result \<times> 'w"
  sys_set_nonblocking :: "fd \<Rightarrow> 'w \<Rightarrow> unit io_result \<times> 'w"
  sys_set_send_buffer_size :: "fd \<Rightarrow> nat \<Rightarrow> 'w \<Rightarrow> unit io_result \<times> 'w"
  sys_set_recv_buffer_size :: "fd \<Rightarrow> nat \<Rightarrow> 'w \<Rightarrow> unit io_result \<times> 'w"
  sys_on_socket_fd_available :: "(fd \<Rightarrow> 'w \<Rightarrow> 'w) option"
  sys_bind :: "fd \<Rightarrow> socket_addr \<Rightarrow> 'w \<Rightarrow> unit io_result \<times> 'w"
  sys_connect :: "fd \<Rightarrow> socket_addr \<Rightarrow> 'w \<Rightarrow> unit io_result \<times> 'w"
  sys_register :: "fd \<Rightarrow> nat \<Rightarrow> interest \<Rightarrow> 'w \<Rightarrow> unit io_result \<times> 'w"
  sys_reregister :: "fd \<Rightarrow> nat \<Rightarrow> interest \<Rightarrow> 'w \<Rightarrow> unit io_result \<times> 'w"
  sys_deregister :: "fd \<Rightarrow> 'w \<Rightarrow> unit io_result \<times> 'w"
  sys_poll :: "deadline \<Rightarrow> 'w \<Rightarrow> mio_event list io_result \<times> 'w"
  sys_EINPROGRESS :: int
  sys_AF_INET :: u8
  sys_AF_INET6 :: u8

section \<open>TCP\<close>

record tcp_socket_stream =
  tcp_sock :: fd
  tcp_write_buffer :: "bytes list"

definition tcp_new :: "fd \<Rightarrow> tcp_socket_stream" where
  "tcp_new sock = \<lparr>tcp_sock = sock, tcp_write_buffer = []\<rparr>"

definition tcp_read :: "'w sys \<Rightarrow> bytes \<Rightarrow> tcp_socket_stream \<Rightarrow> 'w \<Rightarrow> stream_result \<times> bytes \<times> tcp_socket_stream \<times> 'w" where
  "tcp_read sys buf st w =
     (let (ret, w) = sys_read sys (tcp_sock st) (length buf) w;
          pending = (if tcp_write_buffer st = [] then PendingNo else PendingYes)
      in case ret of
           Inr bs \<Rightarrow>
             if length bs = 0 then (StreamClosed, buf, st, w)
             else (stream_ok (length bs) WouldBlockNo pending, read_into buf bs, st, w)
         | Inl e \<Rightarrow>
             if io_kind e = WouldBlock then (stream_ok 0 WouldBlockYes pending, buf, st, w)
             else (StreamErr e, buf, st, w))"

text \<open>One round of the loop of \<^verbatim>\<open>write_from_buffer\<close>, over the bytes written and the buffer.\<close>

definition tcp_write_round ::
  "'w sys \<Rightarrow> fd \<Rightarrow> nat \<times> bytes list \<times> 'w \<Rightarrow> ((nat \<times> bytes list \<times> 'w) + (stream_result \<times> bytes list \<times> 'w)) option" where
  "tcp_write_round sys sock = (\<lambda>(bytes_written, buffer, w).
     case buffer of
       [] \<Rightarrow> Some (Inr (stream_ok bytes_written WouldBlockNo PendingNo, [], w))
     | data # rest \<Rightarrow>
         (case sys_write sys sock data w of
            (Inr count, w) \<Rightarrow>
              Some (Inl (bytes_written + count,
                         if count < length data then drop count data # rest else rest, w))
          | (Inl e, w) \<Rightarrow>
              Some (Inr (if io_kind e = WouldBlock then stream_ok bytes_written WouldBlockYes PendingYes
                         else StreamErr e, data # rest, w))))"

definition tcp_write_from_buffer ::
  "'w sys \<Rightarrow> tcp_socket_stream \<Rightarrow> 'w \<Rightarrow> (stream_result \<times> tcp_socket_stream \<times> 'w) option" where
  "tcp_write_from_buffer sys st w =
     map_option (\<lambda>(r, buffer, w). (r, st\<lparr>tcp_write_buffer := buffer\<rparr>, w))
       (iterate (tcp_write_round sys (tcp_sock st)) (0, tcp_write_buffer st, w))"

definition tcp_write ::
  "'w sys \<Rightarrow> bytes \<Rightarrow> tcp_socket_stream \<Rightarrow> 'w \<Rightarrow> (stream_result \<times> tcp_socket_stream \<times> 'w) option" where
  "tcp_write sys data st w =
     tcp_write_from_buffer sys (st\<lparr>tcp_write_buffer := tcp_write_buffer st @ [data]\<rparr>) w"

definition tcp_shutdown_write :: "'w sys \<Rightarrow> tcp_socket_stream \<Rightarrow> 'w \<Rightarrow> 'w" where
  "tcp_shutdown_write sys st w = sys_shutdown_write sys (tcp_sock st) w"

section \<open>UDP\<close>

record udp_socket_stream =
  udp_sock :: fd

definition udp_new :: "'w sys \<Rightarrow> fd \<Rightarrow> 'w \<Rightarrow> udp_socket_stream io_result" where
  "udp_new sys sock w =
     (case sys_local_addr sys sock w of Inl e \<Rightarrow> Inl e | Inr _ \<Rightarrow> Inr \<lparr>udp_sock = sock\<rparr>)"

definition udp_read :: "'w sys \<Rightarrow> bytes \<Rightarrow> udp_socket_stream \<Rightarrow> 'w \<Rightarrow> stream_result \<times> bytes \<times> 'w" where
  "udp_read sys buf st w =
     (case sys_recv sys (udp_sock st) (length buf) w of
        (Inr bs, w) \<Rightarrow> (stream_ok (length bs) WouldBlockNo PendingNo, read_into buf bs, w)
      | (Inl e, w) \<Rightarrow>
          if io_kind e = WouldBlock then (stream_ok 0 WouldBlockYes PendingNo, buf, w)
          else (StreamErr e, buf, w))"

definition udp_write :: "'w sys \<Rightarrow> bytes \<Rightarrow> udp_socket_stream \<Rightarrow> 'w \<Rightarrow> stream_result \<times> 'w" where
  "udp_write sys data st w =
     (case sys_send sys (udp_sock st) data w of
        (Inr n, w) \<Rightarrow> (stream_ok n WouldBlockNo PendingNo, w)
      | (Inl e, w) \<Rightarrow>
          if io_kind e = WouldBlock then (stream_ok 0 WouldBlockYes PendingNo, w)
          else (StreamErr e, w))"

definition udp_write_from_buffer :: stream_result where
  "udp_write_from_buffer = stream_ok 0 WouldBlockNo PendingNo"

section \<open>The tun device on Unix\<close>

record tun_stream_unix =
  tun_file :: fd

definition tun_unix_new :: "fd \<Rightarrow> tun_stream_unix" where
  "tun_unix_new f = \<lparr>tun_file = f\<rparr>"

definition tun_unix_read :: "'w sys \<Rightarrow> bytes \<Rightarrow> tun_stream_unix \<Rightarrow> 'w \<Rightarrow> stream_result \<times> bytes \<times> 'w" where
  "tun_unix_read sys buf st w =
     (case sys_read sys (tun_file st) (length buf) w of
        (Inr bs, w) \<Rightarrow>
          if length bs = 0
          then (StreamErr (io_error_new UnexpectedEof ''tun read: unexpected EOF''), buf, w)
          else (stream_ok (length bs) WouldBlockNo PendingNo, read_into buf bs, w)
      | (Inl e, w) \<Rightarrow>
          if io_kind e = WouldBlock then (stream_ok 0 WouldBlockYes PendingNo, buf, w)
          else (StreamErr e, buf, w))"

definition tun_unix_write_round ::
  "'w sys \<Rightarrow> fd \<Rightarrow> bytes \<Rightarrow> nat \<times> 'w \<Rightarrow> ((nat \<times> 'w) + (stream_result \<times> 'w)) option" where
  "tun_unix_write_round sys f data = (\<lambda>(bytes_written, w).
     if bytes_written < length data then
       (case sys_write sys f (drop bytes_written data) w of
          (Inr bytes_count, w) \<Rightarrow> Some (Inl (bytes_written + bytes_count, w))
        | (Inl e, w) \<Rightarrow>
            Some (Inr (if io_kind e = WouldBlock then stream_ok bytes_written WouldBlockYes PendingNo
                       else StreamErr e, w)))
     else Some (Inr (stream_ok bytes_written WouldBlockNo PendingNo, w)))"

definition tun_unix_write :: "'w sys \<Rightarrow> bytes \<Rightarrow> tun_stream_unix \<Rightarrow> 'w \<Rightarrow> (stream_result \<times> 'w) option" where
  "tun_unix_write sys data st w = iterate (tun_unix_write_round sys (tun_file st) data) (0, w)"

definition tun_write_from_buffer :: stream_result where
  "tun_write_from_buffer = stream_ok 0 WouldBlockNo PendingNo"

section \<open>The tun device on Apple systems\<close>

definition APPLE_TUN_PACKET_HEADER_LEN :: nat where
  "APPLE_TUN_PACKET_HEADER_LEN = 4"

definition address_family :: "'w sys \<Rightarrow> u8 \<Rightarrow> u8 io_result" where
  "address_family sys byte =
     (let ip_version = drop_bit 4 byte in
      if ip_version = 4 then Inr (sys_AF_INET sys)
      else if ip_version = 6 then Inr (sys_AF_INET6 sys)
      else Inl (io_error_new InvalidData (''Invalid IP version: '' @ to_decimal (unat ip_version))))"

record tun_stream_apple =
  apple_file :: fd
  apple_write_buffer :: bytes

definition tun_apple_new :: "fd \<Rightarrow> tun_stream_apple" where
  "tun_apple_new f = \<lparr>apple_file = f, apple_write_buffer = []\<rparr>"

definition tun_apple_read :: "'w sys \<Rightarrow> bytes \<Rightarrow> tun_stream_apple \<Rightarrow> 'w \<Rightarrow> stream_result \<times> bytes \<times> 'w" where
  "tun_apple_read sys buf st w =
     (case sys_read sys (apple_file st) (length buf) w of
        (Inr bs, w) \<Rightarrow>
          if length bs \<ge> APPLE_TUN_PACKET_HEADER_LEN
          then (StreamOk (length bs - APPLE_TUN_PACKET_HEADER_LEN) APPLE_TUN_PACKET_HEADER_LEN
                  WouldBlockNo PendingNo, read_into buf bs, w)
          else (StreamErr (io_error_new InvalidData
                  (''Invalid packet: expected at least '' @ to_decimal APPLE_TUN_PACKET_HEADER_LEN @
                   '' bytes, got '' @ to_decimal (length bs))), read_into buf bs, w)
      | (Inl e, w) \<Rightarrow>
          if io_kind e = WouldBlock then (stream_ok 0 WouldBlockYes PendingNo, buf, w)
          else (StreamErr e, buf, w))"

definition tun_apple_write_round ::
  "'w sys \<Rightarrow> fd \<Rightarrow> bytes \<Rightarrow> nat \<Rightarrow> nat \<times> 'w \<Rightarrow> ((nat \<times> 'w) + (stream_result \<times> 'w)) option" where
  "tun_apple_write_round sys f buffer data_len = (\<lambda>(bytes_written, w).
     if bytes_written < length buffer then
       (case sys_write sys f (drop bytes_written buffer) w of
          (Inr bytes_count, w) \<Rightarrow>
            if bytes_count = 0
            then Some (Inr (StreamErr (io_error_new WriteZero ''Failed to write packet to TUN device''), w))
            else Some (Inl (bytes_written + bytes_count, w))
        | (Inl e, w) \<Rightarrow>
            Some (Inr
              (if io_kind e = WouldBlock then
                 if bytes_written \<ge> APPLE_TUN_PACKET_HEADER_LEN
                 then stream_ok (bytes_written - APPLE_TUN_PACKET_HEADER_LEN) WouldBlockYes PendingNo
                 else StreamErr (io_error_new OtherKind
                   (''Partial header write ('' @ to_decimal bytes_written @ '' bytes) before would-block''))
               else StreamErr e, w)))
     else Some (Inr (stream_ok data_len WouldBlockNo PendingNo, w)))"

definition tun_apple_write ::
  "'w sys \<Rightarrow> bytes \<Rightarrow> tun_stream_apple \<Rightarrow> 'w \<Rightarrow> (stream_result \<times> tun_stream_apple \<times> 'w) option" where
  "tun_apple_write sys data st w =
     (case (case data of
              [] \<Rightarrow> Inl (io_error_new InvalidData ''Empty packet'')
            | byte # _ \<Rightarrow> address_family sys byte) of
        Inl e \<Rightarrow> Some (StreamErr e, st, w)
      | Inr af \<Rightarrow>
          let st = st\<lparr>apple_write_buffer := [0, 0, 0, af] @ data\<rparr>
          in map_option (\<lambda>(r, w). (r, st, w))
               (iterate (tun_apple_write_round sys (apple_file st) (apple_write_buffer st) (length data)) (0, w)))"

section \<open>Opening sockets (\<^verbatim>\<open>socket_factory_unix.rs\<close>)\<close>

definition UDP_SEND_BUFFER_SIZE :: nat where "UDP_SEND_BUFFER_SIZE = 3 * 1024 * 1024"
definition UDP_RECV_BUFFER_SIZE :: nat where "UDP_RECV_BUFFER_SIZE = 512 * 1024"
definition TCP_SEND_BUFFER_SIZE :: nat where "TCP_SEND_BUFFER_SIZE = 512 * 1024"
definition TCP_RECV_BUFFER_SIZE :: nat where "TCP_RECV_BUFFER_SIZE = 512 * 1024"

definition domain_for_address :: "socket_addr \<Rightarrow> sock_domain" where
  "domain_for_address addr = (case sa_ip addr of V4 _ \<Rightarrow> DomainIpv4 | V6 _ \<Rightarrow> DomainIpv6)"

text \<open>\<^verbatim>\<open>?\<close> while the socket is owned: leaving early drops it, which closes it.\<close>

definition or_close :: "'w sys \<Rightarrow> fd \<Rightarrow> unit io_result \<times> 'w \<Rightarrow> ('w \<Rightarrow> 'x io_result \<times> 'w) \<Rightarrow> 'x io_result \<times> 'w" where
  "or_close sys sock rw k =
     (case rw of (Inl e, w) \<Rightarrow> (Inl e, sys_close sys sock w) | (Inr _, w) \<Rightarrow> k w)"

definition fd_available :: "'w sys \<Rightarrow> fd \<Rightarrow> 'w \<Rightarrow> 'w" where
  "fd_available sys sock w =
     (case sys_on_socket_fd_available sys of Some callback \<Rightarrow> callback sock w | None \<Rightarrow> w)"

definition new_tcp_socket :: "'w sys \<Rightarrow> socket_addr \<Rightarrow> 'w \<Rightarrow> tcp_socket_stream io_result \<times> 'w" where
  "new_tcp_socket sys addr w =
     (case sys_socket sys (domain_for_address addr) SockStream None w of
        (Inl e, w) \<Rightarrow> (Inl e, w)
      | (Inr sock, w) \<Rightarrow>
          or_close sys sock (sys_set_nonblocking sys sock w) (\<lambda>w.
          or_close sys sock (sys_set_send_buffer_size sys sock TCP_SEND_BUFFER_SIZE w) (\<lambda>w.
          or_close sys sock (sys_set_recv_buffer_size sys sock TCP_RECV_BUFFER_SIZE w) (\<lambda>w.
          let w = fd_available sys sock w;
              (connect_res, w) = sys_connect sys sock addr w
          in case connect_res of
               Inl e \<Rightarrow>
                 if io_raw_os_error e = Some (sys_EINPROGRESS sys) then (Inr (tcp_new sock), w)
                 else (Inl e, sys_close sys sock w)
             | Inr _ \<Rightarrow> (Inr (tcp_new sock), w)))))"

definition udp_bind_addr :: "socket_addr \<Rightarrow> socket_addr" where
  "udp_bind_addr addr =
     (case sa_ip addr of
        V4 _ \<Rightarrow> \<lparr>sa_ip = V4 (Ipv4Addr 0 0 0 0), sa_port = 0\<rparr>
      | V6 _ \<Rightarrow> \<lparr>sa_ip = V6 (Ipv6Addr 0 0 0 0 0 0 0 0), sa_port = 0\<rparr>)"

definition new_udp_socket :: "'w sys \<Rightarrow> socket_addr \<Rightarrow> 'w \<Rightarrow> udp_socket_stream io_result \<times> 'w" where
  "new_udp_socket sys addr w =
     (case sys_socket sys (domain_for_address addr) SockDgram (Some ProtocolUdp) w of
        (Inl e, w) \<Rightarrow> (Inl e, w)
      | (Inr sock, w) \<Rightarrow>
          or_close sys sock (sys_set_send_buffer_size sys sock UDP_SEND_BUFFER_SIZE w) (\<lambda>w.
          or_close sys sock (sys_set_recv_buffer_size sys sock UDP_RECV_BUFFER_SIZE w) (\<lambda>w.
          let w = fd_available sys sock w in
          or_close sys sock (sys_bind sys sock (udp_bind_addr addr) w) (\<lambda>w.
          or_close sys sock (sys_set_nonblocking sys sock w) (\<lambda>w.
          or_close sys sock (sys_connect sys sock addr w) (\<lambda>w.
          case udp_new sys sock w of
            Inl e \<Rightarrow> (Inl e, sys_close sys sock w)
          | Inr st \<Rightarrow> (Inr st, w)))))))"

section \<open>The TCP write buffer is a FIFO\<close>

definition tcp_failed :: "nat \<Rightarrow> io_error \<Rightarrow> stream_result" where
  "tcp_failed n e = (if io_kind e = WouldBlock then stream_ok n WouldBlockYes PendingYes else StreamErr e)"

interpretation tcp_queue: write_queue "sys_write sys sock" "tcp_write_round sys sock"
  "\<lambda>n. stream_ok n WouldBlockNo PendingNo" tcp_failed for sys :: "'w sys" and sock
  by unfold_locales (simp_all add: tcp_write_round_def tcp_failed_def)

lemma tcp_write_from_buffer_correct:
  assumes C: "write_contract (sys_write sys (tcp_sock st)) sent"
    and run: "tcp_write_from_buffer sys st w = Some (r, st', w')"
  shows "tcp_sock st' = tcp_sock st \<and>
     queue_flow sent (tcp_write_buffer st') w' = queue_flow sent (tcp_write_buffer st) w \<and>
     (\<exists>n. length (sent w') = length (sent w) + n \<and>
       (r = stream_ok n WouldBlockNo PendingNo \<and> tcp_write_buffer st' = [] \<or>
        r = stream_ok n WouldBlockYes PendingYes \<and> tcp_write_buffer st' \<noteq> [] \<or>
        (\<exists>e. r = StreamErr e \<and> io_kind e \<noteq> WouldBlock \<and> tcp_write_buffer st' \<noteq> [])))"
proof -
  from run obtain buffer where it: "iterate (tcp_write_round sys (tcp_sock st)) (0, tcp_write_buffer st, w) =
      Some (r, buffer, w')" and st': "st' = st\<lparr>tcp_write_buffer := buffer\<rparr>"
    by (auto simp: tcp_write_from_buffer_def)
  from tcp_queue.flush_correct [OF C it] show ?thesis
    by (auto simp: st' tcp_failed_def split: if_splits)
qed

lemma tcp_write_from_buffer_returns:
  assumes "write_progress (sys_write sys (tcp_sock st))"
  shows "\<exists>r st' w'. tcp_write_from_buffer sys st w = Some (r, st', w')"
  using tcp_queue.flush_returns [OF assms, of 0 "tcp_write_buffer st" w]
  by (auto simp: tcp_write_from_buffer_def)

fun tcp_step :: "'w sys \<Rightarrow> tcp_op \<Rightarrow> tcp_socket_stream \<times> 'w \<Rightarrow> (tcp_socket_stream \<times> 'w) option" where
  "tcp_step sys (TcpWrite data) (st, w) = map_option snd (tcp_write sys data st w)"
| "tcp_step sys TcpFlush (st, w) = map_option snd (tcp_write_from_buffer sys st w)"

lemma tcp_step_flow:
  assumes "write_contract (sys_write sys (tcp_sock st)) sent"
    and "tcp_step sys op (st, w) = Some (st', w')"
  shows "tcp_sock st' = tcp_sock st \<and>
    queue_flow sent (tcp_write_buffer st') w' = queue_flow sent (tcp_write_buffer st) w @ tcp_written op"
proof (cases op)
  case (TcpWrite data)
  with assms(2) obtain r where
    "tcp_write_from_buffer sys (st\<lparr>tcp_write_buffer := tcp_write_buffer st @ [data]\<rparr>) w = Some (r, st', w')"
    by (auto simp: tcp_write_def)
  with tcp_write_from_buffer_correct [OF _ this] assms(1) TcpWrite show ?thesis
    by (simp add: queue_flow_def)
next
  case TcpFlush
  with assms tcp_write_from_buffer_correct [OF assms(1)] show ?thesis by fastforce
qed

lemma tcp_step_returns:
  assumes "write_progress (sys_write sys (tcp_sock st))"
  shows "\<exists>st' w'. tcp_step sys op (st, w) = Some (st', w')"
proof (cases op)
  case (TcpWrite data)
  with tcp_write_from_buffer_returns [of sys "st\<lparr>tcp_write_buffer := tcp_write_buffer st @ [data]\<rparr>" w] assms
  show ?thesis by (auto simp: tcp_write_def)
next
  case TcpFlush
  with tcp_write_from_buffer_returns [OF assms, of w] show ?thesis by auto
qed

lemma tcp_run_flow:
  assumes "write_contract (sys_write sys (tcp_sock st)) sent" and "write_progress (sys_write sys (tcp_sock st))"
  shows "\<exists>st' w'. for_each (tcp_step sys) ops (st, w) = Some (st', w') \<and> tcp_sock st' = tcp_sock st \<and>
    queue_flow sent (tcp_write_buffer st') w' =
      queue_flow sent (tcp_write_buffer st) w @ concat (map tcp_written ops)"
proof (rule tcp_ops_flow [where P = "\<lambda>st'. tcp_sock st' = tcp_sock st"])
  fix op and st1 :: tcp_socket_stream and w :: 'a assume "tcp_sock st1 = tcp_sock st"
  with assms(2) show "\<exists>st' w'. tcp_step sys op (st1, w) = Some (st', w')" by (intro tcp_step_returns) simp
next
  fix op and st1 st' :: tcp_socket_stream and w w' :: 'a
  assume same: "tcp_sock st1 = tcp_sock st" and step: "tcp_step sys op (st1, w) = Some (st', w')"
  with tcp_step_flow [OF _ step, of sent] assms(1) show "tcp_sock st' = tcp_sock st \<and>
    queue_flow sent (tcp_write_buffer st') w' = queue_flow sent (tcp_write_buffer st1) w @ tcp_written op"
    by simp
qed simp

section \<open>Writes to a tun device\<close>

lemma tun_unix_write_round_cases:
  assumes "write_contract (sys_write sys f) sent"
    and inv: "n \<le> length data" "sent w = base @ take n data"
  shows "tun_unix_write_round sys f data (n, w) = Some (Inl (n', w')) \<Longrightarrow>
      n' \<le> length data \<and> sent w' = base @ take n' data \<and> n \<le> n'"
    and "tun_unix_write_round sys f data (n, w) = Some (Inr (r, w')) \<Longrightarrow>
      sent w' = base @ take n data \<and>
      (r = stream_ok n WouldBlockNo PendingNo \<and> n = length data \<or>
       r = stream_ok n WouldBlockYes PendingNo \<and> n < length data \<or>
       (\<exists>e. r = StreamErr e \<and> n < length data))"
proof -
  obtain q v where sw: "sys_write sys f (drop n data) w = (q, v)"
    by (cases "sys_write sys f (drop n data) w")
  {
    assume step: "tun_unix_write_round sys f data (n, w) = Some (Inl (n', w'))"
    then obtain c where c: "q = Inr c" "n' = n + c" "w' = v"
      using sw by (cases q) (auto simp: tun_unix_write_round_def split: if_splits)
    note C = write_contractD(1,2) [OF assms(1) sw [unfolded c(1)]]
    have "take n data @ take c (drop n data) = take n' data" by (simp add: c(2) take_add)
    with C c inv show "n' \<le> length data \<and> sent w' = base @ take n' data \<and> n \<le> n'" by auto
  }
  {
    assume step: "tun_unix_write_round sys f data (n, w) = Some (Inr (r, w'))"
    show "sent w' = base @ take n data \<and>
      (r = stream_ok n WouldBlockNo PendingNo \<and> n = length data \<or>
       r = stream_ok n WouldBlockYes PendingNo \<and> n < length data \<or>
       (\<exists>e. r = StreamErr e \<and> n < length data))"
    proof (cases q)
      case (Inl e)
      with step sw inv write_contractD(3) [OF assms(1) sw [unfolded Inl]] show ?thesis
        by (auto simp: tun_unix_write_round_def split: if_splits)
    next
      case (Inr c)
      with step sw inv show ?thesis by (auto simp: tun_unix_write_round_def split: if_splits)
    qed
  }
qed

lemma tun_unix_write_correct:
  assumes C: "write_contract (sys_write sys (tun_file st)) sent"
    and run: "tun_unix_write sys data st w = Some (r, w')"
  shows "\<exists>n \<le> length data. sent w' = sent w @ take n data \<and>
     (r = stream_ok n WouldBlockNo PendingNo \<and> n = length data \<or>
      r = stream_ok n WouldBlockYes PendingNo \<and> n < length data \<or>
      (\<exists>e. r = StreamErr e \<and> n < length data))"
proof -
  let ?I = "\<lambda>(n, v). n \<le> length data \<and> sent v = sent w @ take n data"
  let ?Q = "\<lambda>(r, v). \<exists>n \<le> length data. sent v = sent w @ take n data \<and>
     (r = stream_ok n WouldBlockNo PendingNo \<and> n = length data \<or>
      r = stream_ok n WouldBlockYes PendingNo \<and> n < length data \<or>
      (\<exists>e. r = StreamErr e \<and> n < length data))"
  have "?Q (r, w')"
  proof (rule iterate_rule [OF run [unfolded tun_unix_write_def], where I = ?I and Q = ?Q])
    fix s s' assume "?I s" "tun_unix_write_round sys (tun_file st) data s = Some (Inl s')"
    then show "?I s'"
      using tun_unix_write_round_cases(1) [OF C, of "fst s" data "snd s" "sent w" "fst s'" "snd s'"]
      by (cases s; cases s') auto
  next
    fix s q assume "?I s" "tun_unix_write_round sys (tun_file st) data s = Some (Inr q)"
    then show "?Q q"
      using tun_unix_write_round_cases(2) [OF C, of "fst s" data "snd s" "sent w" "fst q" "snd q"]
      by (cases s; cases q) auto
  qed simp
  then show ?thesis by simp
qed

lemma tun_unix_write_returns:
  assumes P: "write_progress (sys_write sys (tun_file st))"
  shows "\<exists>r w'. tun_unix_write sys data st w = Some (r, w')"
proof -
  have "\<exists>r. iterate (tun_unix_write_round sys (tun_file st) data) (0, w) = Some r"
  proof (rule iterate_total [where I = "\<lambda>_. True" and m = "\<lambda>(n, _). length data - n"])
    fix s :: "nat \<times> 'a"
    obtain n v where s: "s = (n, v)" by (cases s)
    obtain q v' where sw: "sys_write sys (tun_file st) (drop n data) v = (q, v')"
      by (cases "sys_write sys (tun_file st) (drop n data) v")
    show "(\<exists>r. tun_unix_write_round sys (tun_file st) data s = Some (Inr r)) \<or>
       (\<exists>s'. tun_unix_write_round sys (tun_file st) data s = Some (Inl s') \<and> True \<and>
          (case s' of (n, _) \<Rightarrow> length data - n) < (case s of (n, _) \<Rightarrow> length data - n))"
    proof (cases q)
      case (Inr c)
      have "n < length data \<Longrightarrow> 0 < c" using write_progressD [OF P sw [unfolded Inr]] by simp
      then show ?thesis by (auto simp: s sw Inr tun_unix_write_round_def)
    qed (auto simp: s sw tun_unix_write_round_def)
  qed simp
  then show ?thesis by (auto simp: tun_unix_write_def)
qed

lemma apple_round_cases:
  assumes "write_contract (sys_write sys f) sent"
    and inv: "n \<le> length buffer" "sent w = base @ take n buffer"
  shows "tun_apple_write_round sys f buffer k (n, w) = Some (Inl (n', w')) \<Longrightarrow>
      n' \<le> length buffer \<and> sent w' = base @ take n' buffer \<and> n < n'"
    and "tun_apple_write_round sys f buffer k (n, w) = Some (Inr (r, w')) \<Longrightarrow>
      r = stream_ok j WouldBlockNo PendingNo \<Longrightarrow> sent w' = base @ buffer \<and> j = k"
proof -
  obtain q v where sw: "sys_write sys f (drop n buffer) w = (q, v)"
    by (cases "sys_write sys f (drop n buffer) w")
  {
    assume step: "tun_apple_write_round sys f buffer k (n, w) = Some (Inl (n', w'))"
    then obtain c where c: "q = Inr c" "n' = n + c" "w' = v" "0 < c"
      using sw by (cases q) (auto simp: tun_apple_write_round_def split: if_splits)
    note C = write_contractD(1,2) [OF assms(1) sw [unfolded c(1)]]
    have "take n buffer @ take c (drop n buffer) = take n' buffer" by (simp add: c(2) take_add)
    with C c inv show "n' \<le> length buffer \<and> sent w' = base @ take n' buffer \<and> n < n'" by auto
  }
  {
    assume "tun_apple_write_round sys f buffer k (n, w) = Some (Inr (r, w'))"
      and "r = stream_ok j WouldBlockNo PendingNo"
    then show "sent w' = base @ buffer \<and> j = k"
      using sw inv by (cases q) (auto simp: tun_apple_write_round_def stream_ok_def split: if_splits)
  }
qed

lemma apple_write_loop:
  assumes C: "write_contract (sys_write sys f) sent"
  shows "\<exists>r w'. iterate (tun_apple_write_round sys f buffer k) (0, w) = Some (r, w') \<and>
    (\<forall>j. r = stream_ok j WouldBlockNo PendingNo \<longrightarrow> sent w' = sent w @ buffer \<and> j = k)"
proof -
  let ?I = "\<lambda>(n, v). n \<le> length buffer \<and> sent v = sent w @ take n buffer"
  have "\<exists>r. iterate (tun_apple_write_round sys f buffer k) (0, w) = Some r"
  proof (rule iterate_total [where I = ?I and m = "\<lambda>(n, _). length buffer - n"])
    fix s assume inv: "?I s"
    obtain n v where s: "s = (n, v)" by (cases s)
    have "tun_apple_write_round sys f buffer k s \<noteq> None"
      by (simp add: s tun_apple_write_round_def split: prod.split sum.split)
    then obtain x where x: "tun_apple_write_round sys f buffer k s = Some x" by auto
    show "(\<exists>r. tun_apple_write_round sys f buffer k s = Some (Inr r)) \<or>
       (\<exists>s'. tun_apple_write_round sys f buffer k s = Some (Inl s') \<and> ?I s' \<and>
          (case s' of (n, _) \<Rightarrow> length buffer - n) < (case s of (n, _) \<Rightarrow> length buffer - n))"
    proof (cases x)
      case (Inl s')
      then show ?thesis
        using x inv apple_round_cases(1) [OF C, of n buffer v "sent w" k "fst s'" "snd s'"] s
        by (cases s') auto
    qed (use x in auto)
  qed simp
  then obtain r w' where it: "iterate (tun_apple_write_round sys f buffer k) (0, w) = Some (r, w')" by auto
  have "(\<lambda>(r, w'). \<forall>j. r = stream_ok j WouldBlockNo PendingNo \<longrightarrow> sent w' = sent w @ buffer \<and> j = k) (r, w')"
  proof (rule iterate_rule [OF it, where I = ?I])
    fix s s' assume "?I s" "tun_apple_write_round sys f buffer k s = Some (Inl s')"
    then show "?I s'"
      using apple_round_cases(1) [OF C, of "fst s" buffer "snd s" "sent w" k "fst s'" "snd s'"]
      by (cases s; cases s') auto
  next
    fix s q assume "?I s" "tun_apple_write_round sys f buffer k s = Some (Inr q)"
    then show "(\<lambda>(r, w'). \<forall>j. r = stream_ok j WouldBlockNo PendingNo \<longrightarrow> sent w' = sent w @ buffer \<and> j = k) q"
      using apple_round_cases(2) [OF C, of "fst s" buffer "snd s" "sent w" k "fst q" "snd q"]
      by (cases s; cases q) auto
  qed simp
  with it show ?thesis by auto
qed

section \<open>A concrete device\<close>

text \<open>
  What has been sent and how many bytes the device still takes; with no room left a write
  would block. Reading gives a packet back.
\<close>

definition window_sys :: "(bytes \<times> nat) sys" where
  "window_sys =
     \<lparr>sys_read = (\<lambda>_ n (s, k). (Inr (take n s), ([], k))),
      sys_write = (\<lambda>_ d (s, k).
        if d \<noteq> [] \<and> k = 0 then (Inl (io_error_new WouldBlock ''full''), (s, k))
        else (Inr (min k (length d)), (s @ take k d, k - length d))),
      sys_recv = (\<lambda>_ n (s, k). (Inr (take n s), ([], k))),
      sys_send = (\<lambda>_ d (s, k). (Inr (length d), (s @ d, k))),
      sys_shutdown_write = (\<lambda>_ w. w), sys_close = (\<lambda>_ w. w),
      sys_local_addr = (\<lambda>_ _. Inr \<lparr>sa_ip = V4 (Ipv4Addr 127 0 0 1), sa_port = 1\<rparr>),
      sys_socket = (\<lambda>_ _ _ w. (Inr 7, w)), sys_set_nonblocking = (\<lambda>_ w. (Inr (), w)),
      sys_set_send_buffer_size = (\<lambda>_ _ w. (Inr (), w)), sys_set_recv_buffer_size = (\<lambda>_ _ w. (Inr (), w)),
      sys_on_socket_fd_available = None, sys_bind = (\<lambda>_ _ w. (Inr (), w)),
      sys_connect = (\<lambda>_ _ w. (Inr (), w)), sys_register = (\<lambda>_ _ _ w. (Inr (), w)),
      sys_reregister = (\<lambda>_ _ _ w. (Inr (), w)), sys_deregister = (\<lambda>_ w. (Inr (), w)),
      sys_poll = (\<lambda>_ w. (Inr [], w)), sys_EINPROGRESS = 115, sys_AF_INET = 2, sys_AF_INET6 = 30\<rparr>"

lemma window_contract: "write_contract (sys_write window_sys f) fst"
  by (auto simp: write_contract_def window_sys_def min_def split: prod.splits if_splits)

lemma window_progress: "write_progress (sys_write window_sys f)"
  by (auto simp: write_progress_def window_sys_def split: prod.splits)

section \<open>Properties\<close>

text \<open>C6: A TCP stream is a FIFO of bytes: whatever the sizes of the socket's partial writes and
  however often it would block or fail, every sequence of writes and flushes returns, and
  what the socket has taken followed by what is buffered is exactly what was there before
  followed by the data written, in order, nothing lost or repeated. The socket is assumed to
  take some byte of every non-empty write that succeeds.\<close>

theorem tcp_write_fifo:
  assumes "write_contract (sys_write sys (tcp_sock st)) sent" and "write_progress (sys_write sys (tcp_sock st))"
  shows "\<exists>st' w'. for_each (tcp_step sys) ops (st, w) = Some (st', w') \<and>
    sent w' @ concat (tcp_write_buffer st') =
      sent w @ concat (tcp_write_buffer st) @ concat (map tcp_written ops)"
  using tcp_run_flow [OF assms, of ops w] by (auto simp: queue_flow_def)

theorem tcp_write_fifo_witness:
  "\<exists>st' w'. for_each (tcp_step window_sys) [TcpWrite [1, 2, 3], TcpWrite [4], TcpFlush] (tcp_new 7, ([], 2)) =
      Some (st', w') \<and>
    fst w' @ concat (tcp_write_buffer st') = [1, 2, 3, 4]"
  using tcp_write_fifo [OF window_contract window_progress,
      where st = "tcp_new 7" and ops = "[TcpWrite [1, 2, 3], TcpWrite [4], TcpFlush]" and w = "([], 2)"]
  by (simp add: tcp_new_def)

text \<open>The result of flushing a TCP stream tells the connection exactly what it needs: no
  write is pending if and only if the buffer is empty, the count is the number of bytes the
  socket took, and after an error the unsent data is still buffered.\<close>

theorem tcp_flush_result:
  assumes "write_contract (sys_write sys (tcp_sock st)) sent"
    and "tcp_write_from_buffer sys st w = Some (r, st', w')"
  shows "case r of
     StreamOk n off wb pw \<Rightarrow> length (sent w') = length (sent w) + n \<and> off = 0 \<and>
       (pw = PendingNo \<longleftrightarrow> tcp_write_buffer st' = []) \<and> (wb = WouldBlockYes \<longleftrightarrow> pw = PendingYes)
   | StreamErr e \<Rightarrow> io_kind e \<noteq> WouldBlock \<and> tcp_write_buffer st' \<noteq> []
   | StreamClosed \<Rightarrow> False"
  using tcp_write_from_buffer_correct [OF assms] by (auto simp: stream_ok_def)

theorem tcp_flush_result_witness:
  "\<exists>r st' w'. tcp_write_from_buffer window_sys \<lparr>tcp_sock = 7, tcp_write_buffer = [[1, 2], [3]]\<rparr> ([], 2) = Some (r, st', w') \<and>
     (case r of
       StreamOk n off wb pw \<Rightarrow> length (fst w') = n \<and> off = 0 \<and>
         (pw = PendingNo \<longleftrightarrow> tcp_write_buffer st' = []) \<and> (wb = WouldBlockYes \<longleftrightarrow> pw = PendingYes)
     | StreamErr e \<Rightarrow> io_kind e \<noteq> WouldBlock \<and> tcp_write_buffer st' \<noteq> []
     | StreamClosed \<Rightarrow> False)"
proof -
  let ?st = "\<lparr>tcp_sock = 7, tcp_write_buffer = [[1, 2], [3]]\<rparr> :: tcp_socket_stream"
  obtain r st' w' where run: "tcp_write_from_buffer window_sys ?st ([], 2) = Some (r, st', w')"
    using tcp_write_from_buffer_returns [OF window_progress] by blast
  have "case r of
     StreamOk n off wb pw \<Rightarrow> length (fst w') = length (fst ([] :: bytes, 2 :: nat)) + n \<and> off = 0 \<and>
       (pw = PendingNo \<longleftrightarrow> tcp_write_buffer st' = []) \<and> (wb = WouldBlockYes \<longleftrightarrow> pw = PendingYes)
   | StreamErr e \<Rightarrow> io_kind e \<noteq> WouldBlock \<and> tcp_write_buffer st' \<noteq> []
   | StreamClosed \<Rightarrow> False"
    by (rule tcp_flush_result [OF window_contract run])
  with run show ?thesis by (intro exI conjI) (auto split: stream_result.splits)
qed

text \<open>Writing a packet to the Unix tun device returns when the device makes progress, and
  gives it a prefix of the packet: all of it unless the result says that it would block or
  failed, with the number of bytes taken as the count.\<close>

theorem tun_unix_write_prefix:
  assumes "write_contract (sys_write sys (tun_file st)) sent" and "write_progress (sys_write sys (tun_file st))"
  shows "\<exists>r w' n. tun_unix_write sys data st w = Some (r, w') \<and> sent w' = sent w @ take n data \<and>
     (r = stream_ok n WouldBlockNo PendingNo \<and> n = length data \<or>
      r = stream_ok n WouldBlockYes PendingNo \<and> n < length data \<or>
      (\<exists>e. r = StreamErr e \<and> n < length data))"
  using tun_unix_write_returns [OF assms(2), of data w] tun_unix_write_correct [OF assms(1)] by blast

theorem tun_unix_write_prefix_witness:
  "\<exists>r w' n. tun_unix_write window_sys [69, 0, 1] (tun_unix_new 3) ([], 2) = Some (r, w') \<and> fst w' = take n [69, 0, 1]"
  using tun_unix_write_prefix [OF window_contract window_progress,
      where st = "tun_unix_new 3" and data = "[69, 0, 1]" and w = "([], 2)"]
  by auto

text \<open>C38: On a device that answers a write with zero bytes the Unix tun stream never comes back
  from writing a packet, whereas the Apple one reports the failure.\<close>

theorem tun_write_zero:
  assumes "\<And>d. sys_write sys f d w = (Inr 0, w)" and "address_family sys (hd data) = Inr af" and "data \<noteq> []"
  shows "tun_unix_write sys data (tun_unix_new f) w = None \<and>
         map_option fst (tun_apple_write sys data (tun_apple_new f) w) =
           Some (StreamErr (io_error_new WriteZero ''Failed to write packet to TUN device''))"
proof
  show "tun_unix_write sys data (tun_unix_new f) w = None"
    unfolding tun_unix_write_def
    by (rule iterate_diverges [where I = "\<lambda>s. s = (0, w)"])
      (use assms in \<open>auto simp: tun_unix_write_round_def tun_unix_new_def\<close>)
  obtain b d where "data = b # d" using assms(3) by (cases data) auto
  then show "map_option fst (tun_apple_write sys data (tun_apple_new f) w) =
           Some (StreamErr (io_error_new WriteZero ''Failed to write packet to TUN device''))"
    using assms(1,2)
    by (simp add: tun_apple_write_def tun_apple_new_def Let_def tun_apple_write_round_def)
qed

theorem tun_write_zero_witness:
  "tun_unix_write (window_sys\<lparr>sys_write := \<lambda>_ _ w. (Inr 0, w)\<rparr>) [69] (tun_unix_new 3) ([], 0) = None"
  by (rule tun_write_zero [where af = 2, THEN conjunct1]) (simp_all add: window_sys_def address_family_def)

text \<open>The Apple tun stream frames packets: a write always returns, and one reported as
  complete has given the device the four-byte header with the address family of the packet's
  IP version and then the whole packet, with the length of the packet as the count.\<close>

theorem tun_apple_write_framed:
  assumes "write_contract (sys_write sys (apple_file st)) sent" and "data \<noteq> []" and "address_family sys (hd data) = Inr af"
  shows "\<exists>r st' w'. tun_apple_write sys data st w = Some (r, st', w') \<and>
     (\<forall>n. r = stream_ok n WouldBlockNo PendingNo \<longrightarrow>
        sent w' = sent w @ [0, 0, 0, af] @ data \<and> n = length data)"
proof -
  obtain b d where b: "data = b # d" using assms(2) by (cases data) auto
  from apple_write_loop [OF assms(1), of "[0, 0, 0, af] @ data" "length data" w] obtain r w' where
    "iterate (tun_apple_write_round sys (apple_file st) ([0, 0, 0, af] @ data) (length data)) (0, w) = Some (r, w')"
    "\<forall>j. r = stream_ok j WouldBlockNo PendingNo \<longrightarrow> sent w' = sent w @ [0, 0, 0, af] @ data \<and> j = length data"
    by blast
  with assms(3) b show ?thesis by (simp add: tun_apple_write_def Let_def)
qed

theorem tun_apple_write_framed_witness:
  "\<exists>r st' w'. tun_apple_write window_sys [69, 0] (tun_apple_new 3) ([], 9) = Some (r, st', w') \<and>
     (\<forall>n. r = stream_ok n WouldBlockNo PendingNo \<longrightarrow> fst w' = [0, 0, 0, 2, 69, 0] \<and> n = Suc (Suc 0))"
proof -
  have "address_family window_sys (hd [69, 0]) = Inr 2"
    by (simp add: window_sys_def address_family_def)
  from tun_apple_write_framed [OF window_contract _ this, of "tun_apple_new 3" "([], 9)"]
  show ?thesis by simp
qed

text \<open>Reading such a frame back gives the packet: the count and offset in the result select
  exactly the bytes of the packet in the buffer.\<close>

theorem tun_apple_read_frame:
  assumes "sys_read sys (apple_file st) (length buf) w = (Inr ([0, 0, 0, af] @ data), w')"
    and "length data + 4 \<le> length buf"
  shows "\<exists>r buf'. tun_apple_read sys buf st w = (r, buf', w') \<and> sr_bytes_count r = length data \<and>
     take (sr_bytes_count r) (drop (sr_start_offset r) buf') = data \<and> length buf' = length buf"
  using assms by (simp add: tun_apple_read_def APPLE_TUN_PACKET_HEADER_LEN_def read_into_def)

theorem tun_apple_read_frame_witness:
  "\<exists>r buf'. tun_apple_read window_sys [0, 0, 0, 0, 0, 0, 0, 0] (tun_apple_new 3) ([0, 0, 0, 2, 69, 5], 0) = (r, buf', ([], 0)) \<and>
     take (sr_bytes_count r) (drop (sr_start_offset r) buf') = [69, 5]"
proof -
  have "sys_read window_sys (apple_file (tun_apple_new 3)) (length ([0, 0, 0, 0, 0, 0, 0, 0] :: bytes)) ([0, 0, 0, 2, 69, 5], 0) =
      (Inr ([0, 0, 0, 2] @ [69, 5]), ([], 0))"
    by (simp add: window_sys_def)
  from tun_apple_read_frame [OF this] show ?thesis by auto
qed

end
