(* ===== verification/Mio_Streams.thy ===== *)
theory Mio_Streams
  imports Mio_Sockets
begin

text \<open>
  \<^verbatim>\<open>src/connection/mio/streams.rs\<close>: the set of streams on top of mio. The registry of the poll
  and the socket factory are calls of \<open>sys\<close>; the state of the outside world is a field of the
  record, so that \<open>mio_streams\<close> is a state of the interface \<open>streams_ops\<close>, and the end of the
  theory interprets its contract. Dropping a stream closes its descriptor.
\<close>

section \<open>State\<close>

datatype mio_stream =
    MioTcp tcp_socket_stream
  | MioUdp udp_socket_stream
  | MioTunUnix tun_stream_unix
  | MioTunApple tun_stream_apple

fun source :: "mio_stream \<Rightarrow> fd" where
  "source (MioTcp st) = tcp_sock st"
| "source (MioUdp st) = udp_sock st"
| "source (MioTunUnix st) = tun_file st"
| "source (MioTunApple st) = apple_file st"

record mio_stream_info =
  mi_stream_id :: stream_id
  mi_stream :: mio_stream
  mi_token :: nat
  mi_interest :: interest

record 'w mio_streams =
  ms_streams :: "mio_stream_info list"
  ms_next_token :: nat
  ms_world :: 'w

definition POLL_WAKER_TOKEN :: nat where
  "POLL_WAKER_TOKEN = 0"

definition get_stream_by_id :: "mio_stream_info list \<Rightarrow> stream_id \<Rightarrow> mio_stream_info option" where
  "get_stream_by_id streams i = List.find (\<lambda>s. mi_stream_id s = i) streams"

definition get_stream_by_token :: "mio_stream_info list \<Rightarrow> nat \<Rightarrow> mio_stream_info option" where
  "get_stream_by_token streams t = List.find (\<lambda>s. mi_token s = t) streams"

text \<open>Writing through the reference that \<^verbatim>\<open>get_stream_by_id_mut\<close> returns.\<close>

fun update_stream_by_id :: "stream_id \<Rightarrow> (mio_stream_info \<Rightarrow> mio_stream_info) \<Rightarrow> mio_stream_info list \<Rightarrow> mio_stream_info list" where
  "update_stream_by_id i f [] = []"
| "update_stream_by_id i f (s # ss) = (if mi_stream_id s = i then f s # ss else s # update_stream_by_id i f ss)"

section \<open>Operations\<close>

definition register_stream ::
  "'w sys \<Rightarrow> stream_id \<Rightarrow> mio_stream \<Rightarrow> interest \<Rightarrow> 'w mio_streams \<Rightarrow> unit io_result \<times> 'w mio_streams" where
  "register_stream sys i stream intr ms =
     (let token = ms_next_token ms;
          ms = ms\<lparr>ms_next_token := ms_next_token ms + 1\<rparr>
      in case sys_register sys (source stream) token intr (ms_world ms) of
           (Inl e, w) \<Rightarrow> (Inl e, ms\<lparr>ms_world := sys_close sys (source stream) w\<rparr>)
         | (Inr _, w) \<Rightarrow>
             (Inr (), ms\<lparr>ms_world := w,
                ms_streams := ms_streams ms @
                  [\<lparr>mi_stream_id = i, mi_stream = stream, mi_token = token, mi_interest = intr\<rparr>]\<rparr>))"

definition mio_new ::
  "'w sys \<Rightarrow> stream_ids \<Rightarrow> mio_stream option \<Rightarrow> 'w \<Rightarrow> unit io_result \<times> 'w mio_streams" where
  "mio_new sys ids tun w =
     (let ms = \<lparr>ms_streams = [], ms_next_token = POLL_WAKER_TOKEN + 1, ms_world = w\<rparr>
      in case tun of
           Some stream \<Rightarrow> register_stream sys (TUN_STREAM_ID ids) stream Readable ms
         | None \<Rightarrow> (Inr (), ms))"

definition mio_open_tcp ::
  "'w sys \<Rightarrow> stream_id \<Rightarrow> socket_addr \<Rightarrow> 'w mio_streams \<Rightarrow> unit io_result \<times> 'w mio_streams" where
  "mio_open_tcp sys i addr ms =
     (case new_tcp_socket sys addr (ms_world ms) of
        (Inl e, w) \<Rightarrow> (Inl e, ms\<lparr>ms_world := w\<rparr>)
      | (Inr st, w) \<Rightarrow> register_stream sys i (MioTcp st) ReadableWritable (ms\<lparr>ms_world := w\<rparr>))"

definition mio_open_udp ::
  "'w sys \<Rightarrow> stream_id \<Rightarrow> socket_addr \<Rightarrow> 'w mio_streams \<Rightarrow> unit io_result \<times> 'w mio_streams" where
  "mio_open_udp sys i addr ms =
     (case new_udp_socket sys addr (ms_world ms) of
        (Inl e, w) \<Rightarrow> (Inl e, ms\<lparr>ms_world := w\<rparr>)
      | (Inr st, w) \<Rightarrow> register_stream sys i (MioUdp st) Readable (ms\<lparr>ms_world := w\<rparr>))"

definition mio_close :: "'w sys \<Rightarrow> stream_id \<Rightarrow> 'w mio_streams \<Rightarrow> 'w mio_streams" where
  "mio_close sys i ms =
     (let w = (case get_stream_by_id (ms_streams ms) i of
                 Some s \<Rightarrow> snd (sys_deregister sys (source (mi_stream s)) (ms_world ms))
               | None \<Rightarrow> ms_world ms);
          dropped = filter (\<lambda>s. mi_stream_id s = i) (ms_streams ms)
      in ms\<lparr>ms_streams := filter (\<lambda>s. mi_stream_id s \<noteq> i) (ms_streams ms),
            ms_world := fold (\<lambda>s. sys_close sys (source (mi_stream s))) dropped w\<rparr>)"

definition mio_poll_results :: "mio_stream_info list \<Rightarrow> mio_event list \<Rightarrow> poll_result list" where
  "mio_poll_results streams events =
     List.map_filter (\<lambda>event.
       if ev_token event = POLL_WAKER_TOKEN then None
       else (case get_stream_by_token streams (ev_token event) of
               Some s \<Rightarrow> Some \<lparr>pr_stream_id = mi_stream_id s, pr_is_readable = ev_is_readable event,
                              pr_is_writable = ev_is_writable event, pr_is_error = ev_is_error event\<rparr>
             | None \<Rightarrow> None)) events"

definition mio_poll ::
  "'w sys \<Rightarrow> deadline \<Rightarrow> 'w mio_streams \<Rightarrow> poll_result list io_result \<times> 'w mio_streams" where
  "mio_poll sys dl ms =
     (case sys_poll sys dl (ms_world ms) of
        (Inl e, w) \<Rightarrow> (Inl e, ms\<lparr>ms_world := w\<rparr>)
      | (Inr events, w) \<Rightarrow> (Inr (mio_poll_results (ms_streams ms) events), ms\<lparr>ms_world := w\<rparr>))"

definition mio_set_wait_for_write :: "'w sys \<Rightarrow> stream_id \<Rightarrow> bool \<Rightarrow> 'w mio_streams \<Rightarrow> 'w mio_streams" where
  "mio_set_wait_for_write sys i wait ms =
     (case get_stream_by_id (ms_streams ms) i of
        Some s \<Rightarrow>
          let intr = (if wait then ReadableWritable else Readable) in
          if mi_interest s \<noteq> intr
          then ms\<lparr>ms_streams := update_stream_by_id i (\<lambda>s. s\<lparr>mi_interest := intr\<rparr>) (ms_streams ms),
                  ms_world := snd (sys_reregister sys (source (mi_stream s)) (mi_token s) intr (ms_world ms))\<rparr>
          else ms
      | None \<Rightarrow> ms)"

definition mio_update_tun ::
  "'w sys \<Rightarrow> bool \<Rightarrow> stream_ids \<Rightarrow> tun_stream_info \<Rightarrow> 'w mio_streams \<Rightarrow> unit io_result \<times> 'w mio_streams" where
  "mio_update_tun sys apple ids info ms =
     (let ms = mio_close sys (TUN_STREAM_ID ids) ms
      in case info of
           NoTun \<Rightarrow> (Inr (), ms)
         | TunFd f \<Rightarrow>
             register_stream sys (TUN_STREAM_ID ids)
               (if apple then MioTunApple (tun_apple_new f) else MioTunUnix (tun_unix_new f)) Readable ms)"

definition mio_interface_state ::
  "stream_ids \<Rightarrow> interface_error option \<Rightarrow> 'w mio_streams \<Rightarrow> interface_state" where
  "mio_interface_state ids err ms =
     (if get_stream_by_id (ms_streams ms) (TUN_STREAM_ID ids) \<noteq> None
      then InterfaceUp err else InterfaceDown err)"

section \<open>The methods of one stream\<close>

fun mio_stream_read :: "'w sys \<Rightarrow> bytes \<Rightarrow> mio_stream \<Rightarrow> 'w \<Rightarrow> stream_result \<times> bytes \<times> mio_stream \<times> 'w" where
  "mio_stream_read sys buf (MioTcp st) w =
     (let (r, buf, st, w) = tcp_read sys buf st w in (r, buf, MioTcp st, w))"
| "mio_stream_read sys buf (MioUdp st) w =
     (let (r, buf, w) = udp_read sys buf st w in (r, buf, MioUdp st, w))"
| "mio_stream_read sys buf (MioTunUnix st) w =
     (let (r, buf, w) = tun_unix_read sys buf st w in (r, buf, MioTunUnix st, w))"
| "mio_stream_read sys buf (MioTunApple st) w =
     (let (r, buf, w) = tun_apple_read sys buf st w in (r, buf, MioTunApple st, w))"

fun mio_stream_write :: "'w sys \<Rightarrow> bytes \<Rightarrow> mio_stream \<Rightarrow> 'w \<Rightarrow> (stream_result \<times> mio_stream \<times> 'w) option" where
  "mio_stream_write sys data (MioTcp st) w =
     map_option (\<lambda>(r, st, w). (r, MioTcp st, w)) (tcp_write sys data st w)"
| "mio_stream_write sys data (MioUdp st) w =
     Some (let (r, w) = udp_write sys data st w in (r, MioUdp st, w))"
| "mio_stream_write sys data (MioTunUnix st) w =
     map_option (\<lambda>(r, w). (r, MioTunUnix st, w)) (tun_unix_write sys data st w)"
| "mio_stream_write sys data (MioTunApple st) w =
     map_option (\<lambda>(r, st, w). (r, MioTunApple st, w)) (tun_apple_write sys data st w)"

fun mio_stream_write_from_buffer ::
  "'w sys \<Rightarrow> mio_stream \<Rightarrow> 'w \<Rightarrow> (stream_result \<times> mio_stream \<times> 'w) option" where
  "mio_stream_write_from_buffer sys (MioTcp st) w =
     map_option (\<lambda>(r, st, w). (r, MioTcp st, w)) (tcp_write_from_buffer sys st w)"
| "mio_stream_write_from_buffer sys (MioUdp st) w = Some (udp_write_from_buffer, MioUdp st, w)"
| "mio_stream_write_from_buffer sys (MioTunUnix st) w = Some (tun_write_from_buffer, MioTunUnix st, w)"
| "mio_stream_write_from_buffer sys (MioTunApple st) w = Some (tun_write_from_buffer, MioTunApple st, w)"

text \<open>Only TCP implements \<^verbatim>\<open>shutdown_write\<close>; setting an option does nothing on any stream.\<close>

fun mio_stream_shutdown_write :: "'w sys \<Rightarrow> mio_stream \<Rightarrow> 'w \<Rightarrow> 'w" where
  "mio_stream_shutdown_write sys (MioTcp st) w = tcp_shutdown_write sys st w"
| "mio_stream_shutdown_write sys _ w = w"

text \<open>A call on the stream that \<^verbatim>\<open>get_stream\<close> finds; the callers have checked that there is one.\<close>

definition put_stream :: "stream_id \<Rightarrow> mio_stream \<Rightarrow> 'w \<Rightarrow> 'w mio_streams \<Rightarrow> 'w mio_streams" where
  "put_stream i stream w ms =
     ms\<lparr>ms_streams := update_stream_by_id i (\<lambda>s. s\<lparr>mi_stream := stream\<rparr>) (ms_streams ms), ms_world := w\<rparr>"

definition mio_read ::
  "'w sys \<Rightarrow> stream_id \<Rightarrow> bytes \<Rightarrow> 'w mio_streams \<Rightarrow> stream_result \<times> bytes \<times> 'w mio_streams" where
  "mio_read sys i buf ms =
     (case get_stream_by_id (ms_streams ms) i of
        Some s \<Rightarrow>
          let (r, buf, stream, w) = mio_stream_read sys buf (mi_stream s) (ms_world ms)
          in (r, buf, put_stream i stream w ms)
      | None \<Rightarrow> (StreamClosed, buf, ms))"

definition on_stream ::
  "(mio_stream \<Rightarrow> 'w \<Rightarrow> (stream_result \<times> mio_stream \<times> 'w) option) \<Rightarrow> stream_id \<Rightarrow> 'w mio_streams
     \<Rightarrow> (stream_result \<times> 'w mio_streams) option" where
  "on_stream f i ms =
     (case get_stream_by_id (ms_streams ms) i of
        Some s \<Rightarrow>
          map_option (\<lambda>(r, stream, w). (r, put_stream i stream w ms)) (f (mi_stream s) (ms_world ms))
      | None \<Rightarrow> Some (StreamClosed, ms))"

definition mio_shutdown_write :: "'w sys \<Rightarrow> stream_id \<Rightarrow> 'w mio_streams \<Rightarrow> 'w mio_streams" where
  "mio_shutdown_write sys i ms =
     (case get_stream_by_id (ms_streams ms) i of
        Some s \<Rightarrow> ms\<lparr>ms_world := mio_stream_shutdown_write sys (mi_stream s) (ms_world ms)\<rparr>
      | None \<Rightarrow> ms)"

definition mio_ops :: "'w sys \<Rightarrow> bool \<Rightarrow> stream_ids \<Rightarrow> 'w mio_streams tun_streams_ops" where
  "mio_ops sys apple ids =
     \<lparr>so_has_stream = (\<lambda>i ms. get_stream_by_id (ms_streams ms) i \<noteq> None),
      so_read = mio_read sys,
      so_write = (\<lambda>i data. on_stream (mio_stream_write sys data) i),
      so_write_from_buffer = on_stream (mio_stream_write_from_buffer sys),
      so_set_option = (\<lambda>_ _ ms. ms),
      so_shutdown_write = mio_shutdown_write sys,
      so_open_new_tcp_stream = mio_open_tcp sys,
      so_open_new_udp_stream = mio_open_udp sys,
      so_close_stream = mio_close sys,
      so_poll = mio_poll sys,
      so_set_poll_enable_wait_for_write = mio_set_wait_for_write sys,
      so_get_tun_interface_state = mio_interface_state ids,
      so_update_tun = mio_update_tun sys apple ids\<rparr>"

section \<open>Invariant\<close>

text \<open>Tokens identify streams and are never that of the waker.\<close>

definition mio_ok :: "'w mio_streams \<Rightarrow> bool" where
  "mio_ok ms \<longleftrightarrow> distinct (map mi_token (ms_streams ms)) \<and>
     (\<forall>s \<in> set (ms_streams ms). POLL_WAKER_TOKEN < mi_token s \<and> mi_token s < ms_next_token ms) \<and>
     POLL_WAKER_TOKEN < ms_next_token ms"

lemma has_stream_iff: "get_stream_by_id ss i \<noteq> None \<longleftrightarrow> i \<in> mi_stream_id ` set ss"
  by (induction ss) (auto simp: get_stream_by_id_def)

lemma update_stream_keeps:
  assumes "\<And>s. mi_stream_id (f s) = mi_stream_id s" "\<And>s. mi_token (f s) = mi_token s"
  shows "map mi_stream_id (update_stream_by_id i f ss) = map mi_stream_id ss"
    and "map mi_token (update_stream_by_id i f ss) = map mi_token ss"
  using assms by (induction ss) auto

lemma get_update_stream:
  assumes "\<And>s. mi_stream_id (f s) = mi_stream_id s"
  shows "get_stream_by_id (update_stream_by_id i f ss) i = map_option f (get_stream_by_id ss i)"
  using assms by (induction ss) (auto simp: get_stream_by_id_def)

text \<open>After a request for readiness the stream has the interest that was asked for.\<close>

lemma get_after_wait_for_write:
  "get_stream_by_id (ms_streams (mio_set_wait_for_write sys i wait ms)) i =
     map_option (\<lambda>s. s\<lparr>mi_interest := if wait then ReadableWritable else Readable\<rparr>)
       (get_stream_by_id (ms_streams ms) i)"
proof (cases "get_stream_by_id (ms_streams ms) i")
  case (Some s)
  then show ?thesis
    by (cases s) (auto simp: mio_set_wait_for_write_def get_update_stream Let_def)
qed (simp add: mio_set_wait_for_write_def)

lemma get_put_stream:
  "get_stream_by_id (ms_streams (put_stream i stream w ms)) i =
     map_option (\<lambda>s. s\<lparr>mi_stream := stream\<rparr>) (get_stream_by_id (ms_streams ms) i)"
  by (simp add: put_stream_def get_update_stream)

text \<open>What the invariant and the presence of streams depend on.\<close>

definition stream_keys :: "'w mio_streams \<Rightarrow> stream_id list \<times> nat list \<times> nat" where
  "stream_keys ms = (map mi_stream_id (ms_streams ms), map mi_token (ms_streams ms), ms_next_token ms)"

lemma mio_ok_keys:
  "mio_ok ms \<longleftrightarrow> (case stream_keys ms of (ids, tokens, next) \<Rightarrow>
     distinct tokens \<and> (\<forall>t \<in> set tokens. POLL_WAKER_TOKEN < t \<and> t < next) \<and> POLL_WAKER_TOKEN < next)"
  by (auto simp: mio_ok_def stream_keys_def)

lemma has_stream_keys:
  "get_stream_by_id (ms_streams ms) i \<noteq> None \<longleftrightarrow> i \<in> set (fst (stream_keys ms))"
  unfolding has_stream_iff by (simp add: stream_keys_def)

lemma keys_put_stream [simp]: "stream_keys (put_stream i stream w ms) = stream_keys ms"
  by (simp add: stream_keys_def put_stream_def update_stream_keeps)

lemma keys_world [simp]: "stream_keys (ms\<lparr>ms_world := w\<rparr>) = stream_keys ms"
  by (simp add: stream_keys_def)

lemma keys_set_wait_for_write [simp]: "stream_keys (mio_set_wait_for_write sys i b ms) = stream_keys ms"
  by (simp add: mio_set_wait_for_write_def stream_keys_def update_stream_keeps Let_def split: option.split)

lemma keys_read: "mio_read sys i buf ms = (r, buf', ms') \<Longrightarrow> stream_keys ms' = stream_keys ms"
  by (auto simp: mio_read_def split: option.splits prod.splits)

lemma keys_on_stream: "on_stream f i ms = Some (r, ms') \<Longrightarrow> stream_keys ms' = stream_keys ms"
  by (auto simp: on_stream_def split: option.splits)

lemma keys_shutdown_write [simp]: "stream_keys (mio_shutdown_write sys i ms) = stream_keys ms"
  by (simp add: mio_shutdown_write_def split: option.split)

lemma keys_poll: "mio_poll sys dl ms = (r, ms') \<Longrightarrow> stream_keys ms' = stream_keys ms"
  by (auto simp: mio_poll_def split: prod.splits sum.splits)

lemma same_keys:
  assumes "stream_keys ms' = stream_keys ms"
  shows "mio_ok ms' = mio_ok ms"
    and "(get_stream_by_id (ms_streams ms') i \<noteq> None) = (get_stream_by_id (ms_streams ms) i \<noteq> None)"
  unfolding has_stream_keys mio_ok_keys using assms by simp_all

lemma keys_law:
  assumes "mio_ok ms" "stream_keys ms' = stream_keys ms"
  shows "mio_ok ms' \<and> (get_stream_by_id (ms_streams ms') j \<noteq> None) = (get_stream_by_id (ms_streams ms) j \<noteq> None)"
  using assms(1) same_keys [OF assms(2)] by blast

lemma register_stream_law:
  assumes "mio_ok ms" "register_stream sys i stream intr ms = (r, ms')"
  shows "mio_ok ms' \<and> (get_stream_by_id (ms_streams ms') j \<noteq> None \<longleftrightarrow>
     get_stream_by_id (ms_streams ms) j \<noteq> None \<or> r = Inr () \<and> j = i)"
proof (cases r)
  case (Inl e)
  with assms have "ms_streams ms' = ms_streams ms" "ms_next_token ms' = Suc (ms_next_token ms)"
    by (auto simp: register_stream_def Let_def split: prod.splits sum.splits)
  with assms(1) Inl show ?thesis by (auto simp: mio_ok_def)
next
  case (Inr u)
  with assms have "ms_streams ms' = ms_streams ms @
      [\<lparr>mi_stream_id = i, mi_stream = stream, mi_token = ms_next_token ms, mi_interest = intr\<rparr>]"
    "ms_next_token ms' = Suc (ms_next_token ms)"
    by (auto simp: register_stream_def Let_def split: prod.splits sum.splits)
  with assms(1) Inr show ?thesis unfolding has_stream_iff by (auto simp: mio_ok_def)
qed

lemma close_law_mio:
  assumes "mio_ok ms"
  shows "mio_ok (mio_close sys i ms) \<and> (get_stream_by_id (ms_streams (mio_close sys i ms)) j \<noteq> None \<longleftrightarrow>
     get_stream_by_id (ms_streams ms) j \<noteq> None \<and> j \<noteq> i)"
  using assms unfolding has_stream_iff
  by (auto simp: mio_ok_def mio_close_def Let_def distinct_map_filter)

lemma open_law_mio:
  assumes "mio_ok ms"
  shows "mio_open_tcp sys i a ms = (r, ms') \<Longrightarrow> mio_ok ms' \<and> (get_stream_by_id (ms_streams ms') j \<noteq> None \<longleftrightarrow>
     get_stream_by_id (ms_streams ms) j \<noteq> None \<or> r = Inr () \<and> j = i)"
    and "mio_open_udp sys i a ms = (r, ms') \<Longrightarrow> mio_ok ms' \<and> (get_stream_by_id (ms_streams ms') j \<noteq> None \<longleftrightarrow>
     get_stream_by_id (ms_streams ms) j \<noteq> None \<or> r = Inr () \<and> j = i)"
proof -
  have world: "mio_ok (ms\<lparr>ms_world := w\<rparr>)" for w
    using assms by (simp add: mio_ok_def)
  show "mio_ok ms' \<and> (get_stream_by_id (ms_streams ms') j \<noteq> None \<longleftrightarrow>
     get_stream_by_id (ms_streams ms) j \<noteq> None \<or> r = Inr () \<and> j = i)"
    if run: "mio_open_tcp sys i a ms = (r, ms')"
  proof -
    obtain q w where new: "new_tcp_socket sys a (ms_world ms) = (q, w)"
      by (cases "new_tcp_socket sys a (ms_world ms)")
    show ?thesis
    proof (cases q)
      case (Inl e)
      with run new have "r = Inl e" "ms' = ms\<lparr>ms_world := w\<rparr>" by (simp_all add: mio_open_tcp_def)
      with world [of w] show ?thesis by simp
    next
      case (Inr st)
      with run new have "register_stream sys i (MioTcp st) ReadableWritable (ms\<lparr>ms_world := w\<rparr>) = (r, ms')"
        by (simp add: mio_open_tcp_def)
      from register_stream_law [OF world this, of j] show ?thesis by simp
    qed
  qed
  show "mio_ok ms' \<and> (get_stream_by_id (ms_streams ms') j \<noteq> None \<longleftrightarrow>
     get_stream_by_id (ms_streams ms) j \<noteq> None \<or> r = Inr () \<and> j = i)"
    if run: "mio_open_udp sys i a ms = (r, ms')"
  proof -
    obtain q w where new: "new_udp_socket sys a (ms_world ms) = (q, w)"
      by (cases "new_udp_socket sys a (ms_world ms)")
    show ?thesis
    proof (cases q)
      case (Inl e)
      with run new have "r = Inl e" "ms' = ms\<lparr>ms_world := w\<rparr>" by (simp_all add: mio_open_udp_def)
      with world [of w] show ?thesis by simp
    next
      case (Inr st)
      with run new have "register_stream sys i (MioUdp st) Readable (ms\<lparr>ms_world := w\<rparr>) = (r, ms')"
        by (simp add: mio_open_udp_def)
      from register_stream_law [OF world this, of j] show ?thesis by simp
    qed
  qed
qed

lemma get_stream_by_token_in: "get_stream_by_token ss t = Some s \<Longrightarrow> s \<in> set ss \<and> mi_token s = t"
  by (auto simp: get_stream_by_token_def find_Some_iff)

lemma mio_poll_results_in:
  "p \<in> set (mio_poll_results ss events) \<Longrightarrow> pr_stream_id p \<in> mi_stream_id ` set ss"
proof (induction events)
  case (Cons event events)
  show ?case
  proof (cases "p \<in> set (mio_poll_results ss events)")
    case False
    with Cons.prems obtain s where "get_stream_by_token ss (ev_token event) = Some s" "pr_stream_id p = mi_stream_id s"
      by (auto simp: mio_poll_results_def map_filter_simps split: if_splits option.splits)
    then show ?thesis by (auto dest: get_stream_by_token_in)
  qed (rule Cons.IH)
qed (simp add: mio_poll_results_def map_filter_simps)

lemma poll_known_mio:
  assumes "mio_poll sys dl ms = (Inr results, ms')" "p \<in> set results"
  shows "get_stream_by_id (ms_streams ms) (pr_stream_id p) \<noteq> None"
proof -
  obtain events where "p \<in> set (mio_poll_results (ms_streams ms) events)"
    using assms by (auto simp: mio_poll_def split: prod.splits sum.splits)
  then show ?thesis unfolding has_stream_iff by (rule mio_poll_results_in)
qed

lemma update_tun_law_mio:
  assumes "mio_ok ms" "mio_update_tun sys apple ids info ms = (r, ms')"
  shows "mio_ok ms' \<and> (get_stream_by_id (ms_streams ms') j \<noteq> None \<longleftrightarrow>
     (if j = TUN_STREAM_ID ids then r = Inr () \<and> info \<noteq> NoTun else get_stream_by_id (ms_streams ms) j \<noteq> None))"
proof -
  note closed = close_law_mio [OF assms(1), of sys "TUN_STREAM_ID ids"]
  show ?thesis
  proof (cases info)
    case NoTun
    with assms(2) closed [of j] show ?thesis by (auto simp: mio_update_tun_def Let_def)
  next
    case (TunFd f)
    with assms(2) have reg: "register_stream sys (TUN_STREAM_ID ids)
        (if apple then MioTunApple (tun_apple_new f) else MioTunUnix (tun_unix_new f)) Readable
        (mio_close sys (TUN_STREAM_ID ids) ms) = (r, ms')"
      by (simp add: mio_update_tun_def Let_def)
    from register_stream_law [OF _ reg, of j] closed TunFd show ?thesis by auto
  qed
qed

interpretation mio: tun_stream_set "mio_ops sys apple ids" ids mio_ok for sys apple ids
proof (unfold_locales, goal_cases)
  case 1 then show ?case
    unfolding mio_ops_def streams_ops.simps by (rule keys_law [OF _ keys_read])
next
  case 2 then show ?case
    unfolding mio_ops_def streams_ops.simps by (rule keys_law [OF _ keys_on_stream])
next
  case 3 then show ?case
    unfolding mio_ops_def streams_ops.simps by (rule keys_law [OF _ keys_on_stream])
next
  case 4 then show ?case by (simp add: mio_ops_def)
next
  case 5 then show ?case
    unfolding mio_ops_def streams_ops.simps by (rule keys_law [OF _ keys_shutdown_write])
next
  case 6 then show ?case
    unfolding mio_ops_def streams_ops.simps by (rule keys_law [OF _ keys_set_wait_for_write])
next
  case 7 then show ?case using open_law_mio(1) by (simp add: mio_ops_def)
next
  case 8 then show ?case using open_law_mio(2) by (simp add: mio_ops_def)
next
  case 9 then show ?case using close_law_mio by (simp add: mio_ops_def)
next
  case 10 then show ?case
    unfolding mio_ops_def streams_ops.simps by (rule keys_law [OF _ keys_poll])
next
  case 11 then show ?case using poll_known_mio by (simp add: mio_ops_def)
next
  case 12 then show ?case by (simp add: mio_ops_def mio_interface_state_def)
next
  case 13 then show ?case
    unfolding mio_ops_def streams_ops.simps tun_streams_ops.simps by (rule update_tun_law_mio)
qed

section \<open>Properties\<close>

lemma mio_new_law:
  assumes "mio_new sys ids tun w = (r, ms)"
  shows "mio_ok ms \<and> {j. get_stream_by_id (ms_streams ms) j \<noteq> None} =
     (if r = Inr () \<and> tun \<noteq> None then {TUN_STREAM_ID ids} else {})"
proof -
  let ?ms = "\<lparr>ms_streams = [], ms_next_token = POLL_WAKER_TOKEN + 1, ms_world = w\<rparr>"
  have ok: "mio_ok ?ms" by (simp add: mio_ok_def)
  show ?thesis
  proof (cases tun)
    case None
    with assms ok show ?thesis by (auto simp: mio_new_def Let_def get_stream_by_id_def)
  next
    case (Some stream)
    with assms have "register_stream sys (TUN_STREAM_ID ids) stream Readable ?ms = (r, ms)"
      by (simp add: mio_new_def Let_def)
    from register_stream_law [OF ok this] Some show ?thesis
      by (auto simp: get_stream_by_id_def)
  qed
qed

text \<open>C9: In every run of calls on new mio streams the tokens of the streams are distinct and
  differ from the waker's, and the streams that exist are exactly those that the calls and
  their results say: opened successfully and not closed since, the tun stream after the
  last successful update that gave a device.\<close>

theorem mio_streams_refine_set:
  assumes "mio_new sys ids tun w = (Inr (), ms)"
    and "calls_run (tun_call_step (mio_ops sys apple ids)) calls ms = Some (oks, ms')"
  shows "mio_ok ms' \<and> {j. get_stream_by_id (ms_streams ms') j \<noteq> None} =
     fold (\<lambda>(c, b). tun_ids_after ids c b) (zip calls oks) (if tun = None then {} else {TUN_STREAM_ID ids})"
proof -
  have has: "so_has_stream (mio_ops sys apple ids) j s \<longleftrightarrow> get_stream_by_id (ms_streams s) j \<noteq> None" for j s
    by (simp add: mio_ops_def)
  note new = mio_new_law [OF assms(1)]
  from mio.tun_run_refines [OF _ assms(2)] new show ?thesis
    by (simp only: has) (auto split: if_splits)
qed

definition example_ids :: stream_ids where
  "example_ids = \<lparr>TUN_STREAM_ID = 0, PCAP_STREAM_ID = - 1, PRIVKEY_STREAM_ID = - 2,
     CERT_STREAM_ID = - 3, MUON_AUTH_STREAM_ID = - 4\<rparr>"

definition example_calls :: "tun_streams_call list" where
  "example_calls = (let a = \<lparr>sa_ip = V4 (Ipv4Addr 10 0 0 1), sa_port = 443\<rparr>
     in [StreamsCall (CallOpenTcp 5 a), StreamsCall (CallOpenUdp 6 a), StreamsCall (CallClose 5)])"

theorem mio_streams_refine_set_witness:
  "\<exists>ms ms'. mio_new window_sys example_ids (Some (MioTunUnix (tun_unix_new 3))) ([], 5) = (Inr (), ms) \<and>
     calls_run (tun_call_step (mio_ops window_sys False example_ids)) example_calls ms = Some ([True, True, True], ms') \<and>
     {j. get_stream_by_id (ms_streams ms') j \<noteq> None} = {0, 6}"
proof -
  obtain ms where ms: "mio_new window_sys example_ids (Some (MioTunUnix (tun_unix_new 3))) ([], 5) = (Inr (), ms)"
    by (simp add: mio_new_def register_stream_def window_sys_def)
  obtain ms' where run: "calls_run (tun_call_step (mio_ops window_sys False example_ids)) example_calls ms = Some ([True, True, True], ms')"
    by (simp add: mio_ops_def mio_open_tcp_def mio_open_udp_def new_tcp_socket_def new_udp_socket_def
        or_close_def fd_available_def udp_new_def register_stream_def window_sys_def Let_def succeeded_def
        example_calls_def)
  have "{0, 6, 5} - {5} = {0, 6 :: stream_id}" by auto
  then have "{j. get_stream_by_id (ms_streams ms') j \<noteq> None} = {0, 6}"
    using mio_streams_refine_set [OF ms run, THEN conjunct2]
    by (simp add: insert_commute example_ids_def example_calls_def Let_def)
  with ms run show ?thesis by (intro exI conjI)
qed

lemma token_owner:
  assumes "distinct (map mi_token ss)"
  shows "concat (map (\<lambda>s. if mi_token s = t then [f s] else []) ss) =
    (case get_stream_by_token ss t of Some s \<Rightarrow> [f s] | None \<Rightarrow> [])"
  using assms
proof (induction ss)
  case (Cons s ss)
  have "mi_token s = t \<Longrightarrow> concat (map (\<lambda>s. if mi_token s = t then [f s] else []) ss) = []"
    using Cons.prems by (auto simp: image_iff)
  with Cons show ?case by (simp add: get_stream_by_token_def)
qed (simp add: get_stream_by_token_def)

lemma mio_poll_results_eq:
  assumes "distinct (map mi_token ss)" "POLL_WAKER_TOKEN \<notin> mi_token ` set ss"
  shows "mio_poll_results ss events = [\<lparr>pr_stream_id = mi_stream_id s, pr_is_readable = ev_is_readable e,
       pr_is_writable = ev_is_writable e, pr_is_error = ev_is_error e\<rparr>.
       e \<leftarrow> events, s \<leftarrow> ss, mi_token s = ev_token e]"
proof -
  have "get_stream_by_token ss POLL_WAKER_TOKEN = None"
    using assms(2) unfolding get_stream_by_token_def find_None_iff by (metis image_eqI)
  then show ?thesis
    unfolding token_owner [OF assms(1)]
    by (induction events) (simp_all add: mio_poll_results_def map_filter_simps split: option.split)
qed

text \<open>A poll reports on the right streams: each event of a registered token other than the
  waker's gives one result, in order, for the stream that owns the token, with the event's
  readiness; the waker and stale tokens give none.\<close>

theorem mio_poll_reports_owner:
  assumes "mio_ok ms" and "mio_poll sys dl ms = (Inr results, ms')" and "sys_poll sys dl (ms_world ms) = (Inr events, w)"
  shows "results = [\<lparr>pr_stream_id = mi_stream_id s, pr_is_readable = ev_is_readable e,
       pr_is_writable = ev_is_writable e, pr_is_error = ev_is_error e\<rparr>.
       e \<leftarrow> events, s \<leftarrow> ms_streams ms, mi_token s = ev_token e]"
proof -
  have "POLL_WAKER_TOKEN \<notin> mi_token ` set (ms_streams ms)" "distinct (map mi_token (ms_streams ms))"
    using assms(1) by (auto simp: mio_ok_def)
  note eq = mio_poll_results_eq [OF this(2,1), of events]
  have "results = mio_poll_results (ms_streams ms) events"
    using assms(2,3) by (simp add: mio_poll_def)
  then show ?thesis by (rule trans) (rule eq)
qed

theorem mio_poll_reports_owner_witness:
  "\<exists>results. results = [\<lparr>pr_stream_id = 5, pr_is_readable = True, pr_is_writable = False, pr_is_error = False\<rparr>] \<and>
     fst (mio_poll (window_sys\<lparr>sys_poll := \<lambda>_ w. (Inr [\<lparr>ev_token = 0, ev_is_readable = True, ev_is_writable = False, ev_is_error = False\<rparr>,
             \<lparr>ev_token = 2, ev_is_readable = True, ev_is_writable = False, ev_is_error = False\<rparr>], w)\<rparr>) None
        \<lparr>ms_streams = [\<lparr>mi_stream_id = 5, mi_stream = MioTcp (tcp_new 7), mi_token = 2, mi_interest = Readable\<rparr>],
         ms_next_token = 3, ms_world = ([], 0)\<rparr>) = Inr results"
proof -
  let ?events = "[\<lparr>ev_token = 0, ev_is_readable = True, ev_is_writable = False, ev_is_error = False\<rparr>,
             \<lparr>ev_token = 2, ev_is_readable = True, ev_is_writable = False, ev_is_error = False\<rparr>] :: mio_event list"
  let ?sys = "window_sys\<lparr>sys_poll := \<lambda>_ w. (Inr ?events, w)\<rparr>"
  let ?ms = "\<lparr>ms_streams = [\<lparr>mi_stream_id = 5, mi_stream = MioTcp (tcp_new 7), mi_token = 2, mi_interest = Readable\<rparr>],
         ms_next_token = 3, ms_world = ([], 0)\<rparr> :: (bytes \<times> nat) mio_streams"
  obtain results ms' where poll: "mio_poll ?sys None ?ms = (Inr results, ms')"
    by (simp add: mio_poll_def)
  have "mio_ok ?ms" by (simp add: mio_ok_def POLL_WAKER_TOKEN_def)
  from mio_poll_reports_owner [OF this poll, of ?events "([], 0)"] poll show ?thesis by simp
qed

text \<open>Asking twice for the same readiness of a stream is asking once. The second request does
  not reach the system even when the first one failed there, so a failed change of
  interest is never repeated.\<close>

theorem mio_wait_for_write_once:
  "mio_set_wait_for_write sys i wait (mio_set_wait_for_write sys i wait ms) =
     mio_set_wait_for_write sys i wait ms"
proof (cases "get_stream_by_id (ms_streams ms) i")
  case (Some s)
  then show ?thesis by (simp add: mio_set_wait_for_write_def get_update_stream Let_def)
qed (simp add: mio_set_wait_for_write_def)

end
