(* ===== verification/Pvpn_Client_Impl.thy ===== *)
theory Pvpn_Client_Impl
  imports Type_Conversions
begin

text \<open>
  \<^verbatim>\<open>src/connection/pvpn_client.rs\<close> and \<^verbatim>\<open>src/connection/time.rs\<close>: the implementation of the trait
  \<^verbatim>\<open>PvpnClient\<close> on the client library. The library is a parameter, the record \<open>pvpn_lib\<close> of the
  calls the sources make over a state \<open>'l\<close>; each gives back, beside its value, whether the
  library wants to be pulled and when it wants to be woken up. The implementation caches
  the two. The clocks are functions on a state \<open>'k\<close> of their own.
\<close>

section \<open>The library and the clocks\<close>

record 'x pvpn_return =
  rt_value :: 'x
  rt_need_pull :: bool \<comment> \<open>the task is \<^verbatim>\<open>Task::NeedPull\<close>\<close>
  rt_wakeup_deadline :: deadline

record 'l pvpn_lib =
  lib_set_time :: "instant \<Rightarrow> system_time \<Rightarrow> 'l \<Rightarrow> unit pvpn_return \<times> 'l"
  lib_add_peer :: "peer \<Rightarrow> 'l \<Rightarrow> unit pvpn_return \<times> 'l"
  lib_remove_peer :: "peer_addr \<Rightarrow> 'l \<Rightarrow> unit pvpn_return \<times> 'l"
  lib_pull :: "'l \<Rightarrow> action option pvpn_return \<times> 'l"
  lib_pull_local_agent :: "'l \<Rightarrow> local_agent_message option \<times> 'l"
  lib_push_local_agent :: "local_agent_action \<Rightarrow> 'l \<Rightarrow> unit pvpn_return \<times> 'l"
  lib_push :: "action \<Rightarrow> 'l \<Rightarrow> (string + unit) pvpn_return \<times> 'l"
  lib_notify_network_change :: "'l \<Rightarrow> unit pvpn_return \<times> 'l"
  lib_tunnel_info :: "'l \<Rightarrow> tunnel_info option pvpn_return \<times> 'l"
  lib_tunnel_stats :: "'l \<Rightarrow> tunnel_stats option pvpn_return \<times> 'l"
  lib_set_settings :: "settings \<Rightarrow> 'l \<Rightarrow> unit pvpn_return \<times> 'l"
  lib_capture_packet :: "'l \<Rightarrow> int pvpn_return \<times> 'l"
  lib_stop_capture_packet :: "'l \<Rightarrow> int pvpn_return \<times> 'l"

text \<open>
  The monotonic clock counts from the instant of its creation; the realtime clock counts
  from the epoch.
\<close>

record 'k clocks =
  ck_instant :: "'k \<Rightarrow> nat \<times> 'k"
  ck_since_epoch :: "'k \<Rightarrow> duration \<times> 'k"

record ('l, 'k) pvpn_client_impl =
  ci_c :: 'l
  ci_need_pull :: bool
  ci_wakeup_deadline :: deadline
  ci_initial_instant :: nat
  ci_clock :: 'k

text \<open>\<^verbatim>\<open>Instant::elapsed\<close> saturates at zero.\<close>

definition monotonic_factory_now :: "'k clocks \<Rightarrow> ('l, 'k) pvpn_client_impl \<Rightarrow> instant \<times> ('l, 'k) pvpn_client_impl" where
  "monotonic_factory_now clk ci =
     (let (now, k) = ck_instant clk (ci_clock ci) in (now - ci_initial_instant ci, ci\<lparr>ci_clock := k\<rparr>))"

definition realtime_factory_now :: "'k clocks \<Rightarrow> ('l, 'k) pvpn_client_impl \<Rightarrow> system_time \<times> ('l, 'k) pvpn_client_impl" where
  "realtime_factory_now clk ci =
     (let (now, k) = ck_since_epoch clk (ci_clock ci) in (now, ci\<lparr>ci_clock := k\<rparr>))"

section \<open>The implementation\<close>

text \<open>
  \<open>lib_build\<close> stands for the client builder: seed, the two clock readings and the mode; it
  fails when the application version is refused.
\<close>

definition client_impl_new ::
  "(instant \<Rightarrow> system_time \<Rightarrow> 'm \<Rightarrow> 'l io_result) \<Rightarrow> 'k clocks \<Rightarrow> 'm \<Rightarrow> 'k \<Rightarrow> ('l, 'k) pvpn_client_impl io_result \<times> 'k" where
  "client_impl_new lib_build clk mode k =
     (let (start, k) = ck_instant clk k;
          (now, k) = ck_instant clk k;
          (epoch, k) = ck_since_epoch clk k
      in (case lib_build (now - start) epoch mode of
            Inl e \<Rightarrow> (Inl e, k)
          | Inr c \<Rightarrow> (Inr \<lparr>ci_c = c, ci_need_pull = True, ci_wakeup_deadline = None,
                          ci_initial_instant = start, ci_clock = k\<rparr>, k)))"

definition handle_result :: "'x pvpn_return \<Rightarrow> ('l, 'k) pvpn_client_impl \<Rightarrow> ('l, 'k) pvpn_client_impl" where
  "handle_result result ci =
     ci\<lparr>ci_need_pull := rt_need_pull result, ci_wakeup_deadline := rt_wakeup_deadline result\<rparr>"

text \<open>A call of the library followed by \<^verbatim>\<open>handle_result\<close>.\<close>

definition lib_call :: "('l \<Rightarrow> 'x pvpn_return \<times> 'l) \<Rightarrow> ('l, 'k) pvpn_client_impl \<Rightarrow> 'x \<times> ('l, 'k) pvpn_client_impl" where
  "lib_call f ci =
     (let (result, c) = f (ci_c ci)
      in (rt_value result, handle_result result (ci\<lparr>ci_c := c\<rparr>)))"

definition impl_set_current_time ::
  "'l pvpn_lib \<Rightarrow> 'k clocks \<Rightarrow> ('l, 'k) pvpn_client_impl \<Rightarrow> (instant \<times> system_time) \<times> ('l, 'k) pvpn_client_impl" where
  "impl_set_current_time lib clk ci =
     (let (monotonic_now, ci) = monotonic_factory_now clk ci;
          (realtime_now, ci) = realtime_factory_now clk ci;
          (_, ci) = lib_call (lib_set_time lib monotonic_now realtime_now) ci
      in ((monotonic_now, realtime_now), ci))"

definition impl_push :: "'l pvpn_lib \<Rightarrow> action \<Rightarrow> ('l, 'k) pvpn_client_impl \<Rightarrow> ('l, 'k) pvpn_client_impl" where
  "impl_push lib a ci = snd (lib_call (lib_push lib a) ci)"

definition impl_push_error ::
  "'l pvpn_lib \<Rightarrow> stream_id \<Rightarrow> error_kind \<Rightarrow> ('l, 'k) pvpn_client_impl \<Rightarrow> ('l, 'k) pvpn_client_impl" where
  "impl_push_error lib i kind ci = impl_push lib (Action i (ActError (error_kind_to_socket_err kind))) ci"

definition impl_pull_local_agent ::
  "'l pvpn_lib \<Rightarrow> ('l, 'k) pvpn_client_impl \<Rightarrow> local_agent_message option \<times> ('l, 'k) pvpn_client_impl" where
  "impl_pull_local_agent lib ci =
     (let (m, c) = lib_pull_local_agent lib (ci_c ci) in (m, ci\<lparr>ci_c := c\<rparr>))"

definition impl_set_packet_capture_enabled ::
  "'l pvpn_lib \<Rightarrow> bool \<Rightarrow> ('l, 'k) pvpn_client_impl \<Rightarrow> int \<times> ('l, 'k) pvpn_client_impl" where
  "impl_set_packet_capture_enabled lib enabled ci =
     lib_call (if enabled then lib_capture_packet lib else lib_stop_capture_packet lib) ci"

text \<open>The methods of the trait; telling it that the network is down does nothing.\<close>

definition client_impl_ops :: "'l pvpn_lib \<Rightarrow> 'k clocks \<Rightarrow> ('l, 'k) pvpn_client_impl pvpn_client" where
  "client_impl_ops lib clk =
     \<lparr>pc_set_current_time = impl_set_current_time lib clk,
      pc_need_pull = ci_need_pull,
      pc_peer_add = (\<lambda>p ci. snd (lib_call (lib_add_peer lib p) ci)),
      pc_peer_remove = (\<lambda>a ci. snd (lib_call (lib_remove_peer lib a) ci)),
      pc_pull = lib_call (lib_pull lib),
      pc_push = impl_push lib,
      pc_push_error = impl_push_error lib,
      pc_get_tunnel_info = lib_call (lib_tunnel_info lib),
      pc_wakeup_deadline = ci_wakeup_deadline,
      pc_notify_network_change = (\<lambda>ci. snd (lib_call (lib_notify_network_change lib) ci)),
      pc_notify_network_down = (\<lambda>ci. ci),
      pc_get_stats = lib_call (lib_tunnel_stats lib),
      pc_monotonic_now = monotonic_factory_now clk,
      pc_set_packet_capture_enabled = (\<lambda>b ci. snd (impl_set_packet_capture_enabled lib b ci)),
      pc_set_settings = (\<lambda>s ci. snd (lib_call (lib_set_settings lib s) ci)),
      pc_pull_local_agent = impl_pull_local_agent lib,
      pc_push_local_agent = (\<lambda>a ci. snd (lib_call (lib_push_local_agent lib a) ci))\<rparr>"

section \<open>The cache follows the library\<close>

text \<open>The calls of the trait, and what the library answers to each beside its value.\<close>

datatype client_call =
    ClSetCurrentTime | ClPeerAdd peer | ClPeerRemove peer_addr | ClPull | ClPush action
  | ClPushError stream_id error_kind | ClGetTunnelInfo | ClNotifyNetworkChange | ClNotifyNetworkDown
  | ClGetStats | ClMonotonicNow | ClSetPacketCaptureEnabled bool | ClSetSettings settings
  | ClPullLocalAgent | ClPushLocalAgent local_agent_action

fun client_call_step :: "'c pvpn_client \<Rightarrow> client_call \<Rightarrow> 'c \<Rightarrow> 'c" where
  "client_call_step ops ClSetCurrentTime c = snd (pc_set_current_time ops c)"
| "client_call_step ops (ClPeerAdd p) c = pc_peer_add ops p c"
| "client_call_step ops (ClPeerRemove a) c = pc_peer_remove ops a c"
| "client_call_step ops ClPull c = snd (pc_pull ops c)"
| "client_call_step ops (ClPush a) c = pc_push ops a c"
| "client_call_step ops (ClPushError i k) c = pc_push_error ops i k c"
| "client_call_step ops ClGetTunnelInfo c = snd (pc_get_tunnel_info ops c)"
| "client_call_step ops ClNotifyNetworkChange c = pc_notify_network_change ops c"
| "client_call_step ops ClNotifyNetworkDown c = pc_notify_network_down ops c"
| "client_call_step ops ClGetStats c = snd (pc_get_stats ops c)"
| "client_call_step ops ClMonotonicNow c = snd (pc_monotonic_now ops c)"
| "client_call_step ops (ClSetPacketCaptureEnabled b) c = pc_set_packet_capture_enabled ops b c"
| "client_call_step ops (ClSetSettings s) c = pc_set_settings ops s c"
| "client_call_step ops ClPullLocalAgent c = snd (pc_pull_local_agent ops c)"
| "client_call_step ops (ClPushLocalAgent a) c = pc_push_local_agent ops a c"

definition answer :: "'x pvpn_return \<times> 'l \<Rightarrow> (bool \<times> deadline) option" where
  "answer r = Some (rt_need_pull (fst r), rt_wakeup_deadline (fst r))"

fun lib_answer ::
  "'l pvpn_lib \<Rightarrow> 'k clocks \<Rightarrow> client_call \<Rightarrow> ('l, 'k) pvpn_client_impl \<Rightarrow> (bool \<times> deadline) option" where
  "lib_answer lib clk ClSetCurrentTime ci =
     (let (now, k) = ck_instant clk (ci_clock ci)
      in answer (lib_set_time lib (now - ci_initial_instant ci) (fst (ck_since_epoch clk k)) (ci_c ci)))"
| "lib_answer lib clk (ClPeerAdd p) ci = answer (lib_add_peer lib p (ci_c ci))"
| "lib_answer lib clk (ClPeerRemove a) ci = answer (lib_remove_peer lib a (ci_c ci))"
| "lib_answer lib clk ClPull ci = answer (lib_pull lib (ci_c ci))"
| "lib_answer lib clk (ClPush a) ci = answer (lib_push lib a (ci_c ci))"
| "lib_answer lib clk (ClPushError i k) ci =
     answer (lib_push lib (Action i (ActError (error_kind_to_socket_err k))) (ci_c ci))"
| "lib_answer lib clk ClGetTunnelInfo ci = answer (lib_tunnel_info lib (ci_c ci))"
| "lib_answer lib clk ClNotifyNetworkChange ci = answer (lib_notify_network_change lib (ci_c ci))"
| "lib_answer lib clk ClNotifyNetworkDown ci = None"
| "lib_answer lib clk ClGetStats ci = answer (lib_tunnel_stats lib (ci_c ci))"
| "lib_answer lib clk ClMonotonicNow ci = None"
| "lib_answer lib clk (ClSetPacketCaptureEnabled b) ci =
     (if b then answer (lib_capture_packet lib (ci_c ci)) else answer (lib_stop_capture_packet lib (ci_c ci)))"
| "lib_answer lib clk (ClSetSettings s) ci = answer (lib_set_settings lib s (ci_c ci))"
| "lib_answer lib clk ClPullLocalAgent ci = None"
| "lib_answer lib clk (ClPushLocalAgent a) ci = answer (lib_push_local_agent lib a (ci_c ci))"

fun lib_answers ::
  "'l pvpn_lib \<Rightarrow> 'k clocks \<Rightarrow> client_call list \<Rightarrow> ('l, 'k) pvpn_client_impl \<Rightarrow> (bool \<times> deadline) list" where
  "lib_answers lib clk [] ci = []"
| "lib_answers lib clk (c # cs) ci =
     (case lib_answer lib clk c ci of Some a \<Rightarrow> [a] | None \<Rightarrow> []) @
     lib_answers lib clk cs (client_call_step (client_impl_ops lib clk) c ci)"

definition cached :: "('l, 'k) pvpn_client_impl \<Rightarrow> bool \<times> deadline" where
  "cached ci = (ci_need_pull ci, ci_wakeup_deadline ci)"

lemma lib_call_cached: "cached (snd (lib_call f ci)) =
    (rt_need_pull (fst (f (ci_c ci))), rt_wakeup_deadline (fst (f (ci_c ci))))"
  by (simp add: lib_call_def handle_result_def cached_def split_beta)

lemma lib_call_lib [simp]: "ci_c (snd (lib_call f ci)) = snd (f (ci_c ci))"
  by (simp add: lib_call_def handle_result_def split_beta)

lemma client_call_cached:
  "cached (client_call_step (client_impl_ops lib clk) call ci) =
     (case lib_answer lib clk call ci of Some a \<Rightarrow> a | None \<Rightarrow> cached ci)"
  by (cases call)
    (simp_all add: client_impl_ops_def lib_call_cached answer_def impl_push_def impl_push_error_def
      impl_set_packet_capture_enabled_def impl_set_current_time_def monotonic_factory_now_def
      realtime_factory_now_def impl_pull_local_agent_def split_beta Let_def,
     simp_all add: cached_def)

section \<open>Peers\<close>

text \<open>
  The documented behaviour of a list of peers: adding sets the peer of an address, removing
  clears it. \<open>m\<close> reads the list, of the library and of a client of the trait.
\<close>

definition peer_map_lib :: "'l pvpn_lib \<Rightarrow> ('l \<Rightarrow> peer_addr \<rightharpoonup> peer) \<Rightarrow> bool" where
  "peer_map_lib lib m \<longleftrightarrow>
     (\<forall>p l. m (snd (lib_add_peer lib p l)) = (m l)(p_addr p \<mapsto> p)) \<and>
     (\<forall>a l. m (snd (lib_remove_peer lib a l)) = (m l)(a := None))"

definition peer_map_client :: "'c pvpn_client \<Rightarrow> ('c \<Rightarrow> peer_addr \<rightharpoonup> peer) \<Rightarrow> bool" where
  "peer_map_client ops m \<longleftrightarrow>
     (\<forall>p c. m (pc_peer_add ops p c) = (m c)(p_addr p \<mapsto> p)) \<and>
     (\<forall>a c. m (pc_peer_remove ops a c) = (m c)(a := None))"

lemma client_impl_peer_map:
  "peer_map_lib lib m \<Longrightarrow> peer_map_client (client_impl_ops lib clk) (\<lambda>ci. m (ci_c ci))"
  by (simp add: peer_map_lib_def peer_map_client_def client_impl_ops_def)

section \<open>Properties\<close>

text \<open>After any sequence of calls on the client, what the connection loop sees as the need to
  pull and the time to wake up is what the library said in its latest answer, whichever call
  that was; before the first one they hold their initial values.\<close>

theorem client_cache_follows_library:
  "cached (fold (client_call_step (client_impl_ops lib clk)) calls ci) =
     last (cached ci # lib_answers lib clk calls ci)"
proof (induction calls arbitrary: ci)
  case (Cons c cs)
  then show ?case by (simp add: client_call_cached split: option.split)
qed simp

end
