(* ===== verification/Connection_Properties.thy ===== *)
theory Connection_Properties
  imports Connection_Invariants Mio_Streams Pvpn_Client_Impl
begin

text \<open>
  Properties of the connection thread as a whole: what its owner is told and in which order,
  how it ends, that the peers of the client are those of the configuration, and what
  becomes of data while there is no network. The witnesses run the thread on the mio
  streams of \<open>Mio_Streams\<close> with a small client whose state is its table of peers.
\<close>

section \<open>A concrete environment\<close>

definition table_client :: "(peer_addr \<rightharpoonup> peer) pvpn_client" where
  "table_client =
     \<lparr>pc_set_current_time = (\<lambda>c. ((0, 0), c)), pc_need_pull = (\<lambda>_. False),
      pc_peer_add = (\<lambda>p c. c(p_addr p \<mapsto> p)), pc_peer_remove = (\<lambda>a c. c(a := None)),
      pc_pull = (\<lambda>c. (None, c)), pc_push = (\<lambda>_ c. c), pc_push_error = (\<lambda>_ _ c. c),
      pc_get_tunnel_info = (\<lambda>c. (Some TunnelDisconnected, c)), pc_wakeup_deadline = (\<lambda>_. None),
      pc_notify_network_change = (\<lambda>c. c), pc_notify_network_down = (\<lambda>c. c),
      pc_get_stats = (\<lambda>c. (None, c)), pc_monotonic_now = (\<lambda>c. (0, c)),
      pc_set_packet_capture_enabled = (\<lambda>_ c. c), pc_set_settings = (\<lambda>_ c. c),
      pc_pull_local_agent = (\<lambda>c. (None, c)), pc_push_local_agent = (\<lambda>_ c. c)\<rparr>"

type_synonym example_conn = "(peer_addr \<rightharpoonup> peer, (bytes \<times> nat) mio_streams, bytes) conn"

definition example_env :: "(peer_addr \<rightharpoonup> peer, (bytes \<times> nat) mio_streams, bytes) conn_env" where
  "example_env =
     \<lparr>ce_client = table_client, ce_streams = mio_ops window_sys False example_ids, ce_fs = one_file_fs,
      ce_realtime_clock = (\<lambda>w. (0, w)), ce_ids = example_ids, ce_android = False\<rparr>"

definition example_streams :: "(bytes \<times> nat) mio_streams" where
  "example_streams = snd (mio_new window_sys example_ids (Some (MioTunUnix (tun_unix_new 3))) ([], 5))"

definition example_start :: example_conn where
  "example_start = pvpn_connection_new example_env Map.empty example_streams [] False
     [example_peer ''a'' (V4 (Ipv4Addr 10 0 0 1)) 1] None None"

text \<open>The example thread is told to disconnect at once.\<close>

definition example_end :: example_conn where
  "example_end = on_connection_loop_end example_env (example_start\<lparr>cn_should_stop := True\<rparr>)"

lemma example_inbox: "cn_inbox example_start = []" "cn_should_stop example_start = False"
  by (simp_all add: example_start_def pvpn_connection_new_def set_state_def client_do_def
      network_recovery_new_def is_network_available_def Let_def sanitized_peers_eq best_peers_def
      best_in_def)

lemma example_leave: "thread_step example_env (Running (example_start\<lparr>cn_inbox := [Disconnect]\<rparr>)) (Finished example_end)"
proof -
  have eq: "(example_start\<lparr>cn_inbox := [Disconnect]\<rparr>)\<lparr>cn_should_stop := True, cn_inbox := []\<rparr> =
      example_start\<lparr>cn_should_stop := True\<rparr>"
    using example_inbox(1) by (cases example_start) simp
  have "loop_iteration example_env (example_start\<lparr>cn_inbox := [Disconnect]\<rparr>) =
      Some (Inr (example_start\<lparr>cn_should_stop := True\<rparr>))"
    using drain_until_disconnect [of "[]" example_env "[]" "example_start\<lparr>cn_inbox := [Disconnect]\<rparr>"]
    by (simp add: loop_iteration_def handle_messages_def eq)
  then show ?thesis unfolding example_end_def by (rule thread_step.leave)
qed

lemma example_reach: "thread_reach example_env (Running example_start) (Finished example_end)"
proof -
  have "thread_step example_env (Running example_start) (Running (example_start\<lparr>cn_inbox := [Disconnect]\<rparr>))"
    using thread_step.deliver [of example_env example_start Disconnect] example_inbox by simp
  with example_leave show ?thesis by (meson converse_rtranclp_into_rtranclp r_into_rtranclp)
qed

section \<open>What the owner of the connection is told\<close>

text \<open>C1: Whatever messages arrive and whatever the client and the sockets do, the owner of a
  connection is told of every change of the connection state and only of changes: the
  reported states, after the initial disconnected one, never repeat the previous one, and
  the last of them is the current state.\<close>

theorem state_reports_exact:
  assumes "thread_reach env (Running (pvpn_connection_new env cl st w avail peers pcap las)) t"
  shows "distinct_adj (Disconnected None # state_reports (cn_outputs (thread_conn t))) \<and>
         last (Disconnected None # state_reports (cn_outputs (thread_conn t))) =
           cn_connection_state (thread_conn t)"
  using reports.reach_keeps [OF assms] new_reports_ok [of env cl st w avail peers pcap las]
  by (simp add: reports_ok_def)

theorem state_reports_exact_witness:
  "distinct_adj (Disconnected None # state_reports (cn_outputs example_end)) \<and>
   last (Disconnected None # state_reports (cn_outputs example_end)) = cn_connection_state example_end"
  using state_reports_exact [OF example_reach [unfolded example_start_def]] by simp

text \<open>C8: Without a local agent the owner is never told to wait for one, and a connected state
  carries no agent information; with a local agent every connected state carries it.\<close>

theorem state_reports_follow_mode:
  assumes "thread_reach env (Running (pvpn_connection_new env cl st w avail peers pcap las)) t"
  shows "list_all (mode_state (las \<noteq> None)) (state_reports (cn_outputs (thread_conn t)))"
  using mode.reach_keeps [OF assms, of "las \<noteq> None"] new_mode_ok [of las env cl st w avail peers pcap]
  by (simp add: mode_ok_def)

theorem state_reports_follow_mode_witness:
  "list_all (mode_state False) (state_reports (cn_outputs example_end))"
  using state_reports_follow_mode [OF example_reach [unfolded example_start_def]] by simp

text \<open>C7: While the system reports no network the connection is never in a state that claims a
  working tunnel, neither connected nor connecting to the local agent.\<close>

theorem offline_never_connected:
  assumes "thread_reach env (Running (pvpn_connection_new env cl st w avail peers pcap las)) t"
    and "\<not> is_network_available (cn_network_recovery_handler (thread_conn t))"
  shows "\<not> reaches_peer (cn_connection_state (thread_conn t))"
  using offline.reach_keeps [OF assms(1)] new_offline_ok [of env cl st w avail peers pcap las] assms(2)
  by (simp add: offline_ok_def network_up_def is_network_available_def)

theorem offline_never_connected_witness:
  "\<not> reaches_peer (cn_connection_state example_start)"
proof -
  have "\<not> is_network_available (cn_network_recovery_handler (thread_conn (Running example_start)))"
    by (simp add: example_start_def pvpn_connection_new_def set_state_def client_do_def
        network_recovery_new_def is_network_available_def Let_def sanitized_peers_eq best_peers_def best_in_def)
  from offline_never_connected [OF rtranclp.rtrancl_refl this [unfolded example_start_def]]
  show ?thesis by (simp add: example_start_def)
qed



section \<open>The end of a connection\<close>

text \<open>C2: A thread that has ended has told its owner so: its last report, or the initial state if
  it never reported, is a disconnected one, and no packet capture is left running.\<close>

theorem thread_end_disconnected:
  assumes "thread_reach env (Running (pvpn_connection_new env cl st w avail peers pcap las)) (Finished c)"
  shows "cn_pcap_stream c = None \<and>
         (\<exists>r. last (Disconnected None # state_reports (cn_outputs c)) = Disconnected r)"
proof -
  from assms obtain c1 c2 where c: "c = on_connection_loop_end env c2" by (rule reach_Finished)
  have "reports_ok c"
    using reports.reach_keeps [OF assms] new_reports_ok [of env cl st w avail peers pcap las] by simp
  then show ?thesis using loop_end_state [of env c2] by (simp add: c reports_ok_def)
qed

theorem thread_end_disconnected_witness:
  "cn_pcap_stream example_end = None \<and>
   (\<exists>r. last (Disconnected None # state_reports (cn_outputs example_end)) = Disconnected r)"
  using thread_end_disconnected [OF example_reach [unfolded example_start_def]] .

text \<open>C3: A request to disconnect is always honoured, at once: whatever the client and the streams
  would do, a thread with such a message in its inbox comes back from its loop without
  polling again, having handled the messages before the request and left those after it.\<close>

theorem disconnect_stops:
  assumes "cn_inbox c = before @ Disconnect # after" and "Disconnect \<notin> set before"
  shows "\<exists>c'. run env c = Some c' \<and> cn_inbox c' = after \<and> cn_pcap_stream c' = None \<and>
    (\<exists>r. cn_connection_state c' = Disconnected r) \<and>
    c' = on_connection_loop_end env
           ((fold (handle_message env) before c)\<lparr>cn_should_stop := True, cn_inbox := after\<rparr>)"
proof -
  let ?c = "(fold (handle_message env) before c)\<lparr>cn_should_stop := True, cn_inbox := after\<rparr>"
  have "loop_iteration env c = Some (Inr ?c)"
    using drain_until_disconnect [OF assms(2), of env "after" c]
    by (simp add: loop_iteration_def handle_messages_def assms(1))
  then have run: "run env c = Some (on_connection_loop_end env ?c)" by (simp add: run_def)
  have "cn_inbox (on_connection_loop_end env ?c) = after"
    by (simp add: on_connection_loop_end_def stop_packet_capture_def put_pcap_def emit_event_def
        client_do_def Let_def split: connection_state.split option.split)
  with run loop_end_state [of env ?c] show ?thesis by blast
qed

theorem disconnect_stops_witness:
  "\<exists>c'. run example_env (example_start\<lparr>cn_inbox := [RequestStats, Disconnect, StopPacketCapture]\<rparr>) = Some c' \<and>
     cn_inbox c' = [StopPacketCapture] \<and> (\<exists>r. cn_connection_state c' = Disconnected r)"
  using disconnect_stops [of "example_start\<lparr>cn_inbox := [RequestStats, Disconnect, StopPacketCapture]\<rparr>"
      "[RequestStats]" "[StopPacketCapture]" example_env] by auto

section \<open>The peers of the client\<close>

definition peer_table :: "peer_info list \<Rightarrow> peer_addr \<rightharpoonup> peer" where
  "peer_table ps = map_of (map (\<lambda>p. (peer_info_addr p, as_peer p)) ps)"

lemma peer_table_Some:
  assumes "distinct (map pi_server_ip ps)" "p \<in> set ps"
  shows "peer_table ps (peer_info_addr p) = Some (as_peer p)"
proof -
  have "distinct (map peer_info_addr ps)"
    using assms(1) by (auto simp: distinct_map inj_on_def peer_info_addr_inj)
  then show ?thesis
    using assms(2) by (auto simp: peer_table_def comp_def intro!: map_of_is_SomeI)
qed

lemma peer_table_None: "peer_table ps a = None \<longleftrightarrow> a \<notin> peer_info_addr ` set ps"
  by (simp add: peer_table_def map_of_eq_None_iff image_image)

lemma peer_table_eqI:
  assumes "distinct (map pi_server_ip ps)"
    and "\<And>p. p \<in> set ps \<Longrightarrow> f (peer_info_addr p) = Some (as_peer p)"
    and "\<And>a. a \<notin> peer_info_addr ` set ps \<Longrightarrow> f a = None"
  shows "f = peer_table ps"
proof
  fix a show "f a = peer_table ps a"
  proof (cases "a \<in> peer_info_addr ` set ps")
    case True
    with assms(2) peer_table_Some [OF assms(1)] show ?thesis by auto
  next
    case False
    then show ?thesis using assms(3) peer_table_None [of ps a] by simp
  qed
qed

lemma kept_addr:
  assumes "distinct (map pi_server_ip ps)" "p \<in> set ps" "p \<in> set qs"
  shows "peer_info_addr p \<notin> peer_info_addr ` set (filter (\<lambda>p. p \<notin> set qs) ps)"
proof
  assume "peer_info_addr p \<in> peer_info_addr ` set (filter (\<lambda>p. p \<notin> set qs) ps)"
  then obtain q where q: "q \<in> set ps" "q \<notin> set qs" "pi_server_ip q = pi_server_ip p"
    by (auto simp: peer_info_addr_inj)
  with assms(1,2) have "q = p" by (simp add: distinct_map inj_on_def)
  with q(2) assms(3) show False by simp
qed

text \<open>The two loops of \<^verbatim>\<open>update_peers\<close> on the client alone.\<close>

lemma fold_client_do_if:
  assumes "\<And>p d f. P p (client_do f d) = P p d"
  shows "fold (\<lambda>p d. if P p d then client_do (f p) d else d) ps c =
    client_do (fold f (filter (\<lambda>p. P p c) ps)) c"
  using assms by (induction ps arbitrary: c) (auto simp: client_do_def)

lemma client_do_fields [simp]:
  "cn_peers (client_do f c) = cn_peers c" "cn_client (client_do f c) = f (cn_client c)"
  by (simp_all add: client_do_def)

lemma update_peers_client:
  assumes "cn_peers c \<noteq> new"
  shows "cn_client (update_peers env new c) =
    fold (\<lambda>p. pc_peer_add (ce_client env) (as_peer p)) (filter (\<lambda>p. p \<notin> set (cn_peers c)) new)
      (fold (\<lambda>p. pc_peer_remove (ce_client env) (peer_info_addr p)) (filter (\<lambda>p. p \<notin> set new) (cn_peers c))
        (cn_client c))"
  using assms
  by (simp add: update_peers_def Let_def fold_client_do_if sanitized_contains_def)

lemma fold_remove_map:
  assumes "peer_map_client ops m"
  shows "m (fold (\<lambda>p. pc_peer_remove ops (peer_info_addr p)) ps c) a =
    (if a \<in> peer_info_addr ` set ps then None else m c a)"
  using assms by (induction ps arbitrary: c) (auto simp: peer_map_client_def)

lemma fold_add_map:
  assumes "peer_map_client ops m"
  shows "a \<notin> peer_info_addr ` set ps \<Longrightarrow> m (fold (\<lambda>p. pc_peer_add ops (as_peer p)) ps c) a = m c a"
    and "distinct (map pi_server_ip ps) \<Longrightarrow> p \<in> set ps \<Longrightarrow>
      m (fold (\<lambda>p. pc_peer_add ops (as_peer p)) ps c) (peer_info_addr p) = Some (as_peer p)"
proof -
  show frame: "a \<notin> peer_info_addr ` set ps \<Longrightarrow> m (fold (\<lambda>p. pc_peer_add ops (as_peer p)) ps c) a = m c a" for ps a c
    using assms by (induction ps arbitrary: c) (auto simp: peer_map_client_def)
  show "distinct (map pi_server_ip ps) \<Longrightarrow> p \<in> set ps \<Longrightarrow>
      m (fold (\<lambda>p. pc_peer_add ops (as_peer p)) ps c) (peer_info_addr p) = Some (as_peer p)"
  proof (induction ps arbitrary: c)
    case (Cons q qs)
    show ?case
    proof (cases "p \<in> set qs")
      case False
      have "peer_info_addr q \<notin> peer_info_addr ` set qs"
        using Cons.prems(1) by (auto simp: peer_info_addr_inj)
      with False Cons.prems(2) frame assms show ?thesis by (simp add: peer_map_client_def)
    qed (use Cons in simp)
  qed simp
qed

lemma update_peers_table:
  assumes "peer_map_client (ce_client env) m"
    and "m (cn_client c) = peer_table (cn_peers c)"
    and "distinct (map pi_server_ip (cn_peers c))" and "distinct (map pi_server_ip new)"
  shows "m (cn_client (update_peers env new c)) = peer_table new \<and> cn_peers (update_peers env new c) = new"
proof (cases "cn_peers c = new")
  case True
  then show ?thesis using assms by (simp add: update_peers_def)
next
  case False
  let ?gone = "filter (\<lambda>p. p \<notin> set new) (cn_peers c)" and ?fresh = "filter (\<lambda>p. p \<notin> set (cn_peers c)) new"
  let ?cl = "fold (\<lambda>p. pc_peer_remove (ce_client env) (peer_info_addr p)) ?gone (cn_client c)"
  note rem = fold_remove_map [OF assms(1), of ?gone "cn_client c"]
  have fresh: "distinct (map pi_server_ip ?fresh)" using assms(4) by (simp add: distinct_map_filter)
  have "m (fold (\<lambda>p. pc_peer_add (ce_client env) (as_peer p)) ?fresh ?cl) = peer_table new"
  proof (rule peer_table_eqI [OF assms(4)])
    fix p assume p: "p \<in> set new"
    show "m (fold (\<lambda>p. pc_peer_add (ce_client env) (as_peer p)) ?fresh ?cl) (peer_info_addr p) = Some (as_peer p)"
    proof (cases "p \<in> set (cn_peers c)")
      case False
      with p show ?thesis by (intro fold_add_map(2) [OF assms(1) fresh]) simp
    next
      case True
      have "peer_info_addr p \<notin> peer_info_addr ` set ?fresh" "peer_info_addr p \<notin> peer_info_addr ` set ?gone"
        by (rule kept_addr [OF assms(4) p True], rule kept_addr [OF assms(3) True p])
      then show ?thesis
        using fold_add_map(1) [OF assms(1)] rem assms(2) peer_table_Some [OF assms(3) True] by simp
    qed
  next
    fix a assume a: "a \<notin> peer_info_addr ` set new"
    then have "m (fold (\<lambda>p. pc_peer_add (ce_client env) (as_peer p)) ?fresh ?cl) a = m ?cl a"
      by (intro fold_add_map(1) [OF assms(1)]) auto
    also have "\<dots> = None"
    proof (cases "a \<in> peer_info_addr ` set (cn_peers c)")
      case True
      with a have "a \<in> peer_info_addr ` set ?gone" by auto
      then show ?thesis by (simp add: rem)
    next
      case False
      then show ?thesis using assms(2) peer_table_None by (simp add: rem)
    qed
    finally show "m (fold (\<lambda>p. pc_peer_add (ce_client env) (as_peer p)) ?fresh ?cl) a = None" .
  qed
  with False show ?thesis by (simp add: update_peers_client) (simp add: update_peers_def Let_def)
qed

lemma fold_client_do: "fold (\<lambda>x. client_do (f x)) xs c = client_do (fold f xs) c"
  by (induction xs arbitrary: c) (simp_all add: client_do_def)

lemma new_cn_peers: "cn_peers (pvpn_connection_new env cl st w avail peers pcap las) = sanitized_peers_from peers"
proof -
  have "cn_peers (start_packet_capture env info c) = cn_peers c" for info c
    by (simp add: start_packet_capture_def put_pcap_def Let_def split: prod.split sum.split)
  then show ?thesis
    by (simp add: pvpn_connection_new_def Let_def fold_client_do split: option.split)
qed

text \<open>The start adds every configured peer once.\<close>

lemma new_peers_table:
  assumes "peer_map_client (ce_client env) m" "m cl = Map.empty"
    and "\<And>x c. m (pc_notify_network_down (ce_client env) c) = m c"
    and "\<And>b c. m (pc_set_packet_capture_enabled (ce_client env) b c) = m c"
    and "\<And>a c. m (pc_push_local_agent (ce_client env) a c) = m c"
    and "\<And>s c. m (pc_set_settings (ce_client env) s c) = m c"
  shows "m (cn_client (pvpn_connection_new env cl st w avail peers pcap las)) =
      peer_table (sanitized_peers_from peers)"
proof -
  have watch: "m (fold (\<lambda>sel. pc_push_local_agent (ce_client env) (Watch sel)) xs c) = m c" for xs c
    by (induction xs arbitrary: c) (simp_all add: assms(5))
  have capture: "m (cn_client (start_packet_capture env info c)) = m (cn_client c)" for info c
    by (simp add: start_packet_capture_def put_pcap_def emit_event_def client_do_def Let_def assms(4)
        split: prod.split sum.split)
  have "m (fold (\<lambda>p. pc_peer_add (ce_client env) (as_peer p)) (sanitized_peers_from peers) cl) =
      peer_table (sanitized_peers_from peers)"
    by (rule peer_table_eqI [OF distinct_ips_sanitized])
      (simp_all add: fold_add_map [OF assms(1)] distinct_ips_sanitized assms(2))
  then show ?thesis
    by (simp add: pvpn_connection_new_def Let_def fold_client_do watch capture assms(3,6) client_do_def
        split: option.split)
qed

text \<open>
  A library whose state is its table of peers and which never wants anything, for the
  witnesses.
\<close>

definition quiet :: "'x \<Rightarrow> 'x pvpn_return" where
  "quiet x = \<lparr>rt_value = x, rt_need_pull = False, rt_wakeup_deadline = None\<rparr>"

definition quiet_lib :: "(peer_addr \<rightharpoonup> peer) pvpn_lib" where
  "quiet_lib =
     \<lparr>lib_set_time = (\<lambda>_ _ l. (quiet (), l)), lib_add_peer = (\<lambda>p l. (quiet (), l(p_addr p \<mapsto> p))),
      lib_remove_peer = (\<lambda>a l. (quiet (), l(a := None))), lib_pull = (\<lambda>l. (quiet None, l)),
      lib_pull_local_agent = (\<lambda>l. (None, l)), lib_push_local_agent = (\<lambda>_ l. (quiet (), l)),
      lib_push = (\<lambda>_ l. (quiet (Inr ()), l)), lib_notify_network_change = (\<lambda>l. (quiet (), l)),
      lib_tunnel_info = (\<lambda>l. (quiet (Some TunnelDisconnected), l)), lib_tunnel_stats = (\<lambda>l. (quiet None, l)),
      lib_set_settings = (\<lambda>_ l. (quiet (), l)), lib_capture_packet = (\<lambda>l. (quiet 0, l)),
      lib_stop_capture_packet = (\<lambda>l. (quiet 0, l))\<rparr>"

definition quiet_clocks :: "nat clocks" where
  "quiet_clocks = \<lparr>ck_instant = (\<lambda>k. (k, k + 1)), ck_since_epoch = (\<lambda>k. (k, k))\<rparr>"

definition quiet_client :: "(peer_addr \<rightharpoonup> peer, nat) pvpn_client_impl" where
  "quiet_client = \<lparr>ci_c = Map.empty, ci_need_pull = True, ci_wakeup_deadline = None,
     ci_initial_instant = 0, ci_clock = 0\<rparr>"

definition quiet_env :: "((peer_addr \<rightharpoonup> peer, nat) pvpn_client_impl, (bytes \<times> nat) mio_streams, bytes) conn_env" where
  "quiet_env =
     \<lparr>ce_client = client_impl_ops quiet_lib quiet_clocks, ce_streams = mio_ops window_sys False example_ids,
      ce_fs = one_file_fs, ce_realtime_clock = (\<lambda>w. (0, w)), ce_ids = example_ids, ce_android = False\<rparr>"

definition peers_neutral :: "'l pvpn_lib \<Rightarrow> ('l \<Rightarrow> peer_addr \<rightharpoonup> peer) \<Rightarrow> bool" where
  "peers_neutral lib m \<longleftrightarrow>
     (\<forall>l. m (snd (lib_capture_packet lib l)) = m l) \<and> (\<forall>l. m (snd (lib_stop_capture_packet lib l)) = m l) \<and>
     (\<forall>a l. m (snd (lib_push_local_agent lib a l)) = m l) \<and> (\<forall>s l. m (snd (lib_set_settings lib s l)) = m l)"



section \<open>Data and deadlines\<close>

text \<open>While the system reports no network, what is read from any stream is dropped: the read
  returns without touching the client, the reports or the recovery state, and the stream is
  read again exactly when it gave data without blocking.\<close>

theorem offline_drops_reads:
  assumes "so_has_stream (ce_streams env) i (cn_streams c)"
    and "so_read (ce_streams env) i (cn_stream_read_buffer c) (cn_streams c) = (StreamOk n off wb pw, buf, st)"
    and "\<not> is_network_available (cn_network_recovery_handler c)"
  shows "\<exists>c'. read_one_stream env i (ids, c) =
      Some (if wb = WouldBlockNo \<and> n > 0 then ids @ [i] else ids, c') \<and>
    cn_client c' = cn_client c \<and> cn_outputs c' = cn_outputs c \<and> cn_streams c' = st \<and>
    cn_network_recovery_handler c' = cn_network_recovery_handler c"
  using assms by (simp add: read_one_stream_def handle_read_result_def Let_def)

theorem offline_drops_reads_witness:
  "\<exists>c'. read_one_stream example_env 0 ([], example_start\<lparr>cn_streams :=
        example_streams\<lparr>ms_world := ([69, 1, 2], 5)\<rparr>\<rparr>) = Some ([0], c') \<and> cn_client c' = cn_client example_start"
proof -
  let ?st = "example_streams\<lparr>ms_world := ([69, 1, 2], 5)\<rparr>"
  let ?c = "example_start\<lparr>cn_streams := ?st\<rparr>"
  have tun: "get_stream_by_id (ms_streams ?st) 0 =
      Some \<lparr>mi_stream_id = 0, mi_stream = MioTunUnix (tun_unix_new 3), mi_token = 1, mi_interest = Readable\<rparr>"
    by (simp add: example_streams_def mio_new_def register_stream_def window_sys_def get_stream_by_id_def
        example_ids_def POLL_WAKER_TOKEN_def Let_def)
  have buf: "length (cn_stream_read_buffer ?c) = 65536"
    by (simp add: example_start_def pvpn_connection_new_def set_state_def client_do_def STREAM_BUFFER_SIZE_def
        network_recovery_new_def is_network_available_def Let_def sanitized_peers_eq best_peers_def best_in_def)
  have off: "\<not> is_network_available (cn_network_recovery_handler ?c)"
    by (simp add: example_start_def pvpn_connection_new_def set_state_def client_do_def
        network_recovery_new_def is_network_available_def Let_def sanitized_peers_eq best_peers_def best_in_def)
  have has: "so_has_stream (ce_streams example_env) 0 (cn_streams ?c)"
    using tun by (simp add: example_env_def mio_ops_def)
  obtain buf' st' where rd: "so_read (ce_streams example_env) 0 (cn_stream_read_buffer ?c) (cn_streams ?c) =
      (StreamOk 3 0 WouldBlockNo PendingNo, buf', st')"
    using tun buf by (simp add: example_env_def mio_ops_def mio_read_def tun_unix_read_def tun_unix_new_def
        window_sys_def stream_ok_def)
  from offline_drops_reads [OF has rd off, of "[]"] show ?thesis by auto
qed

lemma earliest_deadline:
  fixes a b :: "duration option"
  shows "(if {d. a = Some d \<or> b = Some d} = {} then None else Some (Min {d. a = Some d \<or> b = Some d})) =
    (case b of Some d \<Rightarrow> (case a of None \<Rightarrow> Some d | Some e \<Rightarrow> Some (min e d)) | None \<Rightarrow> a)"
proof -
  have "{d. Some x = Some d \<or> Some y = Some d} = {x, y}" for x y :: duration by auto
  moreover have "{d. Some x = Some d \<or> None = Some d} = {x}" "{d. None = Some d \<or> Some x = Some d} = {x}"
    for x :: duration by auto
  ultimately show ?thesis by (cases a; cases b) auto
qed

text \<open>The loop never sleeps past a deadline: the time it polls for is the earliest of what the
  client asked for and what the network recovery waits for, and unlimited only if neither
  has a deadline.\<close>

theorem poll_deadline_earliest:
  "let ds = {d. pc_wakeup_deadline (ce_client env) (cn_client c) = Some d \<or>
                fst (wakeup_delay (pc_monotonic_now (ce_client env)) (cn_network_recovery_handler c) (cn_client c)) = Some d}
   in fst (poll_deadline env c) = (if ds = {} then None else Some (Min ds))"
  using earliest_deadline [of "pc_wakeup_deadline (ce_client env) (cn_client c)"
      "fst (wakeup_delay (pc_monotonic_now (ce_client env)) (cn_network_recovery_handler c) (cn_client c))"]
  by (simp add: poll_deadline_def client_get_def split_beta Let_def split: option.split)

text \<open>A packet that would take the capture beyond its limit ends it: the client stops
  capturing, the file is synced and released, and the owner is told once, with the file and
  the reason; the packet is not written.\<close>

theorem capture_stops_at_max:
  assumes "cn_pcap_stream c = Some ps" and "\<not> ps_at_max_size ps" and "pcap_over_max data ps"
  shows "\<exists>c'. handle_write env (PCAP_STREAM_ID (ce_ids env)) data c = Some c' \<and> cn_pcap_stream c' = None \<and>
     cn_outputs c' = cn_outputs c @ [EventOut (PacketCaptureStopped (MaxSizeReached (ps_file_info ps)))] \<and>
     cn_client c' = pc_set_packet_capture_enabled (ce_client env) False (cn_client c) \<and>
     cn_world c' = snd (fs_sync_all (ce_fs env) (ps_file ps) (cn_world c))"
  using assms
  by (simp add: handle_write_def pcap_write_def stop_packet_capture_def put_pcap_def emit_event_def
      client_do_def pcap_drop_def Let_def)

theorem capture_stops_at_max_witness:
  "\<exists>c'. handle_write example_env (- 1) [1, 2] (example_start\<lparr>cn_pcap_stream :=
       Some \<lparr>ps_file_info = \<lparr>pf_file = Fd 3, pf_max_bytes = Some 5\<rparr>, ps_file = 3, ps_size = 4,
             ps_max_bytes = Some 5, ps_at_max_size = False\<rparr>\<rparr>) = Some c' \<and> cn_pcap_stream c' = None"
proof -
  let ?ps = "\<lparr>ps_file_info = \<lparr>pf_file = Fd 3, pf_max_bytes = Some 5\<rparr>, ps_file = 3, ps_size = 4,
             ps_max_bytes = Some 5, ps_at_max_size = False\<rparr> :: pcap_stream"
  have "PCAP_STREAM_ID (ce_ids example_env) = - 1" by (simp add: example_env_def example_ids_def)
  moreover have "pcap_over_max [1, 2] ?ps" by (simp add: pcap_over_max_def)
  ultimately show ?thesis
    using capture_stops_at_max [of "example_start\<lparr>cn_pcap_stream := Some ?ps\<rparr>" ?ps "[1, 2]" example_env] by auto
qed

end
