(* ===== verification/Connection_Api.thy ===== *)
theory Connection_Api
  imports Connection_Properties
begin

text \<open>
  The public object \<^verbatim>\<open>Connection\<close> of \<^verbatim>\<open>src/api/connection.rs\<close> with its Unix constructor
  (\<^verbatim>\<open>src/api/connection_unix.rs\<close>) and the function that starts the thread
  (\<^verbatim>\<open>start_pvpn_connection\<close> in \<^verbatim>\<open>src/connection/pvpn_connection.rs\<close>). Every method sends one
  message; sending panics once the receiving end is gone, which is the value \<open>None\<close>. Waking
  the poll up only shortens the next wait and is left out.
\<close>

section \<open>Methods\<close>

datatype api_call =
    ApiUpdatePeers "peer_info list"
  | ApiUpdate config_update
  | ApiOnConnectivityChange connectivity_event
  | ApiDisconnect
  | ApiStartPacketCapture pcap_file_info
  | ApiStopPacketCapture
  | ApiRequestStats
  | ApiUpdateLocalAgentSettings local_agent_settings
  | ApiRequestLocalAgentStats
  | ApiProvideApiForkSelector fork_selector_info
  | ApiUpdateUnixTun tun_stream_info

fun api_message :: "api_call \<Rightarrow> pvpn_message" where
  "api_message (ApiUpdatePeers peers) = Update \<lparr>cu_peers = Some peers, cu_settings = None, cu_tun = None\<rparr>"
| "api_message (ApiUpdate u) = Update u"
| "api_message (ApiOnConnectivityChange ev) = ConnectivityChange ev"
| "api_message ApiDisconnect = Disconnect"
| "api_message (ApiStartPacketCapture info) = StartPacketCapture info"
| "api_message ApiStopPacketCapture = StopPacketCapture"
| "api_message ApiRequestStats = RequestStats"
| "api_message (ApiUpdateLocalAgentSettings new) =
     Update \<lparr>cu_peers = None, cu_settings = Some new, cu_tun = None\<rparr>"
| "api_message ApiRequestLocalAgentStats = RequestLocalAgentStats"
| "api_message (ApiProvideApiForkSelector info) = ProvideApiForkSelector info"
| "api_message (ApiUpdateUnixTun info) = Update \<lparr>cu_peers = None, cu_settings = None, cu_tun = Some info\<rparr>"

section \<open>Starting a connection\<close>

text \<open>A connection whose thread could not create its dependencies only logs the error.\<close>

datatype ('c, 's, 'w) connection = Started "('c, 's, 'w) thread" | NeverStarted io_error

fun send_pvpn_message :: "pvpn_message \<Rightarrow> ('c, 's, 'w) connection \<Rightarrow> ('c, 's, 'w) connection option" where
  "send_pvpn_message m (Started (Running c)) = Some (Started (Running (c\<lparr>cn_inbox := cn_inbox c @ [m]\<rparr>)))"
| "send_pvpn_message m (Started (Finished c)) = None"
| "send_pvpn_message m (NeverStarted e) = None"

definition api :: "api_call \<Rightarrow> ('c, 's, 'w) connection \<Rightarrow> ('c, 's, 'w) connection option" where
  "api call = send_pvpn_message (api_message call)"

text \<open>
  \<^verbatim>\<open>disconnect_and_wait\<close>: the handle of the thread is taken by the first caller that gets past
  \<^verbatim>\<open>disconnect\<close>, which is the only one, as sending to a finished thread panics.
\<close>

definition disconnect_and_wait ::
  "('c, 's, 'w) conn_env \<Rightarrow> ('c, 's, 'w) connection \<Rightarrow> ('c, 's, 'w) connection option" where
  "disconnect_and_wait env conn =
     Option.bind (api ApiDisconnect conn) (\<lambda>conn.
       case conn of
         Started (Running c) \<Rightarrow> map_option (\<lambda>c. Started (Finished c)) (run env c)
       | _ \<Rightarrow> Some conn)"

fun mode_settings :: "connection_mode \<Rightarrow> local_agent_settings option" where
  "mode_settings (NoLocalAgent _) = None"
| "mode_settings (LocalAgent _ _ las) = Some las"

definition start_pvpn_connection ::
  "('c, 's, 'w) conn_env \<Rightarrow> initial_connection_config \<Rightarrow> 'w \<Rightarrow> ('c \<times> 's) io_result \<Rightarrow> ('c, 's, 'w) connection" where
  "start_pvpn_connection env config w dependencies =
     (case dependencies of
        Inr (client, streams) \<Rightarrow>
          Started (Running (pvpn_connection_new env client streams w (ic_network_available config)
            (ic_peers config) (ic_pcap_file config) (mode_settings (ic_connection_mode config))))
      | Inl e \<Rightarrow> NeverStarted e)"

text \<open>
  The dependencies on Unix: the streams, whose failure panics, then the client in the mode of
  the configuration.
\<close>

definition create_pvpn_dependencies ::
  "'v sys \<Rightarrow> bool \<Rightarrow> stream_ids \<Rightarrow> ('a, 't, 'm) secret_parsers \<Rightarrow> (cache_key \<Rightarrow> bytes option) \<Rightarrow>
   (instant \<Rightarrow> system_time \<Rightarrow> ('a, 't, 'm) pvpn_client_mode \<Rightarrow> 'l io_result) \<Rightarrow> 'k clocks \<Rightarrow>
   initial_connection_config \<Rightarrow> fd option \<Rightarrow> 'v \<Rightarrow> 'k
     \<Rightarrow> (('l, 'k) pvpn_client_impl \<times> 'v mio_streams) io_result option" where
  "create_pvpn_dependencies sys apple ids parsers cache_get lib_build clk config tun_fd v k =
     (let tun = map_option (\<lambda>f. if apple then MioTunApple (tun_apple_new f) else MioTunUnix (tun_unix_new f)) tun_fd
      in case mio_new sys ids tun v of
           (Inl _, _) \<Rightarrow> None
         | (Inr _, streams) \<Rightarrow> Some
             (case to_pvpn_client_mode parsers cache_get (ic_connection_mode config) of
                Inl e \<Rightarrow> Inl e
              | Inr mode \<Rightarrow>
                  (case fst (client_impl_new lib_build clk mode k) of
                     Inl e \<Rightarrow> Inl e
                   | Inr client \<Rightarrow> Inr (client, streams))))"

text \<open>
  The poll and its waker, of which mio's \<^verbatim>\<open>Poll::new\<close> and \<^verbatim>\<open>Waker::new\<close> are parameters, and the
  constructor. The dependencies are created by the new thread, where a panic ends the process.
\<close>

definition create_mio_poll_with_waker ::
  "('v \<Rightarrow> unit io_result \<times> 'v) \<Rightarrow> (nat \<Rightarrow> 'v \<Rightarrow> unit io_result \<times> 'v) \<Rightarrow> 'v \<Rightarrow> unit io_result \<times> 'v" where
  "create_mio_poll_with_waker poll_new waker_new v =
     (case poll_new v of
        (Inl e, v) \<Rightarrow> (Inl e, v)
      | (Inr _, v) \<Rightarrow> waker_new POLL_WAKER_TOKEN v)"

definition unix_connect ::
  "('v \<Rightarrow> unit io_result \<times> 'v) \<Rightarrow> (nat \<Rightarrow> 'v \<Rightarrow> unit io_result \<times> 'v) \<Rightarrow>
   (('l, 'k) pvpn_client_impl, 'v mio_streams, 'w) conn_env \<Rightarrow>
   'v sys \<Rightarrow> bool \<Rightarrow> stream_ids \<Rightarrow> ('a, 't, 'm) secret_parsers \<Rightarrow> (cache_key \<Rightarrow> bytes option) \<Rightarrow>
   (instant \<Rightarrow> system_time \<Rightarrow> ('a, 't, 'm) pvpn_client_mode \<Rightarrow> 'l io_result) \<Rightarrow> 'k clocks \<Rightarrow>
   initial_connection_config \<Rightarrow> fd option \<Rightarrow> 'w \<Rightarrow> 'v \<Rightarrow> 'k
     \<Rightarrow> (('l, 'k) pvpn_client_impl, 'v mio_streams, 'w) connection option" where
  "unix_connect poll_new waker_new env sys apple ids parsers cache_get lib_build clk config tun_fd w v k =
     (case create_mio_poll_with_waker poll_new waker_new v of
        (Inl _, _) \<Rightarrow> None
      | (Inr _, v) \<Rightarrow>
          map_option (start_pvpn_connection env config w)
            (create_pvpn_dependencies sys apple ids parsers cache_get lib_build clk config tun_fd v k))"

section \<open>Lemmas\<close>

lemma api_calls_running:
  "for_each api calls (Started (Running c)) =
     Some (Started (Running (c\<lparr>cn_inbox := cn_inbox c @ map api_message calls\<rparr>)))"
proof (induction calls arbitrary: c)
  case Nil
  show ?case by (cases c) simp
qed (simp add: api_def)

lemma api_message_disconnect [simp]: "api_message call = Disconnect \<longleftrightarrow> call = ApiDisconnect"
  by (cases call) simp_all

section \<open>Properties\<close>




definition strict_parsers :: "(bytes, bytes, bytes) secret_parsers" where
  "strict_parsers =
     \<lparr>sp_private_key = (\<lambda>b. if b = [] then Inl ''empty'' else Inr b), sp_certificate = Inr, sp_muon_auth = Inr\<rparr>"

definition agent_config :: initial_connection_config where
  "agent_config = \<lparr>ic_peers = [], ic_network_available = True, ic_pcap_file = None,
     ic_connection_mode = LocalAgent ''agent'' ''1.0'' local_agent_settings_default\<rparr>"

definition quiet_build ::
  "instant \<Rightarrow> system_time \<Rightarrow> (bytes, bytes, bytes) pvpn_client_mode \<Rightarrow> (peer_addr \<rightharpoonup> peer) io_result" where
  "quiet_build _ _ _ = Inr Map.empty"


end
