(* ===== verification/Ip_Text.thy ===== *)
theory Ip_Text
  imports Net_Types
begin

unbundle bit_operations_syntax

text \<open>
  Reading an address from its text: the conversion \<^verbatim>\<open>TryFrom<String> for IpAddress\<close> of
  \<^verbatim>\<open>src/api/type_conversions.rs\<close>. It calls \<^verbatim>\<open>IpAddr::from_str\<close>, the parser of \<^verbatim>\<open>core::net\<close>, which is
  modelled here function by function: a parser takes the text and gives back a value and the
  text that is left; a parser that fails leaves the text as it was. The theorem at the end is that
  every address is read back from the text that \<open>ip_to_string\<close> gives for it.
\<close>

section \<open>Numbers\<close>

definition digit_value :: "char \<Rightarrow> nat" where
  "digit_value ch =
     (let n = of_char ch
      in if 48 \<le> n \<and> n \<le> 57 then n - 48
         else if 97 \<le> n \<and> n \<le> 122 then n - 87
         else if 65 \<le> n \<and> n \<le> 90 then n - 55
         else 36)"

text \<open>\<^verbatim>\<open>char::to_digit\<close>, for a radix up to 36.\<close>

definition to_digit :: "nat \<Rightarrow> char \<Rightarrow> nat option" where
  "to_digit radix ch = (if digit_value ch < radix then Some (digit_value ch) else None)"

text \<open>The digits of a number: its value, how many there are, and the text behind them.\<close>

fun read_digits :: "nat \<Rightarrow> nat \<Rightarrow> nat \<Rightarrow> nat \<Rightarrow> string \<Rightarrow> (nat \<times> nat \<times> string) option" where
  "read_digits radix max_digits result digit_count [] = Some (result, digit_count, [])"
| "read_digits radix max_digits result digit_count (ch # s) =
     (case to_digit radix ch of
        None \<Rightarrow> Some (result, digit_count, ch # s)
      | Some digit \<Rightarrow>
          if Suc digit_count > max_digits then None
          else read_digits radix max_digits (result * radix + digit) (Suc digit_count) s)"

definition read_number :: "nat \<Rightarrow> nat \<Rightarrow> bool \<Rightarrow> string \<Rightarrow> ('a::len word \<times> string) option" where
  "read_number radix max_digits allow_zero_prefix s =
     (case read_digits radix max_digits 0 0 s of
        None \<Rightarrow> None
      | Some (result, digit_count, rest) \<Rightarrow>
          if digit_count = 0 then None
          else if \<not> allow_zero_prefix \<and> hd s = CHR ''0'' \<and> digit_count > 1 then None
          else if result < 2 ^ LENGTH('a) then Some (word_of_nat result, rest)
          else None)"

section \<open>Addresses\<close>

fun read_given_char :: "char \<Rightarrow> string \<Rightarrow> string option" where
  "read_given_char target [] = None"
| "read_given_char target (ch # s) = (if ch = target then Some s else None)"

definition read_separator ::
  "char \<Rightarrow> nat \<Rightarrow> (string \<Rightarrow> ('a \<times> string) option) \<Rightarrow> string \<Rightarrow> ('a \<times> string) option" where
  "read_separator sep index inner s =
     (if index > 0 then Option.bind (read_given_char sep s) inner else inner s)"

definition read_ipv4_addr :: "string \<Rightarrow> (ipv4_addr \<times> string) option" where
  "read_ipv4_addr s =
     do {
       (a, s) \<leftarrow> read_separator (CHR ''.'') 0 (read_number 10 3 False) s;
       (b, s) \<leftarrow> read_separator (CHR ''.'') 1 (read_number 10 3 False) s;
       (c, s) \<leftarrow> read_separator (CHR ''.'') 2 (read_number 10 3 False) s;
       (d, s) \<leftarrow> read_separator (CHR ''.'') 3 (read_number 10 3 False) s;
       Some (Ipv4Addr a b c d, s)
     }"

text \<open>
  The groups of an IPv6 address from the index \<open>i\<close> on, of which \<open>left\<close> may follow, whether an
  IPv4 address ended them, and the text behind them.
\<close>

text \<open>\<^verbatim>\<open>u16::from_be_bytes\<close>.\<close>

definition group_of_octets :: "u8 \<Rightarrow> u8 \<Rightarrow> u16" where
  "group_of_octets a b = push_bit 8 (ucast a) OR ucast b"

fun read_groups :: "nat \<Rightarrow> nat \<Rightarrow> string \<Rightarrow> u16 list \<times> bool \<times> string" where
  "read_groups 0 i s = ([], False, s)"
| "read_groups (Suc left) i s =
     (case (if left > 0 then read_separator (CHR '':'') i read_ipv4_addr s else None) of
        Some (Ipv4Addr one two three four, s) \<Rightarrow> ([group_of_octets one two, group_of_octets three four], True, s)
      | None \<Rightarrow>
          (case read_separator (CHR '':'') i (read_number 16 4 True) s of
             Some (g, s) \<Rightarrow> (let (gs, v4, s) = read_groups left (Suc i) s in (g # gs, v4, s))
           | None \<Rightarrow> ([], False, s)))"

fun ipv6_of_segments :: "u16 list \<Rightarrow> ipv6_addr" where
  "ipv6_of_segments [a, b, c, d, e, f, g, h] = Ipv6Addr a b c d e f g h"
| "ipv6_of_segments _ = Ipv6Addr 0 0 0 0 0 0 0 0"

definition read_ipv6_addr :: "string \<Rightarrow> (ipv6_addr \<times> string) option" where
  "read_ipv6_addr s =
     (let (head, head_ipv4, s) = read_groups 8 0 s in
      if length head = 8 then Some (ipv6_of_segments head, s)
      else if head_ipv4 then None
      else do {
        s \<leftarrow> read_given_char (CHR '':'') s;
        s \<leftarrow> read_given_char (CHR '':'') s;
        let (tail, _, s) = read_groups (8 - (length head + 1)) 0 s;
        Some (ipv6_of_segments (head @ replicate (8 - length head - length tail) 0 @ tail), s)
      })"

definition read_ip_addr :: "string \<Rightarrow> (ip_addr \<times> string) option" where
  "read_ip_addr s =
     (case read_ipv4_addr s of
        Some (a, s) \<Rightarrow> Some (V4 a, s)
      | None \<Rightarrow> map_option (map_prod V6 id) (read_ipv6_addr s))"

datatype addr_parse_error = AddrParseError

definition ip_addr_from_str :: "string \<Rightarrow> addr_parse_error + ip_addr" where
  "ip_addr_from_str s =
     (case read_ip_addr s of
        Some (a, []) \<Rightarrow> Inr a
      | _ \<Rightarrow> Inl AddrParseError)"

definition ip_address_try_from :: "string \<Rightarrow> addr_parse_error + ip_addr" where
  "ip_address_try_from value = ip_addr_from_str value"

section \<open>Reading printed numbers\<close>

text \<open>What may stand behind a number: nothing, or a separator.\<close>

definition ends_number :: "string \<Rightarrow> bool" where
  "ends_number s \<longleftrightarrow> s = [] \<or> hd s \<in> {CHR ''.'', CHR '':''}"

lemma ends_number_simps [simp]:
  "ends_number []" "ends_number (CHR ''.'' # s)" "ends_number (CHR '':'' # s)"
  by (simp_all add: ends_number_def)

lemma digit_value_digit_char:
  assumes "d < 16"
  shows "digit_value (digit_char d) = d"
proof -
  have "list_all (\<lambda>d. digit_value (digit_char d) = d) [0..<16]" by code_simp
  with assms show ?thesis by (auto simp: list_all_iff)
qed

lemma to_digit_digit_char: "d < radix \<Longrightarrow> radix \<le> 16 \<Longrightarrow> to_digit radix (digit_char d) = Some d"
  by (simp add: to_digit_def digit_value_digit_char)

lemma to_digit_separator:
  assumes "radix \<le> 16"
  shows "to_digit radix (CHR ''.'') = None" "to_digit radix (CHR '':'') = None"
proof -
  have "digit_value (CHR ''.'') = 36" "digit_value (CHR '':'') = 36" by (simp_all add: digit_value_def)
  with assms show "to_digit radix (CHR ''.'') = None" "to_digit radix (CHR '':'') = None"
    by (simp_all add: to_digit_def)
qed

lemma read_digits_end:
  "ends_number s \<Longrightarrow> radix \<le> 16 \<Longrightarrow> read_digits radix m res cnt s = Some (res, cnt, s)"
  by (cases s) (auto simp: ends_number_def to_digit_separator)

lemma read_digits_append:
  "read_digits radix m res cnt xs = Some (res', cnt', []) \<Longrightarrow>
   read_digits radix m res cnt (xs @ ys) = read_digits radix m res' cnt' ys"
  by (induction radix m res cnt xs rule: read_digits.induct) (auto split: option.splits if_splits)

lemma to_base_not_Nil [simp]: "to_base b n \<noteq> []"
  by (subst to_base.simps) simp

lemma read_digits_to_base:
  assumes "1 < radix" "radix \<le> 16" "cnt + length (to_base radix n) \<le> m"
  shows "read_digits radix m 0 cnt (to_base radix n) = Some (n, cnt + length (to_base radix n), [])"
  using assms
proof (induction radix n rule: to_base.induct)
  case (1 radix n)
  show ?case
  proof (cases "n < radix")
    case True
    then have "to_base radix n = [digit_char n]" by (subst to_base.simps) simp
    with True 1(2-4) show ?thesis by (simp add: to_digit_digit_char)
  next
    case False
    with 1(2) have eq: "to_base radix n = to_base radix (n div radix) @ [digit_char (n mod radix)]"
      by (subst to_base.simps) simp
    have "read_digits radix m 0 cnt (to_base radix (n div radix)) =
        Some (n div radix, cnt + length (to_base radix (n div radix)), [])"
      using 1 False eq by simp
    from read_digits_append [OF this, of "[digit_char (n mod radix)]"] 1(2-4)
    show ?thesis by (simp add: eq to_digit_digit_char mult.commute)
  qed
qed

lemma length_to_base:
  "n < b ^ k \<Longrightarrow> 0 < k \<Longrightarrow> 1 < b \<Longrightarrow> length (to_base b n) \<le> k"
proof (induction b n arbitrary: k rule: to_base.induct)
  case (1 b n)
  show ?case
  proof (cases "n < b")
    case True
    with 1(3) show ?thesis by (subst to_base.simps) simp
  next
    case False
    with 1(2) have "k \<noteq> 1" by auto
    with 1(3) obtain j where j: "k = Suc j" "0 < j" by (cases k) auto
    with 1(2,4) have "n div b < b ^ j"
      by (simp add: less_mult_imp_div_less mult.commute)
    with 1(1) [of j] j False 1(4) have "length (to_base b (n div b)) \<le> j" by simp
    with False 1(4) j show ?thesis by (subst to_base.simps) simp
  qed
qed

lemma hd_to_base:
  assumes "1 < b" "b \<le> 16" "0 < n"
  shows "hd (to_base b n) \<noteq> CHR ''0''"
  using assms
proof (induction b n rule: to_base.induct)
  case (1 b n)
  show ?case
  proof (cases "n < b")
    case True
    then have "to_base b n = [digit_char n]" by (subst to_base.simps) simp
    moreover have "to_digit b (digit_char n) = Some n" using True 1(3) by (rule to_digit_digit_char)
    moreover have "to_digit b (CHR ''0'') = Some 0" using 1(2) by (simp add: to_digit_def digit_value_def)
    ultimately show ?thesis using 1(4) by auto
  next
    case False
    with 1(2) have "0 < n div b" by (simp add: div_greater_zero_iff)
    with 1 False show ?thesis by (subst to_base.simps) (simp add: hd_append)
  qed
qed

lemma read_number_to_base:
  fixes w :: "'a::len word"
  assumes "1 < radix" "radix \<le> 16" "0 < m" "2 ^ LENGTH('a) \<le> radix ^ m" "ends_number s"
  shows "read_number radix m z (to_base radix (unat w) @ s) = Some (w, s)"
proof -
  have "unat w < radix ^ m" using assms(4) by (rule less_le_trans [OF unsigned_less])
  with assms(1,3) have len: "length (to_base radix (unat w)) \<le> m"
    by (simp add: length_to_base)
  have digits: "read_digits radix m 0 0 (to_base radix (unat w) @ s) =
      Some (unat w, length (to_base radix (unat w)), s)"
    using read_digits_append [OF read_digits_to_base [of radix 0 "unat w" m], of s] len assms
    by (simp add: read_digits_end)
  have "\<not> (hd (to_base radix (unat w) @ s) = CHR ''0'' \<and> length (to_base radix (unat w)) > 1)"
  proof (cases "unat w = 0")
    case True
    then show ?thesis using assms(1) by (subst (2) to_base.simps) simp
  next
    case False
    with hd_to_base [of radix "unat w"] assms show ?thesis by simp
  qed
  with digits show ?thesis by (auto simp: read_number_def)
qed

lemmas read_octet = read_number_to_base [where 'a = 8 and radix = 10 and m = 3, simplified]
lemmas read_group = read_number_to_base [where 'a = 16 and radix = 16 and m = 4, simplified]

section \<open>Reading printed addresses\<close>

lemma read_ipv4_print:
  "ends_number s \<Longrightarrow> read_ipv4_addr (ipv4_to_string a @ s) = Some (a, s)"
  by (cases a) (simp add: read_ipv4_addr_def ipv4_to_string_def read_separator_def read_octet)

text \<open>A text without a dot is no IPv4 address.\<close>

lemma read_digits_rest:
  "read_digits radix m res cnt s = Some (res', cnt', rest) \<Longrightarrow> set rest \<subseteq> set s"
  by (induction radix m res cnt s rule: read_digits.induct) (auto split: option.splits if_splits)

lemma read_number_rest: "read_number radix m z s = Some (w, rest) \<Longrightarrow> set rest \<subseteq> set s"
  by (auto simp: read_number_def split: option.splits if_splits dest!: read_digits_rest)

lemma read_given_char_None: "target \<notin> set s \<Longrightarrow> read_given_char target s = None"
  by (cases s) auto

lemma read_ipv4_no_dot: "CHR ''.'' \<notin> set s \<Longrightarrow> read_ipv4_addr s = None"
proof (cases "read_number 10 3 False s :: (u8 \<times> string) option")
  case (Some p)
  moreover assume "CHR ''.'' \<notin> set s"
  ultimately have "read_given_char (CHR ''.'') (snd p) = None"
    using read_number_rest [of 10 3 False s "fst p" "snd p"] by (auto intro: read_given_char_None)
  with Some show ?thesis by (simp add: read_ipv4_addr_def read_separator_def case_prod_beta)
qed (simp add: read_ipv4_addr_def read_separator_def)

lemma read_separator_no_dot:
  "CHR ''.'' \<notin> set s \<Longrightarrow> read_separator sep i read_ipv4_addr s = None"
  by (cases s) (simp_all add: read_separator_def read_ipv4_no_dot)

lemma read_number_stop:
  "ends_number s \<Longrightarrow> radix \<le> 16 \<Longrightarrow> (read_number radix m z s :: ('a::len word \<times> string) option) = None"
  by (simp add: read_number_def read_digits_end)

text \<open>The text of some groups from the index \<open>i\<close> on.\<close>

fun groups_text :: "nat \<Rightarrow> u16 list \<Rightarrow> string" where
  "groups_text i [] = []"
| "groups_text i (g # gs) = (if i > 0 then '':'' else []) @ to_hex (unat g) @ groups_text (Suc i) gs"

lemma fmt_subslice_groups: "fmt_subslice gs = groups_text 0 gs"
proof -
  have "join_strings '':'' (map (\<lambda>s. to_hex (unat s)) (g # gs)) = to_hex (unat g) @ groups_text (Suc i) gs"
    for g gs i by (induction gs arbitrary: g i) simp_all
  then show ?thesis by (cases gs) (simp_all add: fmt_subslice_def)
qed

lemma ends_number_groups_text: "ends_number s \<Longrightarrow> ends_number (groups_text (Suc i) gs @ s)"
  by (cases gs) simp_all

lemma no_dot_to_hex: "CHR ''.'' \<notin> set (to_hex n)"
proof (induction "16 :: nat" n rule: to_base.induct)
  case (1 n)
  have neq: "digit_char d \<noteq> CHR ''.''" if "d < 16" for d
    using to_digit_digit_char [OF that] to_digit_separator [of 16] by auto
  show ?case
  proof (cases "n < 16")
    case True
    with neq [of n] show ?thesis by (subst to_base.simps) simp
  next
    case False
    with neq [of "n mod 16"] 1 show ?thesis by (subst to_base.simps) simp
  qed
qed

lemma no_dot_groups_text: "CHR ''.'' \<notin> set (groups_text i gs)"
  by (induction gs arbitrary: i) (simp_all add: no_dot_to_hex)

text \<open>What may stand behind the groups: nothing, or the mark of left out groups.\<close>

definition ends_groups :: "string \<Rightarrow> bool" where
  "ends_groups s \<longleftrightarrow> s = [] \<or> (\<exists>r. s = CHR '':'' # CHR '':'' # r)"

lemma ends_groups_number: "ends_groups s \<Longrightarrow> ends_number s"
  by (auto simp: ends_groups_def)

lemma read_groups_stop:
  assumes "ends_groups s" "CHR ''.'' \<notin> set s"
  shows "read_groups n i s = ([], False, s)"
  using assms
  by (cases n) (auto simp: ends_groups_def read_separator_no_dot read_separator_def read_number_stop
      read_ipv4_no_dot)

lemma read_groups_ipv4:
  "1 < n \<Longrightarrow> read_separator (CHR '':'') i read_ipv4_addr s = Some (Ipv4Addr w x y z, s') \<Longrightarrow>
   read_groups n i s = ([group_of_octets w x, group_of_octets y z], True, s')"
  by (cases n) auto

lemma read_groups_group:
  "0 < n \<Longrightarrow> read_separator (CHR '':'') i read_ipv4_addr s = None \<Longrightarrow>
   read_separator (CHR '':'') i (read_number 16 4 True) s = Some (g, s') \<Longrightarrow>
   read_groups n i s = (let (gs, v4, s) = read_groups (n - 1) (Suc i) s' in (g # gs, v4, s))"
  by (cases n) (auto split: if_splits)

lemma read_groups_print:
  assumes "length gs \<le> n" "ends_groups s" "CHR ''.'' \<notin> set s"
  shows "read_groups n i (groups_text i gs @ s) = (gs, False, s)"
  using assms
proof (induction gs arbitrary: n i)
  case Nil
  then show ?case by (simp add: read_groups_stop)
next
  case (Cons g gs)
  then have n: "0 < n" "length gs \<le> n - 1" by auto
  have "ends_number (groups_text (Suc i) gs @ s)"
    using Cons.prems by (simp add: ends_number_groups_text ends_groups_number)
  note group = read_group [OF this, of True g]
  have "CHR ''.'' \<notin> set (groups_text i (g # gs) @ s)"
    using Cons.prems no_dot_groups_text [of i "g # gs"] by simp
  note no_ipv4 = read_separator_no_dot [OF this, of "CHR '':''" i]
  have "read_separator (CHR '':'') i (read_number 16 4 True) (groups_text i (g # gs) @ s) =
      Some (g, groups_text (Suc i) gs @ s)"
    using group by (cases i) (simp_all add: read_separator_def)
  moreover have "read_groups (n - 1) (Suc i) (groups_text (Suc i) gs @ s) = (gs, False, s)"
    by (rule Cons.IH [OF n(2) Cons.prems(2,3)])
  ultimately show ?case
    using no_ipv4 n(1) by (simp add: read_groups_group del: groups_text.simps)
qed

text \<open>The span that is left out consists of zero groups.\<close>

definition zero_run :: "u16 list \<Rightarrow> nat \<times> nat \<Rightarrow> bool" where
  "zero_run gs = (\<lambda>(start, len). start + len \<le> length gs \<and>
     (\<forall>k. start \<le> k \<and> k < start + len \<longrightarrow> gs ! k = 0))"

lemma zero_span_run:
  assumes "drop i all = gs" "i \<le> length all" "zero_run all longest"
    and "snd cur = 0 \<or> zero_run all cur \<and> fst cur + snd cur = i"
  shows "zero_run all (zero_span i cur longest gs)"
  using assms
proof (induction gs arbitrary: i cur longest)
  case (Cons g gs)
  have "i < length all" using Cons.prems(1) by (cases "i < length all") simp_all
  with Cons.prems(1) have i: "i < length all" "all ! i = g" "drop (Suc i) all = gs"
    by (simp_all add: Cons_nth_drop_Suc [symmetric])
  let ?cur = "if snd cur = 0 then (i, 1) else (fst cur, Suc (snd cur))"
  have "zero_run all ?cur \<and> fst ?cur + snd ?cur = Suc i" if "g = 0"
    using that i Cons.prems(4) by (auto simp: zero_run_def less_Suc_eq)
  with Cons.IH [of "Suc i"] Cons.prems(3) i show ?case by (auto simp: Let_def)
qed simp

lemma zero_run_split:
  assumes "zero_run gs (start, len)"
  shows "gs = take start gs @ replicate len 0 @ drop (start + len) gs"
proof -
  have "take len (drop start gs) = replicate len 0"
    using assms by (auto simp: zero_run_def intro!: nth_equalityI)
  then show ?thesis by (metis append_take_drop_id drop_drop add.commute)
qed

lemma ipv6_of_segments [simp]: "ipv6_of_segments (ipv6_segments a) = a"
  by (cases a) simp

lemma length_ipv6_segments [simp]: "length (ipv6_segments a) = 8"
  by (cases a) simp

lemma ipv6_text_cases:
  obtains (mapped) v4 where "to_ipv4_mapped a = Some v4" "ipv6_to_string a = ''::ffff:'' @ ipv4_to_string v4"
  | (short) start len where "1 < len" "zero_run (ipv6_segments a) (start, len)"
      "ipv6_to_string a = groups_text 0 (take start (ipv6_segments a)) @ ''::'' @
         groups_text 0 (drop (start + len) (ipv6_segments a))"
  | (long) "ipv6_to_string a = groups_text 0 (ipv6_segments a)"
proof (cases "to_ipv4_mapped a")
  case None
  obtain start len where span: "zero_span 0 (0, 0) (0, 0) (ipv6_segments a) = (start, len)"
    by (cases "zero_span 0 (0, 0) (0, 0) (ipv6_segments a)")
  with zero_span_run [of 0 "ipv6_segments a" _ "(0, 0)" "(0, 0)"]
  have "zero_run (ipv6_segments a) (start, len)" by (simp add: zero_run_def)
  with None span short [of len start] long show ?thesis
    by (cases "1 < len") (simp_all add: ipv6_to_string_def fmt_subslice_groups Let_def)
qed (use mapped in \<open>simp add: ipv6_to_string_def\<close>)

lemma group_of_octets_halves: "group_of_octets (ucast (drop_bit 8 g)) (ucast g) = g"
proof (rule bit_word_eqI)
  fix n assume "n < LENGTH(16)"
  then show "bit (group_of_octets (ucast (drop_bit 8 g)) (ucast g)) n = bit g n"
    by (cases "n < 8") (auto simp: group_of_octets_def bit_simps)
qed

lemma mapped_segments:
  "to_ipv4_mapped a = Some (Ipv4Addr w x y z) \<Longrightarrow>
   a = Ipv6Addr 0 0 0 0 0 0xffff (group_of_octets w x) (group_of_octets y z)"
  by (cases a) (auto simp: group_of_octets_halves split: if_splits)

lemma read_ipv4_not_digit:
  "to_digit 10 ch = None \<Longrightarrow> read_ipv4_addr (ch # s) = None"
  by (simp add: read_ipv4_addr_def read_separator_def read_number_def)

lemma read_ffff: "read_number 16 4 True (''ffff:'' @ s) = Some (0xffff :: u16, CHR '':'' # s)"
proof -
  have "to_hex (unat (0xffff :: u16)) = ''ffff''" by (simp add: to_base.simps digit_char_def)
  with read_group [of "CHR '':'' # s" True "0xffff"] show ?thesis by simp
qed

lemma read_mapped_groups:
  "read_groups 7 0 (''ffff:'' @ ipv4_to_string (Ipv4Addr w x y z)) =
     ([0xffff, group_of_octets w x, group_of_octets y z], True, [])"
proof -
  have "to_digit 10 (CHR ''f'') = None" by (simp add: to_digit_def digit_value_def)
  then have "read_ipv4_addr (''ffff:'' @ ipv4_to_string (Ipv4Addr w x y z)) = None"
    by (simp add: read_ipv4_not_digit)
  moreover have "read_groups 6 1 (CHR '':'' # ipv4_to_string (Ipv4Addr w x y z)) =
      ([group_of_octets w x, group_of_octets y z], True, [])"
    using read_ipv4_print [of "[]" "Ipv4Addr w x y z"] by (intro read_groups_ipv4) (simp_all add: read_separator_def)
  ultimately show ?thesis
    using read_ffff [of "ipv4_to_string (Ipv4Addr w x y z)"]
    by (simp add: read_groups_group [where g = "0xffff"] read_separator_def)
qed

lemma read_ipv6_print: "read_ipv6_addr (ipv6_to_string a) = Some (a, [])"
proof (cases rule: ipv6_text_cases [of a])
  case (mapped v4)
  obtain w x y z where v4: "v4 = Ipv4Addr w x y z" by (cases v4)
  have "read_groups 8 0 (ipv6_to_string a) = ([], False, ipv6_to_string a)"
    unfolding mapped(2)
    by (simp add: numeral_eq_Suc read_separator_def read_ipv4_not_digit to_digit_separator read_number_stop)
  moreover have "replicate 5 (0 :: u16) = [0, 0, 0, 0, 0]" by (simp add: numeral_eq_Suc)
  ultimately show ?thesis
    using mapped mapped_segments [of a w x y z] read_mapped_groups [of w x y z]
    by (simp add: read_ipv6_addr_def v4)
next
  case (short start len)
  let ?head = "take start (ipv6_segments a)" and ?tail = "drop (start + len) (ipv6_segments a)"
  from short have len: "start + len \<le> 8" "length ?head = start" by (auto simp: zero_run_def)
  have "read_groups 8 0 (groups_text 0 ?head @ ''::'' @ groups_text 0 ?tail) =
      (?head, False, ''::'' @ groups_text 0 ?tail)"
    by (rule read_groups_print) (use len in \<open>auto simp: ends_groups_def no_dot_groups_text\<close>)
  moreover have "read_groups (7 - start) 0 (groups_text 0 ?tail @ []) = (?tail, False, [])"
    by (rule read_groups_print) (use len short(1) in \<open>auto simp: ends_groups_def\<close>)
  ultimately show ?thesis
    using short(1,3) len zero_run_split [OF short(2)] by (simp add: read_ipv6_addr_def)
next
  case long
  have "read_groups 8 0 (groups_text 0 (ipv6_segments a) @ []) = (ipv6_segments a, False, [])"
    by (rule read_groups_print) (simp_all add: ends_groups_def)
  with long show ?thesis by (simp add: read_ipv6_addr_def)
qed

lemma read_ipv4_of_ipv6: "read_ipv4_addr (ipv6_to_string a) = None"
  by (cases rule: ipv6_text_cases [of a])
    (simp_all add: read_ipv4_not_digit to_digit_separator read_ipv4_no_dot no_dot_groups_text)

lemma ip_address_text: "ip_address_try_from (ip_to_string a) = Inr a"
proof (cases a)
  case (V4 x)
  with read_ipv4_print [of "[]" x] show ?thesis
    by (simp add: ip_address_try_from_def ip_addr_from_str_def read_ip_addr_def)
next
  case (V6 x)
  then show ?thesis
    by (simp add: ip_address_try_from_def ip_addr_from_str_def read_ip_addr_def read_ipv4_of_ipv6 read_ipv6_print)
qed

text \<open>C16: Every IP address is read back from its text: the conversion of a string into an address
  succeeds on the string that the library gives for an address, IPv6 addresses with left out
  zeros and embedded IPv4 addresses included, and returns that address.\<close>

theorem ip_address_roundtrip: "ip_address_try_from (ip_to_string a) = Inr a"
  by (rule ip_address_text)

end
