(* ===== verification/Config_File.thy ===== *)
theory Config_File
  imports Type_Conversions Ip_Text "HOL-Library.Multiset"
begin

text \<open>
  \<^verbatim>\<open>src/api/test_utils/test_config_parser.rs\<close>: the configuration of a connection from an INI file,
  which the example program and the tests on real servers use. The crate \<^verbatim>\<open>ini\<close>, which reads the file into sections, and the decoder of the crate \<^verbatim>\<open>base64\<close> are parameters; a map of
  sections is a list without repeated keys, whose order is the order of the iteration. Almost every
  problem is a panic of \<^verbatim>\<open>unwrap\<close> or of an index, the value \<open>None\<close>.
\<close>

section \<open>Numbers and strings of the standard library\<close>

fun digits_value :: "nat \<Rightarrow> string \<Rightarrow> nat option" where
  "digits_value n [] = Some n"
| "digits_value n (ch # s) =
     (case to_digit 10 ch of None \<Rightarrow> None | Some d \<Rightarrow> digits_value (n * 10 + d) s)"

definition parse_digits :: "string \<Rightarrow> nat option" where
  "parse_digits s = (if s = [] then None else digits_value 0 s)"

text \<open>\<^verbatim>\<open>str::parse\<close> for unsigned and for signed integers, and for truth values.\<close>

definition parse_unsigned :: "string \<Rightarrow> 'a::len word option" where
  "parse_unsigned s =
     (case parse_digits (if s \<noteq> [] \<and> hd s = CHR ''+'' then tl s else s) of
        Some n \<Rightarrow> if n < 2 ^ LENGTH('a) then Some (word_of_nat n) else None
      | None \<Rightarrow> None)"

definition parse_signed :: "string \<Rightarrow> 'a::len word option" where
  "parse_signed s =
     (if s \<noteq> [] \<and> hd s = CHR ''-''
      then (case parse_digits (tl s) of
              Some n \<Rightarrow> if n \<le> 2 ^ (LENGTH('a) - 1) then Some (- word_of_nat n) else None
            | None \<Rightarrow> None)
      else (case parse_digits (if s \<noteq> [] \<and> hd s = CHR ''+'' then tl s else s) of
              Some n \<Rightarrow> if n < 2 ^ (LENGTH('a) - 1) then Some (word_of_nat n) else None
            | None \<Rightarrow> None))"

definition parse_bool :: "string \<Rightarrow> bool option" where
  "parse_bool s = (if s = ''true'' then Some True else if s = ''false'' then Some False else None)"

fun split_on :: "char \<Rightarrow> string \<Rightarrow> string list" where
  "split_on sep [] = [[]]"
| "split_on sep (ch # s) =
     (if ch = sep then [] # split_on sep s
      else (case split_on sep s of [] \<Rightarrow> [[ch]] | p # ps \<Rightarrow> (ch # p) # ps))"

definition is_whitespace :: "char \<Rightarrow> bool" where
  "is_whitespace ch \<longleftrightarrow> (let n = of_char ch :: nat in (9 \<le> n \<and> n \<le> 13) \<or> n = 32 \<or> n = 0x85 \<or> n = 0xa0)"

definition trim :: "string \<Rightarrow> string" where
  "trim s = rev (dropWhile is_whitespace (rev (dropWhile is_whitespace s)))"

definition strip_prefix :: "string \<Rightarrow> string \<Rightarrow> string option" where
  "strip_prefix p s = (if take (length p) s = p then Some (drop (length p) s) else None)"

section \<open>The file\<close>

type_synonym ini_section = "(string \<times> string option) list"
type_synonym ini_config = "(string \<times> ini_section) list"

text \<open>\<open>section_fields[name].clone()\<close> panics without the key, \<open>get(name).cloned().flatten()\<close> does not.\<close>

definition required :: "ini_section \<Rightarrow> string \<Rightarrow> string option" where
  "required section_fields name = Option.bind (map_of section_fields name) (\<lambda>v. v)"

definition optional :: "ini_section \<Rightarrow> string \<Rightarrow> string option" where
  "optional section_fields name = (case map_of section_fields name of Some v \<Rightarrow> v | None \<Rightarrow> None)"

record parsed_fork_config =
  fc_username :: string
  fc_password :: string
  fc_app_version :: string

record parsed_config =
  pc_initial_connection_config :: initial_connection_config
  pc_tun_interface_name :: "string option"

definition parse_ports :: "string \<Rightarrow> u16 list option" where
  "parse_ports ports = those (map parse_unsigned (split_on (CHR '','') ports))"

definition wg_peer_public_key_from_b64 :: "(string \<Rightarrow> bytes option) \<Rightarrow> string \<Rightarrow> wg_peer_public_key option" where
  "wg_peer_public_key_from_b64 decode s =
     Option.bind (decode (trim s)) (\<lambda>bytes.
       if length bytes = PEER_PUB_KEY_SIZE_BYTES then Some (WgPeerPublicKey bytes) else None)"

definition byte_slice_from_base64 :: "(string \<Rightarrow> bytes option) \<Rightarrow> string \<Rightarrow> bytes option" where
  "byte_slice_from_base64 decode s = decode (trim s)"

definition optional_ports :: "ini_section \<Rightarrow> string \<Rightarrow> u16 list option" where
  "optional_ports section_fields name =
     (case optional section_fields name of Some s \<Rightarrow> parse_ports s | None \<Rightarrow> Some [])"

definition parse_ini_peer :: "(string \<Rightarrow> bytes option) \<Rightarrow> string \<Rightarrow> ini_section \<Rightarrow> peer_info option" where
  "parse_ini_peer decode peer_id section_fields =
     do {
       ip_text \<leftarrow> required section_fields ''server_ip'';
       server_ip \<leftarrow> (case ip_addr_from_str ip_text of Inr a \<Rightarrow> Some a | Inl _ \<Rightarrow> None);
       key_text \<leftarrow> required section_fields ''server_public_key'';
       server_public_key \<leftarrow> wg_peer_public_key_from_b64 decode key_text;
       udp_ports \<leftarrow> optional_ports section_fields ''udp_ports'';
       tcp_ports \<leftarrow> optional_ports section_fields ''tcp_ports'';
       tls_ports \<leftarrow> optional_ports section_fields ''tls_ports'';
       priority_text \<leftarrow> map_of section_fields ''priority'';
       priority \<leftarrow> (case priority_text of Some s \<Rightarrow> parse_signed s | None \<Rightarrow> Some 0);
       Some \<lparr>pi_peer_id = peer_id, pi_server_ip = server_ip, pi_server_public_key = server_public_key,
             pi_udp_ports = udp_ports, pi_tcp_ports = tcp_ports, pi_tls_ports = tls_ports,
             pi_priority = priority, pi_exit_label = optional section_fields ''exit_label''\<rparr>
     }"

fun parse_ini_peers :: "(string \<Rightarrow> bytes option) \<Rightarrow> ini_config \<Rightarrow> peer_info list option" where
  "parse_ini_peers decode [] = Some []"
| "parse_ini_peers decode ((section_name, section_fields) # config) =
     (case strip_prefix ''peer.'' section_name of
        Some peer_id \<Rightarrow>
          do {
            peer \<leftarrow> parse_ini_peer decode peer_id section_fields;
            peers \<leftarrow> parse_ini_peers decode config;
            Some (peer # peers)
          }
      | None \<Rightarrow> parse_ini_peers decode config)"

definition parse_ini_mode :: "(string \<Rightarrow> bytes option) \<Rightarrow> ini_section \<Rightarrow> connection_mode option" where
  "parse_ini_mode decode mode =
     do {
       text \<leftarrow> required mode ''with_local_agent'';
       local_agent \<leftarrow> parse_bool text;
       if local_agent then do {
         user_agent \<leftarrow> required mode ''user_agent'';
         app_version \<leftarrow> required mode ''app_version'';
         Some (LocalAgent user_agent app_version local_agent_settings_default)
       } else do {
         key \<leftarrow> required mode ''client_private_key'';
         bytes \<leftarrow> byte_slice_from_base64 decode key;
         case client_private_key_try_from bytes of Inr k \<Rightarrow> Some (NoLocalAgent k) | Inl _ \<Rightarrow> None
       }
     }"

definition parse_ini_fork :: "ini_config \<Rightarrow> connection_mode \<Rightarrow> parsed_fork_config option option" where
  "parse_ini_fork ini_config connection_mode =
     (case connection_mode of
        LocalAgent _ app_version _ \<Rightarrow>
          (case map_of ini_config ''fork'' of
             Some fork \<Rightarrow>
               do {
                 username \<leftarrow> required fork ''username'';
                 password \<leftarrow> required fork ''password'';
                 Some (Some \<lparr>fc_username = username, fc_password = password, fc_app_version = app_version\<rparr>)
               }
           | None \<Rightarrow> Some None)
      | NoLocalAgent _ \<Rightarrow> Some None)"

definition parse_ini_config ::
  "(string \<Rightarrow> ini_config option) \<Rightarrow> (string \<Rightarrow> bytes option) \<Rightarrow> string
     \<Rightarrow> (parsed_config \<times> parsed_fork_config option) option" where
  "parse_ini_config ini decode path =
     do {
       ini_config \<leftarrow> ini path;
       peers \<leftarrow> parse_ini_peers decode ini_config;
       mode \<leftarrow> map_of ini_config ''mode'';
       connection_mode \<leftarrow> parse_ini_mode decode mode;
       fork_config \<leftarrow> parse_ini_fork ini_config connection_mode;
       Some (\<lparr>pc_initial_connection_config =
                \<lparr>ic_peers = peers, ic_network_available = True, ic_pcap_file = None,
                 ic_connection_mode = connection_mode\<rparr>,
              pc_tun_interface_name = optional mode ''tun_interface_name''\<rparr>, fork_config)
     }"

section \<open>Writing a configuration\<close>

text \<open>
  The file of a configuration: what the functions above read back. Ports that there are none of
  are left out, because an empty list of ports cannot be written.
\<close>

definition signed_text :: "'a::len word \<Rightarrow> string" where
  "signed_text w =
     (if sint w < 0 then CHR ''-'' # to_decimal (nat (- sint w)) else to_decimal (nat (sint w)))"

definition ports_text :: "u16 list \<Rightarrow> string" where
  "ports_text ports = join_strings '','' (map (\<lambda>p. to_decimal (unat p)) ports)"

definition ports_field :: "string \<Rightarrow> u16 list \<Rightarrow> ini_section" where
  "ports_field name ports = (if ports = [] then [] else [(name, Some (ports_text ports))])"

definition peer_section :: "(bytes \<Rightarrow> string) \<Rightarrow> peer_info \<Rightarrow> string \<times> ini_section" where
  "peer_section encode p =
     (''peer.'' @ pi_peer_id p,
      [(''server_ip'', Some (ip_to_string (pi_server_ip p))),
       (''server_public_key'', Some (encode (peer_public_key_into (pi_server_public_key p)))),
       (''priority'', Some (signed_text (pi_priority p))),
       (''exit_label'', pi_exit_label p)] @
      ports_field ''udp_ports'' (pi_udp_ports p) @
      ports_field ''tcp_ports'' (pi_tcp_ports p) @
      ports_field ''tls_ports'' (pi_tls_ports p))"

section \<open>Reading numbers\<close>

lemma digits_value_append:
  "digits_value n xs = Some m \<Longrightarrow> digits_value n (xs @ ys) = digits_value m ys"
  by (induction n xs rule: digits_value.induct) (auto split: option.splits)

lemma digits_value_to_decimal: "digits_value 0 (to_decimal n) = Some n"
proof (induction "10 :: nat" n rule: to_base.induct)
  case (1 n)
  show ?case
  proof (cases "n < 10")
    case True
    then show ?thesis by (subst to_base.simps) (simp add: to_digit_digit_char)
  next
    case False
    with 1 have "digits_value 0 (to_decimal (n div 10)) = Some (n div 10)" by simp
    from digits_value_append [OF this, of "[digit_char (n mod 10)]"] False show ?thesis
      by (subst to_base.simps) (simp add: to_digit_digit_char)
  qed
qed

lemma parse_digits_to_decimal [simp]: "parse_digits (to_decimal n) = Some n"
  by (simp add: parse_digits_def digits_value_to_decimal)

lemma to_decimal_digits:
  assumes "to_digit 10 ch = None"
  shows "ch \<notin> set (to_decimal n)"
proof (induction "10 :: nat" n rule: to_base.induct)
  case (1 n)
  have neq: "ch \<noteq> digit_char d" if "d < 10" for d
    using to_digit_digit_char [OF that] assms by auto
  show ?case
  proof (cases "n < 10")
    case True
    with neq [of n] show ?thesis by (subst to_base.simps) simp
  next
    case False
    with neq [of "n mod 10"] 1 show ?thesis by (subst to_base.simps) simp
  qed
qed

lemma not_digits [simp]:
  "to_digit 10 (CHR ''+'') = None" "to_digit 10 (CHR ''-'') = None" "to_digit 10 (CHR '','') = None"
  by (simp_all add: to_digit_def digit_value_def)

lemma hd_to_decimal [simp]:
  "hd (to_decimal n) \<noteq> CHR ''+''" "hd (to_decimal n) \<noteq> CHR ''-''"
  using to_decimal_digits [of _ n] hd_in_set [of "to_decimal n"] by (auto simp del: hd_in_set)

lemma parse_unsigned_print [simp]: "parse_unsigned (to_decimal (unat w)) = Some w"
  by (simp add: parse_unsigned_def)

lemma parse_signed_print [simp]: "parse_signed (signed_text w) = Some (w :: 'a::len word)"
proof (cases "sint w < 0")
  case True
  have "- (2 ^ (LENGTH('a) - 1)) \<le> sint w" by (rule sint_ge)
  with True have "nat (- sint w) \<le> 2 ^ (LENGTH('a) - 1)" by (simp add: nat_le_iff)
  moreover have "- word_of_nat (nat (- sint w)) = w" using True by simp
  ultimately show ?thesis using True by (simp add: parse_signed_def signed_text_def)
next
  case False
  have "sint w < 2 ^ (LENGTH('a) - 1)" by (rule sint_lt)
  with False have "nat (sint w) < 2 ^ (LENGTH('a) - 1)" by (simp add: nat_less_iff)
  moreover have "word_of_nat (nat (sint w)) = w" using False by simp
  ultimately show ?thesis using False by (simp add: parse_signed_def signed_text_def)
qed

section \<open>Reading a configuration back\<close>

lemma split_on_append: "sep \<notin> set x \<Longrightarrow> split_on sep (x @ sep # s) = x # split_on sep s"
  by (induction x) auto

lemma split_on_none: "sep \<notin> set x \<Longrightarrow> split_on sep x = [x]"
  by (induction x) auto

lemma those_map_inverse: "(\<And>x. x \<in> set xs \<Longrightarrow> f (g x) = Some x) \<Longrightarrow> those (map f (map g xs)) = Some xs"
  by (induction xs) simp_all

lemma those_map_the: "(\<And>x. x \<in> set xs \<Longrightarrow> f x \<noteq> None) \<Longrightarrow> those (map f xs) = Some (map (the \<circ> f) xs)"
  by (induction xs) (auto split: option.splits)

lemma split_on_join:
  "xs \<noteq> [] \<Longrightarrow> (\<And>x. x \<in> set xs \<Longrightarrow> sep \<notin> set x) \<Longrightarrow> split_on sep (join_strings [sep] xs) = xs"
  by (induction "[sep]" xs rule: join_strings.induct) (simp_all add: split_on_none split_on_append)

lemma parse_ports_print [simp]: "ports \<noteq> [] \<Longrightarrow> parse_ports (ports_text ports) = Some ports"
proof -
  let ?text = "\<lambda>p :: u16. to_decimal (unat p)"
  assume "ports \<noteq> []"
  then have "split_on (CHR '','') (ports_text ports) = map ?text ports"
    unfolding ports_text_def by (intro split_on_join) (auto simp: to_decimal_digits)
  with those_map_inverse [of ports parse_unsigned ?text] show ?thesis by (simp add: parse_ports_def)
qed

text \<open>Of a key and its form in base64 only this is needed.\<close>

definition base64_codec :: "(bytes \<Rightarrow> string) \<Rightarrow> (string \<Rightarrow> bytes option) \<Rightarrow> bool" where
  "base64_codec encode decode \<longleftrightarrow> (\<forall>b. decode (trim (encode b)) = Some b)"

definition valid_peer_key :: "peer_info \<Rightarrow> bool" where
  "valid_peer_key p \<longleftrightarrow> length (peer_public_key_into (pi_server_public_key p)) = PEER_PUB_KEY_SIZE_BYTES"

lemma parse_peer_section:
  assumes "base64_codec encode decode" "valid_peer_key p"
  shows "parse_ini_peer decode (pi_peer_id p) (snd (peer_section encode p)) = Some p"
proof -
  have ip: "ip_addr_from_str (ip_to_string (pi_server_ip p)) = Inr (pi_server_ip p)" for p :: peer_info
    using ip_address_text [of "pi_server_ip p"] by (simp add: ip_address_try_from_def)
  obtain key where "pi_server_public_key p = WgPeerPublicKey key" by (cases "pi_server_public_key p")
  with assms have "wg_peer_public_key_from_b64 decode (encode (peer_public_key_into (pi_server_public_key p))) =
      Some (pi_server_public_key p)"
    by (simp add: wg_peer_public_key_from_b64_def base64_codec_def valid_peer_key_def)
  with ip show ?thesis
    by (simp add: parse_ini_peer_def peer_section_def required_def optional_def optional_ports_def ports_field_def)
qed

definition is_peer_section :: "string \<times> ini_section \<Rightarrow> bool" where
  "is_peer_section sec \<longleftrightarrow> strip_prefix ''peer.'' (fst sec) \<noteq> None"

lemma parse_ini_peers_eq:
  "parse_ini_peers decode config =
     those (map (\<lambda>(n, f). parse_ini_peer decode (the (strip_prefix ''peer.'' n)) f)
       (filter is_peer_section config))"
proof (induction config)
  case (Cons sec config)
  obtain n f where sec: "sec = (n, f)" by (cases sec)
  show ?case
  proof (cases "strip_prefix ''peer.'' n")
    case (Some i)
    with Cons show ?thesis
      by (cases "parse_ini_peer decode i f") (simp_all add: sec is_peer_section_def map_conv_bind_option comp_def)
  qed (simp add: sec Cons is_peer_section_def)
qed simp

lemma is_peer_section_print [simp]: "is_peer_section (peer_section encode p)"
  by (simp add: is_peer_section_def peer_section_def strip_prefix_def)

fun mode_section :: "(bytes \<Rightarrow> string) \<Rightarrow> connection_mode \<Rightarrow> string option \<Rightarrow> string \<times> ini_section" where
  "mode_section encode (LocalAgent user_agent app_version _) tun =
     (''mode'', [(''with_local_agent'', Some ''true''), (''user_agent'', Some user_agent),
        (''app_version'', Some app_version), (''tun_interface_name'', tun)])"
| "mode_section encode (NoLocalAgent key) tun =
     (''mode'', [(''with_local_agent'', Some ''false''),
        (''client_private_key'', Some (encode (client_private_key_into key))), (''tun_interface_name'', tun)])"

definition fork_section :: "parsed_fork_config \<Rightarrow> string \<times> ini_section" where
  "fork_section fork = (''fork'', [(''username'', Some (fc_username fork)), (''password'', Some (fc_password fork))])"

definition config_file :: "(bytes \<Rightarrow> string) \<Rightarrow> parsed_config \<Rightarrow> parsed_fork_config option \<Rightarrow> ini_config" where
  "config_file encode config fork =
     mode_section encode (ic_connection_mode (pc_initial_connection_config config)) (pc_tun_interface_name config) #
     (case fork of Some f \<Rightarrow> [fork_section f] | None \<Rightarrow> []) @
     map (peer_section encode) (ic_peers (pc_initial_connection_config config))"

text \<open>The configurations that a file can say: agent settings are the default, a private key has its length.\<close>

fun writable_mode :: "connection_mode \<Rightarrow> parsed_fork_config option \<Rightarrow> bool" where
  "writable_mode (LocalAgent _ app_version settings) fork \<longleftrightarrow>
     settings = local_agent_settings_default \<and> (case fork of Some f \<Rightarrow> fc_app_version f = app_version | None \<Rightarrow> True)"
| "writable_mode (NoLocalAgent key) fork \<longleftrightarrow>
     length (client_private_key_into key) = CLIENT_PRIV_KEY_SIZE_BYTES \<and> fork = None"

definition writable :: "parsed_config \<Rightarrow> parsed_fork_config option \<Rightarrow> bool" where
  "writable config fork \<longleftrightarrow>
     (let ic = pc_initial_connection_config config
      in ic_network_available ic \<and> ic_pcap_file ic = None \<and> list_all valid_peer_key (ic_peers ic) \<and>
         writable_mode (ic_connection_mode ic) fork)"

lemma parse_mode_section:
  assumes "base64_codec encode decode" "writable_mode mode fork"
  shows "parse_ini_mode decode (snd (mode_section encode mode tun)) = Some mode"
    and "optional (snd (mode_section encode mode tun)) ''tun_interface_name'' = tun"
    and "fst (mode_section encode mode tun) = ''mode''"
proof -
  show "parse_ini_mode decode (snd (mode_section encode mode tun)) = Some mode"
  proof (cases mode)
    case (NoLocalAgent key)
    with assms show ?thesis
      by (cases key) (simp add: parse_ini_mode_def required_def parse_bool_def byte_slice_from_base64_def
          base64_codec_def client_private_key_try_from_def)
  qed (use assms in \<open>simp add: parse_ini_mode_def required_def parse_bool_def\<close>)
qed (cases mode; simp add: optional_def)+

lemma not_peer_section:
  "\<not> is_peer_section (fork_section f)" "\<not> is_peer_section (mode_section encode mode tun)"
  by (cases mode; simp add: is_peer_section_def fork_section_def strip_prefix_def)+

lemma map_of_only: "(k, v) \<in> set xs \<Longrightarrow> (\<And>v'. (k, v') \<in> set xs \<Longrightarrow> v' = v) \<Longrightarrow> map_of xs k = Some v"
  by (metis map_of_SomeD weak_map_of_SomeI option.exhaust)

lemma config_file_sections:
  assumes "mset sections = mset (config_file encode config fork)"
    and "mode = ic_connection_mode (pc_initial_connection_config config)"
  shows "map_of sections ''mode'' = Some (snd (mode_section encode mode (pc_tun_interface_name config)))"
    and "map_of sections ''fork'' = map_option (\<lambda>f. snd (fork_section f)) fork"
proof -
  let ?mode = "mode_section encode mode (pc_tun_interface_name config)"
  obtain m where mode: "?mode = (''mode'', m)" by (cases mode) simp_all
  have secs: "set sections = insert ?mode (set_option (map_option fork_section fork) \<union>
      peer_section encode ` set (ic_peers (pc_initial_connection_config config)))"
    using mset_eq_setD [OF assms(1)] assms(2) by (auto simp: config_file_def split: option.splits)
  have peers: "(n, v) \<notin> peer_section encode ` ps" if "n \<in> {''mode'', ''fork''}" for n v ps
    using that by (auto simp: peer_section_def)
  have "map_of sections ''mode'' = Some m"
  proof (rule map_of_only)
    show "(''mode'', m) \<in> set sections" using secs mode by simp
    fix v assume "(''mode'', v) \<in> set sections"
    with secs peers [of "''mode''" v] mode show "v = m" by (cases fork) (simp_all add: fork_section_def)
  qed
  with mode show "map_of sections ''mode'' = Some (snd ?mode)" by simp
  have only: "v = snd (fork_section f) \<and> fork = Some f" if "(''fork'', v) \<in> set sections" "fork = None \<or> fork = Some f" for v f
    using that secs peers [of "''fork''" v] mode by (auto simp: fork_section_def)
  show "map_of sections ''fork'' = map_option (\<lambda>f. snd (fork_section f)) fork"
  proof (cases fork)
    case None
    then have "''fork'' \<notin> fst ` set sections" using only by force
    with None show ?thesis by (simp add: map_of_eq_None_iff)
  next
    case (Some f)
    then have "(''fork'', snd (fork_section f)) \<in> set sections" using secs by (simp add: fork_section_def)
    then have "map_of sections ''fork'' = Some (snd (fork_section f))"
      by (rule map_of_only) (use only Some in simp)
    with Some show ?thesis by simp
  qed
qed

lemma config_file_peers:
  assumes "base64_codec encode decode" "list_all valid_peer_key peers"
    and "mset sections = mset (config_file encode config fork)"
    and "peers = ic_peers (pc_initial_connection_config config)"
  shows "\<exists>ps. mset ps = mset peers \<and> parse_ini_peers decode sections = Some ps"
proof -
  let ?parse = "\<lambda>(n, f). parse_ini_peer decode (the (strip_prefix ''peer.'' n)) f"
  let ?secs = "filter is_peer_section sections"
  have parse: "?parse (peer_section encode p) = Some p" if "p \<in> set peers" for p
    using parse_peer_section [OF assms(1), of p] assms(2) that
    by (auto simp: peer_section_def strip_prefix_def list_all_iff split: prod.splits)
  have "mset ?secs = mset (filter is_peer_section (config_file encode config fork))"
    using assms(3) by simp
  also have "filter is_peer_section (config_file encode config fork) = map (peer_section encode) peers"
    by (cases fork) (simp_all add: config_file_def assms(4) not_peer_section comp_def)
  finally have secs: "mset ?secs = mset (map (peer_section encode) peers)" .
  then have all: "\<exists>p \<in> set peers. sec = peer_section encode p" if "sec \<in> set ?secs" for sec
    using that mset_eq_setD [OF secs] by auto
  have "?parse sec \<noteq> None" if "sec \<in> set ?secs" for sec
    using all [OF that] parse by force
  then have "parse_ini_peers decode sections = Some (map (the \<circ> ?parse) ?secs)"
    unfolding parse_ini_peers_eq by (rule those_map_the)
  moreover have "mset (map (the \<circ> ?parse) ?secs) = mset peers"
  proof -
    have "mset (map (the \<circ> ?parse) ?secs) = image_mset (the \<circ> ?parse) (mset (map (peer_section encode) peers))"
      by (simp only: mset_map secs)
    also have "\<dots> = mset (map (\<lambda>p. the (?parse (peer_section encode p))) peers)"
      by (simp add: multiset.map_comp comp_def)
    also have "map (\<lambda>p. the (?parse (peer_section encode p))) peers = peers"
      by (rule map_idI) (simp add: parse)
    finally show ?thesis .
  qed
  ultimately show ?thesis by blast
qed


text \<open>An example, with keys in hexadecimal for the base64 form.\<close>

definition hex_encode :: "bytes \<Rightarrow> string" where
  "hex_encode bs = concat (map (\<lambda>b. [digit_char (unat b div 16), digit_char (unat b mod 16)]) bs)"

fun hex_decode :: "string \<Rightarrow> bytes option" where
  "hex_decode [] = Some []"
| "hex_decode [_] = None"
| "hex_decode (x # y # s) =
     do {
       a \<leftarrow> to_digit 16 x;
       b \<leftarrow> to_digit 16 y;
       bs \<leftarrow> hex_decode s;
       Some (word_of_nat (a * 16 + b) # bs)
     }"

lemma trim_id: "(\<And>ch. ch \<in> set s \<Longrightarrow> \<not> is_whitespace ch) \<Longrightarrow> trim s = s"
proof -
  assume "\<And>ch. ch \<in> set s \<Longrightarrow> \<not> is_whitespace ch"
  then have "dropWhile is_whitespace s = s" "dropWhile is_whitespace (rev s) = rev s"
    by (auto simp: dropWhile_eq_self_iff hd_rev)
  then show ?thesis by (simp add: trim_def)
qed

lemma digit_char_not_whitespace:
  assumes "d < 16"
  shows "\<not> is_whitespace (digit_char d)"
proof -
  have "list_all (\<lambda>d. \<not> is_whitespace (digit_char d)) [0..<16]" by code_simp
  with assms show ?thesis by (auto simp: list_all_iff)
qed

lemma byte_halves: "unat (b :: u8) div 16 < 16" "unat b mod 16 < 16"
proof -
  have "unat b < 16 * 16" using unsigned_less [of b, where 'a = nat] by simp
  then show "unat b div 16 < 16" by (rule less_mult_imp_div_less)
qed simp

lemma join_byte_halves: "word_of_nat (unat b div 16 * 16 + unat b mod 16) = (b :: u8)"
  by simp

lemma hex_codec: "base64_codec hex_encode hex_decode"
  unfolding base64_codec_def
proof
  fix bs :: bytes
  have "trim (hex_encode bs) = hex_encode bs"
    by (rule trim_id) (auto simp: hex_encode_def digit_char_not_whitespace byte_halves)
  moreover have "hex_decode (hex_encode bs) = Some bs"
    by (induction bs) (simp_all add: hex_encode_def to_digit_digit_char byte_halves join_byte_halves
        del: of_nat_add of_nat_mult)
  ultimately show "hex_decode (trim (hex_encode bs)) = Some bs" by simp
qed

definition example_file_config :: parsed_config where
  "example_file_config =
     \<lparr>pc_initial_connection_config =
        \<lparr>ic_peers = [\<lparr>pi_peer_id = ''1'', pi_server_ip = V4 (Ipv4Addr 10 2 0 1),
           pi_server_public_key = WgPeerPublicKey (replicate 32 0), pi_udp_ports = [443, 88], pi_tcp_ports = [],
           pi_tls_ports = [443], pi_priority = - 1, pi_exit_label = Some ''7''\<rparr>],
         ic_network_available = True, ic_pcap_file = None,
         ic_connection_mode = LocalAgent ''agent'' ''linux-vpn@1.0.0'' local_agent_settings_default\<rparr>,
      pc_tun_interface_name = Some ''tun0''\<rparr>"


end
