(* ===== verification/Logger.thy ===== *)
theory Logger
  imports Protun_Prelude
begin

text \<open>
  \<^verbatim>\<open>src/api/logger.rs\<close>: the logger that hands the messages of the library to the application. The
  crate \<^verbatim>\<open>log\<close> is a parameter, the record \<open>log_crate\<close>: it keeps the one logger of the process and
  the level up to which its macros call it, which \<open>log_allows\<close> asks for. The environment variable for backtraces and the
  panic hook change nothing that is modelled. \<open>None\<close> is the panic of \<^verbatim>\<open>unwrap\<close> when the process
  already has another logger.
\<close>

section \<open>Levels\<close>

datatype log_level = LogTrace | LogDebug | LogInfo | LogWarn | LogError

text \<open>\<^verbatim>\<open>log::Level\<close>, whose order puts errors first.\<close>

datatype level = LevelError | LevelWarn | LevelInfo | LevelDebug | LevelTrace

fun level_rank :: "level \<Rightarrow> nat" where
  "level_rank LevelError = 1"
| "level_rank LevelWarn = 2"
| "level_rank LevelInfo = 3"
| "level_rank LevelDebug = 4"
| "level_rank LevelTrace = 5"

instantiation level :: linorder
begin

definition less_eq_level :: "level \<Rightarrow> level \<Rightarrow> bool" where
  "less_eq_level a b \<longleftrightarrow> level_rank a \<le> level_rank b"

definition less_level :: "level \<Rightarrow> level \<Rightarrow> bool" where
  "less_level a b \<longleftrightarrow> level_rank a < level_rank b"

instance
proof
  fix a b :: level
  show "a \<le> b \<Longrightarrow> b \<le> a \<Longrightarrow> a = b" by (cases a; cases b) (simp_all add: less_eq_level_def)
qed (auto simp: less_eq_level_def less_level_def)

end

fun log_level_from :: "level \<Rightarrow> log_level" where
  "log_level_from LevelTrace = LogTrace"
| "log_level_from LevelDebug = LogDebug"
| "log_level_from LevelInfo = LogInfo"
| "log_level_from LevelWarn = LogWarn"
| "log_level_from LevelError = LogError"

fun log_level_into :: "log_level \<Rightarrow> level" where
  "log_level_into LogTrace = LevelTrace"
| "log_level_into LogDebug = LevelDebug"
| "log_level_into LogInfo = LevelInfo"
| "log_level_into LogWarn = LevelWarn"
| "log_level_into LogError = LevelError"

section \<open>State\<close>

record 'g log_crate =
  set_logger :: "'g \<Rightarrow> bool \<times> 'g"
  set_max_level :: "level \<Rightarrow> 'g \<Rightarrow> 'g"
  log_allows :: "level \<Rightarrow> 'g \<Rightarrow> bool"

text \<open>
  The statics of the file: \<^verbatim>\<open>INIT_ONCE\<close>, \<^verbatim>\<open>MAX_LOG_LEVEL\<close> and \<^verbatim>\<open>CLIENT_LOGGER\<close>. \<open>'l\<close> are the loggers of
  the application; \<open>lg_printed\<close> is what went to the standard output and \<open>lg_delivered\<close> what the
  loggers were given.
\<close>

record ('l, 'g) logger_state =
  lg_initialized :: bool
  lg_max_log_level :: level
  lg_client_logger :: "'l option"
  lg_delivered :: "('l \<times> log_level \<times> string) list"
  lg_printed :: "string list"
  lg_crate :: 'g

definition logger_start :: "'g \<Rightarrow> ('l, 'g) logger_state" where
  "logger_start g = \<lparr>lg_initialized = False, lg_max_log_level = LevelInfo, lg_client_logger = None,
     lg_delivered = [], lg_printed = [], lg_crate = g\<rparr>"

definition logger_enabled :: "level \<Rightarrow> ('l, 'g) logger_state \<Rightarrow> bool" where
  "logger_enabled level st \<longleftrightarrow> level \<le> lg_max_log_level st"

definition logger_log :: "level \<Rightarrow> string option \<Rightarrow> string \<Rightarrow> ('l, 'g) logger_state \<Rightarrow> ('l, 'g) logger_state" where
  "logger_log level module_path args st =
     (let msg = (case module_path of Some p \<Rightarrow> p | None \<Rightarrow> []) @ '': '' @ args
      in case lg_client_logger st of
           Some logger \<Rightarrow> st\<lparr>lg_delivered := lg_delivered st @ [(logger, log_level_from level, msg)]\<rparr>
         | None \<Rightarrow> st\<lparr>lg_printed := lg_printed st @ [msg]\<rparr>)"

text \<open>The macros of the crate, such as \<^verbatim>\<open>log::warn!\<close>: they ask the crate only, not \<^verbatim>\<open>enabled\<close>.\<close>

definition log_macro ::
  "'g log_crate \<Rightarrow> level \<Rightarrow> string option \<Rightarrow> string \<Rightarrow> ('l, 'g) logger_state \<Rightarrow> ('l, 'g) logger_state" where
  "log_macro lc level module_path args st =
     (if log_allows lc level (lg_crate st) then logger_log level module_path args st else st)"

definition init_logger :: "'g log_crate \<Rightarrow> log_level \<Rightarrow> 'l \<Rightarrow> ('l, 'g) logger_state \<Rightarrow> ('l, 'g) logger_state option" where
  "init_logger lc level logger st =
     (if lg_initialized st
      then Some (log_macro lc LevelWarn (Some ''protun::api::logger'') ''init_logger: Already initialized. Ignoring.'' st)
      else let st = st\<lparr>lg_initialized := True, lg_max_log_level := log_level_into level, lg_client_logger := Some logger\<rparr>
           in case set_logger lc (lg_crate st) of
                (ok, g) \<Rightarrow>
                  if \<not> ok then None
                  else Some (st\<lparr>lg_crate := set_max_level lc (log_level_into level) g\<rparr>))"

section \<open>Lemmas\<close>

lemma log_level_roundtrip [simp]: "log_level_from (log_level_into l) = l" "log_level_into (log_level_from l') = l'"
  by (cases l, simp_all) (cases l', simp_all)

text \<open>Calls on an initialised logger: further initialisations and messages.\<close>

datatype 'l logger_call = InitLogger log_level 'l | LogRecord level "string option" string

fun logger_step :: "'g log_crate \<Rightarrow> 'l logger_call \<Rightarrow> ('l, 'g) logger_state \<Rightarrow> ('l, 'g) logger_state option" where
  "logger_step lc (InitLogger level logger) st = init_logger lc level logger st"
| "logger_step lc (LogRecord level path args) st = Some (log_macro lc level path args st)"

text \<open>What one call has the logger of the application receive: a message, or the warning about a second
  initialisation, unless its level is not asked for.\<close>

fun delivered_by :: "log_level \<Rightarrow> 'l \<Rightarrow> 'l logger_call \<Rightarrow> ('l \<times> log_level \<times> string) list" where
  "delivered_by least logger (InitLogger _ _) =
     (if LevelWarn \<le> log_level_into least
      then [(logger, LogWarn, ''protun::api::logger: init_logger: Already initialized. Ignoring.'')] else [])"
| "delivered_by least logger (LogRecord level path args) =
     (if level \<le> log_level_into least
      then [(logger, log_level_from level, (case path of Some p \<Rightarrow> p | None \<Rightarrow> []) @ '': '' @ args)] else [])"

lemma initialized_calls:
  assumes "lg_initialized st" and "lg_client_logger st = Some logger"
    and "\<And>l. log_allows lc l (lg_crate st) \<longleftrightarrow> l \<le> log_level_into least"
  shows "for_each (logger_step lc) calls st =
     Some (st\<lparr>lg_delivered := lg_delivered st @ concat (map (delivered_by least logger) calls)\<rparr>)"
  using assms
proof (induction calls arbitrary: st)
  case Nil
  show ?case by (cases st) simp
next
  case (Cons call calls)
  then show ?case by (cases call) (simp_all add: init_logger_def log_macro_def logger_log_def Let_def)
qed

section \<open>Properties\<close>

text \<open>The first initialisation of the logger wins: whatever initialisations and messages follow,
  the level, the logger of the application and the setting of the crate stay those of the first
  call; every message up to that level, the warnings about later initialisations included, goes to that
  logger, in order and with its level, and nothing is printed.\<close>

theorem first_logger_wins:
  assumes "set_logger lc g = (True, g')" and "\<And>l m h. log_allows lc m (set_max_level lc l h) \<longleftrightarrow> m \<le> l"
  shows "for_each (logger_step lc) (InitLogger level logger # calls) (logger_start g) = Some
     \<lparr>lg_initialized = True, lg_max_log_level = log_level_into level, lg_client_logger = Some logger,
      lg_delivered = concat (map (delivered_by level logger) calls), lg_printed = [],
      lg_crate = set_max_level lc (log_level_into level) g'\<rparr>"
  using assms by (simp add: init_logger_def logger_start_def Let_def initialized_calls [where least = level])

definition example_log_crate :: "level option log_crate" where
  "example_log_crate = \<lparr>set_logger = (\<lambda>g. (g = None, g)), set_max_level = (\<lambda>l _. Some l),
     log_allows = (\<lambda>m g. case g of Some l \<Rightarrow> m \<le> l | None \<Rightarrow> False)\<rparr>"

theorem first_logger_wins_witness:
  "map_option lg_delivered (for_each (logger_step example_log_crate)
      (InitLogger LogWarn ''app'' # [LogRecord LevelError (Some ''protun'') ''down'', InitLogger LogTrace ''late'',
        LogRecord LevelInfo None ''slow'']) (logger_start None)) =
   Some [(''app'', LogError, ''protun: down''),
     (''app'', LogWarn, ''protun::api::logger: init_logger: Already initialized. Ignoring.'')]"
proof -
  have "set_logger example_log_crate None = (True, None)"
    "\<And>l m h. log_allows example_log_crate m (set_max_level example_log_crate l h) \<longleftrightarrow> m \<le> l"
    by (simp_all add: example_log_crate_def)
  from first_logger_wins [OF this, of LogWarn "''app''" "[LogRecord LevelError (Some ''protun'') ''down'',
      InitLogger LogTrace ''late'', LogRecord LevelInfo None ''slow'']"]
  show ?thesis by (simp add: less_eq_level_def)
qed

end
