(* ===== verification/Sample_App.thy ===== *)
theory Sample_App
  imports Connection_Api Config_File Logger
begin

unbundle bit_operations_syntax

text \<open>
  The example program \<^verbatim>\<open>src/example\<close>: the file behind a value of the persistent cache
  (\<^verbatim>\<open>binary_blob_file.rs\<close>), the implementation \<^verbatim>\<open>Cache\<close> of the trait \<^verbatim>\<open>PersistentCache\<close> of
  \<^verbatim>\<open>src/api/connection.rs\<close>, the tun device of Linux and the answer to an expired session (\<^verbatim>\<open>sample.rs\<close>).
  The locale \<open>persistent_cache\<close> is the contract of the trait, as the thread and the next start of a
  connection rely on it. A panic is the value \<open>None\<close>; it ends the process, so that a lock is never poisoned.
\<close>

section \<open>Files\<close>

text \<open>The calls on files beyond those of \<open>file_system\<close>: opening to read and write, \<^verbatim>\<open>set_len\<close>, \<^verbatim>\<open>seek\<close> from the start,
  \<^verbatim>\<open>read_to_end\<close>.\<close>

record 'w rw_file_system = "'w file_system" +
  fs_open_rw :: "string \<Rightarrow> 'w \<Rightarrow> file_handle io_result \<times> 'w"
  fs_set_len :: "file_handle \<Rightarrow> u64 \<Rightarrow> 'w \<Rightarrow> unit io_result \<times> 'w"
  fs_seek_start :: "file_handle \<Rightarrow> u64 \<Rightarrow> 'w \<Rightarrow> u64 io_result \<times> 'w"
  fs_read_to_end :: "file_handle \<Rightarrow> 'w \<Rightarrow> bytes io_result \<times> 'w"

definition blob_new :: "'w rw_file_system \<Rightarrow> string \<Rightarrow> 'w \<Rightarrow> (file_handle \<times> 'w) option" where
  "blob_new fs path w =
     (let (created, w) = (case fs_parent fs path of
                            Some parent \<Rightarrow> fs_create_dir_all fs parent w
                          | None \<Rightarrow> (Inr (), w))
      in case created of
           Inl _ \<Rightarrow> None
         | Inr _ \<Rightarrow> (case fs_open_rw fs path w of (Inr fh, w) \<Rightarrow> Some (fh, w) | (Inl _, _) \<Rightarrow> None))"

definition blob_clear :: "'w rw_file_system \<Rightarrow> file_handle \<Rightarrow> 'w \<Rightarrow> unit io_result \<times> 'w" where
  "blob_clear fs fh w =
     (case fs_set_len fs fh 0 w of
        (Inl e, w) \<Rightarrow> (Inl e, w)
      | (Inr _, w) \<Rightarrow>
          (case fs_seek_start fs fh 0 w of
             (Inl e, w) \<Rightarrow> (Inl e, w)
           | (Inr _, w) \<Rightarrow> (Inr (), w)))"

definition blob_put :: "'w rw_file_system \<Rightarrow> file_handle \<Rightarrow> bytes \<Rightarrow> 'w \<Rightarrow> unit io_result \<times> 'w" where
  "blob_put fs fh data w =
     (case blob_clear fs fh w of
        (Inl e, w) \<Rightarrow> (Inl e, w)
      | (Inr _, w) \<Rightarrow> fs_write_all fs fh data w)"

definition blob_get :: "'w rw_file_system \<Rightarrow> file_handle \<Rightarrow> 'w \<Rightarrow> bytes option io_result \<times> 'w" where
  "blob_get fs fh w =
     (case fs_seek_start fs fh 0 w of
        (Inl e, w) \<Rightarrow> (Inl e, w)
      | (Inr _, w) \<Rightarrow>
          (case fs_read_to_end fs fh w of
             (Inl e, w) \<Rightarrow> (Inl e, w)
           | (Inr buf, w) \<Rightarrow> (Inr (if buf = [] then None else Some buf), w)))"

section \<open>The cache\<close>

record sample_cache =
  sc_cert_stream :: file_handle
  sc_private_key_stream :: file_handle
  sc_api_session_stream :: file_handle

definition sample_cache_new ::
  "'w rw_file_system \<Rightarrow> string \<Rightarrow> string \<Rightarrow> string \<Rightarrow> 'w \<Rightarrow> (sample_cache \<times> 'w) option" where
  "sample_cache_new fs cert_file_path private_key_file_path api_session_file_path w =
     do {
       (cert, w) \<leftarrow> blob_new fs cert_file_path w;
       (private_key, w) \<leftarrow> blob_new fs private_key_file_path w;
       (api_session, w) \<leftarrow> blob_new fs api_session_file_path w;
       Some (\<lparr>sc_cert_stream = cert, sc_private_key_stream = private_key,
              sc_api_session_stream = api_session\<rparr>, w)
     }"

fun cache_stream :: "sample_cache \<Rightarrow> cache_key \<Rightarrow> file_handle" where
  "cache_stream cache Certificate = sc_cert_stream cache"
| "cache_stream cache PrivateKey = sc_private_key_stream cache"
| "cache_stream cache ApiSession = sc_api_session_stream cache"

definition sample_cache_put ::
  "'w rw_file_system \<Rightarrow> sample_cache \<Rightarrow> cache_key \<Rightarrow> bytes \<Rightarrow> 'w \<Rightarrow> 'w" where
  "sample_cache_put fs cache key data w = snd (blob_put fs (cache_stream cache key) data w)"

definition sample_cache_get ::
  "'w rw_file_system \<Rightarrow> sample_cache \<Rightarrow> cache_key \<Rightarrow> 'w \<Rightarrow> (bytes option \<times> 'w) option" where
  "sample_cache_get fs cache key w =
     (case blob_get fs (cache_stream cache key) w of
        (Inr v, w) \<Rightarrow> Some (v, w)
      | (Inl _, _) \<Rightarrow> None)"

definition sample_cache_clear :: "'w rw_file_system \<Rightarrow> sample_cache \<Rightarrow> 'w \<Rightarrow> 'w" where
  "sample_cache_clear fs cache w =
     (let (_, w) = blob_clear fs (sc_cert_stream cache) w;
          (_, w) = blob_clear fs (sc_private_key_stream cache) w;
          (_, w) = blob_clear fs (sc_api_session_stream cache) w
      in w)"

section \<open>The tun device\<close>

record 'w tun_sys =
  ts_open :: "string \<Rightarrow> 'w \<Rightarrow> int \<times> 'w" \<comment> \<open>\<^verbatim>\<open>O_RDWR | O_NONBLOCK\<close>\<close>
  ts_ioctl :: "int \<Rightarrow> u64 \<Rightarrow> bytes \<Rightarrow> 'w \<Rightarrow> int \<times> 'w"
  ts_close :: "int \<Rightarrow> 'w \<Rightarrow> 'w"
  ts_last_os_error :: "'w \<Rightarrow> io_error"

definition TUNSETIFF :: u64 where
  "TUNSETIFF = 0x400454ca"

definition tun_request :: "bytes \<Rightarrow> bytes" where
  "tun_request name =
     (let ifr = replicate 18 0;
          copy_len = min (length name) 16;
          ifr = take copy_len name @ drop copy_len ifr;
          flags = (0x0001 :: u16) OR 0x1000
      in ifr[16 := ucast (flags AND 0xff), 17 := ucast (drop_bit 8 flags AND 0xff)])"

definition get_tun_fd :: "'w tun_sys \<Rightarrow> bytes \<Rightarrow> 'w \<Rightarrow> int io_result \<times> 'w" where
  "get_tun_fd ts name w =
     (let (tun_fd, w) = ts_open ts ''/dev/net/tun'' w
      in if tun_fd = - 1 then (Inl (ts_last_os_error ts w), w)
         else let (result, w) = ts_ioctl ts tun_fd TUNSETIFF (tun_request name) w
              in if result = - 1
                 then let w = ts_close ts tun_fd w in (Inl (ts_last_os_error ts w), w)
                 else (Inr tun_fd, w))"

text \<open>Texts are their bytes: \<^verbatim>\<open>as_bytes\<close>.\<close>

definition sample_tun_fd :: "'w tun_sys \<Rightarrow> (string \<Rightarrow> bytes) \<Rightarrow> parsed_config \<Rightarrow> 'w \<Rightarrow> int option \<times> 'w" where
  "sample_tun_fd ts as_bytes config w =
     (case pc_tun_interface_name config of
        Some name \<Rightarrow> (case get_tun_fd ts (as_bytes name) w of
                        (Inr fd, w) \<Rightarrow> (Some fd, w)
                      | (Inl _, w) \<Rightarrow> (None, w))
      | None \<Rightarrow> (None, w))"

section \<open>Expired sessions\<close>

text \<open>The thread of \<^verbatim>\<open>main\<close> that answers events; the log-in of the test utilities is a parameter.\<close>

fun answer_event ::
  "(string \<Rightarrow> string \<Rightarrow> string \<Rightarrow> fork_selector_info) \<Rightarrow> parsed_fork_config \<Rightarrow> event
     \<Rightarrow> ('c, 's, 'w) connection \<Rightarrow> ('c, 's, 'w) connection option" where
  "answer_event log_in fork (ErrorEvent ApiSessionExpired) conn =
     api (ApiProvideApiForkSelector (log_in (fc_app_version fork) (fc_username fork) (fc_password fork))) conn"
| "answer_event log_in fork _ conn = Some conn"

fun answer_events ::
  "(string \<Rightarrow> string \<Rightarrow> string \<Rightarrow> fork_selector_info) \<Rightarrow> parsed_fork_config option \<Rightarrow> event list
     \<Rightarrow> ('c, 's, 'w) connection \<Rightarrow> ('c, 's, 'w) connection option" where
  "answer_events log_in None events conn = Some conn"
| "answer_events log_in (Some fork) [] conn = Some conn"
| "answer_events log_in (Some fork) (event # events) conn =
     Option.bind (answer_event log_in fork event conn) (answer_events log_in (Some fork) events)"

section \<open>The set-up\<close>

text \<open>
  \<^verbatim>\<open>main\<close> up to the call of \<^verbatim>\<open>unix_connect\<close>: what it hands to the connection and to the thread for the events, or
  the line that it prints when there is no configuration. Afterwards \<^verbatim>\<open>main\<close> only prints the states it receives.
\<close>

datatype sample_logger = SampleLogger

record sample_setup =
  ss_initial_connection_config :: initial_connection_config
  ss_tun_fd :: "int option"
  ss_cache :: sample_cache
  ss_fork_config :: "parsed_fork_config option"

definition sample_main_setup ::
  "'w rw_file_system \<Rightarrow> 'w tun_sys \<Rightarrow> 'g log_crate \<Rightarrow> (string \<Rightarrow> 'w \<Rightarrow> bool) \<Rightarrow> ('w \<Rightarrow> string \<Rightarrow> ini_config option) \<Rightarrow>
   (string \<Rightarrow> bytes option) \<Rightarrow> (string \<Rightarrow> bytes) \<Rightarrow> string list \<Rightarrow> (sample_logger, 'g) logger_state \<Rightarrow> 'w
     \<Rightarrow> ((string + sample_setup) \<times> (sample_logger, 'g) logger_state \<times> 'w) option" where
  "sample_main_setup fs ts lc path_exists ini decode as_bytes args lg w =
     (let config_path = (case args of _ # path # _ \<Rightarrow> path | _ \<Rightarrow> ''./config.ini'')
      in if \<not> path_exists config_path w
         then Some (Inl (''Config file not found: '' @ config_path), lg, w)
         else do {
           lg \<leftarrow> init_logger lc LogInfo SampleLogger lg;
           (cache, w) \<leftarrow> sample_cache_new fs ''./protun_cert'' ''./protun_privatekey'' ''./protun_muon'' w;
           (config, fork_config) \<leftarrow> parse_ini_config (ini w) decode config_path;
           let (tun_fd, w) = sample_tun_fd ts as_bytes config w
           in Some (Inr \<lparr>ss_initial_connection_config = pc_initial_connection_config config, ss_tun_fd = tun_fd,
                ss_cache = cache, ss_fork_config = fork_config\<rparr>, lg, w)
         })"

text \<open>The thread for the events has credentials only for a connection with an agent, and then with the
  version of the application that the agent is told.\<close>

lemma sample_setup_fork:
  assumes "sample_main_setup fs ts lc path_exists ini decode as_bytes args lg w = Some (Inr st, lg', w')"
  shows "case ic_connection_mode (ss_initial_connection_config st) of
      LocalAgent _ app_version _ \<Rightarrow> (\<forall>fork. ss_fork_config st = Some fork \<longrightarrow> fc_app_version fork = app_version)
    | NoLocalAgent _ \<Rightarrow> ss_fork_config st = None"
proof -
  from assms obtain ini_config where
    "parse_ini_fork ini_config (ic_connection_mode (ss_initial_connection_config st)) = Some (ss_fork_config st)"
    by (auto simp: sample_main_setup_def parse_ini_config_def Let_def case_prod_beta bind_eq_Some_conv split: if_splits)
  then show ?thesis
    by (cases "ic_connection_mode (ss_initial_connection_config st)"; cases "map_of ini_config ''fork''")
      (auto simp: parse_ini_fork_def bind_eq_Some_conv)
qed

section \<open>The contract of the cache\<close>

text \<open>
  What the thread stores and the next start reads. An empty value cannot be told from none. The
  outputs of a thread reach the cache in their order.
\<close>

definition non_empty :: "bytes \<Rightarrow> bytes option" where
  "non_empty v = (if v = [] then None else Some v)"

fun cache_output :: "(cache_key \<Rightarrow> bytes \<Rightarrow> 's \<Rightarrow> 's) \<Rightarrow> out \<Rightarrow> 's \<Rightarrow> 's" where
  "cache_output put (CachePut k v) s = put k v s"
| "cache_output put _ s = s"

definition cache_outputs :: "(cache_key \<Rightarrow> bytes \<Rightarrow> 's \<Rightarrow> 's) \<Rightarrow> out list \<Rightarrow> 's \<Rightarrow> 's" where
  "cache_outputs put outs s = fold (cache_output put) outs s"

fun last_put :: "cache_key \<Rightarrow> out list \<Rightarrow> bytes option" where
  "last_put k [] = None"
| "last_put k (x # outs) =
     (case last_put k outs of
        Some v \<Rightarrow> Some v
      | None \<Rightarrow> (case x of CachePut k' v \<Rightarrow> if k' = k then Some v else None | _ \<Rightarrow> None))"

locale persistent_cache =
  fixes put :: "cache_key \<Rightarrow> bytes \<Rightarrow> 's \<Rightarrow> 's"
    and get :: "cache_key \<Rightarrow> 's \<Rightarrow> (bytes option \<times> 's) option"
    and clear :: "'s \<Rightarrow> 's"
    and stored :: "'s \<Rightarrow> cache_key \<Rightarrow> bytes option"
    and ok :: "'s \<Rightarrow> bool"
  assumes put_law: "ok s \<Longrightarrow> ok (put k v s) \<and> stored (put k v s) = (stored s)(k := non_empty v)"
    and get_law: "ok s \<Longrightarrow> \<exists>s'. get k s = Some (stored s k, s') \<and> ok s' \<and> stored s' = stored s"
    and clear_law: "ok s \<Longrightarrow> ok (clear s) \<and> stored (clear s) = (\<lambda>_. None)"
begin

lemma outputs_stored:
  assumes "ok s"
  shows "ok (cache_outputs put outs s) \<and>
    stored (cache_outputs put outs s) k =
      (case last_put k outs of Some v \<Rightarrow> non_empty v | None \<Rightarrow> stored s k)"
  using assms
proof (induction outs arbitrary: s)
  case (Cons x outs)
  then have "ok (cache_output put x s)" by (cases x) (simp_all add: put_law)
  moreover have "stored (cache_output put x s) k =
      (case last_put k [x] of Some v \<Rightarrow> non_empty v | None \<Rightarrow> stored s k)"
    using Cons.prems by (cases x) (simp_all add: put_law)
  ultimately show ?case
    using Cons.IH [of "cache_output put x s"]
    by (auto simp: cache_outputs_def split: option.splits)
qed (simp add: cache_outputs_def)

lemma read_after_outputs:
  assumes "ok s"
  shows "\<exists>s'. get k (cache_outputs put outs s) =
    Some (case last_put k outs of Some v \<Rightarrow> non_empty v | None \<Rightarrow> stored s k, s')"
  using get_law [of "cache_outputs put outs s" k] outputs_stored [OF assms, of outs k] by auto

lemma read_after_clear: "ok s \<Longrightarrow> \<exists>s'. get k (clear s) = Some (None, s')"
  using get_law [of "clear s" k] clear_law [of s] by auto

end

section \<open>The cache on plain files\<close>

text \<open>
  What the documentation of the standard library says of the calls, for files that no call
  fails on: a handle has the bytes of its file and a position, and the calls on one handle
  leave the files of the others alone.
\<close>

type_synonym 'w file_view = "file_handle \<Rightarrow> 'w \<Rightarrow> bytes \<times> nat"

definition overwrite_at :: "nat \<Rightarrow> bytes \<Rightarrow> bytes \<Rightarrow> bytes" where
  "overwrite_at pos data b = take pos b @ replicate (pos - length b) 0 @ data @ drop (pos + length data) b"

definition changes_file :: "'w file_view \<Rightarrow> file_handle \<Rightarrow> 'w \<Rightarrow> 'w \<Rightarrow> bytes \<times> nat \<Rightarrow> bool" where
  "changes_file view fh w w' now \<longleftrightarrow>
     view fh w' = now \<and> (\<forall>other. other \<noteq> fh \<longrightarrow> view other w' = view other w)"

definition plain_files :: "'w rw_file_system \<Rightarrow> 'w file_view \<Rightarrow> bool" where
  "plain_files fs view \<longleftrightarrow>
     (\<forall>fh w. \<exists>w'. fs_set_len fs fh 0 w = (Inr (), w') \<and>
        changes_file view fh w w' ([], snd (view fh w))) \<and>
     (\<forall>fh w. \<exists>w'. fs_seek_start fs fh 0 w = (Inr 0, w') \<and>
        changes_file view fh w w' (fst (view fh w), 0)) \<and>
     (\<forall>fh data w. \<exists>w'. fs_write_all fs fh data w = (Inr (), w') \<and>
        changes_file view fh w w' (overwrite_at (snd (view fh w)) data (fst (view fh w)),
          snd (view fh w) + length data)) \<and>
     (\<forall>fh w. \<exists>w'. fs_read_to_end fs fh w = (Inr (drop (snd (view fh w)) (fst (view fh w))), w') \<and>
        changes_file view fh w w' (fst (view fh w), max (snd (view fh w)) (length (fst (view fh w)))))"

lemma plain_filesD:
  assumes "plain_files fs view"
  shows "\<exists>w'. fs_set_len fs fh 0 w = (Inr (), w') \<and> changes_file view fh w w' ([], snd (view fh w))"
    and "\<exists>w'. fs_seek_start fs fh 0 w = (Inr 0, w') \<and> changes_file view fh w w' (fst (view fh w), 0)"
    and "\<exists>w'. fs_write_all fs fh data w = (Inr (), w') \<and>
        changes_file view fh w w' (overwrite_at (snd (view fh w)) data (fst (view fh w)),
          snd (view fh w) + length data)"
    and "\<exists>w'. fs_read_to_end fs fh w = (Inr (drop (snd (view fh w)) (fst (view fh w))), w') \<and>
        changes_file view fh w w' (fst (view fh w), max (snd (view fh w)) (length (fst (view fh w))))"
  using assms unfolding plain_files_def by blast+

lemma changes_file_trans:
  "changes_file view fh w w' x \<Longrightarrow> changes_file view fh w' w'' y \<Longrightarrow> changes_file view fh w w'' y"
  by (simp add: changes_file_def)

lemma blob_clear_plain:
  assumes "plain_files fs view"
  shows "\<exists>w'. blob_clear fs fh w = (Inr (), w') \<and> changes_file view fh w w' ([], 0)"
proof -
  from plain_filesD(1) [OF assms, of fh w] obtain w1 where
    w1: "fs_set_len fs fh 0 w = (Inr (), w1)" "changes_file view fh w w1 ([], snd (view fh w))" by blast
  from plain_filesD(2) [OF assms, of fh w1] w1(2) obtain w2 where
    "fs_seek_start fs fh 0 w1 = (Inr 0, w2)" "changes_file view fh w1 w2 ([], 0)"
    by (auto simp: changes_file_def)
  with w1 show ?thesis by (auto simp: blob_clear_def intro: changes_file_trans)
qed

lemma blob_put_plain:
  assumes "plain_files fs view"
  shows "\<exists>w'. blob_put fs fh data w = (Inr (), w') \<and> changes_file view fh w w' (data, length data)"
proof -
  from blob_clear_plain [OF assms, of fh w] obtain w1 where
    w1: "blob_clear fs fh w = (Inr (), w1)" "changes_file view fh w w1 ([], 0)" by blast
  then have "view fh w1 = ([], 0)" by (simp add: changes_file_def)
  with plain_filesD(3) [OF assms, of fh data w1] obtain w2 where
    "fs_write_all fs fh data w1 = (Inr (), w2)" "changes_file view fh w1 w2 (data, length data)"
    by (auto simp: overwrite_at_def)
  with w1 show ?thesis by (auto simp: blob_put_def intro: changes_file_trans)
qed

lemma blob_get_plain:
  assumes "plain_files fs view"
  shows "\<exists>w' n. blob_get fs fh w = (Inr (non_empty (fst (view fh w))), w') \<and>
    changes_file view fh w w' (fst (view fh w), n)"
proof -
  from plain_filesD(2) [OF assms, of fh w] obtain w1 where
    w1: "fs_seek_start fs fh 0 w = (Inr 0, w1)" "changes_file view fh w w1 (fst (view fh w), 0)" by blast
  then have "view fh w1 = (fst (view fh w), 0)" by (simp add: changes_file_def)
  with plain_filesD(4) [OF assms, of fh w1] obtain w2 n where
    "fs_read_to_end fs fh w1 = (Inr (fst (view fh w)), w2)" "changes_file view fh w1 w2 (fst (view fh w), n)"
    by auto
  with w1 have "blob_get fs fh w = (Inr (non_empty (fst (view fh w))), w2)"
    "changes_file view fh w w2 (fst (view fh w), n)"
    by (auto simp: blob_get_def non_empty_def intro: changes_file_trans)
  then show ?thesis by blast
qed

definition cache_stored :: "'w file_view \<Rightarrow> sample_cache \<Rightarrow> 'w \<Rightarrow> cache_key \<Rightarrow> bytes option" where
  "cache_stored view cache w k = non_empty (fst (view (cache_stream cache k) w))"

lemma cache_stored_change:
  assumes "changes_file view (cache_stream cache k) w w' (b, n)" "inj (cache_stream cache)"
  shows "cache_stored view cache w' = (cache_stored view cache w)(k := non_empty b)"
proof
  fix k'
  have "cache_stream cache k' = cache_stream cache k \<longleftrightarrow> k' = k" using assms(2) by (auto dest: injD)
  with assms(1) show "cache_stored view cache w' k' = ((cache_stored view cache w)(k := non_empty b)) k'"
    by (cases "k' = k") (simp_all add: cache_stored_def changes_file_def)
qed

lemma blob_clear_stored:
  assumes "plain_files fs view" "inj (cache_stream cache)"
  shows "cache_stored view cache (snd (blob_clear fs (cache_stream cache k) w)) = (cache_stored view cache w)(k := None)"
proof -
  from blob_clear_plain [OF assms(1), of "cache_stream cache k" w] obtain w' where
    "blob_clear fs (cache_stream cache k) w = (Inr (), w')"
    "changes_file view (cache_stream cache k) w w' ([], 0)" by blast
  with cache_stored_change [OF _ assms(2), of view k w w' "[]" 0] show ?thesis by (simp add: non_empty_def)
qed

interpretation sample: persistent_cache "sample_cache_put fs cache" "sample_cache_get fs cache"
  "sample_cache_clear fs cache" "cache_stored view cache" "\<lambda>_. plain_files fs view \<and> inj (cache_stream cache)"
  for fs view cache
proof (unfold_locales, goal_cases)
  case (1 w k v)
  then obtain w' where "blob_put fs (cache_stream cache k) v w = (Inr (), w')"
    "changes_file view (cache_stream cache k) w w' (v, length v)"
    using blob_put_plain [of fs view "cache_stream cache k" v w] by auto
  with 1 cache_stored_change [of view cache k w w' v "length v"] show ?case
    by (simp add: sample_cache_put_def)
next
  case (2 w k)
  then obtain w' n where get: "blob_get fs (cache_stream cache k) w =
      (Inr (non_empty (fst (view (cache_stream cache k) w))), w')"
    "changes_file view (cache_stream cache k) w w' (fst (view (cache_stream cache k) w), n)"
    using blob_get_plain [of fs view "cache_stream cache k" w] by auto
  with 2 cache_stored_change [of view cache k w w'] have "cache_stored view cache w' = cache_stored view cache w"
    by (auto simp: cache_stored_def)
  with get 2 show ?case by (simp add: sample_cache_get_def cache_stored_def)
next
  case (3 w)
  have "cache_stored view cache (sample_cache_clear fs cache w) =
      (cache_stored view cache w)(Certificate := None, PrivateKey := None, ApiSession := None)"
    using 3 by (simp add: sample_cache_clear_def case_prod_beta blob_clear_stored
        cache_stream.simps [symmetric] del: cache_stream.simps)
  moreover have "((cache_stored view cache w)(Certificate := None, PrivateKey := None, ApiSession := None)) = (\<lambda>_. None)"
  proof
    fix k show "((cache_stored view cache w)(Certificate := None, PrivateKey := None, ApiSession := None)) k = None"
      by (cases k) simp_all
  qed
  ultimately show ?case using 3 by simp
qed

text \<open>The stream on which the client writes the value of a key.\<close>

fun secret_stream :: "stream_ids \<Rightarrow> cache_key \<Rightarrow> stream_id" where
  "secret_stream ids Certificate = CERT_STREAM_ID ids"
| "secret_stream ids PrivateKey = PRIVKEY_STREAM_ID ids"
| "secret_stream ids ApiSession = MUON_AUTH_STREAM_ID ids"

definition distinct_secret_streams :: "stream_ids \<Rightarrow> bool" where
  "distinct_secret_streams ids \<longleftrightarrow>
     distinct [PCAP_STREAM_ID ids, PRIVKEY_STREAM_ID ids, CERT_STREAM_ID ids, MUON_AUTH_STREAM_ID ids]"

lemma handle_write_secret:
  "distinct_secret_streams (ce_ids env) \<Longrightarrow>
   handle_write env (secret_stream (ce_ids env) k) data c = Some (cache_put k data c)"
  by (cases k) (auto simp: handle_write_def distinct_secret_streams_def)

lemma last_put_append:
  "last_put k (xs @ ys) = (case last_put k ys of Some v \<Rightarrow> Some v | None \<Rightarrow> last_put k xs)"
  by (induction xs) (auto split: option.splits)


text \<open>Files in memory: a state is the bytes and the position of every handle.\<close>

definition memory_fs :: "(file_handle \<Rightarrow> bytes \<times> nat) rw_file_system" where
  "memory_fs =
     \<lparr>fs_parent = (\<lambda>_. None), fs_create_dir_all = (\<lambda>_ m. (Inr (), m)), fs_open = (\<lambda>_ _ m. (Inr 0, m)),
      fs_len = (\<lambda>fh m. Inr (word_of_nat (length (fst (m fh))))),
      fs_write_all = (\<lambda>fh data m. (Inr (),
        m(fh := (overwrite_at (snd (m fh)) data (fst (m fh)), snd (m fh) + length data)))),
      fs_sync_all = (\<lambda>_ m. (Inr (), m)), fs_open_rw = (\<lambda>_ m. (Inr 0, m)),
      fs_set_len = (\<lambda>fh n m. (Inr (),
        m(fh := (take (unat n) (fst (m fh)) @ replicate (unat n - length (fst (m fh))) 0, snd (m fh))))),
      fs_seek_start = (\<lambda>fh n m. (Inr n, m(fh := (fst (m fh), unat n)))),
      fs_read_to_end = (\<lambda>fh m. (Inr (drop (snd (m fh)) (fst (m fh))),
        m(fh := (fst (m fh), max (snd (m fh)) (length (fst (m fh)))))))\<rparr>"

lemma memory_fs_plain: "plain_files memory_fs (\<lambda>fh m. m fh)"
  by (simp add: plain_files_def memory_fs_def changes_file_def)

definition three_files :: sample_cache where
  "three_files = \<lparr>sc_cert_stream = 3, sc_private_key_stream = 4, sc_api_session_stream = 5\<rparr>"

lemma three_files_inj: "inj (cache_stream three_files)"
proof (rule injI)
  fix k k' assume "cache_stream three_files k = cache_stream three_files k'"
  then show "k = k'" by (cases k; cases k') (simp_all add: three_files_def)
qed


section \<open>The request for the tun device\<close>

text \<open>The request that opens the tun device holds the first sixteen bytes of the name of the interface, filled up
  with zeros, and behind them the flags for a device of IP packets without a header, the low byte first.\<close>

theorem tun_request_layout:
  "length (tun_request name) = 18 \<and>
   take 16 (tun_request name) = take 16 name @ replicate (16 - length name) 0 \<and>
   drop 16 (tun_request name) = [0x01, 0x10]"
proof -
  let ?ifr = "take 16 name @ replicate (16 - length name) (0 :: u8)"
  have len: "length ?ifr = 16" by simp
  have "tun_request name = ?ifr @ [0x01, 0x10]"
  proof -
    have "replicate 18 (0 :: u8) = replicate 16 0 @ [0, 0]" by (simp add: numeral_eq_Suc)
    then have "take (min (length name) 16) name @ drop (min (length name) 16) (replicate 18 0) = ?ifr @ [0, 0]"
      by (cases "length name \<le> 16") (simp_all add: min_def)
    moreover have "(?ifr @ [0, 0])[16 := 0x01, 17 := 0x10] = ?ifr @ [0x01, 0x10]"
      by (auto simp: list_update_append min_def)
    ultimately show ?thesis by (simp add: tun_request_def Let_def)
  qed
  with len show ?thesis by simp
qed

end
