(* ===== verification/Test_Login.thy ===== *)
theory Test_Login
  imports Api_Types "HOL-Library.Sublist"
begin

text \<open>
  \<^verbatim>\<open>src/api/test_utils/muon_test_auth.rs\<close>: logging in to the API for the selector of a session fork, which
  the example program and the tests on real servers use. The crate \<^verbatim>\<open>muon\<close> and the function that forks a
  session in \<^verbatim>\<open>pvpnclient\<close> are a parameter: each call may set cookies, in order, in the store
  that it was given. Of the capabilities of the operating system that the file hands to \<^verbatim>\<open>muon\<close> the clocks and
  the resolver are modelled; sleeping, connecting and spawning only forward to \<^verbatim>\<open>tokio\<close> and are
  part of the parameter. A panic is the value \<open>None\<close>.
\<close>

section \<open>The cookie store\<close>

definition to_ascii_lowercase :: "char \<Rightarrow> char" where
  "to_ascii_lowercase ch =
     (let n = of_char ch :: nat in if 65 \<le> n \<and> n \<le> 90 then char_of (n + 32) else ch)"

definition eq_ignore_ascii_case :: "string \<Rightarrow> string \<Rightarrow> bool" where
  "eq_ignore_ascii_case a b \<longleftrightarrow> map to_ascii_lowercase a = map to_ascii_lowercase b"

text \<open>Only the name and the value of a cookie are ever read.\<close>

definition cookie_store_set :: "cookie \<Rightarrow> cookie list \<Rightarrow> cookie list" where
  "cookie_store_set c cookies =
     (if list_all (\<lambda>x. \<not> eq_ignore_ascii_case (ck_name x) (ck_name c)) cookies then cookies @ [c] else cookies)"

definition cookie_store_get :: "cookie list \<Rightarrow> cookie list" where
  "cookie_store_get cookies = cookies"

section \<open>The capabilities of the system\<close>

text \<open>\<open>now\<close> is what \<^verbatim>\<open>Instant::now()\<close> reads; the difference of instants stops at zero.\<close>

record time_capability =
  tc_at_start :: instant

definition time_capability_default :: "instant \<Rightarrow> time_capability" where
  "time_capability_default now = \<lparr>tc_at_start = now\<rparr>"

definition time_capability_now :: "time_capability \<Rightarrow> instant \<Rightarrow> duration" where
  "time_capability_now tc now = now - tc_at_start tc"

text \<open>The clock of the system in nanoseconds since 1970, which may be set before that.\<close>

definition time_capability_system_now :: "int \<Rightarrow> system_time option" where
  "time_capability_system_now since_epoch = (if since_epoch < 0 then None else Some (nat since_epoch))"

definition my_resolver_resolve ::
  "(string \<Rightarrow> 'm \<Rightarrow> socket_addr list io_result \<times> 'm) \<Rightarrow> string \<Rightarrow> 'm \<Rightarrow> ip_addr list io_result \<times> 'm" where
  "my_resolver_resolve lookup_host host m =
     (case lookup_host (host @ '':80'') m of
        (Inl e, m) \<Rightarrow> (Inl e, m)
      | (Inr addresses, m) \<Rightarrow> (Inr (map sa_ip addresses), m))"

text \<open>The connector and the resolver have no state.\<close>

record my_operating_system =
  os_time :: time_capability

definition my_operating_system_default :: "instant \<Rightarrow> my_operating_system" where
  "my_operating_system_default now = \<lparr>os_time = time_capability_default now\<rparr>"

text \<open>What \<^verbatim>\<open>unsafe impl Monotonic\<close> promises, and that the clock starts at zero.\<close>

lemma time_capability_monotonic:
  "s \<le> t \<Longrightarrow> time_capability_now tc s \<le> time_capability_now tc t"
  "time_capability_now (os_time (my_operating_system_default now)) now = 0"
  by (simp_all add: time_capability_now_def my_operating_system_default_def time_capability_default_def diff_le_mono)

section \<open>The log-in\<close>

datatype 's login_flow = LoginOk 's | LoginTwoFactor | LoginFailed string

record ('s, 'm) muon =
  mu_app :: "string \<Rightarrow> bool"
  mu_instant :: "'m \<Rightarrow> instant"
  mu_new_session :: "string \<Rightarrow> my_operating_system \<Rightarrow> 'm \<Rightarrow> (io_error + 's) \<times> cookie list \<times> 'm"
  mu_login :: "'s \<Rightarrow> string \<Rightarrow> string \<Rightarrow> 'm \<Rightarrow> 's login_flow \<times> cookie list \<times> 'm"
  mu_fork :: "'s \<Rightarrow> string \<Rightarrow> 'm \<Rightarrow> (io_error + string) \<times> cookie list \<times> 'm"

definition get_session_fork_selector ::
  "('s, 'm) muon \<Rightarrow> string \<Rightarrow> string \<Rightarrow> string \<Rightarrow> 'm \<Rightarrow> (fork_selector_info \<times> 'm) option" where
  "get_session_fork_selector mu app user pass m =
     (if \<not> mu_app mu app then None
      else case mu_new_session mu app (my_operating_system_default (mu_instant mu m)) m of
        (Inl _, _, _) \<Rightarrow> None
      | (Inr session, set1, m) \<Rightarrow>
          let captured = fold cookie_store_set set1 []
          in case mu_login mu session user pass m of
               (LoginOk session, set2, m) \<Rightarrow>
                 let captured = fold cookie_store_set set2 captured
                 in (case mu_fork mu session app m of
                       (Inl _, _, _) \<Rightarrow> None
                     | (Inr selector, set3, m) \<Rightarrow>
                         let captured = fold cookie_store_set set3 captured
                         in Some (\<lparr>fs_selector = selector,
                               fs_cookies = map (\<lambda>c. \<lparr>ck_name = ck_name c, ck_value = ck_value c\<rparr>) captured\<rparr>, m))
             | (LoginTwoFactor, _, _) \<Rightarrow> None
             | (LoginFailed reason, _, _) \<Rightarrow> None)"

section \<open>What the store holds\<close>

text \<open>The first cookie of each name, in the order in which the names appeared.\<close>

definition cookie_id :: "cookie \<Rightarrow> string" where
  "cookie_id c = map to_ascii_lowercase (ck_name c)"

fun first_cookies :: "cookie list \<Rightarrow> cookie list" where
  "first_cookies [] = []"
| "first_cookies (c # cs) = c # first_cookies (filter (\<lambda>x. cookie_id x \<noteq> cookie_id c) cs)"

lemma cookie_store_set_eq:
  "cookie_store_set c cookies = (if cookie_id c \<in> cookie_id ` set cookies then cookies else cookies @ [c])"
proof -
  have "list_all (\<lambda>x. \<not> eq_ignore_ascii_case (ck_name x) (ck_name c)) cookies \<longleftrightarrow>
      cookie_id c \<notin> cookie_id ` set cookies"
    unfolding list_all_iff eq_ignore_ascii_case_def cookie_id_def image_iff by (metis (no_types, lifting))
  then show ?thesis by (simp add: cookie_store_set_def)
qed

lemma cookie_copy: "map (\<lambda>c. \<lparr>ck_name = ck_name c, ck_value = ck_value c\<rparr>) cookies = cookies"
  by (rule map_idI) simp

lemma fold_cookie_store_set:
  "fold cookie_store_set cs acc = acc @ first_cookies (filter (\<lambda>x. cookie_id x \<notin> cookie_id ` set acc) cs)"
proof (induction cs arbitrary: acc)
  case (Cons c cs)
  show ?case
  proof (cases "cookie_id c \<in> cookie_id ` set acc")
    case True
    with Cons show ?thesis by (simp add: cookie_store_set_eq)
  next
    case False
    have "filter (\<lambda>x. cookie_id x \<notin> cookie_id ` set (acc @ [c])) cs =
        filter (\<lambda>x. cookie_id x \<noteq> cookie_id c) (filter (\<lambda>x. cookie_id x \<notin> cookie_id ` set acc) cs)"
      by (auto intro!: filter_cong)
    with False Cons [of "acc @ [c]"] show ?thesis by (simp add: cookie_store_set_eq)
  qed
qed simp

lemma first_cookies_set: "cookie_id ` set (first_cookies cs) = cookie_id ` set cs"
proof (induction cs rule: first_cookies.induct)
  case (2 c cs)
  then show ?case by (auto simp: image_iff)
qed simp

lemma first_cookies_distinct: "distinct (map cookie_id (first_cookies cs))"
proof (induction cs rule: first_cookies.induct)
  case (2 c cs)
  then show ?case using first_cookies_set [of "filter (\<lambda>x. cookie_id x \<noteq> cookie_id c) cs"] by auto
qed simp

lemma first_cookies_subseq: "subseq (first_cookies cs) cs"
proof (induction cs rule: first_cookies.induct)
  case (2 c cs)
  then show ?case by (auto intro: subseq_order.trans subseq_filter_left)
qed simp

lemma first_cookies_find:
  "c \<in> set (first_cookies cs) \<Longrightarrow> find (\<lambda>x. cookie_id x = cookie_id c) cs = Some c"
proof (induction cs rule: first_cookies.induct)
  case (2 d cs)
  show ?case
  proof (cases "cookie_id d = cookie_id c")
    case True
    with 2(2) first_cookies_set [of "filter (\<lambda>x. cookie_id x \<noteq> cookie_id d) cs"] show ?thesis by force
  next
    case False
    with 2 have "find (\<lambda>x. cookie_id x = cookie_id c) (filter (\<lambda>x. cookie_id x \<noteq> cookie_id d) cs) = Some c" by auto
    moreover have "filter (\<lambda>x. cookie_id x = cookie_id c) (filter (\<lambda>x. cookie_id x \<noteq> cookie_id d) cs) =
        filter (\<lambda>x. cookie_id x = cookie_id c) cs"
      using False by (auto intro: filter_cong)
    ultimately show ?thesis using False by (simp add: find_filter_hd)
  qed
qed simp

text \<open>A log-in that returns hands the connection the selector of the fork and the cookies that were set during the
  three calls: for each name, letter case aside, exactly one, the one that was set first, in the order of their
  appearance.\<close>

theorem login_cookies_first:
  assumes "get_session_fork_selector mu app user pass m = Some (info, m')"
  shows "\<exists>cookies. subseq (fs_cookies info) cookies \<and> distinct (map cookie_id (fs_cookies info)) \<and>
     cookie_id ` set (fs_cookies info) = cookie_id ` set cookies \<and>
     list_all (\<lambda>c. find (\<lambda>x. cookie_id x = cookie_id c) cookies = Some c) (fs_cookies info) \<and>
     (\<exists>s1 c1 m1 s2 c2 m2 c3. mu_new_session mu app (my_operating_system_default (mu_instant mu m)) m = (Inr s1, c1, m1) \<and>
        mu_login mu s1 user pass m1 = (LoginOk s2, c2, m2) \<and>
        mu_fork mu s2 app m2 = (Inr (fs_selector info), c3, m') \<and> cookies = c1 @ c2 @ c3)"
proof -
  from assms obtain s1 c1 m1 s2 c2 m2 c3 where calls: "mu_new_session mu app (my_operating_system_default (mu_instant mu m)) m = (Inr s1, c1, m1)"
      "mu_login mu s1 user pass m1 = (LoginOk s2, c2, m2)"
      "mu_fork mu s2 app m2 = (Inr (fs_selector info), c3, m')"
    and "fs_cookies info = fold cookie_store_set c3 (fold cookie_store_set c2 (fold cookie_store_set c1 []))"
    by (auto simp: get_session_fork_selector_def cookie_copy Let_def split: if_splits prod.splits sum.splits login_flow.splits)
  then have "fs_cookies info = fold cookie_store_set (c1 @ c2 @ c3) []" by simp
  then have "fs_cookies info = first_cookies (c1 @ c2 @ c3)" by (simp only: fold_cookie_store_set) simp
  with calls show ?thesis
    by (intro exI [of _ "c1 @ c2 @ c3"])
      (simp add: first_cookies_subseq first_cookies_distinct first_cookies_set first_cookies_find list_all_iff)
qed

definition example_muon :: "(unit, unit) muon" where
  "example_muon = \<lparr>mu_app = (\<lambda>_. True), mu_instant = (\<lambda>_. 0),
      mu_new_session = (\<lambda>_ _ m. (Inr (), [\<lparr>ck_name = ''Session'', ck_value = ''1''\<rparr>], m)),
      mu_login = (\<lambda>_ _ _ m. (LoginOk (), [\<lparr>ck_name = ''session'', ck_value = ''2''\<rparr>], m)),
      mu_fork = (\<lambda>_ _ m. (Inr ''fork'', [], m))\<rparr>"

theorem login_cookies_first_witness:
  "\<exists>info. get_session_fork_selector example_muon ''app'' ''user'' ''pass'' () = Some (info, ()) \<and>
     fs_cookies info = [\<lparr>ck_name = ''Session'', ck_value = ''1''\<rparr>] \<and>
     cookie_id ` set (fs_cookies info) =
       cookie_id ` set [\<lparr>ck_name = ''Session'', ck_value = ''1''\<rparr>, \<lparr>ck_name = ''session'', ck_value = ''2''\<rparr>]"
proof -
  have login: "get_session_fork_selector example_muon ''app'' ''user'' ''pass'' () =
      Some (\<lparr>fs_selector = ''fork'', fs_cookies = [\<lparr>ck_name = ''Session'', ck_value = ''1''\<rparr>]\<rparr>, ())"
    by code_simp
  from login_cookies_first [OF this] login show ?thesis by (auto simp: example_muon_def)
qed

end
