(* ===== verification/Windows_Net.thy ===== *)
theory Windows_Net
  imports Net_Types
begin

unbundle bit_operations_syntax

text \<open>
  What the Windows sources share: the fatal errors of \<^verbatim>\<open>src/api/windows/protun_error.rs\<close>, the
  socket addresses of the system with their byte orders, and the IP helper functions of the
  system that \<^verbatim>\<open>local_ip_finder.rs\<close> and \<^verbatim>\<open>routing_table.rs\<close> call. The functions and constants of
  the system and of the crate \<^verbatim>\<open>windows\<close> are parameters, the record \<open>ip_helper\<close>; \<open>'w\<close> is the
  state of the system. Windows runs on little-endian machines only, which fixes what
  \<^verbatim>\<open>from_be\<close> and \<^verbatim>\<open>to_ne_bytes\<close> do.
\<close>

section \<open>Errors (\<^verbatim>\<open>protun_error.rs\<close>)\<close>

datatype protun_fatal_error =
    NoLocalIp string
  | HandleCreationFailed string
  | WinsockStartFailed string
  | WintunLibraryLoadingFailed string
  | WintunInterfaceCreationFailed string
  | WintunAdapterIndexFetchFailed string
  | WintunSessionCreationFailed string
  | WintunIpAddressSetupFailed string
  | WintunSessionHandleCreationFailed string

type_synonym win32_error = u32

section \<open>Byte order\<close>

text \<open>\<^verbatim>\<open>u32::from_le_bytes\<close>, \<^verbatim>\<open>u32::to_ne_bytes\<close> and \<^verbatim>\<open>u32::from_be\<close> on a little-endian machine.\<close>

definition u32_from_le_bytes :: "u8 \<Rightarrow> u8 \<Rightarrow> u8 \<Rightarrow> u8 \<Rightarrow> u32" where
  "u32_from_le_bytes a b c d =
     ucast a OR push_bit 8 (ucast b) OR push_bit 16 (ucast c) OR push_bit 24 (ucast d)"

definition u32_byte :: "u32 \<Rightarrow> nat \<Rightarrow> u8" where
  "u32_byte x i = ucast (drop_bit (8 * i) x)"

definition u32_from_be :: "u32 \<Rightarrow> u32" where
  "u32_from_be x = u32_from_le_bytes (u32_byte x 3) (u32_byte x 2) (u32_byte x 1) (u32_byte x 0)"

text \<open>\<^verbatim>\<open>Ipv4Addr::from(u32)\<close> takes the most significant byte first.\<close>

definition ipv4_from_u32 :: "u32 \<Rightarrow> ipv4_addr" where
  "ipv4_from_u32 x = Ipv4Addr (u32_byte x 3) (u32_byte x 2) (u32_byte x 1) (u32_byte x 0)"

fun ipv4_s_addr :: "ipv4_addr \<Rightarrow> u32" where
  "ipv4_s_addr (Ipv4Addr a b c d) = u32_from_le_bytes a b c d"

text \<open>
  \<^verbatim>\<open>Ipv6Addr::octets\<close> and \<^verbatim>\<open>Ipv6Addr::from([u8; 16])\<close> have the most significant byte of a segment
  first; the member \<^verbatim>\<open>Word\<close> of the same memory reads the least significant one first.
\<close>

definition ipv6_octets :: "ipv6_addr \<Rightarrow> bytes" where
  "ipv6_octets a = concat (map (\<lambda>s. [ucast (drop_bit 8 s), ucast s]) (ipv6_segments a))"

definition u16_of_bytes :: "u8 \<Rightarrow> u8 \<Rightarrow> u16" where
  "u16_of_bytes high low = push_bit 8 (ucast high) OR ucast low"

definition ipv6_of_words :: "(nat \<Rightarrow> u16) \<Rightarrow> ipv6_addr" where
  "ipv6_of_words s = Ipv6Addr (s 0) (s 1) (s 2) (s 3) (s 4) (s 5) (s 6) (s 7)"

definition ipv6_from_octets :: "bytes \<Rightarrow> ipv6_addr" where
  "ipv6_from_octets bs = ipv6_of_words (\<lambda>i. u16_of_bytes (bs ! (2 * i)) (bs ! (2 * i + 1)))"

definition ipv6_words :: "bytes \<Rightarrow> nat \<Rightarrow> u16" where
  "ipv6_words bs i = u16_of_bytes (bs ! (2 * i + 1)) (bs ! (2 * i))"

section \<open>The system\<close>

text \<open>
  \<^verbatim>\<open>SOCKADDR_INET\<close> is a union; the family, the IPv4 address and the IPv6 address lie at
  different offsets, and nothing else of it is used.
\<close>

record sockaddr_inet =
  si_family :: u16
  sin_addr :: u32
  sin6_addr :: bytes

record forward_row =
  fr_prefix :: sockaddr_inet
  fr_prefix_length :: u8
  fr_next_hop :: sockaddr_inet
  fr_interface_luid :: u64
  fr_interface_index :: u32
  fr_metric :: u32

record unicast_row =
  ur_address :: sockaddr_inet
  ur_interface_luid :: u64

record if_row =
  ir_admin_status :: int
  ir_oper_status :: int
  ir_media_connect_state :: int

text \<open>
  A table of the system is an error, a null pointer (\<open>None\<close>) or its rows. \<open>ih_hresult_text\<close> is
  the text of the code of an error.
\<close>

record 'w ip_helper =
  GetIpForwardTable2 :: "'w \<Rightarrow> win32_error + forward_row list option"
  GetUnicastIpAddressTable :: "'w \<Rightarrow> win32_error + unicast_row list option"
  ConvertInterfaceLuidToGuid :: "u64 \<Rightarrow> 'w \<Rightarrow> win32_error + 128 word"
  GetIfEntry2 :: "u64 \<Rightarrow> 'w \<Rightarrow> win32_error + if_row"
  GetIpInterfaceEntry :: "u16 \<Rightarrow> u64 \<Rightarrow> 'w \<Rightarrow> win32_error + u32"
  CreateIpForwardEntry2 :: "forward_row \<Rightarrow> 'w \<Rightarrow> win32_error \<times> 'w"
  DeleteIpForwardEntry2 :: "forward_row \<Rightarrow> 'w \<Rightarrow> win32_error \<times> 'w"
  InitializeIpForwardEntry :: forward_row
  AF_INET :: u16
  AF_INET6 :: u16
  NO_ERROR :: win32_error
  ERROR_OBJECT_ALREADY_EXISTS :: win32_error
  ERROR_NOT_FOUND :: win32_error
  ERROR_OBJECT_NOT_FOUND :: win32_error
  NET_IF_ADMIN_STATUS_UP :: int
  IfOperStatusUp :: int
  MediaConnectStateConnected :: int
  ih_hresult_text :: "win32_error \<Rightarrow> string"

definition ADAPTER_GUID_U128 :: "128 word" where
  "ADAPTER_GUID_U128 = 207251590231051553767137937883512590316"

text \<open>\<^verbatim>\<open>sockaddr_inet_to_ip_addr\<close>; the error it returns is never looked at.\<close>

definition sockaddr_inet_to_ip_addr :: "'w ip_helper \<Rightarrow> sockaddr_inet \<Rightarrow> ip_addr option" where
  "sockaddr_inet_to_ip_addr ih sa =
     (if si_family sa = AF_INET ih then Some (V4 (ipv4_from_u32 (u32_from_be (sin_addr sa))))
      else if si_family sa = AF_INET6 ih then Some (V6 (ipv6_from_octets (sin6_addr sa)))
      else None)"

section \<open>Lemmas\<close>

lemma u8_high_bit: "8 \<le> n \<Longrightarrow> \<not> bit (b :: u8) n"
  using bit_imp_le_length [of b n] by auto

lemma u32_byte_from_le [simp]:
  "u32_byte (u32_from_le_bytes a b c d) 0 = a"
  "u32_byte (u32_from_le_bytes a b c d) 1 = b"
  "u32_byte (u32_from_le_bytes a b c d) (Suc 0) = b"
  "u32_byte (u32_from_le_bytes a b c d) 2 = c"
  "u32_byte (u32_from_le_bytes a b c d) 3 = d"
  unfolding u32_byte_def u32_from_le_bytes_def
  by (auto simp: bit_simps u8_high_bit intro!: bit_word_eqI)

text \<open>The address written into a row of the system is the address read from it.\<close>

lemma ipv4_s_addr_roundtrip: "ipv4_from_u32 (u32_from_be (ipv4_s_addr a)) = a"
  by (cases a) (simp add: ipv4_from_u32_def u32_from_be_def)

lemma u16_of_bytes_split [simp]: "u16_of_bytes (ucast (drop_bit 8 s)) (ucast s) = s"
  unfolding u16_of_bytes_def by (rule bit_word_eqI) (auto simp: bit_simps)

lemma ipv6_octets_roundtrip: "ipv6_from_octets (ipv6_octets a) = a"
  by (cases a) (simp add: ipv6_from_octets_def ipv6_octets_def ipv6_of_words_def)

lemma length_ipv6_octets [simp]: "length (ipv6_octets a) = 16"
  by (cases a) (simp add: ipv6_octets_def)

section \<open>A concrete system\<close>

text \<open>
  A system whose state contains its table of routes, for the examples: routes are identified
  by destination, next hop and interface, every interface is up and has metric 25, and the
  interface with LUID 7 is the adapter of the VPN.
\<close>

definition route_key :: "forward_row \<Rightarrow> sockaddr_inet \<times> u8 \<times> sockaddr_inet \<times> u32" where
  "route_key r = (fr_prefix r, fr_prefix_length r, fr_next_hop r, fr_interface_index r)"

definition no_sockaddr :: sockaddr_inet where
  "no_sockaddr = \<lparr>si_family = 0, sin_addr = 0, sin6_addr = replicate 16 0\<rparr>"

definition table_system ::
  "('w \<Rightarrow> forward_row list) \<Rightarrow> (forward_row list \<Rightarrow> 'w \<Rightarrow> 'w) \<Rightarrow> unicast_row list \<Rightarrow> 'w ip_helper" where
  "table_system get put addresses =
     \<lparr>GetIpForwardTable2 = (\<lambda>w. Inr (Some (get w))),
      GetUnicastIpAddressTable = (\<lambda>w. Inr (Some addresses)),
      ConvertInterfaceLuidToGuid = (\<lambda>luid w. Inr (if luid = 7 then ADAPTER_GUID_U128 else ucast luid)),
      GetIfEntry2 = (\<lambda>luid w. Inr \<lparr>ir_admin_status = 1, ir_oper_status = 1, ir_media_connect_state = 1\<rparr>),
      GetIpInterfaceEntry = (\<lambda>family luid w. Inr 25),
      CreateIpForwardEntry2 = (\<lambda>row w. if route_key row \<in> route_key ` set (get w) then (5010, w)
         else (0, put (get w @ [row]) w)),
      DeleteIpForwardEntry2 = (\<lambda>row w. if route_key row \<in> route_key ` set (get w)
         then (0, put (filter (\<lambda>r. route_key r \<noteq> route_key row) (get w)) w) else (4312, w)),
      InitializeIpForwardEntry = \<lparr>fr_prefix = no_sockaddr, fr_prefix_length = 255, fr_next_hop = no_sockaddr,
         fr_interface_luid = 0, fr_interface_index = 0, fr_metric = 0xFFFFFFFF\<rparr>,
      AF_INET = 2, AF_INET6 = 23, NO_ERROR = 0, ERROR_OBJECT_ALREADY_EXISTS = 5010,
      ERROR_NOT_FOUND = 1168, ERROR_OBJECT_NOT_FOUND = 4312,
      NET_IF_ADMIN_STATUS_UP = 1, IfOperStatusUp = 1, MediaConnectStateConnected = 1,
      ih_hresult_text = (\<lambda>e. [])\<rparr>"

end
