(* ===== verification/Vec_Utils.thy ===== *)
theory Vec_Utils
  imports Net_Types "HOL-Library.Sublist"
begin

text \<open>
  \<^verbatim>\<open>src/utils/vector.rs\<close> and \<^verbatim>\<open>src/utils/common.rs\<close>: removing duplicates, splitting addresses
  by protocol and joining them to text. The hash sets of the sources are sets here: only
  membership is asked of them. The methods for \<^verbatim>\<open>Copy\<close> elements and for strings, and the
  variants that change the vector in place, have the same body.
\<close>

text \<open>\<^verbatim>\<open>HashSet::insert\<close> in the filter: an element is kept when the set did not have it.\<close>

fun distinct_filter :: "'a set \<Rightarrow> 'a list \<Rightarrow> 'a list" where
  "distinct_filter S [] = []"
| "distinct_filter S (x # xs) =
     (if x \<notin> S then x # distinct_filter (insert x S) xs else distinct_filter S xs)"

definition distinct_vec :: "'a list \<Rightarrow> 'a list" where
  "distinct_vec xs = distinct_filter {} xs"

definition split_ips_by_protocol :: "ip_addr list \<Rightarrow> ipv4_addr list \<times> ipv6_addr list" where
  "split_ips_by_protocol ips =
     fold (\<lambda>ip (v4, v6). case ip of V4 a \<Rightarrow> (v4 @ [a], v6) | V6 a \<Rightarrow> (v4, v6 @ [a])) ips ([], [])"

definition ipv4_comma_separated :: "ipv4_addr list \<Rightarrow> string" where
  "ipv4_comma_separated ips = join_strings '','' (map ipv4_to_string ips)"

definition ipv6_comma_separated :: "ipv6_addr list \<Rightarrow> string" where
  "ipv6_comma_separated ips = join_strings '','' (map ipv6_to_string ips)"

definition option_ipv6addr_to_string :: "ipv6_addr option \<Rightarrow> string" where
  "option_ipv6addr_to_string a = (case a of Some a \<Rightarrow> ipv6_to_string a | None \<Rightarrow> [])"

section \<open>Lemmas\<close>

lemma set_distinct_filter: "set (distinct_filter S xs) = set xs - S"
  by (induction xs arbitrary: S) auto

lemma distinct_distinct_filter: "distinct (distinct_filter S xs)"
  by (induction xs arbitrary: S) (auto simp: set_distinct_filter)

lemma subseq_distinct_filter: "subseq (distinct_filter S xs) xs"
  by (induction xs arbitrary: S) auto

lemma set_distinct_vec [simp]: "set (distinct_vec xs) = set xs"
  by (simp add: distinct_vec_def set_distinct_filter)

lemma distinct_distinct_vec [simp]: "distinct (distinct_vec xs)"
  by (simp add: distinct_vec_def distinct_distinct_filter)

lemma subseq_distinct_vec: "subseq (distinct_vec xs) xs"
  by (simp add: distinct_vec_def subseq_distinct_filter)

lemma distinct_filter_id: "distinct xs \<Longrightarrow> set xs \<inter> S = {} \<Longrightarrow> distinct_filter S xs = xs"
  by (induction xs arbitrary: S) auto

lemma distinct_vec_id [simp]: "distinct xs \<Longrightarrow> distinct_vec xs = xs"
  by (simp add: distinct_vec_def distinct_filter_id)

text \<open>It is the first occurrence that is kept: the result of a prefix is a prefix of the result.\<close>

lemma distinct_filter_append: "distinct_filter S (xs @ ys) = distinct_filter S xs @ distinct_filter (S \<union> set xs) ys"
  by (induction xs arbitrary: S) (auto simp: insert_absorb)

lemma distinct_vec_append: "distinct_vec (xs @ ys) = distinct_vec xs @ distinct_filter (set xs) ys"
  by (simp add: distinct_vec_def distinct_filter_append)

fun v4_of :: "ip_addr \<Rightarrow> ipv4_addr option" where
  "v4_of (V4 a) = Some a"
| "v4_of (V6 a) = None"

fun v6_of :: "ip_addr \<Rightarrow> ipv6_addr option" where
  "v6_of (V4 a) = None"
| "v6_of (V6 a) = Some a"

lemma split_ips_eq: "split_ips_by_protocol ips = (List.map_filter v4_of ips, List.map_filter v6_of ips)"
proof -
  have "fold (\<lambda>ip (v4, v6). case ip of V4 a \<Rightarrow> (v4 @ [a], v6) | V6 a \<Rightarrow> (v4, v6 @ [a])) ips (xs, ys) =
      (xs @ List.map_filter v4_of ips, ys @ List.map_filter v6_of ips)" for xs ys
    by (induction ips arbitrary: xs ys) (auto simp: map_filter_simps split: ip_addr.split)
  from this [of "[]" "[]"] show ?thesis by (simp add: split_ips_by_protocol_def)
qed

end
