(* ===== verification/Windows_Adapter.thy ===== *)
theory Windows_Adapter
  imports Windows_Net Vec_Utils
begin

text \<open>
  \<^verbatim>\<open>src/connection/windows/helpers/windows_api\<close>: the settings of the network adapter. The files
  \<^verbatim>\<open>adapter_configs.rs\<close> (mtu and router discovery), \<^verbatim>\<open>local_address.rs\<close> (addresses), \<^verbatim>\<open>dns.rs\<close>
  (name servers) and \<^verbatim>\<open>ipv6.rs\<close> (the binding of IPv6 to the adapter) call the system, which is
  the parameter \<open>adapter_api\<close> here. The functions of a row of the system read and change the
  listed members only; the others are \<open>if_rest\<close>.
\<close>

section \<open>The system\<close>

record ip_interface_row =
  if_family :: u16
  if_interface_index :: u32
  if_router_discovery :: int
  if_dad_transmits :: u32
  if_managed_address_configuration :: bool
  if_other_stateful_configuration :: bool
  if_nl_mtu :: u32
  if_use_automatic_metric :: bool
  if_metric :: u32
  if_site_prefix_length :: u32
  if_rest :: bytes

record unicast_entry =
  ue_address :: sockaddr_inet
  ue_interface_index :: u32
  ue_dad_state :: int
  ue_valid_lifetime :: u32
  ue_preferred_lifetime :: u32
  ue_on_link_prefix_length :: u8

text \<open>The name servers are the text in memory, up to and including its terminating zero.\<close>

record dns_settings =
  ds_version :: u32
  ds_flags :: u64
  ds_name_server :: "u16 list"

text \<open>
  An interface of the component object model is a number; the error of a call is the text of
  its code. Reference counts, which the crate \<^verbatim>\<open>windows\<close> keeps, are not modelled. A \<^verbatim>\<open>PWSTR\<close> is
  null (\<open>None\<close>) or the code units in memory.
\<close>

type_synonym com_ref = int
type_synonym pwstr = "u16 list option"

record 'w adapter_api =
  ad_ip :: "'w ip_helper"
  ad_default_interface_row :: ip_interface_row
  ad_GetIpInterfaceEntry :: "ip_interface_row \<Rightarrow> 'w \<Rightarrow> win32_error \<times> ip_interface_row"
  ad_SetIpInterfaceEntry :: "ip_interface_row \<Rightarrow> 'w \<Rightarrow> win32_error \<times> 'w"
  ad_RouterDiscoveryDisabled :: int
  ad_InitializeUnicastIpAddressEntry :: unicast_entry
  ad_CreateUnicastIpAddressEntry :: "unicast_entry \<Rightarrow> 'w \<Rightarrow> win32_error \<times> 'w"
  ad_NldsPreferred :: int
  ad_default_dns_settings :: dns_settings
  ad_SetInterfaceDnsSettings :: "128 word \<Rightarrow> dns_settings \<Rightarrow> 'w \<Rightarrow> win32_error \<times> 'w"
  DNS_INTERFACE_SETTINGS_VERSION1 :: u32
  DNS_SETTING_NAMESERVER :: u32
  DNS_SETTING_IPV6 :: u32
  CoInitializeEx :: "'w \<Rightarrow> bool \<times> 'w"
  CoUninitialize :: "'w \<Rightarrow> 'w"
  CoCreateInstance :: "128 word \<Rightarrow> 'w \<Rightarrow> (string + com_ref) \<times> 'w"
  INetCfg_cast_lock :: "com_ref \<Rightarrow> 'w \<Rightarrow> (string + com_ref) \<times> 'w"
  AcquireWriteLock :: "com_ref \<Rightarrow> u32 \<Rightarrow> string \<Rightarrow> 'w \<Rightarrow> (string + unit) \<times> 'w"
  ReleaseWriteLock :: "com_ref \<Rightarrow> 'w \<Rightarrow> 'w"
  CoTaskMemFree :: "pwstr \<Rightarrow> 'w \<Rightarrow> 'w"
  INetCfg_Initialize :: "com_ref \<Rightarrow> 'w \<Rightarrow> (string + unit) \<times> 'w"
  INetCfg_Uninitialize :: "com_ref \<Rightarrow> 'w \<Rightarrow> 'w"
  INetCfg_Apply :: "com_ref \<Rightarrow> 'w \<Rightarrow> (string + unit) \<times> 'w"
  FindComponent :: "com_ref \<Rightarrow> string \<Rightarrow> 'w \<Rightarrow> (string + com_ref option) \<times> 'w"
  INetCfgComponent_cast_bindings :: "com_ref \<Rightarrow> 'w \<Rightarrow> (string + com_ref) \<times> 'w"
  EnumBindingPaths :: "com_ref \<Rightarrow> u32 \<Rightarrow> 'w \<Rightarrow> (string + com_ref option) \<times> 'w"
  BindingPath_Next :: "com_ref \<Rightarrow> 'w \<Rightarrow> (string + com_ref option \<times> u32) \<times> 'w"
  GetPathToken :: "com_ref \<Rightarrow> 'w \<Rightarrow> (string + pwstr) \<times> 'w"
  BindingPath_IsEnabled :: "com_ref \<Rightarrow> 'w \<Rightarrow> (string + unit) \<times> 'w"
  BindingPath_Enable :: "com_ref \<Rightarrow> bool \<Rightarrow> 'w \<Rightarrow> (string + unit) \<times> 'w"

section \<open>Configuration of the adapter (\<^verbatim>\<open>adapter_configs.rs\<close>)\<close>

definition MINIMUM_MTU :: u16 where
  "MINIMUM_MTU = 576"

definition DEFAULT_MTU :: u16 where
  "DEFAULT_MTU = 1420"

definition get_valid_mtu :: "u16 \<Rightarrow> u16" where
  "get_valid_mtu mtu = (if mtu < MINIMUM_MTU then DEFAULT_MTU else mtu)"

definition create_interface_row ::
  "'w adapter_api \<Rightarrow> u32 \<Rightarrow> u16 \<Rightarrow> u16 \<Rightarrow> 'w \<Rightarrow> win32_error + ip_interface_row" where
  "create_interface_row ad index mtu family w =
     (case ad_GetIpInterfaceEntry ad
         ((ad_default_interface_row ad)\<lparr>if_family := family, if_interface_index := index\<rparr>) w of
        (status, row) \<Rightarrow>
          if status \<noteq> 0 then Inl status
          else Inr (row\<lparr>if_router_discovery := ad_RouterDiscoveryDisabled ad,
            if_dad_transmits := 0, if_managed_address_configuration := False,
            if_other_stateful_configuration := False, if_nl_mtu := ucast (get_valid_mtu mtu),
            if_use_automatic_metric := False, if_metric := 0\<rparr>))"

definition set_adapter_configurations ::
  "'w adapter_api \<Rightarrow> ip_interface_row \<Rightarrow> 'w \<Rightarrow> (win32_error + unit) \<times> 'w" where
  "set_adapter_configurations ad row w =
     (case ad_SetIpInterfaceEntry ad row w of (status, w) \<Rightarrow>
        if status = NO_ERROR (ad_ip ad) then (Inr (), w) else (Inl status, w))"

definition set_ipv4_adapter_configurations ::
  "'w adapter_api \<Rightarrow> u32 \<Rightarrow> u16 \<Rightarrow> 'w \<Rightarrow> (win32_error + unit) \<times> 'w" where
  "set_ipv4_adapter_configurations ad index mtu w =
     (case create_interface_row ad index mtu (AF_INET (ad_ip ad)) w of
        Inl e \<Rightarrow> (Inl e, w)
      | Inr row \<Rightarrow> set_adapter_configurations ad (row\<lparr>if_site_prefix_length := 0\<rparr>) w)"

definition set_ipv6_adapter_configurations ::
  "'w adapter_api \<Rightarrow> u32 \<Rightarrow> u16 \<Rightarrow> 'w \<Rightarrow> (win32_error + unit) \<times> 'w" where
  "set_ipv6_adapter_configurations ad index mtu w =
     (case create_interface_row ad index mtu (AF_INET6 (ad_ip ad)) w of
        Inl e \<Rightarrow> (Inl e, w)
      | Inr row \<Rightarrow> set_adapter_configurations ad row w)"

section \<open>Addresses of the adapter (\<^verbatim>\<open>local_address.rs\<close>)\<close>

definition create_unicast_row :: "'w adapter_api \<Rightarrow> u32 \<Rightarrow> u8 \<Rightarrow> unicast_entry" where
  "create_unicast_row ad index prefix_length =
     (ad_InitializeUnicastIpAddressEntry ad)\<lparr>ue_interface_index := index,
        ue_dad_state := ad_NldsPreferred ad, ue_valid_lifetime := 0xffffffff,
        ue_preferred_lifetime := 0xffffffff, ue_on_link_prefix_length := prefix_length\<rparr>"

definition set_adapter_ip :: "'w adapter_api \<Rightarrow> unicast_entry \<Rightarrow> 'w \<Rightarrow> (win32_error + unit) \<times> 'w" where
  "set_adapter_ip ad row w =
     (case ad_CreateUnicastIpAddressEntry ad row w of (status, w) \<Rightarrow>
        if status = NO_ERROR (ad_ip ad) then (Inr (), w) else (Inl status, w))"

definition ipv4_unicast_row :: "'w adapter_api \<Rightarrow> u32 \<Rightarrow> ipv4_addr \<Rightarrow> u8 \<Rightarrow> unicast_entry" where
  "ipv4_unicast_row ad index address prefix_length =
     (let row = create_unicast_row ad index prefix_length
      in row\<lparr>ue_address := (ue_address row)\<lparr>si_family := AF_INET (ad_ip ad), sin_addr := ipv4_s_addr address\<rparr>\<rparr>)"

definition set_adapter_ipv4_address ::
  "'w adapter_api \<Rightarrow> u32 \<Rightarrow> ipv4_addr \<Rightarrow> u8 \<Rightarrow> 'w \<Rightarrow> (win32_error + unit) \<times> 'w" where
  "set_adapter_ipv4_address ad index address prefix_length =
     set_adapter_ip ad (ipv4_unicast_row ad index address prefix_length)"

definition ipv6_unicast_row :: "'w adapter_api \<Rightarrow> u32 \<Rightarrow> ipv6_addr \<Rightarrow> u8 \<Rightarrow> unicast_entry" where
  "ipv6_unicast_row ad index address prefix_length =
     (let row = create_unicast_row ad index prefix_length
      in row\<lparr>ue_address := (ue_address row)\<lparr>si_family := AF_INET6 (ad_ip ad), sin6_addr := ipv6_octets address\<rparr>\<rparr>)"

definition set_adapter_ipv6_address ::
  "'w adapter_api \<Rightarrow> u32 \<Rightarrow> ipv6_addr \<Rightarrow> u8 \<Rightarrow> 'w \<Rightarrow> (win32_error + unit) \<times> 'w" where
  "set_adapter_ipv6_address ad index address prefix_length =
     set_adapter_ip ad (ipv6_unicast_row ad index address prefix_length)"

section \<open>Name servers (\<^verbatim>\<open>dns.rs\<close>)\<close>

text \<open>The texts are digits, hexadecimal letters, dots, colons and commas: one code unit each.\<close>

definition ips_string_to_pwstr :: "string \<Rightarrow> u16 list" where
  "ips_string_to_pwstr s = map (\<lambda>c. word_of_nat (of_char c)) s @ [0]"

definition create_dns_settings :: "'w adapter_api \<Rightarrow> dns_settings" where
  "create_dns_settings ad = (ad_default_dns_settings ad)\<lparr>ds_version := DNS_INTERFACE_SETTINGS_VERSION1 ad\<rparr>"

definition set_dns_server ::
  "'w adapter_api \<Rightarrow> 128 word \<Rightarrow> dns_settings \<Rightarrow> 'w \<Rightarrow> (win32_error + unit) \<times> 'w" where
  "set_dns_server ad guid settings w =
     (case ad_SetInterfaceDnsSettings ad guid settings w of (status, w) \<Rightarrow>
        if status = NO_ERROR (ad_ip ad) then (Inr (), w) else (Inl status, w))"

text \<open>
  The sources also remove the duplicates from the caller's vector, which is only logged
  afterwards.
\<close>

definition set_adapter_ipv4_dns_servers ::
  "'w adapter_api \<Rightarrow> 128 word \<Rightarrow> ipv4_addr list \<Rightarrow> 'w \<Rightarrow> (win32_error + unit) \<times> 'w" where
  "set_adapter_ipv4_dns_servers ad guid ips w =
     (if ips = [] then (Inr (), w)
      else let ips_as_string = ipv4_comma_separated (distinct_vec ips)
           in set_dns_server ad guid
             ((create_dns_settings ad)\<lparr>ds_flags := ucast (DNS_SETTING_NAMESERVER ad),
                ds_name_server := ips_string_to_pwstr ips_as_string\<rparr>) w)"

definition set_adapter_ipv6_dns_servers ::
  "'w adapter_api \<Rightarrow> 128 word \<Rightarrow> ipv6_addr list \<Rightarrow> 'w \<Rightarrow> (win32_error + unit) \<times> 'w" where
  "set_adapter_ipv6_dns_servers ad guid ips w =
     (if ips = [] then (Inr (), w)
      else let ips_as_string = ipv6_comma_separated (distinct_vec ips)
           in set_dns_server ad guid
             ((create_dns_settings ad)\<lparr>ds_flags := ucast (or (DNS_SETTING_IPV6 ad) (DNS_SETTING_NAMESERVER ad)),
                ds_name_server := ips_string_to_pwstr ips_as_string\<rparr>) w)"

end
