(* ===== verification/Windows_Ipv6.thy ===== *)
theory Windows_Ipv6
  imports Windows_Adapter
begin

text \<open>
  \<^verbatim>\<open>src/connection/windows/helpers/windows_api/ipv6.rs\<close>: switching IPv6 on and off for the
  adapter through the network configuration objects of the system. Every step owns what the
  next one needs and gives it back on each path: the library, the configuration object and
  its write lock. The search over the binding paths ends when the system says so; a value
  \<open>None\<close> is a search that does not end.
\<close>

definition LOCK_NAME :: string where
  "LOCK_NAME = ''ProTunIpv6Toggler''"

definition MS_TCPIP6 :: string where
  "MS_TCPIP6 = ''MS_TCPIP6''"

definition INETCFG_CLSID :: "128 word" where
  "INETCFG_CLSID = 0x5b03526140f911d1aaec00805fc1270e"

definition EBP_BELOW :: u32 where
  "EBP_BELOW = 2"

definition ADAPTER_GUID_STR :: string where
  "ADAPTER_GUID_STR = ''{9BEB3451-4026-4F8A-8762-8F608B124FEC}''"

section \<open>Texts of the system\<close>

definition utf16_units :: "string \<Rightarrow> u16 list" where
  "utf16_units s = map (\<lambda>c. word_of_nat (of_char c)) s"

definition pwstr_to_string :: "pwstr \<Rightarrow> u16 list" where
  "pwstr_to_string p = (case p of None \<Rightarrow> [] | Some memory \<Rightarrow> takeWhile (\<lambda>u. u \<noteq> 0) memory)"

text \<open>
  The texts of the system stay lists of code units. Their upper case is only searched for the
  identifier of the adapter, which is ASCII and which the upper case of no other character
  completes, so it is enough to change the letters of ASCII.
\<close>

definition upper_unit :: "u16 \<Rightarrow> u16" where
  "upper_unit u = (if 97 \<le> u \<and> u \<le> 122 then u - 32 else u)"

definition contains_units :: "u16 list \<Rightarrow> u16 list \<Rightarrow> bool" where
  "contains_units hay needle = list_ex (\<lambda>n. take (length needle) (drop n hay) = needle) [0..<Suc (length hay)]"

definition is_adapter_path :: "pwstr \<Rightarrow> bool" where
  "is_adapter_path token = contains_units (map upper_unit (pwstr_to_string token)) (utf16_units ADAPTER_GUID_STR)"

section \<open>The steps\<close>

definition bool_to_string :: "bool \<Rightarrow> string" where
  "bool_to_string b = (if b then ''true'' else ''false'')"

definition toggle_ipv6_in_binding_path ::
  "'w adapter_api \<Rightarrow> com_ref \<Rightarrow> bool \<Rightarrow> 'w \<Rightarrow> (string + unit) \<times> 'w" where
  "toggle_ipv6_in_binding_path ad path target w =
     (case BindingPath_IsEnabled ad path w of
        (Inr _, w) \<Rightarrow>
          (case BindingPath_Enable ad path target w of
             (Inr _, w) \<Rightarrow> (Inr (), w)
           | (Inl err, w) \<Rightarrow>
               (Inl (''Error when setting IPv6 to '' @ bool_to_string target @ '' in the adapter. Error: '' @ err), w))
      | (Inl _, w) \<Rightarrow> (Inl ''Error when checking if binding path is enabled'', w))"

definition binding_path_round ::
  "'w adapter_api \<Rightarrow> com_ref \<Rightarrow> bool \<Rightarrow> 'w \<Rightarrow> ('w + (string + unit) \<times> 'w)" where
  "binding_path_round ad enum_paths target w =
     (let not_found = (\<lambda>w. Inr (Inl ''The adapter was not found in any of the binding paths'', w)) in
      case BindingPath_Next ad enum_paths w of
        (Inl _, w) \<Rightarrow> not_found w
      | (Inr (slot, fetched), w) \<Rightarrow>
          if fetched = 0 then not_found w
          else (case slot of
             None \<Rightarrow> Inl w
           | Some path \<Rightarrow>
               (case GetPathToken ad path w of
                  (Inl _, w) \<Rightarrow> Inl w
                | (Inr token, w) \<Rightarrow>
                    if is_adapter_path token then Inr (toggle_ipv6_in_binding_path ad path target w) else Inl w)))"

definition iterate_binding_paths ::
  "'w adapter_api \<Rightarrow> com_ref \<Rightarrow> bool \<Rightarrow> 'w \<Rightarrow> ((string + unit) \<times> 'w) option" where
  "iterate_binding_paths ad enum_paths target = iterate (\<lambda>w. Some (binding_path_round ad enum_paths target w))"

definition get_ipv6_component_binding_paths ::
  "'w adapter_api \<Rightarrow> com_ref \<Rightarrow> com_ref \<Rightarrow> bool \<Rightarrow> 'w \<Rightarrow> ((string + unit) \<times> 'w) option" where
  "get_ipv6_component_binding_paths ad net_cfg ipv6_component target w =
     (case INetCfgComponent_cast_bindings ad ipv6_component w of
        (Inl e, w) \<Rightarrow> Some (Inl (''Error when casting IPv6 component into bindings. Code: '' @ e), w)
      | (Inr bindings, w) \<Rightarrow>
          (case EnumBindingPaths ad bindings EBP_BELOW w of
             (Inl e, w) \<Rightarrow> Some (Inl (''Error when enumerating the binding paths. Code: '' @ e), w)
           | (Inr None, w) \<Rightarrow> Some (Inl ''Enum binding paths are empty (2/2)'', w)
           | (Inr (Some enum_paths), w) \<Rightarrow>
               Option.bind (iterate_binding_paths ad enum_paths target w) (\<lambda>(r, w).
                 case r of
                   Inl e \<Rightarrow> Some (Inl e, w)
                 | Inr _ \<Rightarrow>
                     (case INetCfg_Apply ad net_cfg w of
                        (Inl e, w) \<Rightarrow> Some (Inl (''Error when applying INetCfg changes. Code: '' @ e), w)
                      | (Inr _, w) \<Rightarrow> Some (Inr (), w)))))"

definition find_ipv6_component :: "'w adapter_api \<Rightarrow> com_ref \<Rightarrow> bool \<Rightarrow> 'w \<Rightarrow> ((string + unit) \<times> 'w) option" where
  "find_ipv6_component ad net_cfg target w =
     (case FindComponent ad net_cfg MS_TCPIP6 w of
        (Inl e, w) \<Rightarrow> Some (Inl (''IPv6 component not found. Code: '' @ e), w)
      | (Inr None, w) \<Rightarrow> Some (Inl ''The IPv6 component is empty (2/2)'', w)
      | (Inr (Some component), w) \<Rightarrow> get_ipv6_component_binding_paths ad net_cfg component target w)"

text \<open>The holder of a conflicting lock: no pointer, a null pointer, or a text in memory.\<close>

definition handle_conflict_holder ::
  "'w adapter_api \<Rightarrow> com_ref \<Rightarrow> pwstr option option \<Rightarrow> bool \<Rightarrow> 'w \<Rightarrow> ((string + unit) \<times> 'w) option" where
  "handle_conflict_holder ad net_cfg conflict_holder target w =
     (case conflict_holder of
        None \<Rightarrow> Some (Inl ''Received no pointer'', w)
      | Some (Some holder) \<Rightarrow>
          Some (Inl (''Access denied. Write lock held by: '' @
              map (\<lambda>u. char_of (unat u)) (pwstr_to_string holder)), CoTaskMemFree ad holder w)
      | Some None \<Rightarrow>
          (case INetCfg_Initialize ad net_cfg w of
             (Inl e, w) \<Rightarrow> Some (Inl (''Error when initializing network configuration. Code: '' @ e), w)
           | (Inr _, w) \<Rightarrow> find_ipv6_component ad net_cfg target w))"

definition acquire_write_lock :: "'w adapter_api \<Rightarrow> com_ref \<Rightarrow> bool \<Rightarrow> 'w \<Rightarrow> ((string + unit) \<times> 'w) option" where
  "acquire_write_lock ad net_cfg target w =
     (case INetCfg_cast_lock ad net_cfg w of
        (Inl e, w) \<Rightarrow> Some (Inl (''Error when casting INetCfg to a lock. Code: '' @ e), w)
      | (Inr lock, w) \<Rightarrow>
          (case AcquireWriteLock ad lock 5000 LOCK_NAME w of
             (Inl e, w) \<Rightarrow> Some (Inl (''Error when acquiring INetCfg lock. Code: '' @ e), w)
           | (Inr _, w) \<Rightarrow>
               map_option (\<lambda>(result, w). (result, ReleaseWriteLock ad lock w))
                 (handle_conflict_holder ad net_cfg (Some None) target w)))"

definition create_inetcfg_instance :: "'w adapter_api \<Rightarrow> bool \<Rightarrow> 'w \<Rightarrow> ((string + unit) \<times> 'w) option" where
  "create_inetcfg_instance ad target w =
     (case CoCreateInstance ad INETCFG_CLSID w of
        (Inl e, w) \<Rightarrow> Some (Inl (''Error when creating INetCfg. Code: '' @ e), w)
      | (Inr net_cfg, w) \<Rightarrow>
          map_option (\<lambda>(result, w). (result, INetCfg_Uninitialize ad net_cfg w))
            (acquire_write_lock ad net_cfg target w))"

definition toggle_adapter_ipv6 :: "'w adapter_api \<Rightarrow> bool \<Rightarrow> 'w \<Rightarrow> ((string + unit) \<times> 'w) option" where
  "toggle_adapter_ipv6 ad target w =
     (case CoInitializeEx ad w of (success, w) \<Rightarrow>
        if \<not> success then Some (Inl ''Error when initializing COM'', w)
        else map_option (\<lambda>(result, w). (result, CoUninitialize ad w)) (create_inetcfg_instance ad target w))"

definition enable_adapter_ipv6 :: "'w adapter_api \<Rightarrow> 'w \<Rightarrow> ((string + unit) \<times> 'w) option" where
  "enable_adapter_ipv6 ad = toggle_adapter_ipv6 ad True"

definition disable_adapter_ipv6 :: "'w adapter_api \<Rightarrow> 'w \<Rightarrow> ((string + unit) \<times> 'w) option" where
  "disable_adapter_ipv6 ad = toggle_adapter_ipv6 ad False"

section \<open>The objects of the system\<close>

text \<open>
  What is documented of them: how often the library is initialised, how many write locks are
  held, which bindings a configuration object has enabled and which are in force, and how many
  paths are left to enumerate. A configuration object starts from the bindings in force and
  \<open>Apply\<close> puts its own in force; giving it up changes nothing that is in force. \<open>adapter\<close> are
  the binding paths of the adapter, which are known by their tokens.
\<close>

record com_view =
  cv_inits :: nat
  cv_locks :: nat
  cv_enabled :: "com_ref \<Rightarrow> bool"
  cv_applied :: "com_ref \<Rightarrow> bool"
  cv_left :: nat

definition same_but_left :: "com_view \<Rightarrow> com_view \<Rightarrow> bool" where
  "same_but_left v v' \<longleftrightarrow> v'\<lparr>cv_left := 0\<rparr> = v\<lparr>cv_left := 0\<rparr>"

definition com_contract :: "'w adapter_api \<Rightarrow> ('w \<Rightarrow> com_view) \<Rightarrow> com_ref set \<Rightarrow> bool" where
  "com_contract ad view adapter \<longleftrightarrow>
     (\<forall>w b w'. CoInitializeEx ad w = (b, w') \<longrightarrow>
        view w' = (if b then (view w)\<lparr>cv_inits := Suc (cv_inits (view w))\<rparr> else view w)) \<and>
     (\<forall>w. view (CoUninitialize ad w) = (view w)\<lparr>cv_inits := cv_inits (view w) - 1\<rparr>) \<and>
     (\<forall>c w r w'. CoCreateInstance ad c w = (r, w') \<longrightarrow> view w' = view w) \<and>
     (\<forall>n w r w'. INetCfg_cast_lock ad n w = (r, w') \<longrightarrow> view w' = view w) \<and>
     (\<forall>l t s w r w'. AcquireWriteLock ad l t s w = (r, w') \<longrightarrow>
        view w' = (if isl r then view w else (view w)\<lparr>cv_locks := Suc (cv_locks (view w))\<rparr>)) \<and>
     (\<forall>l w. view (ReleaseWriteLock ad l w) = (view w)\<lparr>cv_locks := cv_locks (view w) - 1\<rparr>) \<and>
     (\<forall>n w r w'. INetCfg_Initialize ad n w = (r, w') \<longrightarrow>
        view w' = (if isl r then view w else (view w)\<lparr>cv_enabled := cv_applied (view w)\<rparr>)) \<and>
     (\<forall>n w. (view (INetCfg_Uninitialize ad n w))\<lparr>cv_enabled := cv_enabled (view w)\<rparr> = view w) \<and>
     (\<forall>n w r w'. INetCfg_Apply ad n w = (r, w') \<longrightarrow>
        view w' = (if isl r then view w else (view w)\<lparr>cv_applied := cv_enabled (view w)\<rparr>)) \<and>
     (\<forall>n s w r w'. FindComponent ad n s w = (r, w') \<longrightarrow> view w' = view w) \<and>
     (\<forall>c w r w'. INetCfgComponent_cast_bindings ad c w = (r, w') \<longrightarrow> view w' = view w) \<and>
     (\<forall>b f w r w'. EnumBindingPaths ad b f w = (r, w') \<longrightarrow> same_but_left (view w) (view w')) \<and>
     (\<forall>e w r w'. BindingPath_Next ad e w = (r, w') \<longrightarrow> same_but_left (view w) (view w') \<and>
        (\<forall>slot fetched. r = Inr (slot, fetched) \<longrightarrow> fetched \<noteq> 0 \<longrightarrow> cv_left (view w') < cv_left (view w))) \<and>
     (\<forall>p w r w'. GetPathToken ad p w = (r, w') \<longrightarrow> view w' = view w \<and>
        (\<forall>token. r = Inr token \<longrightarrow> is_adapter_path token = (p \<in> adapter))) \<and>
     (\<forall>p w r w'. BindingPath_IsEnabled ad p w = (r, w') \<longrightarrow> view w' = view w) \<and>
     (\<forall>p b w r w'. BindingPath_Enable ad p b w = (r, w') \<longrightarrow>
        view w' = (if isl r then view w else (view w)\<lparr>cv_enabled := (cv_enabled (view w))(p := b)\<rparr>))"

lemma same_but_left_refl [simp]: "same_but_left v v"
  by (simp add: same_but_left_def)

lemma same_but_left_trans: "same_but_left v v' \<Longrightarrow> same_but_left v' v'' \<Longrightarrow> same_but_left v v''"
  by (simp add: same_but_left_def)

lemma same_but_left_fields:
  "same_but_left v v' \<longleftrightarrow> cv_inits v' = cv_inits v \<and> cv_locks v' = cv_locks v \<and>
     cv_enabled v' = cv_enabled v \<and> cv_applied v' = cv_applied v"
  by (cases v; cases v') (auto simp: same_but_left_def)

text \<open>The laws of the single calls, in the form in which the steps below use them.\<close>

lemma com_laws:
  assumes "com_contract ad view adapter"
  shows "CoInitializeEx ad w = (b, w') \<Longrightarrow>
      view w' = (if b then (view w)\<lparr>cv_inits := Suc (cv_inits (view w))\<rparr> else view w)"
    and "view (CoUninitialize ad w) = (view w)\<lparr>cv_inits := cv_inits (view w) - 1\<rparr>"
    and "CoCreateInstance ad clsid w = (rc, w') \<Longrightarrow> view w' = view w"
    and "INetCfg_cast_lock ad n w = (rc, w') \<Longrightarrow> view w' = view w"
    and "AcquireWriteLock ad l t s w = (ru, w') \<Longrightarrow>
      view w' = (if isl ru then view w else (view w)\<lparr>cv_locks := Suc (cv_locks (view w))\<rparr>)"
    and "view (ReleaseWriteLock ad l w) = (view w)\<lparr>cv_locks := cv_locks (view w) - 1\<rparr>"
    and "INetCfg_Initialize ad n w = (ru, w') \<Longrightarrow>
      view w' = (if isl ru then view w else (view w)\<lparr>cv_enabled := cv_applied (view w)\<rparr>)"
    and "(view (INetCfg_Uninitialize ad n w))\<lparr>cv_enabled := cv_enabled (view w)\<rparr> = view w"
    and "INetCfg_Apply ad n w = (ru, w') \<Longrightarrow>
      view w' = (if isl ru then view w else (view w)\<lparr>cv_applied := cv_enabled (view w)\<rparr>)"
  using assms unfolding com_contract_def by (elim conjE; metis)+

lemma com_search_laws:
  assumes "com_contract ad view adapter"
  shows "FindComponent ad n s w = (ro, w') \<Longrightarrow> view w' = view w"
    and "INetCfgComponent_cast_bindings ad c w = (rc, w') \<Longrightarrow> view w' = view w"
    and "EnumBindingPaths ad c f w = (ro, w') \<Longrightarrow> same_but_left (view w) (view w')"
    and "BindingPath_Next ad c w = (rn, w') \<Longrightarrow> same_but_left (view w) (view w')"
    and "BindingPath_Next ad c w = (Inr (slot, fetched), w') \<Longrightarrow> fetched \<noteq> 0 \<Longrightarrow> cv_left (view w') < cv_left (view w)"
    and "GetPathToken ad p w = (rp, w') \<Longrightarrow> view w' = view w"
    and "GetPathToken ad p w = (Inr token, w') \<Longrightarrow> is_adapter_path token = (p \<in> adapter)"
    and "BindingPath_IsEnabled ad p w = (ru, w') \<Longrightarrow> view w' = view w"
    and "BindingPath_Enable ad p b w = (ru, w') \<Longrightarrow>
      view w' = (if isl ru then view w else (view w)\<lparr>cv_enabled := (cv_enabled (view w))(p := b)\<rparr>)"
  using assms unfolding com_contract_def by (elim conjE; metis)+

section \<open>The steps and what they give back\<close>

text \<open>A search that succeeds has set the binding of one path of the adapter, a failed one none.\<close>

definition path_toggled :: "com_ref set \<Rightarrow> bool \<Rightarrow> com_view \<Rightarrow> string + unit \<Rightarrow> com_view \<Rightarrow> bool" where
  "path_toggled adapter target v r v' \<longleftrightarrow>
     (case r of Inl _ \<Rightarrow> same_but_left v v'
      | Inr _ \<Rightarrow> \<exists>p\<in>adapter. same_but_left (v\<lparr>cv_enabled := (cv_enabled v)(p := target)\<rparr>) v')"

lemma path_toggled_from:
  "same_but_left v v1 \<Longrightarrow> path_toggled adapter target v1 r v' \<Longrightarrow> path_toggled adapter target v r v'"
  by (cases r) (auto simp: path_toggled_def same_but_left_fields)

lemma toggle_in_binding_path:
  assumes C: "com_contract ad view adapter" and p: "p \<in> adapter"
    and run: "toggle_ipv6_in_binding_path ad p target w = (r, w')"
  shows "path_toggled adapter target (view w) r (view w')"
proof -
  obtain q w1 where q: "BindingPath_IsEnabled ad p w = (q, w1)" by (cases "BindingPath_IsEnabled ad p w")
  obtain e w2 where e: "BindingPath_Enable ad p target w1 = (e, w2)" by (cases "BindingPath_Enable ad p target w1")
  show ?thesis
    using run q e com_search_laws(8) [OF C q] com_search_laws(9) [OF C e] p
    by (auto simp: toggle_ipv6_in_binding_path_def path_toggled_def intro: bexI [of _ p] split: sum.splits)
qed

lemma binding_path_round:
  assumes C: "com_contract ad view adapter"
  shows "(\<exists>w'. binding_path_round ad e target w = Inl w' \<and> same_but_left (view w) (view w') \<and>
        cv_left (view w') < cv_left (view w)) \<or>
     (\<exists>r w'. binding_path_round ad e target w = Inr (r, w') \<and> path_toggled adapter target (view w) r (view w'))"
proof -
  obtain n w1 where n: "BindingPath_Next ad e w = (n, w1)" by (cases "BindingPath_Next ad e w")
  note same = com_search_laws(4) [OF C n]
  consider (stop) "isl n" | (empty) slot where "n = Inr (slot, 0)"
    | (path) p fetched where "n = Inr (Some p, fetched)" "fetched \<noteq> 0"
    | (none) fetched where "n = Inr (None, fetched)" "fetched \<noteq> 0"
    by (cases n) (auto, metis option.exhaust)
  then show ?thesis
  proof cases
    case path
    note left = com_search_laws(5) [OF C n [unfolded path(1)] path(2)]
    obtain t w2 where t: "GetPathToken ad p w1 = (t, w2)" by (cases "GetPathToken ad p w1")
    note view2 = com_search_laws(6) [OF C t]
    show ?thesis
    proof (cases "\<exists>token. t = Inr token \<and> is_adapter_path token")
      case True
      then obtain token where token: "t = Inr token" "is_adapter_path token" by blast
      with com_search_laws(7) [OF C, of p w1 token w2] t have "p \<in> adapter" by simp
      moreover obtain r w3 where r: "toggle_ipv6_in_binding_path ad p target w2 = (r, w3)"
        by (cases "toggle_ipv6_in_binding_path ad p target w2")
      ultimately have "path_toggled adapter target (view w2) r (view w3)" using toggle_in_binding_path [OF C] by blast
      with path_toggled_from [OF same] view2 have "path_toggled adapter target (view w) r (view w3)" by simp
      with n path token t r show ?thesis by (simp add: binding_path_round_def)
    next
      case False
      with n path t same view2 left show ?thesis by (auto simp: binding_path_round_def split: sum.splits)
    qed
  next
    case none
    with com_search_laws(5) [OF C n [unfolded none(1)] none(2)] n same show ?thesis
      by (simp add: binding_path_round_def)
  qed (use n same in \<open>auto simp: binding_path_round_def path_toggled_def split: sum.splits\<close>)
qed

lemma iterate_binding_paths:
  assumes C: "com_contract ad view adapter"
  shows "\<exists>r w'. iterate_binding_paths ad e target w = Some (r, w') \<and> path_toggled adapter target (view w) r (view w')"
proof -
  let ?body = "\<lambda>w. Some (binding_path_round ad e target w)" and ?I = "\<lambda>w'. same_but_left (view w) (view w')"
  have step: "(\<exists>w2. binding_path_round ad e target w1 = Inl w2 \<and> ?I w2 \<and> cv_left (view w2) < cv_left (view w1)) \<or>
      (\<exists>r w2. binding_path_round ad e target w1 = Inr (r, w2) \<and> path_toggled adapter target (view w) r (view w2))"
    if "?I w1" for w1
    using binding_path_round [OF C, of e target w1] same_but_left_trans [OF that] path_toggled_from [OF that] by blast
  have "\<exists>x. iterate ?body w = Some x"
    by (rule iterate_total [where I = ?I and m = "\<lambda>w. cv_left (view w)"]) (use step in fastforce)+
  then obtain x where x: "iterate ?body w = Some x" by blast
  have "path_toggled adapter target (view w) (fst x) (view (snd x))"
    by (rule iterate_rule [OF x, where I = ?I and Q = "\<lambda>x. path_toggled adapter target (view w) (fst x) (view (snd x))"])
      (use step in fastforce)+
  with x show ?thesis by (metis iterate_binding_paths_def prod.collapse)
qed

text \<open>
  What the outer steps promise: nothing they have taken is kept, a success has put the target in
  force for one path of the adapter and a failure has changed nothing that is in force.
\<close>

definition toggled :: "com_ref set \<Rightarrow> bool \<Rightarrow> com_view \<Rightarrow> string + unit \<Rightarrow> com_view \<Rightarrow> bool" where
  "toggled adapter target v r v' \<longleftrightarrow> cv_inits v' = cv_inits v \<and> cv_locks v' = cv_locks v \<and>
     (case r of Inl _ \<Rightarrow> cv_applied v' = cv_applied v
      | Inr _ \<Rightarrow> \<exists>p\<in>adapter. cv_applied v' = (cv_applied v)(p := target))"

lemma toggled_unchanged: "view w' = view w \<Longrightarrow> toggled adapter target (view w) (Inl e) (view w')"
  by (simp add: toggled_def)

lemma get_ipv6_component_binding_paths:
  assumes C: "com_contract ad view adapter" and fresh: "cv_enabled (view w) = cv_applied (view w)"
  shows "\<exists>r w'. get_ipv6_component_binding_paths ad n c target w = Some (r, w') \<and>
     toggled adapter target (view w) r (view w')"
proof -
  obtain q w1 where q: "INetCfgComponent_cast_bindings ad c w = (q, w1)"
    by (cases "INetCfgComponent_cast_bindings ad c w")
  note v1 = com_search_laws(2) [OF C q]
  show ?thesis
  proof (cases q)
    case (Inr b)
    obtain e w2 where e: "EnumBindingPaths ad b EBP_BELOW w1 = (e, w2)" by (cases "EnumBindingPaths ad b EBP_BELOW w1")
    note v2 = com_search_laws(3) [OF C e, unfolded v1]
    show ?thesis
    proof (cases "\<exists>p. e = Inr (Some p)")
      case True
      then obtain p where p: "e = Inr (Some p)" by blast
      obtain r w3 where it: "iterate_binding_paths ad p target w2 = Some (r, w3)"
        and r: "path_toggled adapter target (view w2) r (view w3)" using iterate_binding_paths [OF C] by metis
      obtain a w4 where a: "INetCfg_Apply ad n w3 = (a, w4)" by (cases "INetCfg_Apply ad n w3")
      show ?thesis
        using q Inr e p it a r v2 fresh com_laws(9) [OF C a]
        by (cases r; cases a) (auto simp: get_ipv6_component_binding_paths_def toggled_def path_toggled_def same_but_left_fields)
    next
      case False
      with q Inr e v2 show ?thesis
        by (cases e)
          (auto simp: get_ipv6_component_binding_paths_def toggled_def same_but_left_fields split: option.split)
    qed
  qed (use q v1 in \<open>simp add: get_ipv6_component_binding_paths_def toggled_unchanged\<close>)
qed

lemma find_ipv6_component:
  assumes C: "com_contract ad view adapter" and fresh: "cv_enabled (view w) = cv_applied (view w)"
  shows "\<exists>r w'. find_ipv6_component ad n target w = Some (r, w') \<and> toggled adapter target (view w) r (view w')"
proof -
  obtain q w1 where q: "FindComponent ad n MS_TCPIP6 w = (q, w1)" by (cases "FindComponent ad n MS_TCPIP6 w")
  note v = com_search_laws(1) [OF C q]
  show ?thesis
  proof (cases "\<exists>c. q = Inr (Some c)")
    case True
    then obtain c where "q = Inr (Some c)" by blast
    with q v get_ipv6_component_binding_paths [OF C, of w1 n c target] fresh show ?thesis
      by (simp add: find_ipv6_component_def)
  next
    case False
    with q v show ?thesis
      by (cases q) (auto simp: find_ipv6_component_def toggled_unchanged split: option.split)
  qed
qed

lemma handle_conflict_holder:
  assumes C: "com_contract ad view adapter"
  shows "\<exists>r w'. handle_conflict_holder ad n (Some None) target w = Some (r, w') \<and> toggled adapter target (view w) r (view w')"
proof -
  obtain q w1 where q: "INetCfg_Initialize ad n w = (q, w1)" by (cases "INetCfg_Initialize ad n w")
  note v = com_laws(7) [OF C q]
  show ?thesis
  proof (cases q)
    case (Inr u)
    with v have "cv_enabled (view w1) = cv_applied (view w1)" by simp
    from find_ipv6_component [OF C this, of n target] obtain r w' where
      "find_ipv6_component ad n target w1 = Some (r, w')" "toggled adapter target (view w1) r (view w')" by blast
    with q Inr v show ?thesis by (cases r) (simp_all add: handle_conflict_holder_def toggled_def)
  qed (use q v in \<open>simp add: handle_conflict_holder_def toggled_unchanged\<close>)
qed

lemma acquire_write_lock:
  assumes C: "com_contract ad view adapter"
  shows "\<exists>r w'. acquire_write_lock ad n target w = Some (r, w') \<and> toggled adapter target (view w) r (view w')"
proof -
  obtain q w1 where q: "INetCfg_cast_lock ad n w = (q, w1)" by (cases "INetCfg_cast_lock ad n w")
  note v1 = com_laws(4) [OF C q]
  show ?thesis
  proof (cases q)
    case (Inr l)
    obtain a w2 where a: "AcquireWriteLock ad l 5000 LOCK_NAME w1 = (a, w2)"
      by (cases "AcquireWriteLock ad l 5000 LOCK_NAME w1")
    obtain r w3 where r: "handle_conflict_holder ad n (Some None) target w2 = Some (r, w3)"
      "toggled adapter target (view w2) r (view w3)" using handle_conflict_holder [OF C] by metis
    show ?thesis
      using q Inr a r v1 com_laws(5) [OF C a] com_laws(6) [OF C, of l w3]
      by (cases a; cases r) (auto simp: acquire_write_lock_def toggled_def)
  qed (use q v1 in \<open>simp add: acquire_write_lock_def toggled_unchanged\<close>)
qed

lemma create_inetcfg_instance:
  assumes C: "com_contract ad view adapter"
  shows "\<exists>r w'. create_inetcfg_instance ad target w = Some (r, w') \<and> toggled adapter target (view w) r (view w')"
proof -
  obtain q w1 where q: "CoCreateInstance ad INETCFG_CLSID w = (q, w1)" by (cases "CoCreateInstance ad INETCFG_CLSID w")
  note v1 = com_laws(3) [OF C q]
  show ?thesis
  proof (cases q)
    case (Inr n)
    obtain r w2 where r: "acquire_write_lock ad n target w1 = Some (r, w2)"
      "toggled adapter target (view w1) r (view w2)" using acquire_write_lock [OF C] by metis
    have "cv_inits (view (INetCfg_Uninitialize ad n w2)) = cv_inits (view w2)"
      "cv_locks (view (INetCfg_Uninitialize ad n w2)) = cv_locks (view w2)"
      "cv_applied (view (INetCfg_Uninitialize ad n w2)) = cv_applied (view w2)"
      using com_laws(8) [OF C, where n = n and w = w2] by (metis com_view.select_convs com_view.surjective com_view.update_convs(3))+
    with q Inr r v1 show ?thesis by (cases r) (simp_all add: create_inetcfg_instance_def toggled_def)
  qed (use q v1 in \<open>simp add: create_inetcfg_instance_def toggled_unchanged\<close>)
qed

section \<open>A concrete system\<close>

text \<open>
  Two binding paths, of which the second belongs to the adapter; every call succeeds and the
  state of the system contains the view. The table of addresses and the name servers are kept
  as they are set.
\<close>

record adapter_world =
  aw_com :: com_view
  aw_unicast :: "unicast_entry list"
  aw_dns :: "dns_settings list"

definition adapter_system ::
  "'w ip_helper \<Rightarrow> ('w \<Rightarrow> adapter_world) \<Rightarrow> ((adapter_world \<Rightarrow> adapter_world) \<Rightarrow> 'w \<Rightarrow> 'w) \<Rightarrow> 'w adapter_api" where
  "adapter_system ih get upd =
     (let com = (\<lambda>f. upd (aw_com_update f)) in
     \<lparr>ad_ip = ih,
      ad_default_interface_row = \<lparr>if_family = 0, if_interface_index = 0, if_router_discovery = 0, if_dad_transmits = 0,
        if_managed_address_configuration = False, if_other_stateful_configuration = False, if_nl_mtu = 0,
        if_use_automatic_metric = False, if_metric = 0, if_site_prefix_length = 0, if_rest = []\<rparr>,
      ad_GetIpInterfaceEntry = (\<lambda>row w. (0, row\<lparr>if_rest := [1]\<rparr>)),
      ad_SetIpInterfaceEntry = (\<lambda>row w. (0, w)),
      ad_RouterDiscoveryDisabled = 0,
      ad_InitializeUnicastIpAddressEntry = \<lparr>ue_address = no_sockaddr, ue_interface_index = 0, ue_dad_state = 0,
        ue_valid_lifetime = 0, ue_preferred_lifetime = 0, ue_on_link_prefix_length = 255\<rparr>,
      ad_CreateUnicastIpAddressEntry = (\<lambda>row w.
        if ue_address row \<in> ue_address ` set (aw_unicast (get w)) then (5010, w)
        else (0, upd (aw_unicast_update (\<lambda>rows. rows @ [row])) w)),
      ad_NldsPreferred = 4,
      ad_default_dns_settings = \<lparr>ds_version = 0, ds_flags = 0, ds_name_server = []\<rparr>,
      ad_SetInterfaceDnsSettings = (\<lambda>guid settings w. (0, upd (aw_dns_update (\<lambda>ds. ds @ [settings])) w)),
      DNS_INTERFACE_SETTINGS_VERSION1 = 1, DNS_SETTING_NAMESERVER = 2, DNS_SETTING_IPV6 = 1,
      CoInitializeEx = (\<lambda>w. (True, com (cv_inits_update Suc) w)),
      CoUninitialize = com (cv_inits_update (\<lambda>n. n - 1)),
      CoCreateInstance = (\<lambda>c w. (Inr 10, w)),
      INetCfg_cast_lock = (\<lambda>n w. (Inr 11, w)),
      AcquireWriteLock = (\<lambda>l t s w. (Inr (), com (cv_locks_update Suc) w)),
      ReleaseWriteLock = (\<lambda>l. com (cv_locks_update (\<lambda>n. n - 1))),
      CoTaskMemFree = (\<lambda>p w. w),
      INetCfg_Initialize = (\<lambda>n w. (Inr (), com (\<lambda>v. v\<lparr>cv_enabled := cv_applied v\<rparr>) w)),
      INetCfg_Uninitialize = (\<lambda>n w. w),
      INetCfg_Apply = (\<lambda>n w. (Inr (), com (\<lambda>v. v\<lparr>cv_applied := cv_enabled v\<rparr>) w)),
      FindComponent = (\<lambda>n s w. (Inr (Some 12), w)),
      INetCfgComponent_cast_bindings = (\<lambda>c w. (Inr 13, w)),
      EnumBindingPaths = (\<lambda>b f w. (Inr (Some 14), com (cv_left_update (\<lambda>_. 2)) w)),
      BindingPath_Next = (\<lambda>e w. case cv_left (aw_com (get w)) of
          0 \<Rightarrow> (Inr (None, 0), w) | Suc n \<Rightarrow> (Inr (Some (if n = 1 then 21 else 22), 1), com (cv_left_update (\<lambda>_. n)) w)),
      GetPathToken = (\<lambda>p w. (Inr (Some (utf16_units
        (if p = 22 then ''ms_tcpip6->{9beb3451-4026-4f8a-8762-8f608b124fec}'' else ''ms_tcpip6->{1}'') @ [0])), w)),
      BindingPath_IsEnabled = (\<lambda>p w. (Inr (), w)),
      BindingPath_Enable = (\<lambda>p b w. (Inr (), com (\<lambda>v. v\<lparr>cv_enabled := (cv_enabled v)(p := b)\<rparr>) w))\<rparr>)"

lemma adapter_tokens [simp]:
  "is_adapter_path (Some (utf16_units ''ms_tcpip6->{9beb3451-4026-4f8a-8762-8f608b124fec}'' @ [0]))"
  "\<not> is_adapter_path (Some (utf16_units ''ms_tcpip6->{1}'' @ [0]))"
  by code_simp+

lemma adapter_system_contract:
  assumes "\<And>f w. get (upd f w) = f (get w)"
  shows "com_contract (adapter_system ih get upd) (\<lambda>w. aw_com (get w)) {22}"
  unfolding com_contract_def adapter_system_def Let_def
  by (intro conjI) (auto simp: assms same_but_left_def split: nat.splits)

section \<open>Properties\<close>


definition example_com :: com_view where
  "example_com = \<lparr>cv_inits = 0, cv_locks = 0, cv_enabled = (\<lambda>_. True), cv_applied = (\<lambda>_. True), cv_left = 0\<rparr>"

definition example_adapter_world :: adapter_world where
  "example_adapter_world = \<lparr>aw_com = example_com, aw_unicast = [], aw_dns = []\<rparr>"

abbreviation example_adapter :: "adapter_world adapter_api" where
  "example_adapter \<equiv> adapter_system (table_system (\<lambda>_. []) (\<lambda>_ w. w) []) id (\<lambda>f. f)"

lemma example_toggle: "map_option fst (toggle_adapter_ipv6 example_adapter False example_adapter_world) = Some (Inr ())"
proof -
  let ?w = "\<lambda>n. example_adapter_world\<lparr>aw_com := example_com\<lparr>cv_inits := 1, cv_locks := 1, cv_left := n\<rparr>\<rparr>"
  let ?final = "example_adapter_world\<lparr>aw_com := example_com\<lparr>cv_inits := 1, cv_locks := 1, cv_left := 0,
      cv_enabled := (\<lambda>_. True)(22 := False)\<rparr>\<rparr>"
  have "iterate_binding_paths example_adapter 14 False (?w 2) = iterate_binding_paths example_adapter 14 False (?w 1)"
    unfolding iterate_binding_paths_def by (rule iterate_again) (simp add: binding_path_round_def adapter_system_def)
  also have "\<dots> = Some (Inr (), ?final)"
    unfolding iterate_binding_paths_def
    by (rule iterate_return)
      (simp add: binding_path_round_def adapter_system_def toggle_ipv6_in_binding_path_def example_com_def)
  finally show ?thesis
    by (simp add: toggle_adapter_ipv6_def create_inetcfg_instance_def acquire_write_lock_def handle_conflict_holder_def
      find_ipv6_component_def get_ipv6_component_binding_paths_def adapter_system_def example_adapter_world_def example_com_def)
qed


end
