(* ===== verification/Adapter_Frame.thy ===== *)
theory Adapter_Frame
  imports Windows_Ipv6
begin

text \<open>
  What the settings of the adapter leave alone. \<open>adapter_frame\<close> says of an observation of the
  system, such as the routes of the other interfaces, that no call of \<open>adapter_api\<close> changes it; the
  lemmas carry this through every function of \<open>Windows_Adapter\<close> and \<open>Windows_Ipv6\<close>, whatever the calls
  return.
\<close>

definition adapter_frame :: "'w adapter_api \<Rightarrow> ('w \<Rightarrow> 'o) \<Rightarrow> bool" where
  "adapter_frame ad obs \<longleftrightarrow>
     (\<forall>row w. obs (snd (ad_SetIpInterfaceEntry ad row w)) = obs w) \<and>
     (\<forall>row w. obs (snd (ad_CreateUnicastIpAddressEntry ad row w)) = obs w) \<and>
     (\<forall>guid ds w. obs (snd (ad_SetInterfaceDnsSettings ad guid ds w)) = obs w) \<and>
     (\<forall>w. obs (snd (CoInitializeEx ad w)) = obs w) \<and>
     (\<forall>w. obs (CoUninitialize ad w) = obs w) \<and>
     (\<forall>c w. obs (snd (CoCreateInstance ad c w)) = obs w) \<and>
     (\<forall>n w. obs (snd (INetCfg_cast_lock ad n w)) = obs w) \<and>
     (\<forall>l t s w. obs (snd (AcquireWriteLock ad l t s w)) = obs w) \<and>
     (\<forall>l w. obs (ReleaseWriteLock ad l w) = obs w) \<and>
     (\<forall>p w. obs (CoTaskMemFree ad p w) = obs w) \<and>
     (\<forall>n w. obs (snd (INetCfg_Initialize ad n w)) = obs w) \<and>
     (\<forall>n w. obs (INetCfg_Uninitialize ad n w) = obs w) \<and>
     (\<forall>n w. obs (snd (INetCfg_Apply ad n w)) = obs w) \<and>
     (\<forall>n s w. obs (snd (FindComponent ad n s w)) = obs w) \<and>
     (\<forall>c w. obs (snd (INetCfgComponent_cast_bindings ad c w)) = obs w) \<and>
     (\<forall>b f w. obs (snd (EnumBindingPaths ad b f w)) = obs w) \<and>
     (\<forall>e w. obs (snd (BindingPath_Next ad e w)) = obs w) \<and>
     (\<forall>p w. obs (snd (GetPathToken ad p w)) = obs w) \<and>
     (\<forall>p w. obs (snd (BindingPath_IsEnabled ad p w)) = obs w) \<and>
     (\<forall>p b w. obs (snd (BindingPath_Enable ad p b w)) = obs w)"

lemma frame_calls:
  assumes "adapter_frame ad obs"
  shows "ad_SetIpInterfaceEntry ad row w = (st, w') \<Longrightarrow> obs w' = obs w"
    and "ad_CreateUnicastIpAddressEntry ad entry w = (st, w') \<Longrightarrow> obs w' = obs w"
    and "ad_SetInterfaceDnsSettings ad guid ds w = (st, w') \<Longrightarrow> obs w' = obs w"
    and "CoInitializeEx ad w = (b, w') \<Longrightarrow> obs w' = obs w"
    and "CoCreateInstance ad clsid w = (rc, w') \<Longrightarrow> obs w' = obs w"
    and "INetCfg_cast_lock ad n w = (rc, w') \<Longrightarrow> obs w' = obs w"
    and "AcquireWriteLock ad n t s w = (ru, w') \<Longrightarrow> obs w' = obs w"
    and "INetCfg_Initialize ad n w = (ru, w') \<Longrightarrow> obs w' = obs w"
    and "INetCfg_Apply ad n w = (ru, w') \<Longrightarrow> obs w' = obs w"
    and "FindComponent ad n s w = (ro, w') \<Longrightarrow> obs w' = obs w"
    and "INetCfgComponent_cast_bindings ad n w = (rc, w') \<Longrightarrow> obs w' = obs w"
    and "EnumBindingPaths ad n fl w = (ro, w') \<Longrightarrow> obs w' = obs w"
    and "BindingPath_Next ad n w = (rn, w') \<Longrightarrow> obs w' = obs w"
    and "GetPathToken ad n w = (rp, w') \<Longrightarrow> obs w' = obs w"
    and "BindingPath_IsEnabled ad n w = (ru, w') \<Longrightarrow> obs w' = obs w"
    and "BindingPath_Enable ad n b w = (ru, w') \<Longrightarrow> obs w' = obs w"
  using assms unfolding adapter_frame_def by (elim conjE; metis snd_conv)+

lemma frame_unit_calls:
  assumes "adapter_frame ad obs"
  shows "obs (CoUninitialize ad w) = obs w" "obs (ReleaseWriteLock ad n w) = obs w"
    "obs (CoTaskMemFree ad p w) = obs w" "obs (INetCfg_Uninitialize ad n w) = obs w"
  using assms unfolding adapter_frame_def by simp_all

section \<open>Settings, addresses and name servers\<close>

lemma set_adapter_configurations_keeps:
  assumes "adapter_frame ad obs"
  shows "obs (snd (set_ipv4_adapter_configurations ad index mtu w)) = obs w"
    and "obs (snd (set_ipv6_adapter_configurations ad index mtu w)) = obs w"
proof -
  have "obs (snd (set_adapter_configurations ad row w)) = obs w" for row
    by (auto simp: set_adapter_configurations_def split: prod.splits dest: frame_calls(1) [OF assms])
  then show "obs (snd (set_ipv4_adapter_configurations ad index mtu w)) = obs w"
    "obs (snd (set_ipv6_adapter_configurations ad index mtu w)) = obs w"
    by (simp_all add: set_ipv4_adapter_configurations_def set_ipv6_adapter_configurations_def split: sum.split)
qed

lemma set_adapter_address_keeps:
  assumes "adapter_frame ad obs"
  shows "set_adapter_ipv4_address ad index v4 n w = (r, w') \<Longrightarrow> obs w' = obs w"
    and "set_adapter_ipv6_address ad index v6 n w = (r, w') \<Longrightarrow> obs w' = obs w"
  by (auto simp: set_adapter_ipv4_address_def set_adapter_ipv6_address_def set_adapter_ip_def
      split: prod.splits if_splits dest: frame_calls(2) [OF assms])

lemma set_adapter_dns_keeps:
  assumes "adapter_frame ad obs"
  shows "set_adapter_ipv4_dns_servers ad guid ips4 w = (r, w') \<Longrightarrow> obs w' = obs w"
    and "set_adapter_ipv6_dns_servers ad guid ips6 w = (r, w') \<Longrightarrow> obs w' = obs w"
  by (auto simp: set_adapter_ipv4_dns_servers_def set_adapter_ipv6_dns_servers_def set_dns_server_def Let_def
      split: prod.splits if_splits dest: frame_calls(3) [OF assms])

section \<open>The IPv6 binding\<close>

lemma toggle_in_path_keeps:
  assumes "adapter_frame ad obs" "toggle_ipv6_in_binding_path ad path target w = (r, w')"
  shows "obs w' = obs w"
proof -
  note F = frame_calls [OF assms(1)]
  obtain q w1 where q: "BindingPath_IsEnabled ad path w = (q, w1)" by (cases "BindingPath_IsEnabled ad path w")
  obtain e w2 where e: "BindingPath_Enable ad path target w1 = (e, w2)" by (cases "BindingPath_Enable ad path target w1")
  from assms(2) q e F(15) [OF q] F(16) [OF e] show ?thesis
    by (cases q; cases e) (auto simp: toggle_ipv6_in_binding_path_def)
qed

lemma binding_path_round_keeps:
  assumes "adapter_frame ad obs"
  shows "case binding_path_round ad e target w of Inl w' \<Rightarrow> obs w' = obs w | Inr (r, w') \<Rightarrow> obs w' = obs w"
proof -
  note F = frame_calls [OF assms]
  obtain n w1 where n: "BindingPath_Next ad e w = (n, w1)" by (cases "BindingPath_Next ad e w")
  note w1 = F(13) [OF n]
  show ?thesis
  proof (cases "\<exists>path fetched. n = Inr (Some path, fetched) \<and> fetched \<noteq> 0")
    case True
    then obtain path fetched where path: "n = Inr (Some path, fetched)" "fetched \<noteq> 0" by blast
    obtain t w2 where t: "GetPathToken ad path w1 = (t, w2)" by (cases "GetPathToken ad path w1")
    obtain r w3 where r: "toggle_ipv6_in_binding_path ad path target w2 = (r, w3)"
      by (cases "toggle_ipv6_in_binding_path ad path target w2")
    from n path t r w1 F(14) [OF t] toggle_in_path_keeps [OF assms r] show ?thesis
      by (cases t) (simp_all add: binding_path_round_def)
  next
    case False
    with n w1 show ?thesis
      by (auto simp: binding_path_round_def Let_def split: sum.splits prod.splits option.splits)
  qed
qed

lemma iterate_binding_paths_keeps:
  assumes "adapter_frame ad obs" "iterate_binding_paths ad e target w = Some (r, w')"
  shows "obs w' = obs w"
proof -
  have "obs (snd (r, w')) = obs w"
  proof (rule iterate_rule [OF assms(2) [unfolded iterate_binding_paths_def], where I = "\<lambda>v. obs v = obs w"
        and Q = "\<lambda>x. obs (snd x) = obs w"])
    show "obs v' = obs w" if "obs v = obs w" "Some (binding_path_round ad e target v) = Some (Inl v')" for v v'
      using binding_path_round_keeps [OF assms(1), where e = e and target = target and w = v] that by simp
    show "obs (snd x) = obs w" if "obs v = obs w" "Some (binding_path_round ad e target v) = Some (Inr x)" for v x
      using binding_path_round_keeps [OF assms(1), where e = e and target = target and w = v] that by (cases x) simp
  qed simp
  then show ?thesis by simp
qed

lemma binding_paths_keeps:
  assumes "adapter_frame ad obs" "get_ipv6_component_binding_paths ad net_cfg component target w = Some (r, w')"
  shows "obs w' = obs w"
proof -
  note F = frame_calls [OF assms(1)]
  obtain c w1 where c: "INetCfgComponent_cast_bindings ad component w = (c, w1)"
    by (cases "INetCfgComponent_cast_bindings ad component w")
  show ?thesis
  proof (cases c)
    case (Inl e)
    with assms(2) c F(11) [OF c] show ?thesis by (auto simp: get_ipv6_component_binding_paths_def)
  next
    case (Inr bindings)
    obtain p w2 where p: "EnumBindingPaths ad bindings EBP_BELOW w1 = (p, w2)"
      by (cases "EnumBindingPaths ad bindings EBP_BELOW w1")
    note w2 = F(12) [OF p, unfolded F(11) [OF c]]
    show ?thesis
    proof (cases "\<exists>paths. p = Inr (Some paths)")
      case True
      then obtain paths where paths: "p = Inr (Some paths)" by blast
      with assms(2) c Inr p obtain q w3 where q: "iterate_binding_paths ad paths target w2 = Some (q, w3)"
        by (auto simp: get_ipv6_component_binding_paths_def bind_eq_Some_conv)
      obtain a w4 where a: "INetCfg_Apply ad net_cfg w3 = (a, w4)" by (cases "INetCfg_Apply ad net_cfg w3")
      note w4 = F(9) [OF a] and w3 = iterate_binding_paths_keeps [OF assms(1) q]
      from assms(2) c Inr p paths q a have "w' = w3 \<or> w' = w4"
        by (cases q; cases a) (auto simp: get_ipv6_component_binding_paths_def)
      with w2 w3 w4 show ?thesis by auto
    next
      case False
      with assms(2) c Inr p have "w' = w2"
        by (auto simp: get_ipv6_component_binding_paths_def split: sum.splits option.splits)
      with w2 show ?thesis by simp
    qed
  qed
qed

lemma find_ipv6_component_keeps:
  assumes "adapter_frame ad obs" "find_ipv6_component ad net_cfg target w = Some (r, w')"
  shows "obs w' = obs w"
proof -
  obtain c w1 where c: "FindComponent ad net_cfg MS_TCPIP6 w = (c, w1)" by (cases "FindComponent ad net_cfg MS_TCPIP6 w")
  note w1 = frame_calls(10) [OF assms(1) c]
  from assms(2) c have "w' = w1 \<or> (\<exists>component. get_ipv6_component_binding_paths ad net_cfg component target w1 = Some (r, w'))"
    by (auto simp: find_ipv6_component_def split: sum.splits option.splits)
  then show ?thesis using binding_paths_keeps [OF assms(1)] w1 by metis
qed

lemma acquire_write_lock_keeps:
  assumes "adapter_frame ad obs" "acquire_write_lock ad net_cfg target w = Some (r, w')"
  shows "obs w' = obs w"
proof -
  note F = frame_calls [OF assms(1)] and U = frame_unit_calls [OF assms(1)]
  obtain l w1 where l: "INetCfg_cast_lock ad net_cfg w = (l, w1)" by (cases "INetCfg_cast_lock ad net_cfg w")
  show ?thesis
  proof (cases l)
    case (Inl e)
    with assms(2) l F(6) [OF l] show ?thesis by (auto simp: acquire_write_lock_def)
  next
    case (Inr lock)
    obtain a w2 where a: "AcquireWriteLock ad lock 5000 LOCK_NAME w1 = (a, w2)"
      by (cases "AcquireWriteLock ad lock 5000 LOCK_NAME w1")
    obtain i w3 where i: "INetCfg_Initialize ad net_cfg w2 = (i, w3)" by (cases "INetCfg_Initialize ad net_cfg w2")
    have w: "obs w1 = obs w" "obs w2 = obs w" "obs w3 = obs w" using F(6) [OF l] F(7) [OF a] F(8) [OF i] by simp_all
    from assms(2) l Inr a i have "w' = w2 \<or> w' = ReleaseWriteLock ad lock w3 \<or>
        (\<exists>v. find_ipv6_component ad net_cfg target w3 = Some (r, v) \<and> w' = ReleaseWriteLock ad lock v)"
      by (cases a; cases i) (auto simp: acquire_write_lock_def handle_conflict_holder_def)
    then show ?thesis using w U(2) find_ipv6_component_keeps [OF assms(1)] by metis
  qed
qed

lemma toggle_adapter_ipv6_keeps:
  assumes "adapter_frame ad obs" "toggle_adapter_ipv6 ad target w = Some (r, w')"
  shows "obs w' = obs w"
proof -
  note F = frame_calls [OF assms(1)] and U = frame_unit_calls [OF assms(1)]
  obtain b w1 where b: "CoInitializeEx ad w = (b, w1)" by (cases "CoInitializeEx ad w")
  obtain c w2 where c: "CoCreateInstance ad INETCFG_CLSID w1 = (c, w2)" by (cases "CoCreateInstance ad INETCFG_CLSID w1")
  have w: "obs w1 = obs w" "obs w2 = obs w" using F(4) [OF b] F(5) [OF c] by simp_all
  from assms(2) b c have "w' = w1 \<or> w' = CoUninitialize ad w2 \<or>
      (\<exists>n v. acquire_write_lock ad n target w2 = Some (r, v) \<and> w' = CoUninitialize ad (INetCfg_Uninitialize ad n v))"
    by (cases c) (auto simp: toggle_adapter_ipv6_def create_inetcfg_instance_def split: if_splits)
  then show ?thesis using w U(1,4) acquire_write_lock_keeps [OF assms(1)] by metis
qed

end
