(* ===== verification/Internet_Interface.thy ===== *)
theory Internet_Interface
  imports Windows_Net "HOL-Library.Product_Lexorder"
begin

text \<open>
  \<^verbatim>\<open>src/connection/windows/helpers/local_ip_finder.rs\<close>: which network interface leads to the
  internet. The candidates are the interfaces with a default route, other than the adapter
  of the VPN itself, that are up and have an address of the protocol of the route's next
  hop; the one with the lowest metric is taken, for each protocol. The tables are read from
  the system and freed, which is not visible here.
\<close>

section \<open>Candidates\<close>

record 'a internet_interface_of =
  ii_interface_metric :: u32
  ii_any_route_metric :: u32
  ii_local_ip :: 'a
  ii_interface_index :: u32
  ii_next_hop :: 'a

type_synonym ipv4_internet_interface = "ipv4_addr internet_interface_of"
type_synonym ipv6_internet_interface = "ipv6_addr internet_interface_of"

datatype internet_interface = InterfaceV4 ipv4_internet_interface | InterfaceV6 ipv6_internet_interface

text \<open>The sum of the metrics wraps around, as in a release build.\<close>

definition effective_metric :: "'a internet_interface_of \<Rightarrow> u32" where
  "effective_metric i = ii_interface_metric i + ii_any_route_metric i"

definition get_interface_metric :: "'w ip_helper \<Rightarrow> forward_row \<Rightarrow> u16 \<Rightarrow> 'w \<Rightarrow> win32_error + u32" where
  "get_interface_metric ih route family w = GetIpInterfaceEntry ih family (fr_interface_luid route) w"

definition create_internet_interface ::
  "'w ip_helper \<Rightarrow> forward_row \<Rightarrow> 'w \<Rightarrow> ip_addr \<Rightarrow> internet_interface option" where
  "create_internet_interface ih route w ip =
     (case ip of
        V4 addr \<Rightarrow>
          (case sockaddr_inet_to_ip_addr ih (fr_next_hop route) of
             Some (V6 _) \<Rightarrow> None
           | Some (V4 next_hop) \<Rightarrow>
               (case get_interface_metric ih route (AF_INET ih) w of
                  Inr metric \<Rightarrow> Some (InterfaceV4 \<lparr>ii_interface_metric = metric,
                     ii_any_route_metric = fr_metric route, ii_local_ip = addr,
                     ii_interface_index = fr_interface_index route, ii_next_hop = next_hop\<rparr>)
                | Inl _ \<Rightarrow> None)
           | None \<Rightarrow> None)
      | V6 addr \<Rightarrow>
          (case sockaddr_inet_to_ip_addr ih (fr_next_hop route) of
             Some (V4 _) \<Rightarrow> None
           | Some (V6 next_hop) \<Rightarrow>
               (case get_interface_metric ih route (AF_INET6 ih) w of
                  Inr metric \<Rightarrow> Some (InterfaceV6 \<lparr>ii_interface_metric = metric,
                     ii_any_route_metric = fr_metric route, ii_local_ip = addr,
                     ii_interface_index = fr_interface_index route, ii_next_hop = next_hop\<rparr>)
                | Inl _ \<Rightarrow> None)
           | None \<Rightarrow> None))"

definition is_route_interface_up :: "'w ip_helper \<Rightarrow> forward_row \<Rightarrow> 'w \<Rightarrow> win32_error + bool" where
  "is_route_interface_up ih route w =
     (case GetIfEntry2 ih (fr_interface_luid route) w of
        Inr row \<Rightarrow> Inr (ir_admin_status row = NET_IF_ADMIN_STATUS_UP ih \<and>
          ir_oper_status row = IfOperStatusUp ih \<and>
          ir_media_connect_state row = MediaConnectStateConnected ih)
      | Inl e \<Rightarrow> Inl e)"

text \<open>The hash map from interfaces to their addresses, in the order of the table.\<close>

definition addresses_by_luid :: "'w ip_helper \<Rightarrow> unicast_row list \<Rightarrow> u64 \<rightharpoonup> ip_addr list" where
  "addresses_by_luid ih rows =
     fold (\<lambda>row m. case sockaddr_inet_to_ip_addr ih (ur_address row) of
        Some ip \<Rightarrow> m(ur_interface_luid row \<mapsto>
          (case m (ur_interface_luid row) of None \<Rightarrow> [] | Some ips \<Rightarrow> ips) @ [ip])
      | None \<Rightarrow> m) rows Map.empty"

definition get_internet_interfaces_from_route ::
  "'w ip_helper \<Rightarrow> (u64 \<rightharpoonup> ip_addr list) \<Rightarrow> 'w \<Rightarrow> forward_row \<Rightarrow> internet_interface list" where
  "get_internet_interfaces_from_route ih addresses w route =
     (if is_route_interface_up ih route w = Inr True
      then case addresses (fr_interface_luid route) of
             Some ips \<Rightarrow> List.map_filter (create_internet_interface ih route w) ips
           | None \<Rightarrow> []
      else [])"

definition get_internet_interfaces_from_routes ::
  "'w ip_helper \<Rightarrow> forward_row list \<Rightarrow> (u64 \<rightharpoonup> ip_addr list) \<Rightarrow> 'w \<Rightarrow> internet_interface list" where
  "get_internet_interfaces_from_routes ih routes addresses w =
     fold (\<lambda>route interfaces.
        case ConvertInterfaceLuidToGuid ih (fr_interface_luid route) w of
          Inr guid \<Rightarrow> if guid \<noteq> ADAPTER_GUID_U128
                      then interfaces @ get_internet_interfaces_from_route ih addresses w route
                      else interfaces
        | Inl _ \<Rightarrow> interfaces)
       (filter (\<lambda>r. fr_prefix_length r = 0) routes) []"

section \<open>The choice\<close>

text \<open>
  The key of the stable sort: IPv4 before IPv6, then the lowest metric first; pairs are
  ordered lexicographically.
\<close>

fun interface_key :: "internet_interface \<Rightarrow> nat \<times> u32" where
  "interface_key (InterfaceV4 i) = (4, effective_metric i)"
| "interface_key (InterfaceV6 i) = (6, effective_metric i)"

definition get_potential_internet_interfaces ::
  "'w ip_helper \<Rightarrow> 'w \<Rightarrow> protun_fatal_error + internet_interface list" where
  "get_potential_internet_interfaces ih w =
     (case GetIpForwardTable2 ih w of
        Inl e \<Rightarrow> Inl (NoLocalIp (''Error when getting the routing table. Win32 error code: '' @ ih_hresult_text ih e))
      | Inr None \<Rightarrow> Inl (NoLocalIp ''GetIpForwardTable2 returned a null routing table'')
      | Inr (Some routes) \<Rightarrow>
          (case GetUnicastIpAddressTable ih w of
             Inl e \<Rightarrow> Inl (NoLocalIp (''Error when getting the unicast IP address table. Win32 error code: '' @ ih_hresult_text ih e))
           | Inr None \<Rightarrow> Inl (NoLocalIp ''GetUnicastIpAddressTable returned a null address table'')
           | Inr (Some rows) \<Rightarrow>
               let interfaces = sort_key interface_key
                     (get_internet_interfaces_from_routes ih routes (addresses_by_luid ih rows) w)
               in if interfaces = [] then Inl (NoLocalIp ''No valid local internet IP addresses'')
                  else Inr interfaces))"

fun interface_v4 :: "internet_interface \<Rightarrow> ipv4_internet_interface option" where
  "interface_v4 (InterfaceV4 i) = Some i"
| "interface_v4 (InterfaceV6 i) = None"

fun interface_v6 :: "internet_interface \<Rightarrow> ipv6_internet_interface option" where
  "interface_v6 (InterfaceV4 i) = None"
| "interface_v6 (InterfaceV6 i) = Some i"

text \<open>\<^verbatim>\<open>Iterator::find_map\<close>.\<close>

fun find_map :: "('a \<Rightarrow> 'b option) \<Rightarrow> 'a list \<Rightarrow> 'b option" where
  "find_map f [] = None"
| "find_map f (x # xs) = (case f x of Some y \<Rightarrow> Some y | None \<Rightarrow> find_map f xs)"

definition get_internet_interfaces ::
  "'w ip_helper \<Rightarrow> 'w \<Rightarrow> protun_fatal_error + (ipv4_internet_interface option \<times> ipv6_internet_interface option)" where
  "get_internet_interfaces ih w =
     (case get_potential_internet_interfaces ih w of
        Inl e \<Rightarrow> Inl e
      | Inr interfaces \<Rightarrow> Inr (find_map interface_v4 interfaces, find_map interface_v6 interfaces))"

definition get_ipv4_internet_interface ::
  "'w ip_helper \<Rightarrow> 'w \<Rightarrow> protun_fatal_error + ipv4_internet_interface option" where
  "get_ipv4_internet_interface ih w = map_sum id fst (get_internet_interfaces ih w)"

definition get_ipv6_internet_interface ::
  "'w ip_helper \<Rightarrow> 'w \<Rightarrow> protun_fatal_error + ipv6_internet_interface option" where
  "get_ipv6_internet_interface ih w = map_sum id snd (get_internet_interfaces ih w)"

section \<open>Specification\<close>

text \<open>
  A default route that leads somewhere: not through the adapter of the VPN, and over an
  interface that is up.
\<close>

definition usable_default_route :: "'w ip_helper \<Rightarrow> 'w \<Rightarrow> forward_row \<Rightarrow> bool" where
  "usable_default_route ih w route \<longleftrightarrow> fr_prefix_length route = 0 \<and>
     (\<exists>guid. ConvertInterfaceLuidToGuid ih (fr_interface_luid route) w = Inr guid \<and> guid \<noteq> ADAPTER_GUID_U128) \<and>
     is_route_interface_up ih route w = Inr True"

definition internet_candidate :: "'w ip_helper \<Rightarrow> 'w \<Rightarrow> internet_interface \<Rightarrow> bool" where
  "internet_candidate ih w i \<longleftrightarrow>
     (\<exists>routes rows route row ip. GetIpForwardTable2 ih w = Inr (Some routes) \<and>
        GetUnicastIpAddressTable ih w = Inr (Some rows) \<and> route \<in> set routes \<and> row \<in> set rows \<and>
        usable_default_route ih w route \<and> ur_interface_luid row = fr_interface_luid route \<and>
        sockaddr_inet_to_ip_addr ih (ur_address row) = Some ip \<and>
        create_internet_interface ih route w ip = Some i)"

section \<open>Lemmas\<close>

lemma find_map_None: "find_map f xs = None \<longleftrightarrow> (\<forall>x\<in>set xs. f x = None)"
  by (induction xs) (auto split: option.splits)

lemma find_map_sorted:
  "sorted (map k xs) \<Longrightarrow> find_map f xs = Some y \<Longrightarrow>
   \<exists>x\<in>set xs. f x = Some y \<and> (\<forall>z\<in>set xs. f z \<noteq> None \<longrightarrow> k x \<le> k z)"
proof (induction xs)
  case (Cons x xs)
  then show ?case by (cases "f x") auto
qed simp

lemma set_map_filter: "set (List.map_filter f xs) = {y. \<exists>x\<in>set xs. f x = Some y}"
  by (induction xs) (auto simp: map_filter_simps split: option.splits)

lemma addresses_by_luid_eq:
  "(case addresses_by_luid ih rows l of None \<Rightarrow> [] | Some ips \<Rightarrow> ips) =
   List.map_filter (\<lambda>row. if ur_interface_luid row = l then sockaddr_inet_to_ip_addr ih (ur_address row) else None) rows"
proof -
  let ?step = "\<lambda>row m. case sockaddr_inet_to_ip_addr ih (ur_address row) of
        Some ip \<Rightarrow> m(ur_interface_luid row \<mapsto>
          (case m (ur_interface_luid row) of None \<Rightarrow> [] | Some ips \<Rightarrow> ips) @ [ip])
      | None \<Rightarrow> m"
  have "(case fold ?step rows m l of None \<Rightarrow> [] | Some ips \<Rightarrow> ips) =
     (case m l of None \<Rightarrow> [] | Some ips \<Rightarrow> ips) @
     List.map_filter (\<lambda>row. if ur_interface_luid row = l then sockaddr_inet_to_ip_addr ih (ur_address row) else None) rows" for m
    by (induction rows arbitrary: m) (auto simp: map_filter_simps split: option.split)
  from this [of Map.empty] show ?thesis by (simp add: addresses_by_luid_def)
qed

lemma from_route_eq:
  "get_internet_interfaces_from_route ih addresses w route =
   (if is_route_interface_up ih route w = Inr True
    then List.map_filter (create_internet_interface ih route w)
      (case addresses (fr_interface_luid route) of None \<Rightarrow> [] | Some ips \<Rightarrow> ips) else [])"
  by (simp add: get_internet_interfaces_from_route_def map_filter_simps split: option.split)

lemma from_routes_eq:
  "get_internet_interfaces_from_routes ih routes addresses w =
   concat (map (\<lambda>r. if usable_default_route ih w r
                    then get_internet_interfaces_from_route ih addresses w r else []) routes)"
proof -
  let ?g = "\<lambda>r. if usable_default_route ih w r then get_internet_interfaces_from_route ih addresses w r else []"
  let ?step = "\<lambda>route interfaces.
        case ConvertInterfaceLuidToGuid ih (fr_interface_luid route) w of
          Inr guid \<Rightarrow> if guid \<noteq> ADAPTER_GUID_U128
                      then interfaces @ get_internet_interfaces_from_route ih addresses w route
                      else interfaces
        | Inl _ \<Rightarrow> interfaces"
  have step: "?step r acc = acc @ ?g r" if "fr_prefix_length r = 0" for r acc
    using that by (cases "ConvertInterfaceLuidToGuid ih (fr_interface_luid r) w")
      (simp_all add: usable_default_route_def get_internet_interfaces_from_route_def)
  have "fold ?step (filter (\<lambda>r. fr_prefix_length r = 0) routes) acc = acc @ concat (map ?g routes)" for acc
  proof (induction routes arbitrary: acc)
    case (Cons r routes)
    then show ?case by (cases "fr_prefix_length r = 0") (simp_all add: step, simp add: usable_default_route_def)
  qed simp
  from this [of "[]"] show ?thesis by (simp add: get_internet_interfaces_from_routes_def)
qed

lemma set_candidates:
  assumes "GetIpForwardTable2 ih w = Inr (Some routes)" "GetUnicastIpAddressTable ih w = Inr (Some rows)"
  shows "set (get_internet_interfaces_from_routes ih routes (addresses_by_luid ih rows) w) =
     {i. internet_candidate ih w i}"
proof -
  have "i \<in> set (get_internet_interfaces_from_routes ih routes (addresses_by_luid ih rows) w) \<longleftrightarrow>
      (\<exists>route\<in>set routes. usable_default_route ih w route \<and>
        (\<exists>row\<in>set rows. ur_interface_luid row = fr_interface_luid route \<and>
          (\<exists>ip. sockaddr_inet_to_ip_addr ih (ur_address row) = Some ip \<and>
             create_internet_interface ih route w ip = Some i)))" for i
    by (simp add: from_routes_eq from_route_eq addresses_by_luid_eq set_map_filter usable_default_route_def
        if_distrib [of set] cong: conj_cong) blast
  then show ?thesis by (intro set_eqI) (simp add: internet_candidate_def assms, blast)
qed

lemma potential_interfaces:
  "get_potential_internet_interfaces ih w = Inr is \<Longrightarrow>
     set is = {i. internet_candidate ih w i} \<and> is \<noteq> [] \<and> sorted (map interface_key is)"
  by (auto simp: get_potential_internet_interfaces_def Let_def set_candidates split: sum.splits option.splits if_splits)

lemma found_v4:
  assumes "find_map interface_v4 is = v4" "sorted (map interface_key is)"
  shows "case v4 of None \<Rightarrow> \<forall>i. InterfaceV4 i \<notin> set is
     | Some i \<Rightarrow> InterfaceV4 i \<in> set is \<and> (\<forall>j. InterfaceV4 j \<in> set is \<longrightarrow> effective_metric i \<le> effective_metric j)"
proof (cases v4)
  case None
  with assms(1) find_map_None [of interface_v4 "is"] show ?thesis by force
next
  case (Some i)
  with find_map_sorted [OF assms(2), of interface_v4 i] assms(1) obtain x where
    x: "x \<in> set is" "interface_v4 x = Some i" and min: "\<forall>z\<in>set is. interface_v4 z \<noteq> None \<longrightarrow> interface_key x \<le> interface_key z"
    by blast
  from x(2) have "x = InterfaceV4 i" by (cases x) auto
  with x min Some show ?thesis by fastforce
qed

lemma found_v6:
  assumes "find_map interface_v6 is = v6" "sorted (map interface_key is)"
  shows "case v6 of None \<Rightarrow> \<forall>i. InterfaceV6 i \<notin> set is
     | Some i \<Rightarrow> InterfaceV6 i \<in> set is \<and> (\<forall>j. InterfaceV6 j \<in> set is \<longrightarrow> effective_metric i \<le> effective_metric j)"
proof (cases v6)
  case None
  with assms(1) find_map_None [of interface_v6 "is"] show ?thesis by force
next
  case (Some i)
  with find_map_sorted [OF assms(2), of interface_v6 i] assms(1) obtain x where
    x: "x \<in> set is" "interface_v6 x = Some i" and min: "\<forall>z\<in>set is. interface_v6 z \<noteq> None \<longrightarrow> interface_key x \<le> interface_key z"
    by blast
  from x(2) have "x = InterfaceV6 i" by (cases x) auto
  with x min Some show ?thesis by fastforce
qed

section \<open>Properties\<close>

text \<open>C25: The interface chosen for a protocol is a candidate, that is, it has a default route that
  does not lead through the adapter of the VPN, is up and has an address of the protocol,
  and no candidate of the protocol has a lower metric; there is no interface for a protocol
  only if there is no candidate.\<close>

theorem internet_interface_best:
  assumes "get_internet_interfaces ih w = Inr (v4, v6)"
  shows "(case v4 of None \<Rightarrow> \<forall>i. \<not> internet_candidate ih w (InterfaceV4 i)
      | Some i \<Rightarrow> internet_candidate ih w (InterfaceV4 i) \<and>
          (\<forall>j. internet_candidate ih w (InterfaceV4 j) \<longrightarrow> effective_metric i \<le> effective_metric j)) \<and>
     (case v6 of None \<Rightarrow> \<forall>i. \<not> internet_candidate ih w (InterfaceV6 i)
      | Some i \<Rightarrow> internet_candidate ih w (InterfaceV6 i) \<and>
          (\<forall>j. internet_candidate ih w (InterfaceV6 j) \<longrightarrow> effective_metric i \<le> effective_metric j))"
proof -
  from assms obtain interfaces where pot: "get_potential_internet_interfaces ih w = Inr interfaces"
    and v: "find_map interface_v4 interfaces = v4" "find_map interface_v6 interfaces = v6"
    by (auto simp: get_internet_interfaces_def split: sum.splits)
  note p = potential_interfaces [OF pot]
  from found_v4 [OF v(1)] found_v6 [OF v(2)] p show ?thesis by (simp split: option.splits)
qed

text \<open>Two default routes through interfaces 1 and 2 and one through the adapter itself.\<close>

definition default_route :: "u64 \<Rightarrow> u32 \<Rightarrow> u32 \<Rightarrow> forward_row" where
  "default_route luid index metric = \<lparr>fr_prefix = no_sockaddr\<lparr>si_family := 2\<rparr>, fr_prefix_length = 0,
     fr_next_hop = no_sockaddr\<lparr>si_family := 2, sin_addr := ipv4_s_addr (Ipv4Addr 192 168 1 1)\<rparr>,
     fr_interface_luid = luid, fr_interface_index = index, fr_metric = metric\<rparr>"

definition example_addresses :: "unicast_row list" where
  "example_addresses = map (\<lambda>luid. \<lparr>ur_address = no_sockaddr\<lparr>si_family := 2,
      sin_addr := ipv4_s_addr (Ipv4Addr 192 168 1 (ucast luid))\<rparr>, ur_interface_luid = luid\<rparr>) [1, 2, 7]"

abbreviation example_system :: "forward_row list ip_helper" where
  "example_system \<equiv> table_system (\<lambda>w. w) (\<lambda>rows _. rows) example_addresses"

definition example_routes :: "forward_row list" where
  "example_routes = [default_route 7 17 0, default_route 1 11 50, default_route 2 12 20]"

definition example_interface :: ipv4_internet_interface where
  "example_interface = \<lparr>ii_interface_metric = 25, ii_any_route_metric = 20,
     ii_local_ip = Ipv4Addr 192 168 1 2, ii_interface_index = 12, ii_next_hop = Ipv4Addr 192 168 1 1\<rparr>"

lemma example_interfaces: "get_internet_interfaces example_system example_routes = Inr (Some example_interface, None)"
  by code_simp

theorem internet_interface_best_witness:
  "internet_candidate example_system example_routes (InterfaceV4 example_interface) \<and>
   {j. internet_candidate example_system example_routes (InterfaceV4 j)} \<subseteq> {j. 45 \<le> effective_metric j} \<and>
   (\<forall>i. \<not> internet_candidate example_system example_routes (InterfaceV6 i))"
proof -
  have "effective_metric example_interface = 45" by (simp add: effective_metric_def example_interface_def)
  with internet_interface_best [OF example_interfaces] show ?thesis by (simp add: subset_iff)
qed

end
