(* ===== verification/Routing_Table.thy ===== *)
theory Routing_Table
  imports Windows_Net
begin

text \<open>
  \<^verbatim>\<open>src/connection/windows/helpers/routing_table.rs\<close>: adding and deleting routes of the system.
  Rows of the system's table are built from the row that \<^verbatim>\<open>InitializeIpForwardEntry\<close> gives, and
  the error codes of the system become the results of the functions. The locale \<open>route_table\<close>
  is what the users of these functions rely on.
\<close>

section \<open>Routes\<close>

record 'a ip_route =
  rt_destination_ip_addr :: 'a
  rt_destination_prefix_length :: u8
  rt_next_hop_address :: "'a option"
  rt_interface_index :: u32

type_synonym ipv4_route = "ipv4_addr ip_route"
type_synonym ipv6_route = "ipv6_addr ip_route"

datatype route = RouteV4 ipv4_route | RouteV6 ipv6_route

datatype route_creation_error = RouteAlreadyExists | ProtocolDisabled | RouteUnknown string

datatype route_deletion_success = RouteDeleted | RouteNotFound

text \<open>The \<^verbatim>\<open>Display\<close> of a route, for a way to show its addresses.\<close>

definition route_to_string :: "('a \<Rightarrow> string) \<Rightarrow> 'a ip_route \<Rightarrow> string" where
  "route_to_string show_addr r = show_addr (rt_destination_ip_addr r) @ ''/'' @
     to_decimal (unat (rt_destination_prefix_length r)) @ '' -> '' @
     (case rt_next_hop_address r of Some a \<Rightarrow> show_addr a | None \<Rightarrow> ''On-link'') @
     '' interface '' @ to_decimal (unat (rt_interface_index r))"

section \<open>Rows\<close>

definition create_ipv4_mib_ipforward_row :: "'w ip_helper \<Rightarrow> ipv4_route \<Rightarrow> forward_row" where
  "create_ipv4_mib_ipforward_row ih route =
     (let row = InitializeIpForwardEntry ih;
          row = row\<lparr>fr_prefix_length := rt_destination_prefix_length route,
                    fr_prefix := (fr_prefix row)\<lparr>si_family := AF_INET ih,
                      sin_addr := ipv4_s_addr (rt_destination_ip_addr route)\<rparr>\<rparr>;
          row = (case rt_next_hop_address route of
                   Some next_hop \<Rightarrow> row\<lparr>fr_next_hop := (fr_next_hop row)\<lparr>si_family := AF_INET ih,
                                                sin_addr := ipv4_s_addr next_hop\<rparr>\<rparr>
                 | None \<Rightarrow> row)
      in row\<lparr>fr_interface_index := rt_interface_index route, fr_metric := 1\<rparr>)"

definition create_ipv6_mib_ipforward_row :: "'w ip_helper \<Rightarrow> ipv6_route \<Rightarrow> forward_row" where
  "create_ipv6_mib_ipforward_row ih route =
     (let row = InitializeIpForwardEntry ih;
          row = row\<lparr>fr_prefix_length := rt_destination_prefix_length route,
                    fr_prefix := (fr_prefix row)\<lparr>si_family := AF_INET6 ih,
                      sin6_addr := ipv6_octets (rt_destination_ip_addr route)\<rparr>\<rparr>;
          row = (case rt_next_hop_address route of
                   Some next_hop \<Rightarrow> row\<lparr>fr_next_hop := (fr_next_hop row)\<lparr>si_family := AF_INET6 ih,
                                                sin6_addr := ipv6_octets next_hop\<rparr>\<rparr>
                 | None \<Rightarrow> row)
      in row\<lparr>fr_interface_index := rt_interface_index route, fr_metric := 1\<rparr>)"

fun route_row :: "'w ip_helper \<Rightarrow> route \<Rightarrow> forward_row" where
  "route_row ih (RouteV4 r) = create_ipv4_mib_ipforward_row ih r"
| "route_row ih (RouteV6 r) = create_ipv6_mib_ipforward_row ih r"

fun route_interface :: "route \<Rightarrow> u32" where
  "route_interface (RouteV4 r) = rt_interface_index r"
| "route_interface (RouteV6 r) = rt_interface_index r"

section \<open>Adding\<close>

definition add_v4_route ::
  "'w ip_helper \<Rightarrow> ipv4_route \<Rightarrow> 'w \<Rightarrow> (route_creation_error + unit) \<times> 'w" where
  "add_v4_route ih route w =
     (case CreateIpForwardEntry2 ih (create_ipv4_mib_ipforward_row ih route) w of (result, w) \<Rightarrow>
        (if result = NO_ERROR ih then Inr ()
         else if result = ERROR_OBJECT_ALREADY_EXISTS ih then Inl RouteAlreadyExists
         else Inl (RouteUnknown (to_decimal (unat result))), w))"

definition add_v6_route ::
  "'w ip_helper \<Rightarrow> ipv6_route \<Rightarrow> 'w \<Rightarrow> (route_creation_error + unit) \<times> 'w" where
  "add_v6_route ih route w =
     (case CreateIpForwardEntry2 ih (create_ipv6_mib_ipforward_row ih route) w of (result, w) \<Rightarrow>
        (if result = NO_ERROR ih then Inr ()
         else if result = ERROR_OBJECT_ALREADY_EXISTS ih then Inl RouteAlreadyExists
         else if result = ERROR_NOT_FOUND ih then Inl ProtocolDisabled
         else Inl (RouteUnknown (to_decimal (unat result))), w))"

fun add_route :: "'w ip_helper \<Rightarrow> route \<Rightarrow> 'w \<Rightarrow> (route_creation_error + unit) \<times> 'w" where
  "add_route ih (RouteV4 r) w = add_v4_route ih r w"
| "add_route ih (RouteV6 r) w = add_v6_route ih r w"

section \<open>Deleting\<close>

text \<open>The three functions that delete a row classify the result alike.\<close>

definition deletion_result :: "'w ip_helper \<Rightarrow> win32_error \<Rightarrow> string + route_deletion_success" where
  "deletion_result ih result =
     (if result = 0 then Inr RouteDeleted
      else if result = ERROR_OBJECT_NOT_FOUND ih then Inr RouteNotFound
      else Inl (to_decimal (unat result)))"

definition delete_v4_route ::
  "'w ip_helper \<Rightarrow> ipv4_route \<Rightarrow> 'w \<Rightarrow> (string + route_deletion_success) \<times> 'w" where
  "delete_v4_route ih route w =
     map_prod (deletion_result ih) id (DeleteIpForwardEntry2 ih (create_ipv4_mib_ipforward_row ih route) w)"

definition delete_v6_route ::
  "'w ip_helper \<Rightarrow> ipv6_route \<Rightarrow> 'w \<Rightarrow> (string + route_deletion_success) \<times> 'w" where
  "delete_v6_route ih route w =
     map_prod (deletion_result ih) id (DeleteIpForwardEntry2 ih (create_ipv6_mib_ipforward_row ih route) w)"

fun delete_route :: "'w ip_helper \<Rightarrow> route \<Rightarrow> 'w \<Rightarrow> (string + route_deletion_success) \<times> 'w" where
  "delete_route ih (RouteV4 r) w = delete_v4_route ih r w"
| "delete_route ih (RouteV6 r) w = delete_v6_route ih r w"

definition get_interface_rows :: "'w ip_helper \<Rightarrow> u32 \<Rightarrow> 'w \<Rightarrow> forward_row list" where
  "get_interface_rows ih interface_index w =
     (case GetIpForwardTable2 ih w of
        Inl _ \<Rightarrow> []
      | Inr None \<Rightarrow> []
      | Inr (Some rows) \<Rightarrow> filter (\<lambda>r. fr_interface_index r = interface_index) rows)"

fun delete_rows ::
  "'w ip_helper \<Rightarrow> forward_row list \<Rightarrow> 'w \<Rightarrow> (string + route_deletion_success) list \<times> 'w" where
  "delete_rows ih [] w = ([], w)"
| "delete_rows ih (row # rows) w =
     (case DeleteIpForwardEntry2 ih row w of (result, w) \<Rightarrow>
        map_prod (Cons (deletion_result ih result)) id (delete_rows ih rows w))"

definition delete_routes :: "'w ip_helper \<Rightarrow> u32 \<Rightarrow> 'w \<Rightarrow> (string + route_deletion_success) list \<times> 'w" where
  "delete_routes ih interface_index w = delete_rows ih (get_interface_rows ih interface_index w) w"

section \<open>Rows as text\<close>

definition sockaddr_to_string :: "'w ip_helper \<Rightarrow> sockaddr_inet \<Rightarrow> string" where
  "sockaddr_to_string ih ip =
     (if si_family ip = AF_INET ih
      then ipv4_to_string (Ipv4Addr (u32_byte (sin_addr ip) 0) (u32_byte (sin_addr ip) 1)
             (u32_byte (sin_addr ip) 2) (u32_byte (sin_addr ip) 3))
      else if si_family ip = AF_INET6 ih
      then ipv6_to_string (ipv6_of_words (ipv6_words (sin6_addr ip)))
      else [])"

definition row_to_string :: "'w ip_helper \<Rightarrow> forward_row \<Rightarrow> string" where
  "row_to_string ih row = sockaddr_to_string ih (fr_prefix row) @ ''/'' @
     to_decimal (unat (fr_prefix_length row)) @ '' -> '' @ sockaddr_to_string ih (fr_next_hop row) @
     '' interface '' @ to_decimal (unat (fr_interface_index row)) @
     '' (Metric '' @ to_decimal (unat (fr_metric row)) @ '')''"

section \<open>The contract\<close>

text \<open>
  The documented behaviour of the system's functions. \<open>rk\<close> is what the system identifies a
  route by, which includes its interface, and \<open>keys\<close> the routes of its table: a creation that
  succeeds adds a route that was not there, a deletion that succeeds removes the route, one
  that does not find it says so, and calls that fail change nothing.
\<close>

definition route_contract ::
  "'w ip_helper \<Rightarrow> (forward_row \<Rightarrow> 'k) \<Rightarrow> ('k \<Rightarrow> u32) \<Rightarrow> ('w \<Rightarrow> 'k set) \<Rightarrow> bool" where
  "route_contract ih rk ifx keys \<longleftrightarrow>
     (\<forall>row. ifx (rk row) = fr_interface_index row) \<and>
     (\<forall>row w. case CreateIpForwardEntry2 ih row w of (r, w') \<Rightarrow>
        if r = NO_ERROR ih then rk row \<notin> keys w \<and> keys w' = insert (rk row) (keys w) else keys w' = keys w) \<and>
     (\<forall>row w. case DeleteIpForwardEntry2 ih row w of (r, w') \<Rightarrow>
        if r = 0 then keys w' = keys w - {rk row}
        else keys w' = keys w \<and> (r = ERROR_OBJECT_NOT_FOUND ih \<longrightarrow> rk row \<notin> keys w)) \<and>
     (\<forall>w rows. GetIpForwardTable2 ih w = Inr (Some rows) \<longrightarrow> rk ` set rows = keys w)"

text \<open>
  What the functions on routes promise on a system that keeps the contract: an addition is
  reported exactly, and a deletion without an error leaves the route out of the table.
\<close>

locale route_table =
  fixes valid :: "'e \<Rightarrow> bool"
    and has :: "'e \<Rightarrow> 'w \<Rightarrow> 'r \<Rightarrow> bool"
    and add :: "'e \<Rightarrow> 'r \<Rightarrow> 'w \<Rightarrow> ('x + unit) \<times> 'w"
    and del :: "'e \<Rightarrow> 'r \<Rightarrow> 'w \<Rightarrow> ('y + 'z) \<times> 'w"
    and same :: "'e \<Rightarrow> 'r \<Rightarrow> 'r \<Rightarrow> bool"
  assumes add_law: "valid e \<Longrightarrow> add e r w = (res, w') \<Longrightarrow>
      has e w' q \<longleftrightarrow> has e w q \<or> res = Inr () \<and> same e r q"
    and add_new: "valid e \<Longrightarrow> add e r w = (Inr (), w') \<Longrightarrow> \<not> has e w r"
    and del_law: "valid e \<Longrightarrow> del e r w = (res', w') \<Longrightarrow>
      has e w' q \<Longrightarrow> has e w q \<and> (same e r q \<longrightarrow> (\<exists>x. res' = Inl x))"
    and del_other: "valid e \<Longrightarrow> del e r w = (res', w') \<Longrightarrow> has e w q \<Longrightarrow> \<not> same e r q \<Longrightarrow> has e w' q"
    and same_refl: "same e r r"
begin

text \<open>Adding a route and deleting it gives the table back.\<close>

lemma add_del:
  assumes "valid e" "add e r w = (Inr (), w1)" "del e r w1 = (Inr ok, w2)"
  shows "has e w2 q \<Longrightarrow> has e w q" and "has e w q \<Longrightarrow> \<not> same e r q \<Longrightarrow> has e w2 q"
  using add_law [OF assms(1,2), of q] del_law [OF assms(1,3), of q] del_other [OF assms(1,3), of q] by auto

end

section \<open>The functions keep the contract\<close>

lemma route_contractD:
  assumes "route_contract ih rk ifx keys"
  shows "ifx (rk row) = fr_interface_index row"
    and "CreateIpForwardEntry2 ih row w = (r, w') \<Longrightarrow>
       if r = NO_ERROR ih then rk row \<notin> keys w \<and> keys w' = insert (rk row) (keys w) else keys w' = keys w"
    and "DeleteIpForwardEntry2 ih row w = (r', w') \<Longrightarrow>
       if r' = 0 then keys w' = keys w - {rk row}
       else keys w' = keys w \<and> (r' = ERROR_OBJECT_NOT_FOUND ih \<longrightarrow> rk row \<notin> keys w)"
    and "GetIpForwardTable2 ih w = Inr (Some rows) \<Longrightarrow> rk ` set rows = keys w"
proof -
  note C = assms [unfolded route_contract_def]
  show "ifx (rk row) = fr_interface_index row" using C by blast
  show "CreateIpForwardEntry2 ih row w = (r, w') \<Longrightarrow>
       if r = NO_ERROR ih then rk row \<notin> keys w \<and> keys w' = insert (rk row) (keys w) else keys w' = keys w"
    using C [THEN conjunct2, THEN conjunct1, rule_format, where row = row and w = w] by simp
  show "DeleteIpForwardEntry2 ih row w = (r', w') \<Longrightarrow>
       if r' = 0 then keys w' = keys w - {rk row}
       else keys w' = keys w \<and> (r' = ERROR_OBJECT_NOT_FOUND ih \<longrightarrow> rk row \<notin> keys w)"
    using C [THEN conjunct2, THEN conjunct2, THEN conjunct1, rule_format, where row = row and w = w] by simp
  show "GetIpForwardTable2 ih w = Inr (Some rows) \<Longrightarrow> rk ` set rows = keys w" using C by blast
qed

lemma add_route_system:
  "add_route ih r w = (res, w') \<Longrightarrow>
   \<exists>e. CreateIpForwardEntry2 ih (route_row ih r) w = (e, w') \<and> (res = Inr () \<longleftrightarrow> e = NO_ERROR ih)"
  by (cases r) (auto simp: add_v4_route_def add_v6_route_def split: prod.splits if_splits)

lemma delete_route_system:
  "delete_route ih r w = (res, w') \<Longrightarrow>
   \<exists>e. DeleteIpForwardEntry2 ih (route_row ih r) w = (e, w') \<and> res = deletion_result ih e"
  by (cases r) (auto simp: delete_v4_route_def delete_v6_route_def map_prod_def split: prod.splits)

lemma deletion_result_Inr: "deletion_result ih e = Inr x \<Longrightarrow> e = 0 \<or> e = ERROR_OBJECT_NOT_FOUND ih"
  by (simp add: deletion_result_def split: if_splits)

lemma add_route_keys:
  assumes C: "route_contract ih rk ifx keys" and "add_route ih r w = (res, w')"
  shows "keys w' = (if res = Inr () then insert (rk (route_row ih r)) (keys w) else keys w)"
    and "res = Inr () \<Longrightarrow> rk (route_row ih r) \<notin> keys w"
proof -
  from add_route_system [OF assms(2)] obtain c where
    c: "CreateIpForwardEntry2 ih (route_row ih r) w = (c, w')" "res = Inr () \<longleftrightarrow> c = NO_ERROR ih" by blast
  from route_contractD(2) [OF C c(1)] c(2)
  show "keys w' = (if res = Inr () then insert (rk (route_row ih r)) (keys w) else keys w)"
    and "res = Inr () \<Longrightarrow> rk (route_row ih r) \<notin> keys w" by simp_all
qed

lemma delete_route_keys:
  assumes C: "route_contract ih rk ifx keys" and "delete_route ih r w = (res, w')"
  shows "keys w' = keys w \<or> keys w' = keys w - {rk (route_row ih r)}"
    and "res = Inr ok \<Longrightarrow> rk (route_row ih r) \<notin> keys w'"
proof -
  from delete_route_system [OF assms(2)] obtain c where
    c: "DeleteIpForwardEntry2 ih (route_row ih r) w = (c, w')" "res = deletion_result ih c" by blast
  note D = route_contractD(3) [OF C c(1)]
  show "keys w' = keys w \<or> keys w' = keys w - {rk (route_row ih r)}" using D by (simp split: if_splits)
  assume "res = Inr ok"
  then have "c = 0 \<or> c = ERROR_OBJECT_NOT_FOUND ih" using c(2) deletion_result_Inr by metis
  with D show "rk (route_row ih r) \<notin> keys w'" by (cases "c = 0") auto
qed

interpretation routing: route_table
  "\<lambda>(ih, rk, ifx, keys). route_contract ih rk ifx keys"
  "\<lambda>(ih, rk, ifx, keys) w r. rk (route_row ih r) \<in> keys w"
  "\<lambda>(ih, rk, ifx, keys). add_route ih"
  "\<lambda>(ih, rk, ifx, keys). delete_route ih"
  "\<lambda>(ih, rk, ifx, keys) r q. rk (route_row ih r) = rk (route_row ih q)"
proof (unfold_locales, goal_cases)
  case (1 e r w res w' q)
  obtain ih rk ifx keys where e: "e = (ih, rk, ifx, keys)" by (cases e)
  from add_route_keys(1) [of ih rk ifx keys r w res w'] 1 show ?case by (simp add: e) metis
next
  case (2 e r w w')
  obtain ih rk ifx keys where e: "e = (ih, rk, ifx, keys)" by (cases e)
  from add_route_keys(2) [of ih rk ifx keys r w "Inr ()" w'] 2 show ?case by (simp add: e)
next
  case (3 e r w res' w' q)
  obtain ih rk ifx keys where e: "e = (ih, rk, ifx, keys)" by (cases e)
  note D = delete_route_keys [of ih rk ifx keys r w res' w']
  from 3 e have in': "rk (route_row ih q) \<in> keys w'" by simp
  have "rk (route_row ih q) \<in> keys w" using D(1) 3(1,2) in' by (auto simp: e)
  moreover have "\<exists>x. res' = Inl x" if "rk (route_row ih r) = rk (route_row ih q)"
    using D(2) 3(1,2) in' that by (cases res') (auto simp: e)
  ultimately show ?case by (simp add: e)
next
  case (4 e r w res' w' q)
  obtain ih rk ifx keys where e: "e = (ih, rk, ifx, keys)" by (cases e)
  have "keys w' = keys w \<or> keys w' = keys w - {rk (route_row ih r)}"
    by (rule delete_route_keys(1) [of ih rk ifx keys r w res' w']) (use 4(1,2) in \<open>simp_all add: e\<close>)
  moreover have "rk (route_row ih q) \<in> keys w" "rk (route_row ih r) \<noteq> rk (route_row ih q)"
    using 4(3,4) by (simp_all add: e)
  ultimately show ?case by (simp only: e prod.case) (metis Diff_iff singletonD)
next
  case (5 e r)
  show ?case by (cases e) simp
qed

lemma delete_rows_keys:
  assumes C: "route_contract ih rk ifx keys"
  shows "delete_rows ih rows w = (res, w') \<Longrightarrow> keys w' \<subseteq> keys w \<and> keys w - keys w' \<subseteq> rk ` set rows \<and>
     ((\<forall>x\<in>set res. \<not> isl x) \<longrightarrow> keys w' \<inter> rk ` set rows = {})"
proof (induction rows arbitrary: w res)
  case (Cons row rows)
  obtain c w1 where d: "DeleteIpForwardEntry2 ih row w = (c, w1)" by (cases "DeleteIpForwardEntry2 ih row w")
  obtain res1 where rest: "delete_rows ih rows w1 = (res1, w')" and res: "res = deletion_result ih c # res1"
    using Cons.prems d by (auto simp: map_prod_def split: prod.splits)
  note D = route_contractD(3) [OF C d] and IH = Cons.IH [OF rest]
  have sub: "keys w1 \<subseteq> keys w" "keys w - keys w1 \<subseteq> {rk row}" using D by (auto split: if_splits)
  have "rk row \<notin> keys w1" if "\<not> isl (deletion_result ih c)"
  proof -
    have "c = 0 \<or> c = ERROR_OBJECT_NOT_FOUND ih" using that by (simp add: deletion_result_def split: if_splits)
    with D show ?thesis by (cases "c = 0") simp_all
  qed
  with sub IH show ?case by (simp add: res) blast
qed simp

lemma mib_row_interface [simp]:
  "fr_interface_index (create_ipv4_mib_ipforward_row ih r4) = rt_interface_index r4"
  "fr_interface_index (create_ipv6_mib_ipforward_row ih r6) = rt_interface_index r6"
  by (simp_all add: create_ipv4_mib_ipforward_row_def create_ipv6_mib_ipforward_row_def Let_def)

lemma route_row_interface [simp]: "fr_interface_index (route_row ih r) = route_interface r"
  by (cases r) simp_all

lemma table_system_contract:
  assumes "\<And>rows w. get (put rows w) = rows"
  shows "route_contract (table_system get put addresses) route_key (\<lambda>(_, _, _, i). i) (\<lambda>w. route_key ` set (get w))"
  using assms by (auto simp: route_contract_def table_system_def route_key_def)

lemma delete_routes_keys:
  assumes "route_contract ih rk ifx keys" and "GetIpForwardTable2 ih w = Inr (Some rows)"
    and "delete_routes ih interface_index w = (res, w')"
  shows "{k \<in> keys w'. ifx k \<noteq> interface_index} = {k \<in> keys w. ifx k \<noteq> interface_index} \<and>
     keys w' \<subseteq> keys w \<and> ((\<forall>x\<in>set res. \<not> isl x) \<longrightarrow> (\<forall>k\<in>keys w'. ifx k \<noteq> interface_index))"
proof -
  let ?rows = "get_interface_rows ih interface_index w"
  have D: "delete_rows ih ?rows w = (res, w')" using assms(3) by (simp add: delete_routes_def)
  have "set ?rows = {r \<in> set rows. ifx (rk r) = interface_index}"
    by (simp add: get_interface_rows_def assms(2) route_contractD(1) [OF assms(1)])
  then have "rk ` set ?rows = {k \<in> keys w. ifx k = interface_index}"
    using route_contractD(4) [OF assms(1,2)] by auto
  with delete_rows_keys [OF assms(1) D] show ?thesis by auto
qed

section \<open>Properties\<close>

text \<open>Deleting the routes of an interface touches no route of another interface, and unless one
  of the deletions reports an error no route of the interface is left.\<close>

theorem delete_routes_clears:
  assumes "route_contract ih rk ifx keys" and "GetIpForwardTable2 ih w = Inr (Some rows)"
    and "delete_routes ih interface_index w = (res, w')"
  shows "{k \<in> keys w'. ifx k \<noteq> interface_index} = {k \<in> keys w. ifx k \<noteq> interface_index} \<and>
     keys w' \<subseteq> keys w \<and> ((\<forall>x\<in>set res. \<not> isl x) \<longrightarrow> (\<forall>k\<in>keys w'. ifx k \<noteq> interface_index))"
  using assms by (rule delete_routes_keys)

text \<open>C29: An address written into a row of the system's table is the address that is read back from
  it, for destinations and next hops of both protocols, whatever the byte orders in between.\<close>

theorem mib_row_roundtrip:
  assumes "AF_INET ih \<noteq> AF_INET6 ih"
  shows "sockaddr_inet_to_ip_addr ih (fr_prefix (create_ipv4_mib_ipforward_row ih r4)) =
       Some (V4 (rt_destination_ip_addr r4)) \<and>
     sockaddr_inet_to_ip_addr ih (fr_prefix (create_ipv6_mib_ipforward_row ih r6)) =
       Some (V6 (rt_destination_ip_addr r6)) \<and>
     (\<forall>a. rt_next_hop_address r4 = Some a \<longrightarrow>
       sockaddr_inet_to_ip_addr ih (fr_next_hop (create_ipv4_mib_ipforward_row ih r4)) = Some (V4 a)) \<and>
     (\<forall>a. rt_next_hop_address r6 = Some a \<longrightarrow>
       sockaddr_inet_to_ip_addr ih (fr_next_hop (create_ipv6_mib_ipforward_row ih r6)) = Some (V6 a))"
  using assms
  by (simp add: create_ipv4_mib_ipforward_row_def create_ipv6_mib_ipforward_row_def sockaddr_inet_to_ip_addr_def
      ipv4_s_addr_roundtrip ipv6_octets_roundtrip Let_def split: option.split)

text \<open>A table with a route of the adapter, interface 17, and one of another interface.\<close>

definition some_route :: "u32 \<Rightarrow> ipv4_route" where
  "some_route index = \<lparr>rt_destination_ip_addr = Ipv4Addr 10 2 0 1, rt_destination_prefix_length = 32,
     rt_next_hop_address = Some (Ipv4Addr 192 168 1 1), rt_interface_index = index\<rparr>"

abbreviation plain_system :: "forward_row list ip_helper" where
  "plain_system \<equiv> table_system (\<lambda>w. w) (\<lambda>rows _. rows) []"

definition two_routes :: "forward_row list" where
  "two_routes = map (\<lambda>i. create_ipv4_mib_ipforward_row plain_system (some_route i)) [17, 12]"

theorem delete_routes_clears_witness:
  "let w' = snd (delete_routes plain_system 17 two_routes) in
   {k \<in> route_key ` set w'. (case k of (_, _, _, i) \<Rightarrow> i) \<noteq> 17} =
     {k \<in> route_key ` set two_routes. (case k of (_, _, _, i) \<Rightarrow> i) \<noteq> 17} \<and>
   17 \<notin> (\<lambda>k. case k of (_, _, _, i) \<Rightarrow> i) ` route_key ` set w'"
proof -
  have "fst (delete_routes plain_system 17 two_routes) = [Inr RouteDeleted]" by code_simp
  then have ok: "\<forall>x\<in>set (fst (delete_routes plain_system 17 two_routes)). \<not> isl x" by simp
  have "GetIpForwardTable2 plain_system two_routes = Inr (Some two_routes)" by (simp add: table_system_def)
  from delete_routes_clears [OF table_system_contract this prod.collapse [symmetric], of 17] ok
  show ?thesis by (simp add: Let_def image_iff split: prod.splits)
qed

theorem mib_row_roundtrip_witness:
  "sockaddr_inet_to_ip_addr plain_system (fr_prefix (create_ipv4_mib_ipforward_row plain_system (some_route 3))) =
     Some (V4 (Ipv4Addr 10 2 0 1)) \<and>
   sockaddr_inet_to_ip_addr plain_system (fr_next_hop (create_ipv4_mib_ipforward_row plain_system (some_route 3))) =
     Some (V4 (Ipv4Addr 192 168 1 1))"
proof -
  have "AF_INET plain_system \<noteq> AF_INET6 plain_system" by (simp add: table_system_def)
  from mib_row_roundtrip [OF this, of "some_route 3"] show ?thesis by (simp add: some_route_def)
qed

end
