(* ===== verification/Windows_Routes.thy ===== *)
theory Windows_Routes
  imports Internet_Interface Routing_Table Vec_Utils
begin

text \<open>
  \<^verbatim>\<open>src/utils/windows/registry_editor.rs\<close> and \<^verbatim>\<open>src/connection/windows/helpers/routes.rs\<close>: the
  routes of a session. Routes of the adapter go away with it; the routes to the servers
  belong to another interface and survive a crash, so their texts are kept in the registry
  until they are deleted. The registry and the JSON form of a route (crates \<^verbatim>\<open>winreg\<close> and
  \<^verbatim>\<open>serde_json\<close>) are parameters, with the system's functions in the record \<open>route_env\<close>.
\<close>

section \<open>The registry (\<^verbatim>\<open>registry_editor.rs\<close>)\<close>

text \<open>A path is the list of its components under the key of the local machine.\<close>

type_synonym reg_path = "string list"

record 'w registry =
  reg_open_read :: "reg_path \<Rightarrow> 'w \<Rightarrow> unit io_result"
  reg_open_all_access :: "reg_path \<Rightarrow> 'w \<Rightarrow> unit io_result"
  reg_create :: "reg_path \<Rightarrow> 'w \<Rightarrow> unit io_result \<times> 'w"
  reg_enum_keys :: "reg_path \<Rightarrow> 'w \<Rightarrow> string io_result list"
  reg_get_string :: "reg_path \<Rightarrow> string \<Rightarrow> 'w \<Rightarrow> string io_result"
  reg_set_string :: "reg_path \<Rightarrow> string \<Rightarrow> string \<Rightarrow> 'w \<Rightarrow> unit io_result \<times> 'w"
  reg_get_strings :: "reg_path \<Rightarrow> string \<Rightarrow> 'w \<Rightarrow> string list io_result"
  reg_set_strings :: "reg_path \<Rightarrow> string \<Rightarrow> string list \<Rightarrow> 'w \<Rightarrow> unit io_result \<times> 'w"

definition ADAPTER_NAME :: string where
  "ADAPTER_NAME = ''ProTUN''"

definition get_profiles_path :: reg_path where
  "get_profiles_path = [''SOFTWARE'', ''Microsoft'', ''Windows NT'', ''CurrentVersion'', ''NetworkList'', ''Profiles'']"

definition get_protun_path :: reg_path where
  "get_protun_path = [''SOFTWARE'', ''Proton AG'', ''Proton VPN'', ''ProTUN'']"

definition set_network_adapter_status_text :: "'w registry \<Rightarrow> string \<Rightarrow> 'w \<Rightarrow> 'w" where
  "set_network_adapter_status_text reg txt w =
     (case reg_open_all_access reg get_profiles_path w of
        Inl _ \<Rightarrow> w
      | Inr _ \<Rightarrow> fold (\<lambda>key w.
          case key of
            Inl _ \<Rightarrow> w
          | Inr profile \<Rightarrow>
              let path = get_profiles_path @ [profile] in
              (case reg_open_all_access reg path w of
                 Inl _ \<Rightarrow> w
               | Inr _ \<Rightarrow>
                   if reg_get_string reg path ''Description'' w = Inr ADAPTER_NAME
                   then snd (reg_set_string reg path ''ProfileName'' txt w) else w))
          (reg_enum_keys reg get_profiles_path w) w)"

definition get_created_routes :: "'w registry \<Rightarrow> 'w \<Rightarrow> string list" where
  "get_created_routes reg w =
     (case reg_open_read reg get_protun_path w of
        Inl _ \<Rightarrow> []
      | Inr _ \<Rightarrow>
          (case reg_get_strings reg get_protun_path ''RoutingTable'' w of
             Inr routes \<Rightarrow> distinct_vec (filter (\<lambda>s. length s > 0) routes)
           | Inl _ \<Rightarrow> []))"

definition set_created_routes :: "'w registry \<Rightarrow> string list \<Rightarrow> 'w \<Rightarrow> 'w" where
  "set_created_routes reg routes w =
     (let routes = distinct_vec (filter (\<lambda>s. length s > 0) routes) in
      case reg_create reg get_protun_path w of
        (Inr _, w) \<Rightarrow> snd (reg_set_strings reg get_protun_path ''RoutingTable'' routes w)
      | (Inl _, w) \<Rightarrow> w)"

section \<open>The routes of a session (\<^verbatim>\<open>routes.rs\<close>)\<close>

record 'w route_env =
  re_ip :: "'w ip_helper"
  re_reg :: "'w registry"
  re_to_json :: "route \<Rightarrow> string + string"
  re_from_json :: "string \<Rightarrow> string + route"

record routes =
  routes_interface_index :: u32

definition create_ipv4_host_route :: "ipv4_addr \<Rightarrow> ipv4_addr option \<Rightarrow> u32 \<Rightarrow> ipv4_route" where
  "create_ipv4_host_route server_ip next_hop index =
     \<lparr>rt_destination_ip_addr = server_ip, rt_destination_prefix_length = 32,
      rt_next_hop_address = next_hop, rt_interface_index = index\<rparr>"

definition create_ipv4_local_agent_route :: "ipv4_addr \<Rightarrow> u32 \<Rightarrow> ipv4_route" where
  "create_ipv4_local_agent_route server_ip index = create_ipv4_host_route server_ip None index"

definition create_ipv4_any_route :: "u32 \<Rightarrow> ipv4_route" where
  "create_ipv4_any_route index =
     \<lparr>rt_destination_ip_addr = Ipv4Addr 0 0 0 0, rt_destination_prefix_length = 0,
      rt_next_hop_address = None, rt_interface_index = index\<rparr>"

definition create_ipv6_host_route :: "ipv6_addr \<Rightarrow> ipv6_addr option \<Rightarrow> u32 \<Rightarrow> ipv6_route" where
  "create_ipv6_host_route server_ip next_hop index =
     \<lparr>rt_destination_ip_addr = server_ip, rt_destination_prefix_length = 128,
      rt_next_hop_address = next_hop, rt_interface_index = index\<rparr>"

definition create_ipv6_local_agent_route :: "ipv6_addr \<Rightarrow> u32 \<Rightarrow> ipv6_route" where
  "create_ipv6_local_agent_route server_ip index = create_ipv6_host_route server_ip None index"

definition create_ipv6_any_route :: "u32 \<Rightarrow> ipv6_route" where
  "create_ipv6_any_route index =
     \<lparr>rt_destination_ip_addr = Ipv6Addr 0 0 0 0 0 0 0 0, rt_destination_prefix_length = 0,
      rt_next_hop_address = None, rt_interface_index = index\<rparr>"

definition create_server_routes :: "'w ip_helper \<Rightarrow> ip_addr list \<Rightarrow> 'w \<Rightarrow> protun_fatal_error + route list" where
  "create_server_routes ih server_ips w =
     (case get_internet_interfaces ih w of
        Inl e \<Rightarrow> Inl e
      | Inr (v4, v6) \<Rightarrow> Inr (List.map_filter (\<lambda>ip.
          case ip of
            V4 a \<Rightarrow> map_option (\<lambda>i. RouteV4 (create_ipv4_host_route a (Some (ii_next_hop i)) (ii_interface_index i))) v4
          | V6 a \<Rightarrow> map_option (\<lambda>i. RouteV6 (create_ipv6_host_route a (Some (ii_next_hop i)) (ii_interface_index i))) v6)
          server_ips))"

text \<open>One server route: when it could be added, its text is appended to the list.\<close>

definition add_server_route :: "'w route_env \<Rightarrow> route \<Rightarrow> string list \<times> 'w \<Rightarrow> string list \<times> 'w" where
  "add_server_route env route = (\<lambda>(created, w).
     case add_route (re_ip env) route w of
       (Inr _, w) \<Rightarrow> (case re_to_json env route of Inr json \<Rightarrow> (created @ [json], w) | Inl _ \<Rightarrow> (created, w))
     | (Inl _, w) \<Rightarrow> (created, w))"

definition add_adapter_routes :: "'w route_env \<Rightarrow> ipv4_addr \<Rightarrow> ipv6_addr option \<Rightarrow> u32 \<Rightarrow> 'w \<Rightarrow> 'w" where
  "add_adapter_routes env server_v4 server_v6 index w =
     (let w = snd (add_v4_route (re_ip env) (create_ipv4_local_agent_route server_v4 index) w);
          w = snd (add_v4_route (re_ip env) (create_ipv4_any_route index) w)
      in case server_v6 of
           Some a \<Rightarrow>
             let w = snd (add_v6_route (re_ip env) (create_ipv6_local_agent_route a index) w)
             in snd (add_v6_route (re_ip env) (create_ipv6_any_route index) w)
         | None \<Rightarrow> w)"

definition routes_create ::
  "'w route_env \<Rightarrow> ipv4_addr \<Rightarrow> ipv6_addr option \<Rightarrow> u32 \<Rightarrow> ip_addr list \<Rightarrow> 'w \<Rightarrow> (protun_fatal_error + routes) \<times> 'w" where
  "routes_create env server_v4 server_v6 index server_ips w =
     (let w = add_adapter_routes env server_v4 server_v6 index w;
          created = get_created_routes (re_reg env) w
      in case create_server_routes (re_ip env) server_ips w of
           Inl e \<Rightarrow> (Inl e, w)
         | Inr server_routes \<Rightarrow>
             let (created, w) = fold (add_server_route env) server_routes (created, w)
             in (Inr \<lparr>routes_interface_index = index\<rparr>, set_created_routes (re_reg env) created w))"

definition delete_created_route :: "'w route_env \<Rightarrow> string \<Rightarrow> string list \<times> 'w \<Rightarrow> string list \<times> 'w" where
  "delete_created_route env created_route = (\<lambda>(reinsert, w).
     case re_from_json env created_route of
       Inr route \<Rightarrow>
         (case delete_route (re_ip env) route w of
            (Inl _, w) \<Rightarrow> (reinsert @ [created_route], w)
          | (Inr _, w) \<Rightarrow> (reinsert, w))
     | Inl _ \<Rightarrow> (reinsert, w))"

definition delete_created_routes :: "'w route_env \<Rightarrow> 'w \<Rightarrow> 'w" where
  "delete_created_routes env w =
     (let (reinsert, w) = fold (delete_created_route env) (get_created_routes (re_reg env) w) ([], w)
      in set_created_routes (re_reg env) reinsert w)"

definition routes_delete :: "'w route_env \<Rightarrow> routes \<Rightarrow> 'w \<Rightarrow> 'w" where
  "routes_delete env routes w =
     delete_created_routes env (snd (delete_routes (re_ip env) (routes_interface_index routes) w))"

section \<open>Contracts\<close>

text \<open>
  What is assumed of the registry, of the system and of the JSON form: the registry keeps
  what is written to it and writing to it changes no route; changing routes does not change
  the registry; the text of a route is not empty and gives the route back.
\<close>

definition registry_contract :: "'w route_env \<Rightarrow> ('w \<Rightarrow> 'k set) \<Rightarrow> bool" where
  "registry_contract env keys \<longleftrightarrow>
     (\<forall>p w. \<exists>w'. reg_create (re_reg env) p w = (Inr (), w') \<and> keys w' = keys w) \<and>
     (\<forall>p n v w. \<exists>w'. reg_set_strings (re_reg env) p n v w = (Inr (), w') \<and> keys w' = keys w \<and>
        reg_open_read (re_reg env) p w' = Inr () \<and> reg_get_strings (re_reg env) p n w' = Inr v) \<and>
     (\<forall>row w p n. reg_open_read (re_reg env) p (snd (CreateIpForwardEntry2 (re_ip env) row w)) = reg_open_read (re_reg env) p w \<and>
        reg_get_strings (re_reg env) p n (snd (CreateIpForwardEntry2 (re_ip env) row w)) = reg_get_strings (re_reg env) p n w) \<and>
     (\<forall>row w p n. reg_open_read (re_reg env) p (snd (DeleteIpForwardEntry2 (re_ip env) row w)) = reg_open_read (re_reg env) p w \<and>
        reg_get_strings (re_reg env) p n (snd (DeleteIpForwardEntry2 (re_ip env) row w)) = reg_get_strings (re_reg env) p n w)"

definition json_contract :: "'w route_env \<Rightarrow> bool" where
  "json_contract env \<longleftrightarrow>
     (\<forall>r. \<exists>s. re_to_json env r = Inr s \<and> s \<noteq> [] \<and> re_from_json env s = Inr r)"

text \<open>The routes that the registry records, and the routes a list of texts stands for.\<close>

definition decoded :: "'w route_env \<Rightarrow> string list \<Rightarrow> route set" where
  "decoded env ss = {r. \<exists>s\<in>set ss. re_from_json env s = Inr r}"

definition recorded :: "'w route_env \<Rightarrow> 'w \<Rightarrow> route set" where
  "recorded env w = decoded env (get_created_routes (re_reg env) w)"

section \<open>Lemmas\<close>

lemma decoded_append [simp]: "decoded env (xs @ ys) = decoded env xs \<union> decoded env ys"
  by (auto simp: decoded_def)

lemma decoded_Nil [simp]: "decoded env [] = {}"
  by (simp add: decoded_def)

lemma decoded_mono: "set xs \<subseteq> set ys \<Longrightarrow> decoded env xs \<subseteq> decoded env ys"
  by (auto simp: decoded_def)

lemma created_routes_nonempty: "s \<in> set (get_created_routes reg w) \<Longrightarrow> s \<noteq> []"
  by (auto simp: get_created_routes_def split: sum.splits)

lemma registry_contractD:
  assumes "registry_contract env keys"
  shows "\<exists>w'. reg_create (re_reg env) p w = (Inr (), w') \<and> keys w' = keys w"
    and "\<exists>w'. reg_set_strings (re_reg env) p n v w = (Inr (), w') \<and> keys w' = keys w \<and>
        reg_open_read (re_reg env) p w' = Inr () \<and> reg_get_strings (re_reg env) p n w' = Inr v"
    and "get_created_routes (re_reg env) (snd (CreateIpForwardEntry2 (re_ip env) row w)) = get_created_routes (re_reg env) w"
    and "get_created_routes (re_reg env) (snd (DeleteIpForwardEntry2 (re_ip env) row w)) = get_created_routes (re_reg env) w"
  using assms unfolding registry_contract_def get_created_routes_def by (simp_all cong: sum.case_cong)

text \<open>Writing the texts: the registry then holds the non-empty ones, and the routes are as before.\<close>

lemma set_created_routes_keeps:
  assumes "registry_contract env keys"
  shows "keys (set_created_routes (re_reg env) ss w) = keys w"
    and "set (get_created_routes (re_reg env) (set_created_routes (re_reg env) ss w)) = {s \<in> set ss. s \<noteq> []}"
proof -
  let ?v = "distinct_vec (filter (\<lambda>s. length s > 0) ss)"
  obtain w1 where c: "reg_create (re_reg env) get_protun_path w = (Inr (), w1)" "keys w1 = keys w"
    using registry_contractD(1) [OF assms, of get_protun_path w] by blast
  obtain w2 where s: "reg_set_strings (re_reg env) get_protun_path ''RoutingTable'' ?v w1 = (Inr (), w2)" "keys w2 = keys w1"
      "reg_open_read (re_reg env) get_protun_path w2 = Inr ()"
      "reg_get_strings (re_reg env) get_protun_path ''RoutingTable'' w2 = Inr ?v"
    using registry_contractD(2) [OF assms, of get_protun_path "''RoutingTable''" ?v w1] by blast
  have eq: "set_created_routes (re_reg env) ss w = w2" by (simp add: set_created_routes_def c s(1) [simplified] Let_def)
  show "keys (set_created_routes (re_reg env) ss w) = keys w" by (simp add: eq s(2) c(2))
  have "get_created_routes (re_reg env) w2 = distinct_vec (filter (\<lambda>s. length s > 0) ?v)"
    unfolding get_created_routes_def s(3,4) by simp
  then show "set (get_created_routes (re_reg env) (set_created_routes (re_reg env) ss w)) = {s \<in> set ss. s \<noteq> []}"
    unfolding eq by auto
qed

lemma add_route_registry:
  assumes "registry_contract env keys" "add_route (re_ip env) r w = (res, w')"
  shows "get_created_routes (re_reg env) w' = get_created_routes (re_reg env) w"
  using add_route_system [OF assms(2)] registry_contractD(3) [OF assms(1), of "route_row (re_ip env) r" w] by auto

lemma delete_route_registry:
  assumes "registry_contract env keys" "delete_route (re_ip env) r w = (res, w')"
  shows "get_created_routes (re_reg env) w' = get_created_routes (re_reg env) w"
  using delete_route_system [OF assms(2)] registry_contractD(4) [OF assms(1), of "route_row (re_ip env) r" w] by auto

lemma delete_rows_registry:
  assumes "registry_contract env keys"
  shows "get_created_routes (re_reg env) (snd (delete_rows (re_ip env) rows w)) = get_created_routes (re_reg env) w"
proof (induction rows arbitrary: w)
  case (Cons row rows)
  then show ?case using registry_contractD(4) [OF assms, of row w]
    by (cases "DeleteIpForwardEntry2 (re_ip env) row w") simp
qed simp

text \<open>Adding one route of the adapter.\<close>

lemma add_one_route:
  assumes "route_contract (re_ip env) rk ifx keys" "registry_contract env keys"
  shows "keys w \<subseteq> keys (snd (add_route (re_ip env) r w)) \<and>
     (\<forall>k\<in>keys (snd (add_route (re_ip env) r w)) - keys w. ifx k = route_interface r) \<and>
     get_created_routes (re_reg env) (snd (add_route (re_ip env) r w)) = get_created_routes (re_reg env) w"
proof -
  obtain res w' where a: "add_route (re_ip env) r w = (res, w')" by (cases "add_route (re_ip env) r w")
  from add_route_keys(1) [OF assms(1) a] route_contractD(1) [OF assms(1), of "route_row (re_ip env) r"]
    add_route_registry [OF assms(2) a]
  show ?thesis by (auto simp: a split: if_splits)
qed

lemma add_adapter_routes_keys:
  assumes "route_contract (re_ip env) rk ifx keys" "registry_contract env keys"
    and "add_adapter_routes env v4 v6 index w = w'"
  shows "keys w \<subseteq> keys w' \<and> (\<forall>k\<in>keys w' - keys w. ifx k = index) \<and>
     get_created_routes (re_reg env) w' = get_created_routes (re_reg env) w"
proof -
  let ?P = "\<lambda>v. keys w \<subseteq> keys v \<and> (\<forall>k\<in>keys v - keys w. ifx k = index) \<and>
     get_created_routes (re_reg env) v = get_created_routes (re_reg env) w"
  have step: "?P (snd (add_route (re_ip env) r v))" if "?P v" "route_interface r = index" for r v
    using add_one_route [OF assms(1,2), of v r] that by fastforce
  have v4: "?P (snd (add_v4_route (re_ip env) r v))" if "?P v" "rt_interface_index r = index" for r v
    using step [of v "RouteV4 r"] that by simp
  have v6: "?P (snd (add_v6_route (re_ip env) r v))" if "?P v" "rt_interface_index r = index" for r v
    using step [of v "RouteV6 r"] that by simp
  have idx: "rt_interface_index (create_ipv4_local_agent_route a index) = index"
    "rt_interface_index (create_ipv4_any_route index) = index"
    "rt_interface_index (create_ipv6_local_agent_route b index) = index"
    "rt_interface_index (create_ipv6_any_route index) = index" for a b
    by (simp_all add: create_ipv4_local_agent_route_def create_ipv4_host_route_def create_ipv4_any_route_def
        create_ipv6_local_agent_route_def create_ipv6_host_route_def create_ipv6_any_route_def)
  have "?P w'"
  proof (cases v6)
    case None
    have eq: "w' = snd (add_v4_route (re_ip env) (create_ipv4_any_route index)
        (snd (add_v4_route (re_ip env) (create_ipv4_local_agent_route v4 index) w)))"
      using assms(3) None by (simp add: add_adapter_routes_def Let_def)
    show ?thesis unfolding eq by (rule v4 [OF v4 [OF _ idx(1)] idx(2)]) simp
  next
    case (Some a)
    have eq: "w' = snd (add_v6_route (re_ip env) (create_ipv6_any_route index)
        (snd (add_v6_route (re_ip env) (create_ipv6_local_agent_route a index)
        (snd (add_v4_route (re_ip env) (create_ipv4_any_route index)
        (snd (add_v4_route (re_ip env) (create_ipv4_local_agent_route v4 index) w)))))))"
      using assms(3) Some by (simp add: add_adapter_routes_def Let_def)
    show ?thesis unfolding eq by (rule v6 [OF v6 [OF v4 [OF v4 [OF _ idx(1)] idx(2)] idx(3)] idx(4)]) simp
  qed
  then show ?thesis .
qed

abbreviation row_keys :: "'w route_env \<Rightarrow> (forward_row \<Rightarrow> 'k) \<Rightarrow> route set \<Rightarrow> 'k set" where
  "row_keys env rk rs \<equiv> (\<lambda>r. rk (route_row (re_ip env) r)) ` rs"

text \<open>Adding the server routes: every route that is new is in the list of texts.\<close>

lemma add_server_route_step:
  assumes "route_contract (re_ip env) rk ifx keys" "registry_contract env keys" "json_contract env"
    and "add_server_route env r (created, w) = (created', w')"
  shows "keys w \<subseteq> keys w' \<and> keys w' - keys w \<subseteq> row_keys env rk (decoded env created') \<and>
     set created \<subseteq> set created' \<and> ([] \<in> set created' \<longrightarrow> [] \<in> set created) \<and>
     get_created_routes (re_reg env) w' = get_created_routes (re_reg env) w"
proof -
  obtain res v where a: "add_route (re_ip env) r w = (res, v)" by (cases "add_route (re_ip env) r w")
  obtain s where s: "re_to_json env r = Inr s" "s \<noteq> []" "re_from_json env s = Inr r"
    using assms(3) unfolding json_contract_def by blast
  have w': "w' = v" and created': "created' = (if res = Inr () then created @ [s] else created)"
    using assms(4) a s(1) by (cases res, auto simp: add_server_route_def)+
  have "r \<in> decoded env [s]" using s(3) by (simp add: decoded_def)
  then show ?thesis
    using add_route_keys(1) [OF assms(1) a] add_route_registry [OF assms(2) a] s(2) by (auto simp: w' created')
qed

lemma add_server_routes:
  assumes "route_contract (re_ip env) rk ifx keys" "registry_contract env keys" "json_contract env"
  shows "fold (add_server_route env) rs (created, w) = (created', w') \<Longrightarrow>
     keys w \<subseteq> keys w' \<and> keys w' - keys w \<subseteq> row_keys env rk (decoded env created') \<and>
     set created \<subseteq> set created' \<and> ([] \<in> set created' \<longrightarrow> [] \<in> set created) \<and>
     get_created_routes (re_reg env) w' = get_created_routes (re_reg env) w"
proof (induction rs arbitrary: created w)
  case (Cons r rs)
  obtain created1 w1 where step: "add_server_route env r (created, w) = (created1, w1)"
    by (cases "add_server_route env r (created, w)")
  with Cons.prems have rest: "fold (add_server_route env) rs (created1, w1) = (created', w')" by simp
  note S = add_server_route_step [OF assms step] and IH = Cons.IH [OF rest]
  have "row_keys env rk (decoded env created1) \<subseteq> row_keys env rk (decoded env created')"
    using IH by (intro image_mono decoded_mono) simp
  with S IH have "(keys w' - keys w1) \<union> (keys w1 - keys w) \<subseteq> row_keys env rk (decoded env created')"
    by (meson Un_least order_trans)
  then have "keys w' - keys w \<subseteq> row_keys env rk (decoded env created')" by (rule order_trans [rotated]) auto
  with S IH show ?case by (metis order_trans)
qed simp

text \<open>Deleting the recorded routes: what could not be deleted is in the list to write back.\<close>

lemma delete_created_route_step:
  assumes "route_contract (re_ip env) rk ifx keys" "registry_contract env keys"
    and "delete_created_route env s (re, w) = (re', w')"
  shows "keys w' \<subseteq> keys w \<and> keys w - keys w' \<subseteq> row_keys env rk (decoded env [s]) \<and>
     set re \<subseteq> set re' \<and> set re' \<subseteq> insert s (set re) \<and>
     (\<forall>r. re_from_json env s = Inr r \<longrightarrow> rk (route_row (re_ip env) r) \<notin> keys w' \<or> s \<in> set re')"
proof (cases "re_from_json env s")
  case (Inr r)
  obtain res v where d: "delete_route (re_ip env) r w = (res, v)" by (cases "delete_route (re_ip env) r w")
  have w': "w' = v" and re': "re' = (if isl res then re @ [s] else re)"
    using assms(3) d Inr by (cases res, auto simp: delete_created_route_def)+
  note D = delete_route_keys [OF assms(1) d]
  have "rk (route_row (re_ip env) r) \<notin> keys v" if "\<not> isl res" using D(2) that by (cases res) auto
  with D(1) show ?thesis by (auto simp: w' re' Inr decoded_def)
qed (use assms(3) in \<open>auto simp: delete_created_route_def\<close>)

lemma delete_created_routes_loop:
  assumes "route_contract (re_ip env) rk ifx keys" "registry_contract env keys"
  shows "fold (delete_created_route env) ss (re, w) = (re', w') \<Longrightarrow>
     keys w' \<subseteq> keys w \<and> keys w - keys w' \<subseteq> row_keys env rk (decoded env ss) \<and>
     set re \<subseteq> set re' \<and> set re' \<subseteq> set ss \<union> set re \<and>
     (\<forall>s\<in>set ss. \<forall>r. re_from_json env s = Inr r \<longrightarrow> rk (route_row (re_ip env) r) \<notin> keys w' \<or> s \<in> set re')"
proof (induction ss arbitrary: re w)
  case (Cons s ss)
  obtain re1 w1 where step: "delete_created_route env s (re, w) = (re1, w1)"
    by (cases "delete_created_route env s (re, w)")
  with Cons.prems have rest: "fold (delete_created_route env) ss (re1, w1) = (re', w')" by simp
  note S = delete_created_route_step [OF assms step] and IH = Cons.IH [OF rest]
  have "decoded env (s # ss) = decoded env [s] \<union> decoded env ss" by (auto simp: decoded_def)
  with S IH show ?case by (auto simp: image_Un)
qed simp

lemma routes_create_tracked:
  assumes "route_contract (re_ip env) rk ifx keys" "registry_contract env keys" "json_contract env"
    and "routes_create env v4 v6 index server_ips w = (Inr rs, w')"
  shows "routes_interface_index rs = index \<and> keys w \<subseteq> keys w' \<and> recorded env w \<subseteq> recorded env w' \<and>
     (\<forall>k\<in>keys w' - keys w. ifx k = index \<or> k \<in> row_keys env rk (recorded env w'))"
proof -
  let ?w1 = "add_adapter_routes env v4 v6 index w"
  have A: "keys w \<subseteq> keys ?w1 \<and> (\<forall>k\<in>keys ?w1 - keys w. ifx k = index) \<and>
     get_created_routes (re_reg env) ?w1 = get_created_routes (re_reg env) w"
    by (rule add_adapter_routes_keys [OF assms(1,2) refl])
  from assms(4) obtain srs created w2 where
    loop: "fold (add_server_route env) srs (get_created_routes (re_reg env) ?w1, ?w1) = (created, w2)" and
    w': "w' = set_created_routes (re_reg env) created w2" and rs: "rs = \<lparr>routes_interface_index = index\<rparr>"
    by (auto simp: routes_create_def Let_def split: sum.splits prod.splits)
  note L = add_server_routes [OF assms(1-3) loop]
  have "[] \<notin> set created" using L created_routes_nonempty [of "[]" "re_reg env" ?w1] by auto
  then have "set (get_created_routes (re_reg env) w') = set created"
    using set_created_routes_keeps(2) [OF assms(2), of created w2] unfolding w' by auto
  then have "recorded env w' = decoded env created" by (simp add: recorded_def decoded_def)
  moreover have "recorded env w \<subseteq> decoded env created"
    unfolding recorded_def using L A by (intro decoded_mono) simp
  moreover have "keys w' = keys w2" unfolding w' by (rule set_created_routes_keeps(1) [OF assms(2)])
  ultimately show ?thesis using A L rs by auto
qed

lemma delete_created_routes_tracked:
  assumes "route_contract (re_ip env) rk ifx keys" "registry_contract env keys"
  shows "keys (delete_created_routes env w) \<subseteq> keys w \<and>
     keys w - keys (delete_created_routes env w) \<subseteq> row_keys env rk (recorded env w) \<and>
     recorded env (delete_created_routes env w) \<subseteq> recorded env w \<and>
     row_keys env rk (recorded env w) \<inter> keys (delete_created_routes env w) \<subseteq>
       row_keys env rk (recorded env (delete_created_routes env w))"
proof -
  let ?ss = "get_created_routes (re_reg env) w"
  obtain re w1 where loop: "fold (delete_created_route env) ?ss ([], w) = (re, w1)"
    by (cases "fold (delete_created_route env) ?ss ([], w)")
  have w': "delete_created_routes env w = set_created_routes (re_reg env) re w1"
    by (simp add: delete_created_routes_def loop)
  note L = delete_created_routes_loop [OF assms loop]
  have "[] \<notin> set re" using L created_routes_nonempty [of "[]" "re_reg env" w] by auto
  then have re: "set (get_created_routes (re_reg env) (delete_created_routes env w)) = set re"
    using set_created_routes_keeps(2) [OF assms(2), of re w1] unfolding w' by auto
  have keys: "keys (delete_created_routes env w) = keys w1"
    unfolding w' by (rule set_created_routes_keeps(1) [OF assms(2)])
  have "recorded env (delete_created_routes env w) = decoded env re" using re by (simp add: recorded_def decoded_def)
  moreover have "decoded env re \<subseteq> recorded env w" unfolding recorded_def using L by (intro decoded_mono) simp
  moreover have "row_keys env rk (recorded env w) \<inter> keys w1 \<subseteq> row_keys env rk (decoded env re)"
    using L by (fastforce simp: recorded_def decoded_def)
  ultimately show ?thesis using L keys by (simp add: recorded_def)
qed

text \<open>Ending a session: what is left of the routes.\<close>

lemma routes_delete_tracked:
  assumes "route_contract (re_ip env) rk ifx keys" "registry_contract env keys"
    and "GetIpForwardTable2 (re_ip env) w = Inr (Some rows)" "routes_interface_index rs = index"
  shows "keys (routes_delete env rs w) \<subseteq> keys w \<and>
     (\<forall>k\<in>keys (routes_delete env rs w). ifx k = index \<longrightarrow> (\<exists>e. Inl e \<in> set (fst (delete_routes (re_ip env) index w)))) \<and>
     row_keys env rk (recorded env w) \<inter> keys (routes_delete env rs w) \<subseteq> row_keys env rk (recorded env (routes_delete env rs w)) \<and>
     keys w - keys (routes_delete env rs w) \<subseteq> {k. ifx k = index} \<union> row_keys env rk (recorded env w)"
proof -
  obtain res w2 where d: "delete_routes (re_ip env) index w = (res, w2)" by (cases "delete_routes (re_ip env) index w")
  note D = delete_routes_keys [OF assms(1,3) d]
  have "get_created_routes (re_reg env) w2 = get_created_routes (re_reg env) w"
    using delete_rows_registry [OF assms(2), of "get_interface_rows (re_ip env) index w" w] d
    by (simp add: delete_routes_def)
  then have rec: "recorded env w2 = recorded env w" by (simp add: recorded_def)
  have eq: "routes_delete env rs w = delete_created_routes env w2" using assms(4) d by (simp add: routes_delete_def)
  note E = delete_created_routes_tracked [OF assms(1,2), of w2, folded eq, unfolded rec]
  have failed: "\<exists>e. Inl e \<in> set res" if "k \<in> keys w2" "ifx k = index" for k
    using D that by (metis isl_def)
  have "keys (routes_delete env rs w) \<subseteq> keys w2" using E by blast
  moreover have "keys w2 \<subseteq> keys w" "keys w - keys w2 \<subseteq> {k. ifx k = index}" using D by auto
  ultimately show ?thesis using E failed d by auto
qed

section \<open>A concrete environment\<close>

text \<open>
  The system of the examples with a registry of one value, and a text for every route made
  of its bytes.
\<close>

definition addr_bytes :: "('a \<Rightarrow> bytes) \<Rightarrow> 'a ip_route \<Rightarrow> bytes" where
  "addr_bytes octets r = octets (rt_destination_ip_addr r) @ [rt_destination_prefix_length r] @
     map (u32_byte (rt_interface_index r)) [0, 1, 2, 3] @
     (case rt_next_hop_address r of None \<Rightarrow> [0] | Some a \<Rightarrow> 1 # octets a)"

definition bytes_addr :: "nat \<Rightarrow> (bytes \<Rightarrow> 'a) \<Rightarrow> bytes \<Rightarrow> 'a ip_route" where
  "bytes_addr n addr bs = \<lparr>rt_destination_ip_addr = addr (take n bs), rt_destination_prefix_length = bs ! n,
     rt_next_hop_address = (if bs ! (n + 5) = 0 then None else Some (addr (drop (n + 6) bs))),
     rt_interface_index = u32_from_le_bytes (bs ! (n + 1)) (bs ! (n + 2)) (bs ! (n + 3)) (bs ! (n + 4))\<rparr>"

definition v4_of_bytes :: "bytes \<Rightarrow> ipv4_addr" where
  "v4_of_bytes bs = Ipv4Addr (bs ! 0) (bs ! 1) (bs ! 2) (bs ! 3)"

fun route_text :: "route \<Rightarrow> string" where
  "route_text (RouteV4 r) = CHR ''4'' # map (\<lambda>b. char_of (unat b)) (addr_bytes ipv4_octets r)"
| "route_text (RouteV6 r) = CHR ''6'' # map (\<lambda>b. char_of (unat b)) (addr_bytes ipv6_octets r)"

definition text_route :: "string \<Rightarrow> route" where
  "text_route s = (let bs = map (\<lambda>c. word_of_nat (of_char c)) (tl s)
     in if hd s = CHR ''4'' then RouteV4 (bytes_addr 4 v4_of_bytes bs) else RouteV6 (bytes_addr 16 ipv6_from_octets bs))"

type_synonym example_world = "forward_row list \<times> string list"

definition route_system :: "('w \<Rightarrow> example_world) \<Rightarrow> (example_world \<Rightarrow> 'w \<Rightarrow> 'w) \<Rightarrow> 'w route_env" where
  "route_system get put =
     \<lparr>re_ip = table_system (\<lambda>w. fst (get w)) (\<lambda>rows w. put (rows, snd (get w)) w) example_addresses,
      re_reg = \<lparr>reg_open_read = (\<lambda>_ _. Inr ()), reg_open_all_access = (\<lambda>_ _. Inr ()),
        reg_create = (\<lambda>_ w. (Inr (), w)), reg_enum_keys = (\<lambda>_ _. []),
        reg_get_string = (\<lambda>_ _ _. Inr []), reg_set_string = (\<lambda>_ _ _ w. (Inr (), w)),
        reg_get_strings = (\<lambda>_ _ w. Inr (snd (get w))),
        reg_set_strings = (\<lambda>_ _ v w. (Inr (), put (fst (get w), v) w))\<rparr>,
      re_to_json = (\<lambda>r. Inr (route_text r)), re_from_json = (\<lambda>s. Inr (text_route s))\<rparr>"

definition example_route_env :: "example_world route_env" where
  "example_route_env = route_system (\<lambda>w. w) (\<lambda>v w. v)"

lemma u32_bytes_join: "u32_from_le_bytes (u32_byte x 0) (u32_byte x 1) (u32_byte x 2) (u32_byte x 3) = x"
  unfolding u32_byte_def u32_from_le_bytes_def
proof (rule bit_word_eqI, goal_cases)
  case (1 n)
  then show ?case by (cases "24 \<le> n"; cases "16 \<le> n") (auto simp: bit_simps)
qed

lemma bytes_addr_bytes:
  assumes "\<And>a. length (octets a) = n" "\<And>a. addr (octets a) = a"
  shows "bytes_addr n addr (addr_bytes octets r) = r"
proof -
  have d: "length (octets (rt_destination_ip_addr r)) = n" by (rule assms(1))
  show ?thesis
    using u32_bytes_join [of "rt_interface_index r"]
    by (cases "rt_next_hop_address r")
      (simp_all add: bytes_addr_def addr_bytes_def nth_append d assms(2) drop_append)
qed

lemma text_route_text: "text_route (route_text r) = r"
proof -
  have "map (\<lambda>c. word_of_nat (of_char c)) (map (\<lambda>b. char_of (unat b)) bs) = bs" for bs :: bytes
    using unsigned_less [where 'a = nat, of "b :: u8" for b] by (induction bs) simp_all
  moreover have "bytes_addr 4 v4_of_bytes (addr_bytes ipv4_octets r4) = r4" for r4
  proof (rule bytes_addr_bytes)
    show "length (ipv4_octets a) = 4" "v4_of_bytes (ipv4_octets a) = a" for a
      by (cases a, simp add: v4_of_bytes_def)+
  qed
  moreover have "bytes_addr 16 ipv6_from_octets (addr_bytes ipv6_octets r6) = r6" for r6
    by (rule bytes_addr_bytes) (simp_all add: ipv6_octets_roundtrip)
  ultimately show ?thesis by (cases r) (simp_all add: text_route_def Let_def)
qed

definition example_keys :: "example_world \<Rightarrow> (sockaddr_inet \<times> u8 \<times> sockaddr_inet \<times> u32) set" where
  "example_keys w = route_key ` set (fst w)"

lemma route_system_contracts:
  assumes "\<And>v w. get (put v w) = v"
  shows "route_contract (re_ip (route_system get put)) route_key (\<lambda>(_, _, _, i). i) (\<lambda>w. example_keys (get w))"
    and "registry_contract (route_system get put) (\<lambda>w. example_keys (get w))"
    and "json_contract (route_system get put)"
proof -
  show "route_contract (re_ip (route_system get put)) route_key (\<lambda>(_, _, _, i). i) (\<lambda>w. example_keys (get w))"
    using table_system_contract [of "\<lambda>w. fst (get w)" "\<lambda>rows w. put (rows, snd (get w)) w" example_addresses]
    by (simp add: route_system_def example_keys_def [abs_def] assms)
  show "registry_contract (route_system get put) (\<lambda>w. example_keys (get w))"
    by (auto simp: registry_contract_def route_system_def example_keys_def table_system_def assms)
  have "route_text r \<noteq> []" for r by (cases r) simp_all
  then show "json_contract (route_system get put)"
    by (simp add: json_contract_def route_system_def text_route_text)
qed

lemmas example_contracts = route_system_contracts [of "\<lambda>w. w" "\<lambda>v w. v", OF refl, folded example_route_env_def]

section \<open>Properties\<close>

text \<open>No route of a session is lost. When the session ends, each route that its creation added is
  out of the table, or it is a server route that could not be deleted and is still recorded
  in the registry for the next attempt, or it is a route of the adapter and the deletion of
  one of them reported an error; and no route is deleted that is neither a route of the
  adapter nor recorded.\<close>

theorem session_routes_tracked:
  assumes "route_contract (re_ip env) rk ifx keys" "registry_contract env keys" "json_contract env"
    and "routes_create env v4 v6 index server_ips w = (Inr rs, w1)"
    and "GetIpForwardTable2 (re_ip env) w1 = Inr (Some rows)"
  shows "(\<forall>k\<in>keys (routes_delete env rs w1). k \<in> keys w \<or>
       k \<in> (\<lambda>r. rk (route_row (re_ip env) r)) ` recorded env (routes_delete env rs w1) \<or>
       ifx k = index \<and> (\<exists>e. Inl e \<in> set (fst (delete_routes (re_ip env) index w1)))) \<and>
     (\<forall>k\<in>keys w. k \<in> keys (routes_delete env rs w1) \<or> ifx k = index \<or>
       k \<in> (\<lambda>r. rk (route_row (re_ip env) r)) ` recorded env w1)"
proof -
  note C = routes_create_tracked [OF assms(1-4)]
  have "routes_interface_index rs = index" using C by simp
  note D = routes_delete_tracked [OF assms(1,2,5) this]
  have left: "k \<in> keys w \<or> k \<in> row_keys env rk (recorded env (routes_delete env rs w1)) \<or>
      ifx k = index \<and> (\<exists>e. Inl e \<in> set (fst (delete_routes (re_ip env) index w1)))"
    if k: "k \<in> keys (routes_delete env rs w1)" for k
  proof (cases "k \<in> keys w \<or> ifx k = index")
    case True
    then show ?thesis using D k by blast
  next
    case False
    with C D k have "k \<in> row_keys env rk (recorded env w1)" by blast
    then show ?thesis using D k by blast
  qed
  have "k \<in> keys (routes_delete env rs w1) \<or> ifx k = index \<or> k \<in> row_keys env rk (recorded env w1)"
    if "k \<in> keys w" for k
    using that C D by blast
  with left show ?thesis by blast
qed

definition example_created :: "(protun_fatal_error + routes) \<times> example_world" where
  "example_created = routes_create example_route_env (Ipv4Addr 10 2 0 1) None 17 [V4 (Ipv4Addr 1 2 3 4)] (example_routes, [])"

definition session_summary :: "(protun_fatal_error + routes) \<times> example_world \<Rightarrow>
    bool \<times> nat \<times> nat \<times> bool list \<times> string list" where
  "session_summary = (\<lambda>(r, w). (r = Inr \<lparr>routes_interface_index = 17\<rparr>, length (fst w), length (snd w),
     map isl (fst (delete_routes (re_ip example_route_env) 17 w)),
     snd (routes_delete example_route_env \<lparr>routes_interface_index = 17\<rparr> w)))"

lemma example_summary: "session_summary example_created = (True, 6, 1, [False, False, False], [])"
  by code_simp

theorem session_routes_tracked_witness:
  "length (fst (snd example_created)) = 6 \<and> length (snd (snd example_created)) = 1 \<and>
   example_keys (routes_delete example_route_env \<lparr>routes_interface_index = 17\<rparr> (snd example_created)) \<subseteq>
     example_keys (example_routes, [])"
proof -
  let ?w1 = "snd example_created" and ?rs = "\<lparr>routes_interface_index = 17\<rparr>"
  have created: "fst example_created = Inr ?rs" and len: "length (fst ?w1) = 6" "length (snd ?w1) = 1"
    and ok: "map isl (fst (delete_routes (re_ip example_route_env) 17 ?w1)) = [False, False, False]"
    and gone: "snd (routes_delete example_route_env ?rs ?w1) = []"
    using example_summary by (simp_all add: session_summary_def split_def)
  from ok have "\<forall>x\<in>set (fst (delete_routes (re_ip example_route_env) 17 ?w1)). \<not> isl x" by auto
  then have no_error: "Inl e \<notin> set (fst (delete_routes (re_ip example_route_env) 17 ?w1))" for e by auto
  from gone have none: "recorded example_route_env (routes_delete example_route_env ?rs ?w1) = {}"
    by (simp add: recorded_def decoded_def get_created_routes_def example_route_env_def route_system_def distinct_vec_def)
  have run: "routes_create example_route_env (Ipv4Addr 10 2 0 1) None 17 [V4 (Ipv4Addr 1 2 3 4)] (example_routes, []) = (Inr ?rs, ?w1)"
    using created by (metis example_created_def prod.collapse)
  have table: "GetIpForwardTable2 (re_ip example_route_env) ?w1 = Inr (Some (fst ?w1))"
    by (simp add: example_route_env_def route_system_def table_system_def)
  have "\<forall>k\<in>example_keys (routes_delete example_route_env ?rs ?w1). k \<in> example_keys (example_routes, [])"
    using session_routes_tracked [OF example_contracts run table, THEN conjunct1] by (simp add: no_error none)
  then have "example_keys (routes_delete example_route_env ?rs ?w1) \<subseteq> example_keys (example_routes, [])" by blast
  with len show ?thesis by simp
qed

end
