(* ===== verification/Wintun_Session.thy ===== *)
theory Wintun_Session
  imports Adapter_Frame Windows_Routes
begin

text \<open>
  \<^verbatim>\<open>src/connection/windows/helpers/wintun/wintun_session.rs\<close>: a session of the Wintun driver, that
  is, the adapter with its settings, addresses, name servers and routes. The crate \<^verbatim>\<open>wintun\<close> is a
  parameter: the fields of \<open>session_env\<close> that the system's functions and the routes leave out.
  \<open>None\<close> is a creation that does not return, which only the search for the IPv6 binding can cause.
\<close>

section \<open>State\<close>

type_synonym wintun_adapter = int
type_synonym wintun_handle = int

record 'w session_env =
  sv_routes :: "'w route_env"
  sv_adapter :: "'w adapter_api"
  wt_load_from_path :: "string \<Rightarrow> 'w \<Rightarrow> (string + unit) \<times> 'w"
  wt_adapter_open :: "string \<Rightarrow> 'w \<Rightarrow> (string + wintun_adapter) \<times> 'w"
  wt_adapter_create :: "string \<Rightarrow> string \<Rightarrow> 128 word option \<Rightarrow> 'w \<Rightarrow> (string + wintun_adapter) \<times> 'w"
  wt_adapter_drop :: "wintun_adapter \<Rightarrow> 'w \<Rightarrow> 'w"
  wt_get_adapter_index :: "wintun_adapter \<Rightarrow> 'w \<Rightarrow> string + u32"
  wt_start_session :: "wintun_adapter \<Rightarrow> u32 \<Rightarrow> 'w \<Rightarrow> (string + wintun_handle) \<times> 'w"
  wt_session_shutdown :: "wintun_handle \<Rightarrow> 'w \<Rightarrow> (string + unit) \<times> 'w"
  wt_session_drop :: "wintun_handle \<Rightarrow> 'w \<Rightarrow> 'w"
  MIN_RING_CAPACITY :: u32
  MAX_RING_CAPACITY :: u32

record adapter_config =
  ac_custom_dns_server_ips :: "ip_addr list"
  ac_is_ipv6_enabled :: bool
  ac_mtu :: u16
  ac_buffer_size_bytes :: u32

record wintun_session =
  wn_adapter :: wintun_adapter
  wn_session :: wintun_handle
  wn_interface_index :: u32
  wn_client_ipv4_addr :: ipv4_addr
  wn_server_ipv4_addr :: ipv4_addr
  wn_client_ipv6_addr :: "ipv6_addr option"
  wn_server_ipv6_addr :: "ipv6_addr option"
  wn_routes :: routes

definition WINTUN_FILE_NAME :: string where
  "WINTUN_FILE_NAME = ''wintun.dll''"

definition ADAPTER_DESCRIPTION :: string where
  "ADAPTER_DESCRIPTION = ''Proton VPN Windows''"

section \<open>Size of the ring\<close>

text \<open>
  \<^verbatim>\<open>u32::checked_next_power_of_two\<close>: the least power of two that is not smaller, if it fits.
  The minimum of the driver is below its maximum, so that \<^verbatim>\<open>clamp\<close> does not panic.
\<close>

definition checked_next_power_of_two :: "u32 \<Rightarrow> u32 option" where
  "checked_next_power_of_two n = map_option word_of_int (find (\<lambda>p. uint n \<le> p) (map (\<lambda>k. 2 ^ k) [0..<32]))"

definition get_valid_wintun_buffer_size :: "'w session_env \<Rightarrow> u32 \<Rightarrow> u32" where
  "get_valid_wintun_buffer_size env proposed =
     (let size = (case checked_next_power_of_two proposed of Some p \<Rightarrow> p | None \<Rightarrow> MAX_RING_CAPACITY env)
      in if size < MIN_RING_CAPACITY env then MIN_RING_CAPACITY env
         else if MAX_RING_CAPACITY env < size then MAX_RING_CAPACITY env else size)"

section \<open>Addresses and name servers\<close>

definition client_ipv4 :: "u8 \<Rightarrow> ipv4_addr" where
  "client_ipv4 i = Ipv4Addr 10 i 0 2"

definition client_ipv6 :: "u8 \<Rightarrow> ipv6_addr" where
  "client_ipv6 i = Ipv6Addr 0x2a07 0xb944 0 0 0 0 (ucast i) 0x2"

text \<open>The loop over the second octet; \<open>octets\<close> is what is left of the range.\<close>

fun try_ip_addresses ::
  "'w adapter_api \<Rightarrow> u32 \<Rightarrow> u8 list \<Rightarrow> 'w \<Rightarrow> (protun_fatal_error + ipv4_addr \<times> ipv6_addr option) \<times> 'w" where
  "try_ip_addresses ad index [] w =
     (Inl (WintunIpAddressSetupFailed ''Could not set valid IP addresses for the WinTUN adapter.''), w)"
| "try_ip_addresses ad index (i # octets) w =
     (case set_adapter_ipv4_address ad index (client_ipv4 i) 32 w of
        (Inl _, w) \<Rightarrow> try_ip_addresses ad index octets w
      | (Inr _, w) \<Rightarrow>
          (case set_adapter_ipv6_address ad index (client_ipv6 i) 128 w of
             (Inr _, w) \<Rightarrow> (Inr (client_ipv4 i, Some (client_ipv6 i)), w)
           | (Inl _, w) \<Rightarrow> (Inr (client_ipv4 i, None), w)))"

definition set_adapter_ip_addresses ::
  "'w adapter_api \<Rightarrow> u32 \<Rightarrow> 'w \<Rightarrow> (protun_fatal_error + ipv4_addr \<times> ipv6_addr option) \<times> 'w" where
  "set_adapter_ip_addresses ad index = try_ip_addresses ad index (map word_of_int [2..255])"

definition set_ipv4_dns_servers :: "'w adapter_api \<Rightarrow> ipv4_addr list \<Rightarrow> ipv4_addr \<Rightarrow> 'w \<Rightarrow> (win32_error + unit) \<times> 'w" where
  "set_ipv4_dns_servers ad ips server = set_adapter_ipv4_dns_servers ad ADAPTER_GUID_U128 (ips @ [server])"

definition set_ipv6_dns_servers :: "'w adapter_api \<Rightarrow> ipv6_addr list \<Rightarrow> ipv6_addr \<Rightarrow> 'w \<Rightarrow> (win32_error + unit) \<times> 'w" where
  "set_ipv6_dns_servers ad ips server = set_adapter_ipv6_dns_servers ad ADAPTER_GUID_U128 (ips @ [server])"

definition set_dns_servers ::
  "'w adapter_api \<Rightarrow> ip_addr list \<Rightarrow> ipv4_addr \<Rightarrow> ipv6_addr option \<Rightarrow> 'w \<Rightarrow> (win32_error + unit) \<times> 'w" where
  "set_dns_servers ad custom server_v4 server_v6 w =
     (let (v4, v6) = split_ips_by_protocol custom in
      case set_ipv4_dns_servers ad v4 server_v4 w of
        (Inl e, w) \<Rightarrow> (Inl e, w)
      | (Inr _, w) \<Rightarrow>
          (case server_v6 of
             Some a \<Rightarrow> set_ipv6_dns_servers ad v6 a w
           | None \<Rightarrow> (Inr (), w)))"

fun second_octet :: "ipv4_addr \<Rightarrow> u8" where
  "second_octet (Ipv4Addr a b c d) = b"

fun seventh_segment :: "ipv6_addr \<Rightarrow> u16" where
  "seventh_segment (Ipv6Addr a b c d e f g h) = g"

definition calculate_and_set_dns_servers ::
  "'w adapter_api \<Rightarrow> ip_addr list \<Rightarrow> ipv4_addr \<Rightarrow> ipv6_addr option \<Rightarrow> 'w \<Rightarrow> (ipv4_addr \<times> ipv6_addr option) \<times> 'w" where
  "calculate_and_set_dns_servers ad custom client_v4 client_v6 w =
     (let server_v4 = Ipv4Addr 10 (second_octet client_v4) 0 1;
          server_v6 = (case client_v6 of
              Some a \<Rightarrow> Some (Ipv6Addr 0x2a07 0xb944 0 0 0 0 (seventh_segment a) 0x1) | None \<Rightarrow> None)
      in ((server_v4, server_v6), snd (set_dns_servers ad custom server_v4 server_v6 w)))"

section \<open>The session\<close>

definition create_wintun_adapter :: "'w session_env \<Rightarrow> 'w \<Rightarrow> (protun_fatal_error + wintun_adapter) \<times> 'w" where
  "create_wintun_adapter env w =
     (case wt_load_from_path env WINTUN_FILE_NAME w of
        (Inl e, w) \<Rightarrow> (Inl (WintunLibraryLoadingFailed (''Failed to load WinTUN DLL. Error: '' @ e)), w)
      | (Inr _, w) \<Rightarrow>
          (case wt_adapter_open env ADAPTER_NAME w of
             (Inr a, w) \<Rightarrow> (Inr a, w)
           | (Inl _, w) \<Rightarrow>
               (case wt_adapter_create env ADAPTER_NAME ADAPTER_DESCRIPTION (Some ADAPTER_GUID_U128) w of
                  (Inr a, w) \<Rightarrow> (Inr a, w)
                | (Inl e, w) \<Rightarrow>
                    (Inl (WintunInterfaceCreationFailed (''Could not create the WinTUN adapter. Error: '' @ e)), w))))"

text \<open>The settings whose errors are ignored.\<close>

definition configure_adapter :: "'w session_env \<Rightarrow> u32 \<Rightarrow> adapter_config \<Rightarrow> 'w \<Rightarrow> 'w option" where
  "configure_adapter env index config w =
     (let ad = sv_adapter env;
          w = snd (set_ipv4_adapter_configurations ad index (ac_mtu config) w)
      in if ac_is_ipv6_enabled config
         then map_option (\<lambda>(_, w). snd (set_ipv6_adapter_configurations ad index (ac_mtu config) w)) (enable_adapter_ipv6 ad w)
         else map_option snd (disable_adapter_ipv6 ad w))"

text \<open>
  The steps behind the configuration. An error drops the adapter, which is owned by then; the
  routes are not deleted by that.
\<close>

definition start_session_steps ::
  "'w session_env \<Rightarrow> wintun_adapter \<Rightarrow> u32 \<Rightarrow> u32 \<Rightarrow> ip_addr list \<Rightarrow> adapter_config \<Rightarrow> 'w \<Rightarrow>
     (protun_fatal_error + wintun_session) \<times> 'w" where
  "start_session_steps env adapter index buffer_size server_ips config w =
     (let ad = sv_adapter env in
      case set_adapter_ip_addresses ad index w of
        (Inl e, w) \<Rightarrow> (Inl e, wt_adapter_drop env adapter w)
      | (Inr (client_v4, client_v6), w) \<Rightarrow>
          (case calculate_and_set_dns_servers ad (ac_custom_dns_server_ips config) client_v4 client_v6 w of
             ((server_v4, server_v6), w) \<Rightarrow>
               (case routes_create (sv_routes env) server_v4 server_v6 index server_ips w of
                  (Inl e, w) \<Rightarrow> (Inl e, wt_adapter_drop env adapter w)
                | (Inr routes, w) \<Rightarrow>
                    (case wt_start_session env adapter buffer_size w of
                       (Inl e, w) \<Rightarrow>
                         (Inl (WintunSessionCreationFailed (''Failed to create the Wintun session. Error: '' @ e)),
                          wt_adapter_drop env adapter w)
                     | (Inr session, w) \<Rightarrow>
                         (Inr \<lparr>wn_adapter = adapter, wn_session = session, wn_interface_index = index,
                            wn_client_ipv4_addr = client_v4, wn_server_ipv4_addr = server_v4,
                            wn_client_ipv6_addr = client_v6, wn_server_ipv6_addr = server_v6, wn_routes = routes\<rparr>, w)))))"

definition wintun_session_create ::
  "'w session_env \<Rightarrow> ip_addr list \<Rightarrow> adapter_config \<Rightarrow> 'w \<Rightarrow> ((protun_fatal_error + wintun_session) \<times> 'w) option" where
  "wintun_session_create env server_ips config w =
     (let buffer_size = get_valid_wintun_buffer_size env (ac_buffer_size_bytes config) in
      case create_wintun_adapter env w of
        (Inl e, w) \<Rightarrow> Some (Inl e, w)
      | (Inr adapter, w) \<Rightarrow>
          (case wt_get_adapter_index env adapter w of
             Inl e \<Rightarrow>
               Some (Inl (WintunAdapterIndexFetchFailed (''Failed to get the Wintun adapter index. Error: '' @ e)),
                 wt_adapter_drop env adapter w)
           | Inr index \<Rightarrow>
               map_option (start_session_steps env adapter index buffer_size server_ips config)
                 (configure_adapter env index config w)))"

definition session_disable_ipv6 :: "'w session_env \<Rightarrow> 'w \<Rightarrow> ((string + unit) \<times> 'w) option" where
  "session_disable_ipv6 env = disable_adapter_ipv6 (sv_adapter env)"

definition session_enable_ipv6 :: "'w session_env \<Rightarrow> 'w \<Rightarrow> ((string + unit) \<times> 'w) option" where
  "session_enable_ipv6 env = enable_adapter_ipv6 (sv_adapter env)"

definition session_set_dns_servers ::
  "'w session_env \<Rightarrow> wintun_session \<Rightarrow> ip_addr list \<Rightarrow> 'w \<Rightarrow> (win32_error + unit) \<times> 'w" where
  "session_set_dns_servers env s custom =
     set_dns_servers (sv_adapter env) custom (wn_server_ipv4_addr s) (wn_server_ipv6_addr s)"

text \<open>Dropping the session: its own \<^verbatim>\<open>drop\<close> first, then its fields.\<close>

definition wintun_session_drop :: "'w session_env \<Rightarrow> wintun_session \<Rightarrow> 'w \<Rightarrow> 'w" where
  "wintun_session_drop env s w =
     (let w = routes_delete (sv_routes env) (wn_routes s) w;
          w = snd (wt_session_shutdown env (wn_session s) w)
      in wt_session_drop env (wn_session s) (wt_adapter_drop env (wn_adapter s) w))"

section \<open>Lemmas\<close>

lemma unat_power_of_two:
  assumes "k < 32"
  shows "unat (word_of_int (2 ^ k) :: u32) = 2 ^ k"
proof -
  have "(2 :: nat) ^ k < 2 ^ 32" using assms by (simp only: power_strict_increasing_iff)
  then have "unat (word_of_nat (2 ^ k) :: u32) = 2 ^ k" by (subst unat_of_nat) simp
  then show ?thesis by simp
qed

lemma uint_le_power: "uint n \<le> 2 ^ k \<longleftrightarrow> unat n \<le> 2 ^ k"
  using of_nat_le_iff [of "unat n" "2 ^ k", where 'a = int] unfolding uint_nat by (simp only: of_nat_power of_nat_numeral)

lemma next_power_least:
  assumes "checked_next_power_of_two n = Some p"
  shows "\<exists>k<32. unat p = 2 ^ k \<and> (\<forall>j. unat n \<le> 2 ^ j \<longleftrightarrow> k \<le> j)"
proof -
  from assms obtain k where k: "k < 32" "unat n \<le> 2 ^ k" "p = word_of_int (2 ^ k)" "\<forall>j<k. \<not> unat n \<le> 2 ^ j"
    by (auto simp: checked_next_power_of_two_def find_Some_iff uint_le_power)
  have "unat n \<le> 2 ^ j \<longleftrightarrow> k \<le> j" for j
  proof
    show "k \<le> j" if "unat n \<le> 2 ^ j" using k(4) that by (meson not_le)
    show "unat n \<le> 2 ^ j" if "k \<le> j" by (rule order_trans [OF k(2) power_increasing [OF that]]) simp
  qed
  with k unat_power_of_two [OF k(1)] show ?thesis by blast
qed

lemma next_power_none:
  assumes "checked_next_power_of_two n = None" and "j < 32"
  shows "\<not> unat n \<le> 2 ^ j"
  using assms by (auto simp: checked_next_power_of_two_def find_None_iff uint_le_power)

lemma word_less_power: "unat (a :: u32) = 2 ^ i \<Longrightarrow> unat (b :: u32) = 2 ^ j \<Longrightarrow> a < b \<longleftrightarrow> i < j"
  by (simp add: word_less_nat_alt)

text \<open>Every address of the adapter has the form of \<open>client_ipv4\<close>, with an octet of the range.\<close>

lemma try_ip_addresses_form:
  "try_ip_addresses ad index octets w = (Inr (v4, v6), w') \<Longrightarrow>
     \<exists>i\<in>set octets. v4 = client_ipv4 i \<and> (v6 = None \<or> v6 = Some (client_ipv6 i))"
  by (induction ad index octets w rule: try_ip_addresses.induct) (auto split: prod.splits sum.splits)

lemma octet_range: "set (map word_of_int [2..255]) = {i :: u8. 2 \<le> i}"
proof -
  have "set (map word_of_int [2..255]) = (word_of_int ` {2..255} :: u8 set)" by (simp only: set_map set_upto)
  also have "\<dots> = {i. 2 \<le> i}"
  proof (intro set_eqI iffI)
    fix i :: u8 assume "i \<in> {i. 2 \<le> i}"
    then have "uint i \<in> {2..255}" using unsigned_less [of i, where 'a = int] by (simp add: word_le_def)
    then show "i \<in> word_of_int ` {2..255}" by (rule rev_image_eqI) simp
  qed (auto simp: word_le_def uint_word_of_int)
  finally show ?thesis .
qed

lemma octets_sorted: "sorted (map word_of_int [2..255] :: u8 list)"
proof -
  have "(word_of_int m :: u8) \<le> word_of_int n" if "0 \<le> m" "m \<le> n" "n \<le> 255" for m n
    using that by (simp add: word_le_def uint_word_of_int)
  then have "sorted_wrt (\<lambda>m n. (word_of_int m :: u8) \<le> word_of_int n) [2..255]"
    by (intro sorted_wrt_mono_rel [OF _ sorted_upto]) (auto simp only: set_upto atLeastAtMost_iff)
  then show ?thesis by (simp only: sorted_wrt_map)
qed

lemma octets_before:
  assumes "map word_of_int [2..255] = js @ (i :: u8) # ks"
  shows "2 \<le> i" and "2 \<le> j \<Longrightarrow> j < i \<Longrightarrow> j \<in> set js"
proof -
  have set: "set (js @ i # ks) = {i. 2 \<le> i}" using octet_range unfolding assms .
  then show "2 \<le> i" by auto
  have "sorted (js @ i # ks)" using octets_sorted unfolding assms .
  moreover assume "2 \<le> j" "j < i"
  moreover from this set have "j \<in> set (js @ i # ks)" by (simp only: mem_Collect_eq)
  ultimately show "j \<in> set js" by (auto simp: sorted_append)
qed

text \<open>
  The table of the system's addresses: a new address is appended to it or refused, and which of
  the two depends on the table only.
\<close>

definition address_contract ::
  "'w adapter_api \<Rightarrow> ('w \<Rightarrow> unicast_entry list) \<Rightarrow> (unicast_entry list \<Rightarrow> unicast_entry \<Rightarrow> bool) \<Rightarrow> bool" where
  "address_contract ad table refused \<longleftrightarrow>
     (\<forall>row w status w'. ad_CreateUnicastIpAddressEntry ad row w = (status, w') \<longrightarrow>
        (status = NO_ERROR (ad_ip ad) \<longleftrightarrow> \<not> refused (table w) row) \<and>
        table w' = (if refused (table w) row then table w else table w @ [row]))"

lemma set_adapter_ip_table:
  assumes "address_contract ad table refused"
  shows "isl (fst (set_adapter_ip ad row w)) = refused (table w) row"
    and "table (snd (set_adapter_ip ad row w)) = (if refused (table w) row then table w else table w @ [row])"
  using assms
  by (cases "ad_CreateUnicastIpAddressEntry ad row w"; force simp: address_contract_def set_adapter_ip_def)+

lemma try_ip_addresses_first:
  assumes "address_contract ad table refused"
  shows "case try_ip_addresses ad index octets w of
      (Inl _, w') \<Rightarrow> table w' = table w \<and> list_all (\<lambda>i. refused (table w) (ipv4_unicast_row ad index (client_ipv4 i) 32)) octets
    | (Inr (v4, v6), w') \<Rightarrow> \<exists>js i ks. octets = js @ i # ks \<and> v4 = client_ipv4 i \<and>
        list_all (\<lambda>i. refused (table w) (ipv4_unicast_row ad index (client_ipv4 i) 32)) js \<and>
        table w' = table w @ ipv4_unicast_row ad index v4 32 #
          (case v6 of None \<Rightarrow> [] | Some a \<Rightarrow> [ipv6_unicast_row ad index a 128])"
proof (induction octets arbitrary: w)
  case (Cons i octets)
  let ?r4 = "ipv4_unicast_row ad index (client_ipv4 i) 32" and ?r6 = "ipv6_unicast_row ad index (client_ipv6 i) 128"
  note T = set_adapter_ip_table [OF assms]
  obtain a w1 where a: "set_adapter_ip ad ?r4 w = (a, w1)" by (cases "set_adapter_ip ad ?r4 w")
  show ?case
  proof (cases "refused (table w) ?r4")
    case True
    with T(1,2) [of ?r4 w] a have "isl a" "table w1 = table w" by simp_all
    then show ?thesis
      using Cons.IH [of w1] a True
      by (cases a)
        (auto simp: set_adapter_ipv4_address_def split: prod.splits sum.splits, metis append_Cons list.pred_inject(2))
  next
    case False
    obtain b w2 where b: "set_adapter_ip ad ?r6 w1 = (b, w2)" by (cases "set_adapter_ip ad ?r6 w1")
    from T(1,2) [of ?r4 w] a False have "\<not> isl a" "table w1 = table w @ [?r4]" by simp_all
    moreover from T(1,2) [of ?r6 w1] b have "table w2 = (if isl b then table w1 else table w1 @ [?r6])" by simp
    ultimately show ?thesis
      using a b by (cases a; cases b)
        (auto simp: set_adapter_ipv4_address_def set_adapter_ipv6_address_def intro: exI [of _ "[]"])
  qed
qed simp

text \<open>
  What the calls around the routes leave alone: the routes of the other interfaces and the record
  of the server routes. The system may add and remove routes of the adapter itself, as it does when
  an address is set, IPv6 is switched or the adapter goes away; giving up the session adds none.
\<close>

definition session_obs ::
  "'w session_env \<Rightarrow> ('k \<Rightarrow> u32) \<Rightarrow> u32 \<Rightarrow> ('w \<Rightarrow> 'k set) \<Rightarrow> 'w \<Rightarrow> 'k set \<times> string list" where
  "session_obs env ifx index keys w = ({k \<in> keys w. ifx k \<noteq> index}, get_created_routes (re_reg (sv_routes env)) w)"

definition session_contract :: "'w session_env \<Rightarrow> ('k \<Rightarrow> u32) \<Rightarrow> u32 \<Rightarrow> ('w \<Rightarrow> 'k set) \<Rightarrow> bool" where
  "session_contract env ifx index keys \<longleftrightarrow>
     (let obs = session_obs env ifx index keys in
      adapter_frame (sv_adapter env) obs \<and>
      (\<forall>a w i. wt_get_adapter_index env a w = Inr i \<longrightarrow> i = index) \<and>
      (\<forall>p w. obs (snd (wt_load_from_path env p w)) = obs w) \<and>
      (\<forall>n w. obs (snd (wt_adapter_open env n w)) = obs w) \<and>
      (\<forall>n d g w. obs (snd (wt_adapter_create env n d g w)) = obs w) \<and>
      (\<forall>a n w. obs (snd (wt_start_session env a n w)) = obs w) \<and>
      (\<forall>h w. obs (snd (wt_session_shutdown env h w)) = obs w \<and> keys (snd (wt_session_shutdown env h w)) \<subseteq> keys w) \<and>
      (\<forall>h w. obs (wt_session_drop env h w) = obs w \<and> keys (wt_session_drop env h w) \<subseteq> keys w) \<and>
      (\<forall>a w. obs (wt_adapter_drop env a w) = obs w \<and> keys (wt_adapter_drop env a w) \<subseteq> keys w))"

lemma session_calls:
  assumes "session_contract env ifx index keys"
  shows "adapter_frame (sv_adapter env) (session_obs env ifx index keys)"
    and "wt_get_adapter_index env a w = Inr i \<Longrightarrow> i = index"
    and "wt_load_from_path env p w = (ru, w') \<Longrightarrow> session_obs env ifx index keys w' = session_obs env ifx index keys w"
    and "wt_adapter_open env p w = (ra, w') \<Longrightarrow> session_obs env ifx index keys w' = session_obs env ifx index keys w"
    and "wt_adapter_create env p d g w = (ra, w') \<Longrightarrow> session_obs env ifx index keys w' = session_obs env ifx index keys w"
    and "wt_start_session env a n w = (ra, w') \<Longrightarrow> session_obs env ifx index keys w' = session_obs env ifx index keys w"
    and "session_obs env ifx index keys (wt_adapter_drop env a w) = session_obs env ifx index keys w"
  using assms unfolding session_contract_def Let_def by (elim conjE; metis snd_conv)+

lemma session_obs_eqD:
  assumes "session_obs env ifx index keys w' = session_obs env ifx index keys w"
  shows "ifx k \<noteq> index \<Longrightarrow> k \<in> keys w' \<longleftrightarrow> k \<in> keys w"
    and "recorded (sv_routes env) w' = recorded (sv_routes env) w"
  using assms by (auto simp: session_obs_def recorded_def)

lemma try_ip_addresses_keeps:
  assumes "adapter_frame ad obs"
  shows "try_ip_addresses ad index octets w = (r, w') \<Longrightarrow> obs w' = obs w"
proof (induction octets arbitrary: w)
  case (Cons i octets)
  note K = set_adapter_address_keeps [OF assms]
  obtain a w1 where a: "set_adapter_ipv4_address ad index (client_ipv4 i) 32 w = (a, w1)"
    by (cases "set_adapter_ipv4_address ad index (client_ipv4 i) 32 w")
  obtain b w2 where b: "set_adapter_ipv6_address ad index (client_ipv6 i) 128 w1 = (b, w2)"
    by (cases "set_adapter_ipv6_address ad index (client_ipv6 i) 128 w1")
  from Cons a b K(1) [OF a] K(2) [OF b] show ?case by (cases a; cases b) auto
qed simp

lemma set_dns_servers_keeps:
  assumes "adapter_frame ad obs"
  shows "obs (snd (set_dns_servers ad custom v4 v6 w)) = obs w"
proof -
  note K = set_adapter_dns_keeps [OF assms]
  obtain ips4 ips6 where s: "split_ips_by_protocol custom = (ips4, ips6)" by (cases "split_ips_by_protocol custom")
  obtain a w1 where a: "set_ipv4_dns_servers ad ips4 v4 w = (a, w1)" by (cases "set_ipv4_dns_servers ad ips4 v4 w")
  obtain b w2 where b: "set_ipv6_dns_servers ad ips6 (the v6) w1 = (b, w2)" by (cases "set_ipv6_dns_servers ad ips6 (the v6) w1")
  have "obs w1 = obs w" "obs w2 = obs w1"
    using a b by (auto simp: set_ipv4_dns_servers_def set_ipv6_dns_servers_def dest: K)
  with s a b show ?thesis by (cases a; cases v6) (simp_all add: set_dns_servers_def)
qed

lemma configure_adapter_keeps:
  assumes "adapter_frame (sv_adapter env) obs" "configure_adapter env index config w = Some w'"
  shows "obs w' = obs w"
proof -
  let ?w1 = "snd (set_ipv4_adapter_configurations (sv_adapter env) index (ac_mtu config) w)"
  obtain r w2 where r: "toggle_adapter_ipv6 (sv_adapter env) (ac_is_ipv6_enabled config) ?w1 = Some (r, w2)"
    using assms(2) by (auto simp: configure_adapter_def enable_adapter_ipv6_def disable_adapter_ipv6_def Let_def split: if_splits)
  with assms(2) have "w' = w2 \<or> w' = snd (set_ipv6_adapter_configurations (sv_adapter env) index (ac_mtu config) w2)"
    by (auto simp: configure_adapter_def enable_adapter_ipv6_def disable_adapter_ipv6_def Let_def split: if_splits)
  with toggle_adapter_ipv6_keeps [OF assms(1) r] set_adapter_configurations_keeps [OF assms(1)] show ?thesis by auto
qed

lemma create_wintun_adapter_keeps:
  assumes "session_contract env ifx index keys" "create_wintun_adapter env w = (r, w')"
  shows "session_obs env ifx index keys w' = session_obs env ifx index keys w"
proof -
  note K = session_calls [OF assms(1)]
  obtain a w1 where a: "wt_load_from_path env WINTUN_FILE_NAME w = (a, w1)" by (cases "wt_load_from_path env WINTUN_FILE_NAME w")
  obtain b w2 where b: "wt_adapter_open env ADAPTER_NAME w1 = (b, w2)" by (cases "wt_adapter_open env ADAPTER_NAME w1")
  obtain c w3 where c: "wt_adapter_create env ADAPTER_NAME ADAPTER_DESCRIPTION (Some ADAPTER_GUID_U128) w2 = (c, w3)"
    by (cases "wt_adapter_create env ADAPTER_NAME ADAPTER_DESCRIPTION (Some ADAPTER_GUID_U128) w2")
  from assms(2) a b c have "w' \<in> {w1, w2, w3}"
    by (cases a; cases b; cases c) (auto simp: create_wintun_adapter_def)
  with K(3) [OF a] K(4) [OF b] K(5) [OF c] show ?thesis by auto
qed

text \<open>Creating the routes, whether it succeeds or not, leaves no server route unrecorded.\<close>

lemma routes_create_recorded:
  assumes "route_contract (re_ip env) rk ifx keys" "registry_contract env keys" "json_contract env"
    and "routes_create env v4 v6 index server_ips w = (r, w')"
  shows "\<forall>k\<in>keys w' - keys w. ifx k = index \<or> k \<in> row_keys env rk (recorded env w')"
proof (cases r)
  case (Inl e)
  with assms(4) have "w' = add_adapter_routes env v4 v6 index w"
    by (auto simp: routes_create_def Let_def split: sum.splits prod.splits)
  with add_adapter_routes_keys [OF assms(1,2) refl] show ?thesis by blast
next
  case (Inr rs)
  with routes_create_tracked [OF assms(1-3)] assms(4) show ?thesis by blast
qed

text \<open>
  Starting a session creates its routes once, in a system that differs from the one before only in
  what the calls may change, or fails before that.
\<close>

lemma session_steps_routes:
  assumes "session_contract env ifx index keys"
    and "start_session_steps env adapter index n server_ips config w = (r, w')"
  shows "(\<exists>e. r = Inl e) \<and> session_obs env ifx index keys w' = session_obs env ifx index keys w \<or>
     (\<exists>v4 v6 wa q wb. session_obs env ifx index keys wa = session_obs env ifx index keys w \<and>
        routes_create (sv_routes env) v4 v6 index server_ips wa = (q, wb) \<and>
        session_obs env ifx index keys w' = session_obs env ifx index keys wb \<and>
        (\<forall>s. r = Inr s \<longrightarrow> q = Inr (wn_routes s)))"
proof -
  note K = session_calls [OF assms(1)]
  obtain a w1 where a: "set_adapter_ip_addresses (sv_adapter env) index w = (a, w1)"
    by (cases "set_adapter_ip_addresses (sv_adapter env) index w")
  note w1 = try_ip_addresses_keeps [OF K(1) a [unfolded set_adapter_ip_addresses_def]]
  show ?thesis
  proof (cases a)
    case (Inl e)
    with assms(2) a w1 K(7) show ?thesis by (auto simp: start_session_steps_def)
  next
    case (Inr v)
    obtain v4 v6 where v: "v = (v4, v6)" by (cases v)
    obtain s4 s6 w2 where dns: "calculate_and_set_dns_servers (sv_adapter env) (ac_custom_dns_server_ips config) v4 v6 w1 = ((s4, s6), w2)"
      by (metis prod.exhaust)
    then have w2: "session_obs env ifx index keys w2 = session_obs env ifx index keys w"
      using set_dns_servers_keeps [OF K(1)] w1 by (auto simp: calculate_and_set_dns_servers_def Let_def)
    obtain q w3 where q: "routes_create (sv_routes env) s4 s6 index server_ips w2 = (q, w3)"
      by (cases "routes_create (sv_routes env) s4 s6 index server_ips w2")
    obtain h w4 where h: "wt_start_session env adapter n w3 = (h, w4)" by (cases "wt_start_session env adapter n w3")
    have "session_obs env ifx index keys w' = session_obs env ifx index keys w3 \<and> (\<forall>s. r = Inr s \<longrightarrow> q = Inr (wn_routes s))"
      using assms(2) a Inr v dns q h K(6) [OF h] K(7) by (cases q; cases h) (auto simp: start_session_steps_def)
    with w2 q show ?thesis by blast
  qed
qed

lemma session_create_routes:
  assumes "session_contract env ifx index keys"
    and "wintun_session_create env server_ips config w = Some (r, w')"
  shows "(\<exists>e. r = Inl e) \<and> session_obs env ifx index keys w' = session_obs env ifx index keys w \<or>
     (\<exists>v4 v6 wa q wb. session_obs env ifx index keys wa = session_obs env ifx index keys w \<and>
        routes_create (sv_routes env) v4 v6 index server_ips wa = (q, wb) \<and>
        session_obs env ifx index keys w' = session_obs env ifx index keys wb \<and>
        (\<forall>s. r = Inr s \<longrightarrow> q = Inr (wn_routes s)))"
proof -
  note K = session_calls [OF assms(1)]
  obtain a w1 where a: "create_wintun_adapter env w = (a, w1)" by (cases "create_wintun_adapter env w")
  note w1 = create_wintun_adapter_keeps [OF assms(1) a]
  show ?thesis
  proof (cases "\<exists>adapter. a = Inr adapter \<and> wt_get_adapter_index env adapter w1 = Inr index")
    case True
    then obtain adapter where adapter: "a = Inr adapter" "wt_get_adapter_index env adapter w1 = Inr index" by blast
    with assms(2) a obtain n w2 where w2: "configure_adapter env index config w1 = Some w2"
      and steps: "start_session_steps env adapter index n server_ips config w2 = (r, w')"
      by (auto simp: wintun_session_create_def Let_def)
    from configure_adapter_keeps [OF K(1) w2] w1 session_steps_routes [OF assms(1) steps] show ?thesis by simp
  next
    case False
    with assms(2) a w1 K(2,7) have "(\<exists>e. r = Inl e) \<and> session_obs env ifx index keys w' = session_obs env ifx index keys w"
      by (cases a) (auto simp: wintun_session_create_def Let_def split: sum.splits)
    then show ?thesis by blast
  qed
qed

lemma session_create_recorded:
  assumes "route_contract (re_ip (sv_routes env)) rk ifx keys" "registry_contract (sv_routes env) keys"
    and "json_contract (sv_routes env)" "session_contract env ifx index keys"
    and "wintun_session_create env server_ips config w = Some (r, w')"
  shows "keys w' - keys w \<subseteq> {k. ifx k = index} \<union> row_keys (sv_routes env) rk (recorded (sv_routes env) w')"
proof -
  from session_create_routes [OF assms(4,5)] show ?thesis
  proof (elim disjE exE conjE)
    assume "session_obs env ifx index keys w' = session_obs env ifx index keys w"
    from session_obs_eqD(1) [OF this] show ?thesis by blast
  next
    fix v4 v6 wa q wb
    assume wa: "session_obs env ifx index keys wa = session_obs env ifx index keys w"
      and q: "routes_create (sv_routes env) v4 v6 index server_ips wa = (q, wb)"
      and wb: "session_obs env ifx index keys w' = session_obs env ifx index keys wb"
    from routes_create_recorded [OF assms(1-3) q] session_obs_eqD [OF wa] session_obs_eqD [OF wb]
    show ?thesis by blast
  qed
qed

text \<open>The addresses of a session.\<close>

lemma session_addresses:
  assumes "wintun_session_create env server_ips config w = Some (Inr s, w')"
  shows "\<exists>i\<ge>2. wn_client_ipv4_addr s = Ipv4Addr 10 i 0 2 \<and> wn_server_ipv4_addr s = Ipv4Addr 10 i 0 1 \<and>
     (wn_client_ipv6_addr s, wn_server_ipv6_addr s) \<in>
       {(None, None), (Some (Ipv6Addr 0x2a07 0xb944 0 0 0 0 (ucast i) 2), Some (Ipv6Addr 0x2a07 0xb944 0 0 0 0 (ucast i) 1))} \<and>
     routes_interface_index (wn_routes s) = wn_interface_index s"
proof -
  from assms obtain a index n w1 where "start_session_steps env a index n server_ips config w1 = (Inr s, w')"
    by (auto simp: wintun_session_create_def Let_def split: prod.splits sum.splits)
  then obtain v4 v6 s4 s6 rs w2 w3 w4 where ip: "set_adapter_ip_addresses (sv_adapter env) index w1 = (Inr (v4, v6), w2)"
    and dns: "calculate_and_set_dns_servers (sv_adapter env) (ac_custom_dns_server_ips config) v4 v6 w2 = ((s4, s6), w3)"
    and routes: "routes_create (sv_routes env) s4 s6 index server_ips w3 = (Inr rs, w4)"
    and s: "wn_interface_index s = index" "wn_client_ipv4_addr s = v4" "wn_server_ipv4_addr s = s4"
      "wn_client_ipv6_addr s = v6" "wn_server_ipv6_addr s = s6" "wn_routes s = rs"
    by (auto simp: start_session_steps_def Let_def split: prod.splits sum.splits)
  from try_ip_addresses_form [OF ip [unfolded set_adapter_ip_addresses_def], unfolded octet_range]
  obtain i :: u8 where i: "2 \<le> i" "v4 = client_ipv4 i" "v6 = None \<or> v6 = Some (client_ipv6 i)" by blast
  have "routes_interface_index rs = index"
    using routes by (auto simp: routes_create_def Let_def split: sum.splits prod.splits)
  with s i dns show ?thesis
    by (intro exI [of _ i]) (auto simp: calculate_and_set_dns_servers_def Let_def client_ipv4_def client_ipv6_def)
qed

section \<open>A concrete system\<close>

text \<open>
  The systems of the examples side by side: the first address of the range is taken, the
  component object model is not available, IPv6 addresses are refused and the driver has a ring of 128 KiB to 64 MiB, of
  which it can only allocate the smallest.
\<close>

type_synonym session_world = "example_world \<times> adapter_world"

definition example_session_env :: "session_world session_env" where
  "example_session_env =
     (let routes = route_system fst (\<lambda>v w. (v, snd w)) in
      \<lparr>sv_routes = routes,
       sv_adapter = (adapter_system (re_ip routes) snd (\<lambda>f w. (fst w, f (snd w))))\<lparr>CoInitializeEx := Pair False,
         ad_CreateUnicastIpAddressEntry := (\<lambda>row w.
           if si_family (ue_address row) = 23 \<or> ue_address row \<in> ue_address ` set (aw_unicast (snd w)) then (5010, w)
           else (0, (fst w, aw_unicast_update (\<lambda>rows. rows @ [row]) (snd w))))\<rparr>,
       wt_load_from_path = (\<lambda>_ w. (Inr (), w)),
       wt_adapter_open = (\<lambda>_ w. (Inl ''not found'', w)),
       wt_adapter_create = (\<lambda>_ _ _ w. (Inr 1, w)),
       wt_adapter_drop = (\<lambda>_ w. w),
       wt_get_adapter_index = (\<lambda>_ _. Inr 17),
       wt_start_session = (\<lambda>_ n w. (if n = 0x20000 then Inr 2 else Inl ''too large'', w)),
       wt_session_shutdown = (\<lambda>_ w. (Inr (), w)),
       wt_session_drop = (\<lambda>_ w. w),
       MIN_RING_CAPACITY = 0x20000, MAX_RING_CAPACITY = 0x4000000\<rparr>)"

definition taken_entry :: unicast_entry where
  "taken_entry = ipv4_unicast_row (sv_adapter example_session_env) 3 (client_ipv4 2) 32"

definition example_session_world :: session_world where
  "example_session_world = ((example_routes, []), example_adapter_world\<lparr>aw_unicast := [taken_entry]\<rparr>)"

lemma example_session_contracts:
  "route_contract (re_ip (sv_routes example_session_env)) route_key (\<lambda>(_, _, _, i). i) (\<lambda>w. example_keys (fst w))"
  "registry_contract (sv_routes example_session_env) (\<lambda>w. example_keys (fst w))"
  "json_contract (sv_routes example_session_env)"
  "session_contract example_session_env (\<lambda>(_, _, _, i). i) 17 (\<lambda>w. example_keys (fst w))"
  "address_contract (sv_adapter example_session_env) (\<lambda>w. aw_unicast (snd w))
     (\<lambda>rows row. si_family (ue_address row) = 23 \<or> ue_address row \<in> ue_address ` set rows)"
proof -
  note R = route_system_contracts [of fst "\<lambda>v w. (v, snd w)" for w, OF fst_conv]
  show "route_contract (re_ip (sv_routes example_session_env)) route_key (\<lambda>(_, _, _, i). i) (\<lambda>w. example_keys (fst w))"
    "registry_contract (sv_routes example_session_env) (\<lambda>w. example_keys (fst w))"
    "json_contract (sv_routes example_session_env)"
    using R by (simp_all add: example_session_env_def Let_def)
  have "adapter_frame (sv_adapter example_session_env) (\<lambda>w. obs (fst w))" for obs :: "example_world \<Rightarrow> 'o"
    by (simp add: adapter_frame_def example_session_env_def adapter_system_def Let_def split: nat.split)
  then show "session_contract example_session_env (\<lambda>(_, _, _, i). i) 17 (\<lambda>w. example_keys (fst w))"
    by (simp add: session_contract_def session_obs_def [abs_def] example_session_env_def route_system_def
        get_created_routes_def Let_def)
  show "address_contract (sv_adapter example_session_env) (\<lambda>w. aw_unicast (snd w))
     (\<lambda>rows row. si_family (ue_address row) = 23 \<or> ue_address row \<in> ue_address ` set rows)"
    by (auto simp: address_contract_def example_session_env_def adapter_system_def route_system_def table_system_def Let_def)
qed

section \<open>Properties\<close>

text \<open>The size of the ring that is asked of the driver is a power of two between the driver's
  minimum and maximum. It is at least the proposed size unless that exceeds the maximum, and it
  is the least such power of two.\<close>

theorem ring_size_least:
  assumes "unat (MIN_RING_CAPACITY env) = 2 ^ a" and "unat (MAX_RING_CAPACITY env) = 2 ^ b" and "a \<le> b"
  shows "\<exists>k. a \<le> k \<and> k \<le> b \<and> unat (get_valid_wintun_buffer_size env proposed) = 2 ^ k \<and>
     (k = b \<or> unat proposed \<le> 2 ^ k) \<and> (\<forall>j\<ge>a. unat proposed \<le> 2 ^ j \<longrightarrow> k \<le> j)"
proof (cases "checked_next_power_of_two proposed")
  case None
  have "(2 :: nat) ^ b < 2 ^ 32" using unsigned_less [of "MAX_RING_CAPACITY env", where 'a = nat] assms(2) by simp
  then have "b < 32" by (simp only: power_strict_increasing_iff)
  have big: "b \<le> j" if "unat proposed \<le> 2 ^ j" for j
  proof -
    have "\<not> j < 32" using next_power_none [OF None, of j] that by blast
    with \<open>b < 32\<close> show ?thesis by linarith
  qed
  have "\<not> MAX_RING_CAPACITY env < MIN_RING_CAPACITY env"
    using word_less_power [OF assms(2,1)] assms(3) by simp
  then have "get_valid_wintun_buffer_size env proposed = MAX_RING_CAPACITY env"
    using None by (simp add: get_valid_wintun_buffer_size_def)
  with big assms show ?thesis by (metis order_refl)
next
  case (Some p)
  from next_power_least [OF Some] obtain k where k: "unat p = 2 ^ k" "\<And>j. unat proposed \<le> 2 ^ j \<longleftrightarrow> k \<le> j" by blast
  have size: "get_valid_wintun_buffer_size env proposed =
      (if k < a then MIN_RING_CAPACITY env else if b < k then MAX_RING_CAPACITY env else p)"
    using Some word_less_power [OF k(1) assms(1)] word_less_power [OF assms(2) k(1)]
    by (simp add: get_valid_wintun_buffer_size_def)
  consider "k < a" | "a \<le> k" "k \<le> b" | "b < k" by linarith
  then show ?thesis
  proof cases
    case 1
    with assms show ?thesis by (intro exI [of _ a]) (simp add: size k(2))
  next
    case 2
    with k show ?thesis by (intro exI [of _ k]) (simp add: size k(2))
  next
    case 3
    with assms show ?thesis by (intro exI [of _ b]) (simp add: size k(2))
  qed
qed

theorem ring_size_least_witness:
  "\<exists>k. 17 \<le> k \<and> k \<le> 26 \<and> unat (get_valid_wintun_buffer_size example_session_env 1000000) = 2 ^ k \<and>
     (k = 26 \<or> 1000000 \<le> (2 :: nat) ^ k)"
proof -
  have "unat (MIN_RING_CAPACITY example_session_env) = 2 ^ 17" "unat (MAX_RING_CAPACITY example_session_env) = 2 ^ 26"
    by (simp_all add: example_session_env_def Let_def)
  from ring_size_least [OF this, where proposed = 1000000] show ?thesis by auto
qed

text \<open>C30: A session that was created has consistent addresses: for one number from 2 to 255 its own
  address is 10.n.0.2 and the server's is 10.n.0.1, and it has an IPv6 address of its own exactly
  when it has one for the server, both with the same number; its routes are those of its
  interface.\<close>

theorem session_well_formed:
  assumes "wintun_session_create env server_ips config w = Some (Inr s, w')"
  shows "\<exists>i\<ge>2. wn_client_ipv4_addr s = Ipv4Addr 10 i 0 2 \<and> wn_server_ipv4_addr s = Ipv4Addr 10 i 0 1 \<and>
     (wn_client_ipv6_addr s, wn_server_ipv6_addr s) \<in>
       {(None, None), (Some (Ipv6Addr 0x2a07 0xb944 0 0 0 0 (ucast i) 2), Some (Ipv6Addr 0x2a07 0xb944 0 0 0 0 (ucast i) 1))} \<and>
     routes_interface_index (wn_routes s) = wn_interface_index s"
  using assms by (rule session_addresses)

definition example_config :: adapter_config where
  "example_config = \<lparr>ac_custom_dns_server_ips = [V4 (Ipv4Addr 9 9 9 9)], ac_is_ipv6_enabled = True, ac_mtu = 1400,
     ac_buffer_size_bytes = 100000\<rparr>"

lemma example_session_created:
  "map_option (map_sum (\<lambda>_. ()) (\<lambda>s. (wn_client_ipv4_addr s, wn_interface_index s)) \<circ> fst)
     (wintun_session_create example_session_env [V4 (Ipv4Addr 1 2 3 4)] example_config example_session_world) =
   Some (Inr (Ipv4Addr 10 3 0 2, 17))"
  by code_simp

theorem session_well_formed_witness:
  "\<exists>s w'. wintun_session_create example_session_env [V4 (Ipv4Addr 1 2 3 4)] example_config example_session_world =
       Some (Inr s, w') \<and> wn_client_ipv4_addr s = Ipv4Addr 10 3 0 2 \<and> wn_server_ipv4_addr s = Ipv4Addr 10 3 0 1 \<and>
     routes_interface_index (wn_routes s) = 17"
proof -
  from example_session_created obtain s w' where
    run: "wintun_session_create example_session_env [V4 (Ipv4Addr 1 2 3 4)] example_config example_session_world = Some (Inr s, w')"
    and s: "wn_client_ipv4_addr s = Ipv4Addr 10 3 0 2" "wn_interface_index s = 17"
    by (auto simp: map_sum_def split: sum.splits) (metis sum.exhaust)
  from session_well_formed [OF run] s run show ?thesis by auto
qed

text \<open>The adapter gets the first address of the range that the system accepts, as a /32 address,
  and then possibly the IPv6 address with the same number; no other address is added. The setup
  fails only when all 254 addresses are refused, and then no address has been added.\<close>

theorem first_free_address:
  assumes "address_contract ad table refused"
  shows "case set_adapter_ip_addresses ad index w of
      (Inl _, w') \<Rightarrow> table w' = table w \<and> (\<forall>i\<ge>2. refused (table w) (ipv4_unicast_row ad index (Ipv4Addr 10 i 0 2) 32))
    | (Inr (v4, v6), w') \<Rightarrow> \<exists>i\<ge>2. v4 = Ipv4Addr 10 i 0 2 \<and>
        (\<forall>j\<ge>2. j < i \<longrightarrow> refused (table w) (ipv4_unicast_row ad index (Ipv4Addr 10 j 0 2) 32)) \<and>
        table w' = table w @ ipv4_unicast_row ad index v4 32 #
          (case v6 of None \<Rightarrow> [] | Some a \<Rightarrow> [ipv6_unicast_row ad index a 128])"
proof (cases "set_adapter_ip_addresses ad index w" rule: prod.exhaust)
  case (Pair r w')
  note T = try_ip_addresses_first [OF assms, where index = index and octets = "map word_of_int [2..255]" and w = w, folded set_adapter_ip_addresses_def,
      unfolded Pair, simplified prod.case]
  show ?thesis
  proof (cases r)
    case (Inl e)
    with T octet_range have "refused (table w) (ipv4_unicast_row ad index (client_ipv4 i) 32)" if "2 \<le> i" for i
      using that by (simp only: list_all_iff sum.case) blast
    with T Pair Inl show ?thesis by (simp add: client_ipv4_def)
  next
    case (Inr v)
    obtain v4 v6 where v: "v = (v4, v6)" by (cases v)
    from T Inr v obtain js i ks where js: "map word_of_int [2..255] = js @ i # ks" "v4 = client_ipv4 i"
      "list_all (\<lambda>i. refused (table w) (ipv4_unicast_row ad index (client_ipv4 i) 32)) js"
      and table: "table w' = table w @ ipv4_unicast_row ad index v4 32 #
        (case v6 of None \<Rightarrow> [] | Some a \<Rightarrow> [ipv6_unicast_row ad index a 128])" by (simp only: sum.case prod.case) blast
    have "refused (table w) (ipv4_unicast_row ad index (Ipv4Addr 10 j 0 2) 32)" if "2 \<le> j" "j < i" for j
      using octets_before(2) [OF js(1) that] js(3) by (simp add: list_all_iff client_ipv4_def)
    with octets_before(1) [OF js(1)] js(2) table Pair Inr v show ?thesis by (auto simp: client_ipv4_def)
  qed
qed

theorem first_free_address_witness:
  "case set_adapter_ip_addresses (sv_adapter example_session_env) 17 example_session_world of
     (Inl _, w') \<Rightarrow> False
   | (Inr (v4, v6), w') \<Rightarrow> \<exists>i\<ge>2. v4 = Ipv4Addr 10 i 0 2 \<and> i = 3 \<and> length (aw_unicast (snd w')) = 2"
proof -
  obtain r w' where run: "set_adapter_ip_addresses (sv_adapter example_session_env) 17 example_session_world = (r, w')"
    by (cases "set_adapter_ip_addresses (sv_adapter example_session_env) 17 example_session_world")
  have "map_sum (\<lambda>_. ()) (map_prod id (map_option (\<lambda>_. ())))
      (fst (set_adapter_ip_addresses (sv_adapter example_session_env) 17 example_session_world)) =
      Inr (Ipv4Addr 10 3 0 2, None)" by code_simp
  with run have r: "r = Inr (Ipv4Addr 10 3 0 2, None)" by (auto simp: map_sum_def split: sum.splits)
  have "length (aw_unicast (snd example_session_world)) = 1" by (simp add: example_session_world_def)
  with first_free_address [OF example_session_contracts(5), where index = 17 and w = example_session_world] run r
  show ?thesis by simp
qed

text \<open>C19: A session that could not be started leaves no route behind that nothing remembers: whatever
  step of its creation failed, each route that was added is a route of the adapter, which goes away with it, or
  it is recorded in the registry, from where the next clean-up deletes it.\<close>

theorem failed_session_routes_recorded:
  assumes "route_contract (re_ip (sv_routes env)) rk ifx keys" "registry_contract (sv_routes env) keys"
    and "json_contract (sv_routes env)" "session_contract env ifx index keys"
    and "wintun_session_create env server_ips config w = Some (Inl e, w')"
  shows "keys w' - keys w \<subseteq> {k. ifx k = index} \<union> (\<lambda>r. rk (route_row (re_ip (sv_routes env)) r)) ` recorded (sv_routes env) w'"
  by (rule session_create_recorded [OF assms])

definition example_failed :: "((protun_fatal_error + wintun_session) \<times> session_world) option" where
  "example_failed = wintun_session_create example_session_env [V4 (Ipv4Addr 1 2 3 4)]
     (example_config\<lparr>ac_buffer_size_bytes := 200000\<rparr>) example_session_world"

lemma example_failed_summary:
  "map_option (\<lambda>(r, w). (isl r, length (snd (fst w)))) example_failed = Some (True, 1)"
  by code_simp

theorem failed_session_routes_recorded_witness:
  "\<exists>e w'. example_failed = Some (Inl e, w') \<and> length (snd (fst w')) = 1 \<and>
     example_keys (fst w') - example_keys (fst example_session_world) \<subseteq>
       {k. (\<lambda>(_, _, _, i). i) k = 17} \<union>
       (\<lambda>r. route_key (route_row (re_ip (sv_routes example_session_env)) r)) ` recorded (sv_routes example_session_env) w'"
proof -
  from example_failed_summary obtain e w' where run: "example_failed = Some (Inl e, w')" "length (snd (fst w')) = 1"
    by (auto simp: isl_def)
  from failed_session_routes_recorded [OF example_session_contracts(1-4) run(1) [unfolded example_failed_def]] run
  show ?thesis by blast
qed

text \<open>The name servers that the system was given, in the order of the calls that it accepted.\<close>

definition dns_contract :: "'w adapter_api \<Rightarrow> ('w \<Rightarrow> dns_settings list) \<Rightarrow> bool" where
  "dns_contract ad given \<longleftrightarrow>
     (\<forall>guid ds w status w'. ad_SetInterfaceDnsSettings ad guid ds w = (status, w') \<longrightarrow>
        given w' = (if status = NO_ERROR (ad_ip ad) then given w @ [ds] else given w))"

text \<open>The own servers of the user come first and each once; the server of the tunnel is among them.\<close>

definition servers_then :: "'a list \<Rightarrow> 'a \<Rightarrow> 'a list \<Rightarrow> bool" where
  "servers_then custom server ips \<longleftrightarrow>
     distinct ips \<and> set ips = insert server (set custom) \<and> prefix (distinct_vec custom) ips"

lemma servers_then_distinct: "servers_then custom server (distinct_vec (custom @ [server]))"
  by (auto simp: servers_then_def distinct_vec_append)

lemma set_dns_server_given:
  assumes "dns_contract ad given" and "set_dns_server ad guid ds w = (Inr u, w')"
  shows "given w' = given w @ [ds]"
  using assms by (auto simp: dns_contract_def set_dns_server_def split: prod.splits if_splits)



end
