(* ===== verification/Windows_Sockets.thy ===== *)
theory Windows_Sockets
  imports Write_Queue Internet_Interface
begin

unbundle bit_operations_syntax

text \<open>
  The streams of Windows: \<^verbatim>\<open>src/connection/windows/tcp.rs\<close>, \<^verbatim>\<open>udp.rs\<close> and \<^verbatim>\<open>tun_windows.rs\<close>, the
  events of a socket in \<^verbatim>\<open>helpers/socket_handle.rs\<close>, and the classification of socket errors in
  \<^verbatim>\<open>src/utils/windows/io_error.rs\<close>. Winsock, the standard library's sockets and the crate
  \<^verbatim>\<open>wintun\<close> are the record \<open>win_sys\<close>; \<open>'w\<close> is the state of the system. A socket that goes out
  of scope is closed, and so is the event of a socket handle.
\<close>

section \<open>Socket errors (\<^verbatim>\<open>io_error.rs\<close>)\<close>

datatype transport = TransportUdp | TransportTcp

datatype socket_error_action = FatalSocketError | ActionWouldBlock

text \<open>
  Fatal for both transports: \<^verbatim>\<open>WSA_INVALID_HANDLE\<close>, \<^verbatim>\<open>WSAEBADF\<close>, \<^verbatim>\<open>WSAEFAULT\<close>, \<^verbatim>\<open>WSAEINVAL\<close>,
  \<^verbatim>\<open>WSAEMFILE\<close>, \<^verbatim>\<open>WSAENOTSOCK\<close>, \<^verbatim>\<open>WSAEDESTADDRREQ\<close>, \<^verbatim>\<open>WSAEPROTONOSUPPORT\<close>, \<^verbatim>\<open>WSAESOCKTNOSUPPORT\<close>,
  \<^verbatim>\<open>WSAEOPNOTSUPP\<close>, \<^verbatim>\<open>WSAEAFNOSUPPORT\<close>, \<^verbatim>\<open>WSAEADDRINUSE\<close>, \<^verbatim>\<open>WSAEADDRNOTAVAIL\<close>, \<^verbatim>\<open>WSAENETDOWN\<close>,
  \<^verbatim>\<open>WSAESHUTDOWN\<close>, \<^verbatim>\<open>WSAEPROCLIM\<close>, \<^verbatim>\<open>WSASYSNOTREADY\<close>, \<^verbatim>\<open>WSAVERNOTSUPPORTED\<close>, \<^verbatim>\<open>WSANOTINITIALISED\<close>,
  \<^verbatim>\<open>WSAEPROVIDERFAILEDINIT\<close>.
\<close>

definition fatal_codes :: "int list" where
  "fatal_codes = [6, 10009, 10014, 10022, 10024, 10038, 10039, 10043, 10044, 10045, 10047, 10048,
     10049, 10050, 10058, 10067, 10091, 10092, 10093, 10106]"

text \<open>
  Fatal for TCP only: \<^verbatim>\<open>WSAEACCES\<close>, \<^verbatim>\<open>WSAENETUNREACH\<close>, \<^verbatim>\<open>WSAENETRESET\<close>, \<^verbatim>\<open>WSAECONNABORTED\<close>,
  \<^verbatim>\<open>WSAECONNRESET\<close>, \<^verbatim>\<open>WSAETIMEDOUT\<close>, \<^verbatim>\<open>WSAECONNREFUSED\<close>, \<^verbatim>\<open>WSAEHOSTUNREACH\<close>.
\<close>

definition tcp_fatal_codes :: "int list" where
  "tcp_fatal_codes = [10013, 10051, 10052, 10053, 10054, 10060, 10061, 10065]"

definition to_socket_error_action :: "transport \<Rightarrow> io_error \<Rightarrow> socket_error_action" where
  "to_socket_error_action transport e =
     (if io_kind e = WouldBlock then ActionWouldBlock
      else case io_raw_os_error e of
        Some code \<Rightarrow>
          (case transport of
             TransportUdp \<Rightarrow> if code \<in> set fatal_codes then FatalSocketError else ActionWouldBlock
           | TransportTcp \<Rightarrow> if code \<in> set fatal_codes \<or> code \<in> set tcp_fatal_codes
                             then FatalSocketError else ActionWouldBlock)
      | None \<Rightarrow> ActionWouldBlock)"

section \<open>The system\<close>

type_synonym win_socket = int
type_synonym win_handle = int

datatype wintun_error = WintunIo io_error | WintunOther string

record 'w win_sys =
  ws_ip :: "'w ip_helper"
  ws_read :: "win_socket \<Rightarrow> nat \<Rightarrow> 'w \<Rightarrow> bytes io_result \<times> 'w"
  ws_write :: "win_socket \<Rightarrow> bytes \<Rightarrow> 'w \<Rightarrow> nat io_result \<times> 'w"
  ws_recv :: "win_socket \<Rightarrow> nat \<Rightarrow> 'w \<Rightarrow> bytes io_result \<times> 'w"
  ws_send :: "win_socket \<Rightarrow> bytes \<Rightarrow> 'w \<Rightarrow> nat io_result \<times> 'w"
  ws_shutdown_write :: "win_socket \<Rightarrow> 'w \<Rightarrow> 'w"
  ws_take_error :: "win_socket \<Rightarrow> 'w \<Rightarrow> io_error option io_result \<times> 'w"
  ws_stream_socket :: "bool \<Rightarrow> 'w \<Rightarrow> win_socket io_result \<times> 'w"
  ws_bind :: "win_socket \<Rightarrow> socket_addr \<Rightarrow> 'w \<Rightarrow> unit io_result \<times> 'w"
  ws_udp_bind :: "socket_addr \<Rightarrow> 'w \<Rightarrow> win_socket io_result \<times> 'w"
  ws_set_nonblocking :: "win_socket \<Rightarrow> 'w \<Rightarrow> unit io_result \<times> 'w"
  ws_connect :: "win_socket \<Rightarrow> socket_addr \<Rightarrow> 'w \<Rightarrow> unit io_result \<times> 'w"
  ws_ioctl_connreset :: "win_socket \<Rightarrow> u32 \<Rightarrow> 'w \<Rightarrow> int \<times> 'w"
  ws_last_os_error :: "'w \<Rightarrow> io_error"
  ws_set_send_buffer_size :: "win_socket \<Rightarrow> u32 \<Rightarrow> 'w \<Rightarrow> unit io_result \<times> 'w"
  ws_set_recv_buffer_size :: "win_socket \<Rightarrow> u32 \<Rightarrow> 'w \<Rightarrow> unit io_result \<times> 'w"
  ws_closesocket :: "win_socket \<Rightarrow> 'w \<Rightarrow> 'w"
  WSACreateEvent :: "'w \<Rightarrow> (string + win_handle) \<times> 'w"
  WSAEventSelect :: "win_socket \<Rightarrow> win_handle \<Rightarrow> u32 \<Rightarrow> 'w \<Rightarrow> int \<times> 'w"
  WSAEnumNetworkEvents :: "win_socket \<Rightarrow> win_handle \<Rightarrow> 'w \<Rightarrow> u32 \<times> 'w"
  WSACloseEvent :: "win_handle \<Rightarrow> 'w \<Rightarrow> 'w"
  FD_READ :: u32
  FD_WRITE :: u32
  wintun_try_receive :: "'w \<Rightarrow> (string + bytes option) \<times> 'w"
  wintun_allocate_send_packet :: "u16 \<Rightarrow> 'w \<Rightarrow> (wintun_error + nat) \<times> 'w"
  wintun_send_packet :: "bytes \<Rightarrow> 'w \<Rightarrow> 'w"
  WSAWaitForMultipleEvents :: "win_handle list \<Rightarrow> u32 \<Rightarrow> 'w \<Rightarrow> u32 \<times> 'w"
  CreateEventW :: "'w \<Rightarrow> (win32_error + win_handle) \<times> 'w"
  ResetEvent :: "win_handle \<Rightarrow> 'w \<Rightarrow> 'w"
  SetEvent :: "win_handle \<Rightarrow> 'w \<Rightarrow> 'w"
  WSA_INFINITE :: u32
  WAIT_TIMEOUT :: u32
  WAIT_OBJECT_0 :: u32

section \<open>Events of a socket (\<^verbatim>\<open>socket_handle.rs\<close>)\<close>

record socket_handle =
  sh_raw_socket :: win_socket
  sh_handle :: win_handle

record socket_event =
  se_is_readable :: bool
  se_is_writable :: bool

text \<open>The event and the handle are the same value. The event of a failed selection stays open.\<close>

definition socket_handle_new :: "'w win_sys \<Rightarrow> win_socket \<Rightarrow> 'w \<Rightarrow> socket_handle io_result \<times> 'w" where
  "socket_handle_new win sock w =
     (case WSACreateEvent win w of
        (Inl e, w) \<Rightarrow> (Inl (io_error_new OtherKind e), w)
      | (Inr event, w) \<Rightarrow>
          (case WSAEventSelect win sock event (FD_READ win OR FD_WRITE win) w of
             (result, w) \<Rightarrow>
               if result = 0 then (Inr \<lparr>sh_raw_socket = sock, sh_handle = event\<rparr>, w)
               else (Inl (io_error_new OtherKind ''Cannot create socket event handle: WSAEventSelect failed''), w)))"

definition get_events :: "'w win_sys \<Rightarrow> socket_handle \<Rightarrow> 'w \<Rightarrow> socket_event \<times> 'w" where
  "get_events win sh w =
     (case WSAEnumNetworkEvents win (sh_raw_socket sh) (sh_handle sh) w of (events, w) \<Rightarrow>
        (\<lparr>se_is_readable = events AND FD_READ win \<noteq> 0, se_is_writable = events AND FD_WRITE win \<noteq> 0\<rparr>, w))"

record win_stream_state =
  wss_is_readable :: bool
  wss_is_writable :: bool

text \<open>The local address that leads to the internet, for the protocol of the remote address.\<close>

definition local_address :: "'w win_sys \<Rightarrow> socket_addr \<Rightarrow> 'w \<Rightarrow> socket_addr io_result" where
  "local_address win remote w =
     (case sa_ip remote of
        V4 _ \<Rightarrow>
          (case get_ipv4_internet_interface (ws_ip win) w of
             Inr (Some i) \<Rightarrow> Inr \<lparr>sa_ip = V4 (ii_local_ip i), sa_port = 0\<rparr>
           | _ \<Rightarrow> Inl (io_error_new AddrNotAvailable ''Can't find an IPv4 internet interface''))
      | V6 _ \<Rightarrow>
          (case get_ipv6_internet_interface (ws_ip win) w of
             Inr (Some i) \<Rightarrow> Inr \<lparr>sa_ip = V6 (ii_local_ip i), sa_port = 0\<rparr>
           | _ \<Rightarrow> Inl (io_error_new AddrNotAvailable ''Can't find an IPv6 internet interface'')))"

text \<open>An early return while the socket is owned closes it.\<close>

definition or_closesocket ::
  "'w win_sys \<Rightarrow> win_socket \<Rightarrow> 'a io_result \<times> 'w \<Rightarrow> ('a \<Rightarrow> 'w \<Rightarrow> 'x io_result \<times> 'w) \<Rightarrow> 'x io_result \<times> 'w" where
  "or_closesocket win sock rw k =
     (case rw of (Inl e, w) \<Rightarrow> (Inl e, ws_closesocket win sock w) | (Inr a, w) \<Rightarrow> k a w)"

section \<open>TCP (\<^verbatim>\<open>tcp.rs\<close>)\<close>

record win_tcp =
  wtcp_socket :: win_socket
  wtcp_write_buffer :: "bytes list"
  wtcp_handle :: socket_handle
  wtcp_is_readable :: bool
  wtcp_is_writable :: bool

fun is_v6 :: "ip_addr \<Rightarrow> bool" where
  "is_v6 (V4 _) = False"
| "is_v6 (V6 _) = True"

definition create_tcp_stream :: "'w win_sys \<Rightarrow> socket_addr \<Rightarrow> 'w \<Rightarrow> win_socket io_result \<times> 'w" where
  "create_tcp_stream win remote w =
     (case local_address win remote w of
        Inl e \<Rightarrow> (Inl e, w)
      | Inr addr \<Rightarrow>
          (case ws_stream_socket win (is_v6 (sa_ip remote)) w of
             (Inl e, w) \<Rightarrow> (Inl e, w)
           | (Inr sock, w) \<Rightarrow>
               or_closesocket win sock (ws_bind win sock addr w) (\<lambda>_ w.
               or_closesocket win sock (ws_set_nonblocking win sock w) (\<lambda>_ w.
               case ws_connect win sock remote w of
                 (Inl e, w) \<Rightarrow> if io_kind e \<noteq> WouldBlock then (Inl e, ws_closesocket win sock w)
                               else (Inr sock, w)
               | (Inr _, w) \<Rightarrow> (Inr sock, w)))))"

definition win_tcp_new :: "'w win_sys \<Rightarrow> socket_addr \<Rightarrow> 'w \<Rightarrow> win_tcp io_result \<times> 'w" where
  "win_tcp_new win remote w =
     (case create_tcp_stream win remote w of
        (Inl e, w) \<Rightarrow> (Inl e, w)
      | (Inr sock, w) \<Rightarrow>
          or_closesocket win sock (socket_handle_new win sock w) (\<lambda>sh w.
            (Inr \<lparr>wtcp_socket = sock, wtcp_write_buffer = [], wtcp_handle = sh,
                  wtcp_is_readable = False, wtcp_is_writable = False\<rparr>, w)))"

text \<open>\<^verbatim>\<open>has_error\<close> asks the socket for its pending error, which clears it.\<close>

definition win_tcp_has_error :: "'w win_sys \<Rightarrow> win_tcp \<Rightarrow> 'w \<Rightarrow> bool \<times> 'w" where
  "win_tcp_has_error win st w =
     (case ws_take_error win (wtcp_socket st) w of
        (Inr (Some err), w) \<Rightarrow> (True, w)
      | (Inl err, w) \<Rightarrow> (True, w)
      | (_, w) \<Rightarrow> (False, w))"

definition win_tcp_get_state :: "'w win_sys \<Rightarrow> win_tcp \<Rightarrow> 'w \<Rightarrow> win_stream_state \<times> win_tcp \<times> 'w" where
  "win_tcp_get_state win st w =
     (case get_events win (wtcp_handle st) w of (events, w) \<Rightarrow>
        let st = st\<lparr>wtcp_is_readable := wtcp_is_readable st \<or> se_is_readable events,
                    wtcp_is_writable := wtcp_is_writable st \<or> se_is_writable events\<rparr>
        in (\<lparr>wss_is_readable = wtcp_is_readable st, wss_is_writable = wtcp_is_writable st\<rparr>, st, w))"

definition win_tcp_read ::
  "'w win_sys \<Rightarrow> bytes \<Rightarrow> win_tcp \<Rightarrow> 'w \<Rightarrow> stream_result \<times> bytes \<times> win_tcp \<times> 'w" where
  "win_tcp_read win buf st w =
     (let pending_write = pending_write_from (wtcp_write_buffer st \<noteq> []) in
      case ws_read win (wtcp_socket st) (length buf) w of
        (Inr bs, w) \<Rightarrow>
          if length bs = 0 then (StreamClosed, buf, st\<lparr>wtcp_is_readable := False\<rparr>, w)
          else (stream_ok (length bs) WouldBlockNo pending_write, read_into buf bs, st\<lparr>wtcp_is_readable := True\<rparr>, w)
      | (Inl e, w) \<Rightarrow>
          (case to_socket_error_action TransportTcp e of
             FatalSocketError \<Rightarrow> StreamErr e
           | ActionWouldBlock \<Rightarrow> stream_ok 0 WouldBlockYes pending_write,
           buf, st\<lparr>wtcp_is_readable := False\<rparr>, w))"

text \<open>A round of the loop, whose end carries the new value of \<^verbatim>\<open>is_writable\<close>.\<close>

definition win_tcp_round :: "'w win_sys \<Rightarrow> win_socket \<Rightarrow> nat \<times> bytes list \<times> 'w
    \<Rightarrow> ((nat \<times> bytes list \<times> 'w) + ((stream_result \<times> bool) \<times> bytes list \<times> 'w)) option" where
  "win_tcp_round win sock = (\<lambda>(bytes_written, buffer, w).
     case buffer of
       [] \<Rightarrow> Some (Inr ((stream_ok bytes_written WouldBlockNo PendingNo, True), [], w))
     | data # rest \<Rightarrow>
         (case ws_write win sock data w of
            (Inr count, w) \<Rightarrow>
              Some (Inl (bytes_written + count, if count < length data then drop count data # rest else rest, w))
          | (Inl e, w) \<Rightarrow>
              Some (Inr ((case to_socket_error_action TransportTcp e of
                            FatalSocketError \<Rightarrow> StreamErr e
                          | ActionWouldBlock \<Rightarrow> stream_ok bytes_written WouldBlockYes PendingYes, False),
                         data # rest, w))))"

definition win_tcp_write_from_buffer ::
  "'w win_sys \<Rightarrow> win_tcp \<Rightarrow> 'w \<Rightarrow> (stream_result \<times> win_tcp \<times> 'w) option" where
  "win_tcp_write_from_buffer win st w =
     map_option (\<lambda>((r, writable), buffer, w). (r, st\<lparr>wtcp_write_buffer := buffer, wtcp_is_writable := writable\<rparr>, w))
       (iterate (win_tcp_round win (wtcp_socket st)) (0, wtcp_write_buffer st, w))"

definition win_tcp_write ::
  "'w win_sys \<Rightarrow> bytes \<Rightarrow> win_tcp \<Rightarrow> 'w \<Rightarrow> (stream_result \<times> win_tcp \<times> 'w) option" where
  "win_tcp_write win data st w =
     win_tcp_write_from_buffer win (st\<lparr>wtcp_write_buffer := wtcp_write_buffer st @ [data]\<rparr>) w"

definition win_tcp_shutdown_write :: "'w win_sys \<Rightarrow> win_tcp \<Rightarrow> 'w \<Rightarrow> 'w" where
  "win_tcp_shutdown_write win st w = ws_shutdown_write win (wtcp_socket st) w"

section \<open>UDP (\<^verbatim>\<open>udp.rs\<close>)\<close>

record win_udp =
  wudp_socket :: win_socket
  wudp_handle :: socket_handle
  wudp_is_readable :: bool
  wudp_is_writable :: bool

record socket_config =
  send_buffer_size_bytes :: u32
  receive_buffer_size_bytes :: u32

definition disable_connection_reset :: "'w win_sys \<Rightarrow> win_socket \<Rightarrow> 'w \<Rightarrow> unit io_result \<times> 'w" where
  "disable_connection_reset win sock w =
     (case ws_ioctl_connreset win sock 0 w of (ret, w) \<Rightarrow>
        if ret \<noteq> 0 then (Inl (ws_last_os_error win w), w) else (Inr (), w))"

definition set_buffer_sizes :: "'w win_sys \<Rightarrow> socket_config \<Rightarrow> win_socket \<Rightarrow> 'w \<Rightarrow> 'w" where
  "set_buffer_sizes win config sock w =
     (let w = snd (ws_set_send_buffer_size win sock (send_buffer_size_bytes config) w)
      in snd (ws_set_recv_buffer_size win sock (receive_buffer_size_bytes config) w))"

definition create_udp_socket ::
  "'w win_sys \<Rightarrow> socket_config \<Rightarrow> socket_addr \<Rightarrow> 'w \<Rightarrow> win_socket io_result \<times> 'w" where
  "create_udp_socket win config remote w =
     (case local_address win remote w of
        Inl e \<Rightarrow> (Inl e, w)
      | Inr addr \<Rightarrow>
          (case ws_udp_bind win addr w of
             (Inl e, w) \<Rightarrow> (Inl e, w)
           | (Inr sock, w) \<Rightarrow>
               or_closesocket win sock (disable_connection_reset win sock w) (\<lambda>_ w.
               let w = set_buffer_sizes win config sock w in
               or_closesocket win sock (ws_set_nonblocking win sock w) (\<lambda>_ w.
               or_closesocket win sock (ws_connect win sock remote w) (\<lambda>_ w. (Inr sock, w))))))"

definition win_udp_new ::
  "'w win_sys \<Rightarrow> socket_config \<Rightarrow> socket_addr \<Rightarrow> 'w \<Rightarrow> win_udp io_result \<times> 'w" where
  "win_udp_new win config remote w =
     (case create_udp_socket win config remote w of
        (Inl e, w) \<Rightarrow> (Inl e, w)
      | (Inr sock, w) \<Rightarrow>
          or_closesocket win sock (socket_handle_new win sock w) (\<lambda>sh w.
            (Inr \<lparr>wudp_socket = sock, wudp_handle = sh, wudp_is_readable = False, wudp_is_writable = False\<rparr>, w)))"

definition win_udp_has_error :: "'w win_sys \<Rightarrow> win_udp \<Rightarrow> 'w \<Rightarrow> bool \<times> 'w" where
  "win_udp_has_error win st w =
     (case ws_take_error win (wudp_socket st) w of
        (Inr None, w) \<Rightarrow> (False, w)
      | (Inr (Some err), w) \<Rightarrow> (True, w)
      | (Inl err, w) \<Rightarrow> (True, w))"

definition win_udp_get_state :: "'w win_sys \<Rightarrow> win_udp \<Rightarrow> 'w \<Rightarrow> win_stream_state \<times> win_udp \<times> 'w" where
  "win_udp_get_state win st w =
     (case get_events win (wudp_handle st) w of (events, w) \<Rightarrow>
        let st = st\<lparr>wudp_is_readable := wudp_is_readable st \<or> se_is_readable events,
                    wudp_is_writable := wudp_is_writable st \<or> se_is_writable events\<rparr>
        in (\<lparr>wss_is_readable = wudp_is_readable st, wss_is_writable = wudp_is_writable st\<rparr>, st, w))"

definition win_udp_read ::
  "'w win_sys \<Rightarrow> bytes \<Rightarrow> win_udp \<Rightarrow> 'w \<Rightarrow> stream_result \<times> bytes \<times> win_udp \<times> 'w" where
  "win_udp_read win buf st w =
     (case ws_recv win (wudp_socket st) (length buf) w of
        (Inr bs, w) \<Rightarrow> (stream_ok (length bs) WouldBlockNo PendingNo, read_into buf bs, st\<lparr>wudp_is_readable := True\<rparr>, w)
      | (Inl e, w) \<Rightarrow>
          (case to_socket_error_action TransportUdp e of
             FatalSocketError \<Rightarrow> StreamErr e
           | ActionWouldBlock \<Rightarrow> stream_ok 0 WouldBlockYes PendingNo,
           buf, st\<lparr>wudp_is_readable := False\<rparr>, w))"

definition win_udp_write :: "'w win_sys \<Rightarrow> bytes \<Rightarrow> win_udp \<Rightarrow> 'w \<Rightarrow> stream_result \<times> win_udp \<times> 'w" where
  "win_udp_write win data st w =
     (case ws_send win (wudp_socket st) data w of
        (Inr sent_bytes, w) \<Rightarrow> (stream_ok sent_bytes WouldBlockNo PendingNo, st\<lparr>wudp_is_writable := True\<rparr>, w)
      | (Inl e, w) \<Rightarrow>
          (case to_socket_error_action TransportUdp e of
             FatalSocketError \<Rightarrow> StreamErr e
           | ActionWouldBlock \<Rightarrow> stream_ok 0 WouldBlockYes PendingNo,
           st\<lparr>wudp_is_writable := False\<rparr>, w))"

definition win_write_from_buffer_none :: stream_result where
  "win_write_from_buffer_none = stream_ok 0 WouldBlockNo PendingNo"

section \<open>The tun adapter (\<^verbatim>\<open>tun_windows.rs\<close>)\<close>

text \<open>A packet longer than the buffer is cut.\<close>

text \<open>The device is always taken for ready; its errors show when it is used.\<close>

definition win_tun_has_error :: bool where
  "win_tun_has_error = False"

definition win_tun_get_state :: win_stream_state where
  "win_tun_get_state = \<lparr>wss_is_readable = True, wss_is_writable = True\<rparr>"

definition win_tun_read :: "'w win_sys \<Rightarrow> bytes \<Rightarrow> 'w \<Rightarrow> stream_result \<times> bytes \<times> 'w" where
  "win_tun_read win buf w =
     (case wintun_try_receive win w of
        (Inr (Some packet), w) \<Rightarrow>
          let n_bytes = min (length buf) (length packet)
          in (stream_ok n_bytes WouldBlockNo PendingNo, read_into buf (take n_bytes packet), w)
      | (Inr None, w) \<Rightarrow> (stream_ok 0 WouldBlockYes PendingNo, buf, w)
      | (Inl e, w) \<Rightarrow> (StreamErr (io_error_new OtherKind e), buf, w))"

fun wintun_error_to_result :: "wintun_error \<Rightarrow> stream_result" where
  "wintun_error_to_result (WintunIo e) = StreamErr e"
| "wintun_error_to_result (WintunOther msg) = StreamErr (io_error_new OtherKind msg)"

text \<open>
  A round of the write: allocate a packet for at most \<^verbatim>\<open>u16::MAX\<close> bytes, fill all of it and
  send it. A packet longer than the data panics.
\<close>

definition win_tun_write_round :: "'w win_sys \<Rightarrow> nat \<Rightarrow> bytes \<times> 'w
    \<Rightarrow> ((bytes \<times> 'w) + (stream_result \<times> 'w)) option" where
  "win_tun_write_round win total_len = (\<lambda>(unwritten, w).
     if unwritten = [] then Some (Inr (stream_ok total_len WouldBlockNo PendingNo, w))
     else case wintun_allocate_send_packet win (word_of_nat (min (length unwritten) 65535)) w of
            (Inl e, w) \<Rightarrow> Some (Inr (wintun_error_to_result e, w))
          | (Inr n_packet_bytes, w) \<Rightarrow>
              if n_packet_bytes \<le> length unwritten
              then Some (Inl (drop n_packet_bytes unwritten,
                              wintun_send_packet win (take n_packet_bytes unwritten) w))
              else None)"

definition win_tun_write :: "'w win_sys \<Rightarrow> bytes \<Rightarrow> 'w \<Rightarrow> (stream_result \<times> 'w) option" where
  "win_tun_write win data w = iterate (win_tun_write_round win (length data)) (data, w)"

section \<open>The write buffer is a FIFO\<close>

definition win_tcp_failed :: "nat \<Rightarrow> io_error \<Rightarrow> stream_result \<times> bool" where
  "win_tcp_failed n e =
     (case to_socket_error_action TransportTcp e of
        FatalSocketError \<Rightarrow> StreamErr e | ActionWouldBlock \<Rightarrow> stream_ok n WouldBlockYes PendingYes, False)"

interpretation win_tcp_queue: write_queue "ws_write win sock" "win_tcp_round win sock"
  "\<lambda>n. (stream_ok n WouldBlockNo PendingNo, True)" win_tcp_failed for win :: "'w win_sys" and sock
  by unfold_locales (simp_all add: win_tcp_round_def win_tcp_failed_def)

lemma win_tcp_flush_correct:
  assumes C: "write_contract (ws_write win (wtcp_socket st)) sent"
    and run: "win_tcp_write_from_buffer win st w = Some (r, st', w')"
  shows "wtcp_socket st' = wtcp_socket st \<and>
     queue_flow sent (wtcp_write_buffer st') w' = queue_flow sent (wtcp_write_buffer st) w \<and>
     (wtcp_is_writable st' \<longleftrightarrow> wtcp_write_buffer st' = [])"
proof -
  from run obtain wr buffer where it: "iterate (win_tcp_round win (wtcp_socket st)) (0, wtcp_write_buffer st, w) =
      Some ((r, wr), buffer, w')" and st': "st' = st\<lparr>wtcp_write_buffer := buffer, wtcp_is_writable := wr\<rparr>"
    by (auto simp: win_tcp_write_from_buffer_def)
  from win_tcp_queue.flush_correct [OF C it] show ?thesis by (auto simp: st' win_tcp_failed_def)
qed

lemma win_tcp_flush_returns:
  assumes "write_progress (ws_write win (wtcp_socket st))"
  shows "\<exists>r st' w'. win_tcp_write_from_buffer win st w = Some (r, st', w')"
  using win_tcp_queue.flush_returns [OF assms, of 0 "wtcp_write_buffer st" w]
  by (auto simp: win_tcp_write_from_buffer_def)

fun win_tcp_step :: "'w win_sys \<Rightarrow> tcp_op \<Rightarrow> win_tcp \<times> 'w \<Rightarrow> (win_tcp \<times> 'w) option" where
  "win_tcp_step win (TcpWrite data) (st, w) = map_option snd (win_tcp_write win data st w)"
| "win_tcp_step win TcpFlush (st, w) = map_option snd (win_tcp_write_from_buffer win st w)"

lemma win_tcp_step_flow:
  assumes "write_contract (ws_write win (wtcp_socket st)) sent"
    and "win_tcp_step win op (st, w) = Some (st', w')"
  shows "wtcp_socket st' = wtcp_socket st \<and> (wtcp_is_writable st' \<longleftrightarrow> wtcp_write_buffer st' = []) \<and>
    queue_flow sent (wtcp_write_buffer st') w' = queue_flow sent (wtcp_write_buffer st) w @ tcp_written op"
proof (cases op)
  case (TcpWrite data)
  with assms(2) obtain r where
    "win_tcp_write_from_buffer win (st\<lparr>wtcp_write_buffer := wtcp_write_buffer st @ [data]\<rparr>) w = Some (r, st', w')"
    by (auto simp: win_tcp_write_def)
  with win_tcp_flush_correct [OF _ this] assms(1) TcpWrite show ?thesis by (simp add: queue_flow_def)
next
  case TcpFlush
  with assms win_tcp_flush_correct [OF assms(1)] show ?thesis by fastforce
qed

lemma win_tcp_step_returns:
  assumes "write_progress (ws_write win (wtcp_socket st))"
  shows "\<exists>st' w'. win_tcp_step win op (st, w) = Some (st', w')"
proof (cases op)
  case (TcpWrite data)
  with win_tcp_flush_returns [of win "st\<lparr>wtcp_write_buffer := wtcp_write_buffer st @ [data]\<rparr>" w] assms
  show ?thesis by (auto simp: win_tcp_write_def)
next
  case TcpFlush
  with win_tcp_flush_returns [OF assms, of w] show ?thesis by auto
qed

section \<open>Packets sent to the adapter\<close>

text \<open>
  The documented behaviour of a Wintun session: a packet is allocated with the length asked
  for, and sending it hands exactly its bytes to the adapter.
\<close>

definition wintun_contract :: "'w win_sys \<Rightarrow> ('w \<Rightarrow> bytes list) \<Rightarrow> bool" where
  "wintun_contract win packets \<longleftrightarrow>
     (\<forall>n w. case wintun_allocate_send_packet win n w of
        (Inl e, w') \<Rightarrow> packets w' = packets w
      | (Inr m, w') \<Rightarrow> m = unat n \<and> packets w' = packets w) \<and>
     (\<forall>p w. packets (wintun_send_packet win p w) = packets w @ [p])"

lemma wintun_contractD:
  assumes "wintun_contract win packets"
  shows "wintun_allocate_send_packet win n w = (Inl e, w') \<Longrightarrow> packets w' = packets w"
    and "wintun_allocate_send_packet win n w = (Inr m, w') \<Longrightarrow> m = unat n \<and> packets w' = packets w"
    and "packets (wintun_send_packet win p w) = packets w @ [p]"
  using assms unfolding wintun_contract_def by (force split: prod.splits sum.splits)+

lemma packet_size: "unat (word_of_nat (min n 65535) :: u16) = min n 65535"
  by (simp add: unat_of_nat)

lemma win_tun_round_step:
  assumes "wintun_contract win packets" "u \<noteq> []"
  shows "(\<exists>e v'. win_tun_write_round win total_len (u, v) = Some (Inr (StreamErr e, v')) \<and> packets v' = packets v) \<or>
     (\<exists>v'. win_tun_write_round win total_len (u, v) = Some (Inl (drop 65535 u, v')) \<and>
        packets v' = packets v @ [take 65535 u])"
proof -
  let ?n = "word_of_nat (min (length u) 65535) :: u16"
  obtain r v1 where a: "wintun_allocate_send_packet win ?n v = (r, v1)" by (cases "wintun_allocate_send_packet win ?n v")
  show ?thesis
  proof (cases r)
    case (Inl e)
    then have "packets v1 = packets v" using wintun_contractD(1) [OF assms(1)] a by blast
    moreover obtain e' where "wintun_error_to_result e = StreamErr e'" by (cases e) simp_all
    ultimately show ?thesis using assms(2) a Inl by (simp add: win_tun_write_round_def)
  next
    case (Inr m)
    then have m: "m = min (length u) 65535" "packets v1 = packets v"
      using wintun_contractD(2) [OF assms(1)] a packet_size [of "length u"] by fastforce+
    have "take m u = take 65535 u" "drop m u = drop 65535 u" by (simp_all add: m(1) min_def)
    then have "win_tun_write_round win total_len (u, v) = Some (Inl (drop 65535 u, wintun_send_packet win (take 65535 u) v1))"
      using assms(2) a Inr m(1) by (simp add: win_tun_write_round_def)
    then show ?thesis using wintun_contractD(3) [OF assms(1)] m(2) by simp
  qed
qed

text \<open>What a write leaves: packets that are pieces of the data, in order, from its start.\<close>

definition tun_pieces :: "bytes \<Rightarrow> bytes list \<Rightarrow> bytes \<Rightarrow> bool" where
  "tun_pieces data ps rest \<longleftrightarrow> concat ps @ rest = data \<and>
     (length data \<le> 65535 \<longrightarrow> ps = [] \<and> rest = data \<or> ps = [data] \<and> rest = [])"

lemma win_tun_write_pieces:
  assumes C: "wintun_contract win packets"
  shows "\<exists>r w' ps rest. win_tun_write win data w = Some (r, w') \<and> packets w' = packets w @ ps \<and>
     tun_pieces data ps rest \<and> (r = stream_ok (length data) WouldBlockNo PendingNo \<and> rest = [] \<or> (\<exists>e. r = StreamErr e) \<and> rest \<noteq> [])"
proof -
  let ?f = "win_tun_write_round win (length data)"
  let ?I = "\<lambda>(u, v). \<exists>ps. packets v = packets w @ ps \<and> tun_pieces data ps u"
  let ?Q = "\<lambda>(r, v). \<exists>ps rest. packets v = packets w @ ps \<and> tun_pieces data ps rest \<and>
     (r = stream_ok (length data) WouldBlockNo PendingNo \<and> rest = [] \<or> (\<exists>e. r = StreamErr e) \<and> rest \<noteq> [])"
  have finish: "?f ([], v) = Some (Inr (stream_ok (length data) WouldBlockNo PendingNo, v))" for v
    by (simp add: win_tun_write_round_def)
  have "\<exists>r. iterate ?f (data, w) = Some r"
  proof (rule iterate_total [where I = "\<lambda>_. True" and m = "\<lambda>(u, v). length u"])
    fix s :: "bytes \<times> 'a"
    obtain u v where s: "s = (u, v)" by (cases s)
    show "(\<exists>r. ?f s = Some (Inr r)) \<or> (\<exists>s'. ?f s = Some (Inl s') \<and> True \<and> (case s' of (u, v) \<Rightarrow> length u) < (case s of (u, v) \<Rightarrow> length u))"
      using finish win_tun_round_step [OF C, of u "length data" v] by (cases "u = []") (auto simp: s)
  qed simp
  then obtain r w' where it: "iterate ?f (data, w) = Some (r, w')" by auto
  have "?Q (r, w')"
  proof (rule iterate_rule [OF it, where I = ?I and Q = ?Q])
    show "?I (data, w)" by (auto simp: tun_pieces_def)
  next
    fix s s' assume inv: "?I s" and step: "?f s = Some (Inl s')"
    obtain u v where s: "s = (u, v)" by (cases s)
    from step s finish have "u \<noteq> []" by auto
    from win_tun_round_step [OF C this, of "length data" v] step s obtain v' where
      s': "s' = (drop 65535 u, v')" "packets v' = packets v @ [take 65535 u]" by auto
    from inv s obtain ps where ps: "packets v = packets w @ ps" "tun_pieces data ps u" by auto
    have "tun_pieces data (ps @ [take 65535 u]) (drop 65535 u)"
      using ps(2) \<open>u \<noteq> []\<close> by (auto simp: tun_pieces_def)
    with s' ps show "?I s'" by auto
  next
    fix s q assume inv: "?I s" and step: "?f s = Some (Inr q)"
    obtain u v where s: "s = (u, v)" by (cases s)
    from inv s obtain ps where ps: "packets v = packets w @ ps" "tun_pieces data ps u" by auto
    show "?Q q"
    proof (cases "u = []")
      case True
      with step s finish ps show ?thesis by auto
    next
      case False
      from win_tun_round_step [OF C this, of "length data" v] step s obtain e v' where
        "q = (StreamErr e, v')" "packets v' = packets v" by auto
      with ps False show ?thesis by auto
    qed
  qed
  then show ?thesis by (auto simp: win_tun_write_def it)
qed

lemma win_tcp_run_flow:
  assumes "write_contract (ws_write win (wtcp_socket st)) sent" and "write_progress (ws_write win (wtcp_socket st))"
  shows "\<exists>st' w'. for_each (win_tcp_step win) ops (st, w) = Some (st', w') \<and> wtcp_socket st' = wtcp_socket st \<and>
    queue_flow sent (wtcp_write_buffer st') w' =
      queue_flow sent (wtcp_write_buffer st) w @ concat (map tcp_written ops)"
proof (rule tcp_ops_flow [where P = "\<lambda>st'. wtcp_socket st' = wtcp_socket st"])
  fix op and st1 :: win_tcp and w :: 'a assume "wtcp_socket st1 = wtcp_socket st"
  with assms(2) show "\<exists>st' w'. win_tcp_step win op (st1, w) = Some (st', w')" by (intro win_tcp_step_returns) simp
next
  fix op and st1 st' :: win_tcp and w w' :: 'a
  assume same: "wtcp_socket st1 = wtcp_socket st" and step: "win_tcp_step win op (st1, w) = Some (st', w')"
  with win_tcp_step_flow [OF _ step, of sent] assms(1) show "wtcp_socket st' = wtcp_socket st \<and>
    queue_flow sent (wtcp_write_buffer st') w' = queue_flow sent (wtcp_write_buffer st1) w @ tcp_written op"
    by simp
qed simp

section \<open>A concrete system\<close>

text \<open>
  What sockets have been sent, how many bytes they still take, and the packets given to the
  adapter; every event is signalled for reading and writing.
\<close>

type_synonym win_world = "bytes \<times> nat \<times> bytes list"

definition window_win :: "win_world win_sys" where
  "window_win =
     \<lparr>ws_ip = table_system (\<lambda>_. example_routes) (\<lambda>_ w. w) example_addresses,
      ws_read = (\<lambda>_ n (s, k, p). (Inr (take n s), ([], k, p))),
      ws_write = (\<lambda>_ d (s, k, p).
        if d \<noteq> [] \<and> k = 0 then (Inl (io_error_new WouldBlock ''full''), (s, k, p))
        else (Inr (min k (length d)), (s @ take k d, k - length d, p))),
      ws_recv = (\<lambda>_ n (s, k, p). (Inr (take n s), ([], k, p))),
      ws_send = (\<lambda>_ d (s, k, p). (Inr (length d), (s @ d, k, p))),
      ws_shutdown_write = (\<lambda>_ w. w), ws_take_error = (\<lambda>_ w. (Inr None, w)),
      ws_stream_socket = (\<lambda>_ w. (Inr 7, w)), ws_bind = (\<lambda>_ _ w. (Inr (), w)),
      ws_udp_bind = (\<lambda>_ w. (Inr 8, w)), ws_set_nonblocking = (\<lambda>_ w. (Inr (), w)),
      ws_connect = (\<lambda>_ _ w. (Inr (), w)), ws_ioctl_connreset = (\<lambda>_ _ w. (0, w)),
      ws_last_os_error = (\<lambda>_. io_error_new OtherKind ''''),
      ws_set_send_buffer_size = (\<lambda>_ _ w. (Inr (), w)), ws_set_recv_buffer_size = (\<lambda>_ _ w. (Inr (), w)),
      ws_closesocket = (\<lambda>_ w. w), WSACreateEvent = (\<lambda>w. (Inr 100, w)),
      WSAEventSelect = (\<lambda>_ _ _ w. (0, w)), WSAEnumNetworkEvents = (\<lambda>_ _ w. (3, w)),
      WSACloseEvent = (\<lambda>_ w. w), FD_READ = 1, FD_WRITE = 2,
      wintun_try_receive = (\<lambda>w. (Inr None, w)),
      wintun_allocate_send_packet = (\<lambda>n w. (Inr (unat n), w)),
      wintun_send_packet = (\<lambda>d (s, k, p). (s, k, p @ [d])),
      WSAWaitForMultipleEvents = (\<lambda>_ _ w. (1, w)), CreateEventW = (\<lambda>w. (Inr 99, w)),
      ResetEvent = (\<lambda>_ w. w), SetEvent = (\<lambda>_ w. w),
      WSA_INFINITE = 0xFFFFFFFF, WAIT_TIMEOUT = 258, WAIT_OBJECT_0 = 0\<rparr>"

lemma window_win_contract: "write_contract (ws_write window_win f) fst"
  by (auto simp: write_contract_def window_win_def min_def split: prod.splits if_splits)

lemma window_win_progress: "write_progress (ws_write window_win f)"
  by (auto simp: write_progress_def window_win_def split: prod.splits)

lemma window_win_packets: "wintun_contract window_win (\<lambda>(_, _, p). p)"
  by (auto simp: wintun_contract_def window_win_def)

section \<open>Properties\<close>

text \<open>C26: Whatever the socket takes at a time, the TCP stream of Windows neither loses, repeats nor
  reorders a byte: every sequence of writes and flushes comes back, and what the socket has
  taken followed by what is still buffered is what was there before followed by the data of
  the writes. The stream counts as writable exactly when its buffer is empty.\<close>

theorem win_tcp_write_fifo:
  assumes "write_contract (ws_write win (wtcp_socket st)) sent" and "write_progress (ws_write win (wtcp_socket st))"
  shows "\<exists>st' w'. for_each (win_tcp_step win) (ops @ [op]) (st, w) = Some (st', w') \<and>
    sent w' @ concat (wtcp_write_buffer st') =
      sent w @ concat (wtcp_write_buffer st) @ concat (map tcp_written (ops @ [op])) \<and>
    (wtcp_is_writable st' \<longleftrightarrow> wtcp_write_buffer st' = [])"
proof -
  from win_tcp_run_flow [OF assms, of ops w] obtain st1 w1 where
    run: "for_each (win_tcp_step win) ops (st, w) = Some (st1, w1)" "wtcp_socket st1 = wtcp_socket st"
      "queue_flow sent (wtcp_write_buffer st1) w1 = queue_flow sent (wtcp_write_buffer st) w @ concat (map tcp_written ops)"
    by blast
  from win_tcp_step_returns [of win st1 op w1] assms(2) run(2) obtain st' w' where
    step: "win_tcp_step win op (st1, w1) = Some (st', w')" by auto
  from win_tcp_step_flow [OF _ step, of sent] assms(1) run show ?thesis
    by (simp add: for_each_append step queue_flow_def)
qed

theorem win_tcp_write_fifo_witness:
  "\<exists>st' w'. for_each (win_tcp_step window_win) ([TcpWrite [1, 2, 3], TcpWrite [4]] @ [TcpFlush])
      (\<lparr>wtcp_socket = 7, wtcp_write_buffer = [], wtcp_handle = \<lparr>sh_raw_socket = 7, sh_handle = 100\<rparr>,
        wtcp_is_readable = False, wtcp_is_writable = False\<rparr>, ([], 2, [])) = Some (st', w') \<and>
    fst w' @ concat (wtcp_write_buffer st') = [1, 2, 3, 4] \<and>
    (wtcp_is_writable st' \<longleftrightarrow> wtcp_write_buffer st' = [])"
  using win_tcp_write_fifo [OF window_win_contract window_win_progress,
      where ops = "[TcpWrite [1, 2, 3], TcpWrite [4]]" and op = TcpFlush and w = "([], 2, [])" and
        st = "\<lparr>wtcp_socket = 7, wtcp_write_buffer = [], wtcp_handle = \<lparr>sh_raw_socket = 7, sh_handle = 100\<rparr>,
        wtcp_is_readable = False, wtcp_is_writable = False\<rparr>"]
  by (simp del: for_each.simps)


text \<open>C27: A packet for the adapter of at most 65535 bytes, the longest an IP packet can be, is handed
  to it whole and once, or not at all if no packet can be allocated, which is reported as an
  error; the write always comes back.\<close>

theorem win_tun_write_whole:
  assumes "wintun_contract win packets" and "data \<noteq> []" and "length data \<le> 65535"
  shows "\<exists>r w'. win_tun_write win data w = Some (r, w') \<and>
     (r = stream_ok (length data) WouldBlockNo PendingNo \<and> packets w' = packets w @ [data] \<or>
      (\<exists>e. r = StreamErr e) \<and> packets w' = packets w)"
proof -
  from win_tun_write_pieces [OF assms(1), of data w] obtain r w' ps rest where
    run: "win_tun_write win data w = Some (r, w')" and ps: "packets w' = packets w @ ps" "tun_pieces data ps rest"
      "r = stream_ok (length data) WouldBlockNo PendingNo \<and> rest = [] \<or> (\<exists>e. r = StreamErr e) \<and> rest \<noteq> []"
    by blast
  from ps(2) assms(3) have "ps = [] \<and> rest = data \<or> ps = [data] \<and> rest = []" by (simp add: tun_pieces_def)
  with ps assms(2) run show ?thesis by auto
qed

theorem win_tun_write_whole_witness:
  "\<exists>r w'. win_tun_write window_win [0x45, 0, 0, 20] ([], 0, []) = Some (r, w') \<and>
     (r = stream_ok (length [0x45 :: u8, 0, 0, 20]) WouldBlockNo PendingNo \<and> snd (snd w') = [[0x45, 0, 0, 20]] \<or>
      (\<exists>e. r = StreamErr e) \<and> snd (snd w') = [])"
  using win_tun_write_whole [OF window_win_packets, of "[0x45, 0, 0, 20]" "([], 0, [])"] by (simp add: split_def)


end
