(* ===== verification/Windows_Streams.thy ===== *)
theory Windows_Streams
  imports Windows_Sockets
begin

text \<open>
  \<^verbatim>\<open>src/connection/windows/streams.rs\<close> and \<^verbatim>\<open>helpers/poll_waker.rs\<close>: the set of streams of
  Windows, an implementation of the trait \<^verbatim>\<open>Streams\<close> without \<^verbatim>\<open>update_tun\<close>. The thread waits on a
  list of handles, the one of the waker first, that is rebuilt whenever a stream comes or
  goes; whatever handle is signalled, every stream is asked for its state.
\<close>

section \<open>State\<close>

datatype win_stream = WinTcp win_tcp | WinUdp win_udp | WinTun win_handle

fun win_stream_handle :: "win_stream \<Rightarrow> win_handle" where
  "win_stream_handle (WinTcp st) = sh_handle (wtcp_handle st)"
| "win_stream_handle (WinUdp st) = sh_handle (wudp_handle st)"
| "win_stream_handle (WinTun h) = h"

record win_stream_info =
  wi_stream_id :: stream_id
  wi_stream :: win_stream

record 'w win_streams =
  wst_streams :: "win_stream_info list"
  wst_waker :: win_handle
  wst_handles :: "win_handle list"
  wst_udp_socket_config :: socket_config
  wst_world :: 'w

text \<open>The waker is an event.\<close>

definition waker_new :: "'w win_sys \<Rightarrow> 'w \<Rightarrow> (protun_fatal_error + win_handle) \<times> 'w" where
  "waker_new win w =
     (case CreateEventW win w of
        (Inl e, w) \<Rightarrow> (Inl (HandleCreationFailed
           (''Cannot create waker: CreateEventW failed. Win32 error code: '' @ ih_hresult_text (ws_ip win) e)), w)
      | (Inr h, w) \<Rightarrow> (Inr h, w))"

definition waker_wake :: "'w win_sys \<Rightarrow> win_handle \<Rightarrow> 'w \<Rightarrow> 'w" where
  "waker_wake win h w = SetEvent win h w"

definition waker_reset :: "'w win_sys \<Rightarrow> win_handle \<Rightarrow> 'w \<Rightarrow> 'w" where
  "waker_reset win h w = ResetEvent win h w"

section \<open>Operations\<close>

definition reset_handles :: "'w win_streams \<Rightarrow> 'w win_streams" where
  "reset_handles ws = ws\<lparr>wst_handles := wst_waker ws # map (\<lambda>s. win_stream_handle (wi_stream s)) (wst_streams ws)\<rparr>"

definition win_register_stream :: "stream_id \<Rightarrow> win_stream \<Rightarrow> 'w win_streams \<Rightarrow> 'w win_streams" where
  "win_register_stream i s ws =
     reset_handles (ws\<lparr>wst_streams := wst_streams ws @ [\<lparr>wi_stream_id = i, wi_stream = s\<rparr>]\<rparr>)"

definition win_streams_new :: "stream_ids \<Rightarrow> win_handle \<Rightarrow> win_handle \<Rightarrow> socket_config \<Rightarrow> 'w \<Rightarrow> 'w win_streams" where
  "win_streams_new ids tun waker config w =
     win_register_stream (TUN_STREAM_ID ids) (WinTun tun)
       \<lparr>wst_streams = [], wst_waker = waker, wst_handles = [], wst_udp_socket_config = config, wst_world = w\<rparr>"

definition win_get_stream :: "win_stream_info list \<Rightarrow> stream_id \<Rightarrow> win_stream_info option" where
  "win_get_stream streams i = find (\<lambda>s. wi_stream_id s = i) streams"

definition win_open_tcp ::
  "'w win_sys \<Rightarrow> stream_id \<Rightarrow> socket_addr \<Rightarrow> 'w win_streams \<Rightarrow> unit io_result \<times> 'w win_streams" where
  "win_open_tcp win i addr ws =
     (case win_tcp_new win addr (wst_world ws) of
        (Inr st, w) \<Rightarrow> (Inr (), win_register_stream i (WinTcp st) (ws\<lparr>wst_world := w\<rparr>))
      | (Inl e, w) \<Rightarrow> (Inl e, ws\<lparr>wst_world := w\<rparr>))"

definition win_open_udp ::
  "'w win_sys \<Rightarrow> stream_id \<Rightarrow> socket_addr \<Rightarrow> 'w win_streams \<Rightarrow> unit io_result \<times> 'w win_streams" where
  "win_open_udp win i addr ws =
     (case win_udp_new win (wst_udp_socket_config ws) addr (wst_world ws) of
        (Inr st, w) \<Rightarrow> (Inr (), win_register_stream i (WinUdp st) (ws\<lparr>wst_world := w\<rparr>))
      | (Inl e, w) \<Rightarrow> (Inl e, ws\<lparr>wst_world := w\<rparr>))"

text \<open>Dropping a stream closes its socket and then the event of its handle.\<close>

fun drop_win_stream :: "'w win_sys \<Rightarrow> win_stream \<Rightarrow> 'w \<Rightarrow> 'w" where
  "drop_win_stream win (WinTcp st) w =
     WSACloseEvent win (sh_handle (wtcp_handle st)) (ws_closesocket win (wtcp_socket st) w)"
| "drop_win_stream win (WinUdp st) w =
     WSACloseEvent win (sh_handle (wudp_handle st)) (ws_closesocket win (wudp_socket st) w)"
| "drop_win_stream win (WinTun h) w = w"

definition win_close :: "'w win_sys \<Rightarrow> stream_id \<Rightarrow> 'w win_streams \<Rightarrow> 'w win_streams" where
  "win_close win i ws =
     (let dropped = filter (\<lambda>s. wi_stream_id s = i) (wst_streams ws)
      in reset_handles (ws\<lparr>wst_streams := filter (\<lambda>s. wi_stream_id s \<noteq> i) (wst_streams ws),
           wst_world := fold (\<lambda>s. drop_win_stream win (wi_stream s)) dropped (wst_world ws)\<rparr>))"

fun win_stream_get_state :: "'w win_sys \<Rightarrow> win_stream \<Rightarrow> 'w \<Rightarrow> win_stream_state \<times> win_stream \<times> 'w" where
  "win_stream_get_state win (WinTcp st) w =
     (case win_tcp_get_state win st w of (r, st, w) \<Rightarrow> (r, WinTcp st, w))"
| "win_stream_get_state win (WinUdp st) w =
     (case win_udp_get_state win st w of (r, st, w) \<Rightarrow> (r, WinUdp st, w))"
| "win_stream_get_state win (WinTun h) w = (win_tun_get_state, WinTun h, w)"

fun win_stream_has_error :: "'w win_sys \<Rightarrow> win_stream \<Rightarrow> 'w \<Rightarrow> bool \<times> 'w" where
  "win_stream_has_error win (WinTcp st) w = win_tcp_has_error win st w"
| "win_stream_has_error win (WinUdp st) w = win_udp_has_error win st w"
| "win_stream_has_error win (WinTun h) w = (win_tun_has_error, w)"

definition create_poll_result ::
  "'w win_sys \<Rightarrow> win_stream_info \<Rightarrow> 'w \<Rightarrow> poll_result \<times> win_stream_info \<times> 'w" where
  "create_poll_result win s w =
     (let (state, stream, w) = win_stream_get_state win (wi_stream s) w;
          (err, w) = win_stream_has_error win stream w
      in (\<lparr>pr_stream_id = wi_stream_id s, pr_is_readable = wss_is_readable state,
           pr_is_writable = wss_is_writable state, pr_is_error = err\<rparr>, s\<lparr>wi_stream := stream\<rparr>, w))"

text \<open>The streams are asked from the last to the first.\<close>

fun get_all_streams_as_poll_results ::
  "'w win_sys \<Rightarrow> win_stream_info list \<Rightarrow> 'w \<Rightarrow> poll_result list \<times> win_stream_info list \<times> 'w" where
  "get_all_streams_as_poll_results win [] w = ([], [], w)"
| "get_all_streams_as_poll_results win (s # ss) w =
     (let (results, ss, w) = get_all_streams_as_poll_results win ss w;
          (r, s, w) = create_poll_result win s w
      in (results @ [r], s # ss, w))"

definition timeout_as_millis :: "'w win_sys \<Rightarrow> deadline \<Rightarrow> u32" where
  "timeout_as_millis win dl =
     (case dl of None \<Rightarrow> WSA_INFINITE win | Some t \<Rightarrow> word_of_nat (min (as_millis t) (unat (WSA_INFINITE win))))"

definition win_poll :: "'w win_sys \<Rightarrow> deadline \<Rightarrow> 'w win_streams \<Rightarrow> poll_result list io_result \<times> 'w win_streams" where
  "win_poll win dl ws =
     (let (result_index, w) = WSAWaitForMultipleEvents win (wst_handles ws) (timeout_as_millis win dl) (wst_world ws)
      in if result_index = WAIT_TIMEOUT win then (Inr [], ws\<lparr>wst_world := w\<rparr>)
         else if result_index = WAIT_OBJECT_0 win
         then (Inr [], ws\<lparr>wst_world := waker_reset win (wst_waker ws) w\<rparr>)
         else let (results, streams, w) = get_all_streams_as_poll_results win (wst_streams ws) w
              in (Inr results, ws\<lparr>wst_streams := streams, wst_world := w\<rparr>))"

definition win_interface_state :: "stream_ids \<Rightarrow> interface_error option \<Rightarrow> 'w win_streams \<Rightarrow> interface_state" where
  "win_interface_state ids last_error ws =
     (if win_get_stream (wst_streams ws) (TUN_STREAM_ID ids) \<noteq> None
      then InterfaceUp last_error else InterfaceDown last_error)"

section \<open>The methods of one stream\<close>

fun win_stream_read :: "'w win_sys \<Rightarrow> bytes \<Rightarrow> win_stream \<Rightarrow> 'w \<Rightarrow> stream_result \<times> bytes \<times> win_stream \<times> 'w" where
  "win_stream_read win buf (WinTcp st) w =
     (let (r, buf, st, w) = win_tcp_read win buf st w in (r, buf, WinTcp st, w))"
| "win_stream_read win buf (WinUdp st) w =
     (let (r, buf, st, w) = win_udp_read win buf st w in (r, buf, WinUdp st, w))"
| "win_stream_read win buf (WinTun h) w =
     (let (r, buf, w) = win_tun_read win buf w in (r, buf, WinTun h, w))"

fun win_stream_write :: "'w win_sys \<Rightarrow> bytes \<Rightarrow> win_stream \<Rightarrow> 'w \<Rightarrow> (stream_result \<times> win_stream \<times> 'w) option" where
  "win_stream_write win data (WinTcp st) w =
     map_option (\<lambda>(r, st, w). (r, WinTcp st, w)) (win_tcp_write win data st w)"
| "win_stream_write win data (WinUdp st) w =
     Some (let (r, st, w) = win_udp_write win data st w in (r, WinUdp st, w))"
| "win_stream_write win data (WinTun h) w =
     map_option (\<lambda>(r, w). (r, WinTun h, w)) (win_tun_write win data w)"

fun win_stream_write_from_buffer ::
  "'w win_sys \<Rightarrow> win_stream \<Rightarrow> 'w \<Rightarrow> (stream_result \<times> win_stream \<times> 'w) option" where
  "win_stream_write_from_buffer win (WinTcp st) w =
     map_option (\<lambda>(r, st, w). (r, WinTcp st, w)) (win_tcp_write_from_buffer win st w)"
| "win_stream_write_from_buffer win s w = Some (win_write_from_buffer_none, s, w)"

fun win_stream_shutdown_write :: "'w win_sys \<Rightarrow> win_stream \<Rightarrow> 'w \<Rightarrow> 'w" where
  "win_stream_shutdown_write win (WinTcp st) w = win_tcp_shutdown_write win st w"
| "win_stream_shutdown_write win _ w = w"

text \<open>The stream that \<^verbatim>\<open>get_stream\<close> finds is the first with the identifier.\<close>

fun update_win_stream :: "stream_id \<Rightarrow> win_stream \<Rightarrow> win_stream_info list \<Rightarrow> win_stream_info list" where
  "update_win_stream i stream [] = []"
| "update_win_stream i stream (s # ss) =
     (if wi_stream_id s = i then s\<lparr>wi_stream := stream\<rparr> # ss else s # update_win_stream i stream ss)"

definition put_win_stream :: "stream_id \<Rightarrow> win_stream \<Rightarrow> 'w \<Rightarrow> 'w win_streams \<Rightarrow> 'w win_streams" where
  "put_win_stream i stream w ws =
     ws\<lparr>wst_streams := update_win_stream i stream (wst_streams ws), wst_world := w\<rparr>"

definition win_read ::
  "'w win_sys \<Rightarrow> stream_id \<Rightarrow> bytes \<Rightarrow> 'w win_streams \<Rightarrow> stream_result \<times> bytes \<times> 'w win_streams" where
  "win_read win i buf ws =
     (case win_get_stream (wst_streams ws) i of
        Some s \<Rightarrow>
          let (r, buf, stream, w) = win_stream_read win buf (wi_stream s) (wst_world ws)
          in (r, buf, put_win_stream i stream w ws)
      | None \<Rightarrow> (StreamClosed, buf, ws))"

definition on_win_stream ::
  "(win_stream \<Rightarrow> 'w \<Rightarrow> (stream_result \<times> win_stream \<times> 'w) option) \<Rightarrow> stream_id \<Rightarrow> 'w win_streams
     \<Rightarrow> (stream_result \<times> 'w win_streams) option" where
  "on_win_stream f i ws =
     (case win_get_stream (wst_streams ws) i of
        Some s \<Rightarrow>
          map_option (\<lambda>(r, stream, w). (r, put_win_stream i stream w ws)) (f (wi_stream s) (wst_world ws))
      | None \<Rightarrow> Some (StreamClosed, ws))"

definition win_shutdown_write :: "'w win_sys \<Rightarrow> stream_id \<Rightarrow> 'w win_streams \<Rightarrow> 'w win_streams" where
  "win_shutdown_write win i ws =
     (case win_get_stream (wst_streams ws) i of
        Some s \<Rightarrow> ws\<lparr>wst_world := win_stream_shutdown_write win (wi_stream s) (wst_world ws)\<rparr>
      | None \<Rightarrow> ws)"

definition win_ops :: "'w win_sys \<Rightarrow> stream_ids \<Rightarrow> 'w win_streams streams_ops" where
  "win_ops win ids =
     \<lparr>so_has_stream = (\<lambda>i ws. win_get_stream (wst_streams ws) i \<noteq> None),
      so_read = win_read win,
      so_write = (\<lambda>i data. on_win_stream (win_stream_write win data) i),
      so_write_from_buffer = on_win_stream (win_stream_write_from_buffer win),
      so_set_option = (\<lambda>_ _ ws. ws),
      so_shutdown_write = win_shutdown_write win,
      so_open_new_tcp_stream = win_open_tcp win,
      so_open_new_udp_stream = win_open_udp win,
      so_close_stream = win_close win,
      so_poll = win_poll win,
      so_set_poll_enable_wait_for_write = (\<lambda>_ _ ws. ws),
      so_get_tun_interface_state = win_interface_state ids\<rparr>"

section \<open>Invariant\<close>

text \<open>The thread waits on the waker and on every stream, each at the place of the stream.\<close>

definition win_ok :: "'w win_streams \<Rightarrow> bool" where
  "win_ok ws \<longleftrightarrow> wst_handles ws = wst_waker ws # map (\<lambda>s. win_stream_handle (wi_stream s)) (wst_streams ws)"

definition win_keys :: "'w win_streams \<Rightarrow> stream_id list \<times> win_handle list \<times> win_handle \<times> win_handle list" where
  "win_keys ws = (map wi_stream_id (wst_streams ws), map (\<lambda>s. win_stream_handle (wi_stream s)) (wst_streams ws),
     wst_waker ws, wst_handles ws)"

lemma win_get_stream_iff: "win_get_stream ss i \<noteq> None \<longleftrightarrow> i \<in> wi_stream_id ` set ss"
  by (induction ss) (auto simp: win_get_stream_def)

lemma win_keys_law:
  assumes "win_ok ws" "win_keys ws' = win_keys ws"
  shows "win_ok ws' \<and> (win_get_stream (wst_streams ws') j \<noteq> None) = (win_get_stream (wst_streams ws) j \<noteq> None)"
proof -
  from assms(2) have "wi_stream_id ` set (wst_streams ws') = wi_stream_id ` set (wst_streams ws)"
    by (metis fst_conv image_set win_keys_def)
  with assms show ?thesis unfolding win_get_stream_iff by (simp add: win_ok_def win_keys_def)
qed

text \<open>No method of a stream changes its handle.\<close>

lemma handle_read: "win_stream_read win buf s w = (r, buf', s', w') \<Longrightarrow> win_stream_handle s' = win_stream_handle s"
  by (cases s) (auto simp: win_tcp_read_def win_udp_read_def Let_def split: prod.splits sum.splits if_splits)

lemma handle_flush:
  "win_tcp_write_from_buffer win st w = Some (r, st', w') \<Longrightarrow> wtcp_handle st' = wtcp_handle st"
  by (auto simp: win_tcp_write_from_buffer_def)

lemma handle_write: "win_stream_write win d s w = Some (r, s', w') \<Longrightarrow> win_stream_handle s' = win_stream_handle s"
  by (cases s) (auto simp: win_tcp_write_def win_udp_write_def dest!: handle_flush split: prod.splits sum.splits)

lemma handle_write_from_buffer:
  "win_stream_write_from_buffer win s w = Some (r, s', w') \<Longrightarrow> win_stream_handle s' = win_stream_handle s"
  by (cases s) (auto dest!: handle_flush)

lemma handle_get_state: "win_stream_get_state win s w = (r, s', w') \<Longrightarrow> win_stream_handle s' = win_stream_handle s"
  by (cases s) (auto simp: win_tcp_get_state_def win_udp_get_state_def Let_def split: prod.splits)

lemma update_win_stream_keys:
  assumes "win_get_stream ss i = Some s" "win_stream_handle s' = win_stream_handle (wi_stream s)"
  shows "map wi_stream_id (update_win_stream i s' ss) = map wi_stream_id ss \<and>
    map (\<lambda>s. win_stream_handle (wi_stream s)) (update_win_stream i s' ss) = map (\<lambda>s. win_stream_handle (wi_stream s)) ss"
  using assms(1) by (induction ss) (auto simp: win_get_stream_def assms(2) split: if_splits)

lemma keys_put_win_stream:
  assumes "win_get_stream (wst_streams ws) i = Some s" "win_stream_handle s' = win_stream_handle (wi_stream s)"
  shows "win_keys (put_win_stream i s' w ws) = win_keys ws"
  using update_win_stream_keys [OF assms] by (simp add: win_keys_def put_win_stream_def)

lemma keys_win_read: "win_read win i buf ws = (r, buf', ws') \<Longrightarrow> win_keys ws' = win_keys ws"
  by (auto simp: win_read_def keys_put_win_stream dest: handle_read split: option.splits prod.splits)

lemma keys_on_win_stream:
  assumes "\<And>s w r s' w'. f s w = Some (r, s', w') \<Longrightarrow> win_stream_handle s' = win_stream_handle s"
    and "on_win_stream f i ws = Some (r, ws')"
  shows "win_keys ws' = win_keys ws"
  using assms(2) by (auto simp: on_win_stream_def keys_put_win_stream dest: assms(1) split: option.splits)

lemma keys_poll_results:
  "get_all_streams_as_poll_results win ss w = (rs, ss', w') \<Longrightarrow>
     map wi_stream_id ss' = map wi_stream_id ss \<and>
     map (\<lambda>s. win_stream_handle (wi_stream s)) ss' = map (\<lambda>s. win_stream_handle (wi_stream s)) ss \<and>
     map pr_stream_id rs = rev (map wi_stream_id ss)"
proof (induction ss arbitrary: rs ss' w')
  case (Cons s ss)
  obtain rs1 ss1 w1 where rest: "get_all_streams_as_poll_results win ss w = (rs1, ss1, w1)"
    by (cases "get_all_streams_as_poll_results win ss w") auto
  obtain state stream w2 where st: "win_stream_get_state win (wi_stream s) w1 = (state, stream, w2)"
    by (cases "win_stream_get_state win (wi_stream s) w1") auto
  from Cons.prems rest st Cons.IH [OF rest] handle_get_state [OF st] show ?case
    by (auto simp: create_poll_result_def split: prod.splits)
qed simp

lemma win_register_law:
  "win_ok (win_register_stream i s ws) \<and> (win_get_stream (wst_streams (win_register_stream i s ws)) j \<noteq> None \<longleftrightarrow>
     win_get_stream (wst_streams ws) j \<noteq> None \<or> j = i)"
  unfolding win_get_stream_iff by (auto simp: win_ok_def win_register_stream_def reset_handles_def)

lemma win_opened_law:
  assumes "win_ok ws"
    and "(case qw of (Inr st, w) \<Rightarrow> (Inr (), win_register_stream i (mk st) (ws\<lparr>wst_world := w\<rparr>))
          | (Inl e, w) \<Rightarrow> (Inl e, ws\<lparr>wst_world := w\<rparr>)) = (r, ws')"
  shows "win_ok ws' \<and> (win_get_stream (wst_streams ws') j \<noteq> None \<longleftrightarrow>
       win_get_stream (wst_streams ws) j \<noteq> None \<or> r = Inr () \<and> j = i)"
proof -
  obtain q w where qw: "qw = (q, w)" by (cases qw)
  show ?thesis
  proof (cases q)
    case (Inl e)
    with assms(2) qw have "r = Inl e" "ws' = ws\<lparr>wst_world := w\<rparr>" by simp_all
    with assms(1) show ?thesis by (simp add: win_ok_def)
  next
    case (Inr st)
    with assms(2) qw have "r = Inr ()" "ws' = win_register_stream i (mk st) (ws\<lparr>wst_world := w\<rparr>)" by simp_all
    with win_register_law [of i "mk st" "ws\<lparr>wst_world := w\<rparr>" j] show ?thesis by simp
  qed
qed

lemma win_open_law:
  assumes "win_ok ws"
  shows "win_open_tcp win i a ws = (r, ws') \<Longrightarrow> win_ok ws' \<and> (win_get_stream (wst_streams ws') j \<noteq> None \<longleftrightarrow>
       win_get_stream (wst_streams ws) j \<noteq> None \<or> r = Inr () \<and> j = i)"
    and "win_open_udp win i a ws = (r, ws') \<Longrightarrow> win_ok ws' \<and> (win_get_stream (wst_streams ws') j \<noteq> None \<longleftrightarrow>
       win_get_stream (wst_streams ws) j \<noteq> None \<or> r = Inr () \<and> j = i)"
  unfolding win_open_tcp_def win_open_udp_def by (erule win_opened_law [OF assms])+

lemma win_close_law:
  "win_ok (win_close win i ws) \<and> (win_get_stream (wst_streams (win_close win i ws)) j \<noteq> None \<longleftrightarrow>
     win_get_stream (wst_streams ws) j \<noteq> None \<and> j \<noteq> i)"
  unfolding win_get_stream_iff by (auto simp: win_ok_def win_close_def reset_handles_def Let_def)

lemma win_poll_keys:
  assumes "win_poll win dl ws = (r, ws')"
  shows "win_keys ws' = win_keys ws"
    and "r = Inr results \<Longrightarrow> set (map pr_stream_id results) \<subseteq> wi_stream_id ` set (wst_streams ws)"
proof -
  obtain k w where wait: "WSAWaitForMultipleEvents win (wst_handles ws) (timeout_as_millis win dl) (wst_world ws) = (k, w)"
    by (cases "WSAWaitForMultipleEvents win (wst_handles ws) (timeout_as_millis win dl) (wst_world ws)")
  obtain rs ss w' where all: "get_all_streams_as_poll_results win (wst_streams ws) w = (rs, ss, w')"
    by (cases "get_all_streams_as_poll_results win (wst_streams ws) w") auto
  note K = keys_poll_results [OF all]
  have ids: "set (map pr_stream_id rs) = wi_stream_id ` set (wst_streams ws)" using K by simp
  show "win_keys ws' = win_keys ws"
    using assms wait all K by (auto simp: win_poll_def win_keys_def split: if_splits)
  show "r = Inr results \<Longrightarrow> set (map pr_stream_id results) \<subseteq> wi_stream_id ` set (wst_streams ws)"
    using assms wait all ids by (auto simp: win_poll_def split: if_splits)
qed

interpretation win: stream_set "win_ops win ids" ids win_ok for win ids
proof (unfold_locales, goal_cases)
  case 1 then show ?case
    unfolding win_ops_def streams_ops.simps by (rule win_keys_law [OF _ keys_win_read])
next
  case (2 s i d res s' j)
  then have "on_win_stream (win_stream_write win d) i s = Some (res, s')" by (simp add: win_ops_def)
  from keys_on_win_stream [OF _ this] handle_write have "win_keys s' = win_keys s" by metis
  from win_keys_law [OF 2(1) this] show ?case by (simp add: win_ops_def)
next
  case (3 s i res s' j)
  then have "on_win_stream (win_stream_write_from_buffer win) i s = Some (res, s')" by (simp add: win_ops_def)
  from keys_on_win_stream [OF _ this] handle_write_from_buffer have "win_keys s' = win_keys s" by metis
  from win_keys_law [OF 3(1) this] show ?case by (simp add: win_ops_def)
next
  case 4 then show ?case by (simp add: win_ops_def)
next
  case 5 then show ?case
    by (simp add: win_ops_def win_shutdown_write_def win_ok_def split: option.split)
next
  case 6 then show ?case by (simp add: win_ops_def)
next
  case 7 then show ?case using win_open_law(1) by (simp add: win_ops_def)
next
  case 8 then show ?case using win_open_law(2) by (simp add: win_ops_def)
next
  case 9 then show ?case using win_close_law by (simp add: win_ops_def)
next
  case 10 then show ?case
    unfolding win_ops_def streams_ops.simps by (rule win_keys_law [OF _ win_poll_keys(1)])
next
  case (11 s dl results s' p)
  from 11(2) have "win_poll win dl s = (Inr results, s')" by (simp add: win_ops_def)
  from win_poll_keys(2) [OF this refl] 11(3) have "pr_stream_id p \<in> wi_stream_id ` set (wst_streams s)" by auto
  then show ?case unfolding win_ops_def streams_ops.simps win_get_stream_iff .
next
  case 12 then show ?case by (simp add: win_ops_def win_interface_state_def)
qed

text \<open>Readiness that a stream has seen and not used up; the tun stream is always asked.\<close>

fun ready_to_read :: "win_stream \<Rightarrow> bool" where
  "ready_to_read (WinTcp st) = wtcp_is_readable st"
| "ready_to_read (WinUdp st) = wudp_is_readable st"
| "ready_to_read (WinTun h) = True"

fun ready_to_write :: "win_stream \<Rightarrow> bool" where
  "ready_to_write (WinTcp st) = wtcp_is_writable st"
| "ready_to_write (WinUdp st) = wudp_is_writable st"
| "ready_to_write (WinTun h) = True"

definition reports_stream :: "win_stream_info \<Rightarrow> win_stream_info \<Rightarrow> poll_result \<Rightarrow> bool" where
  "reports_stream s s' p \<longleftrightarrow> pr_stream_id p = wi_stream_id s \<and> wi_stream_id s' = wi_stream_id s \<and>
     (ready_to_read (wi_stream s) \<longrightarrow> pr_is_readable p) \<and> (ready_to_write (wi_stream s) \<longrightarrow> pr_is_writable p) \<and>
     pr_is_readable p = ready_to_read (wi_stream s') \<and> pr_is_writable p = ready_to_write (wi_stream s')"

lemma create_poll_result_reports:
  assumes "create_poll_result win s w = (p, s', w')"
  shows "reports_stream s s' p"
proof (cases "wi_stream s")
  case (WinTcp st)
  with assms show ?thesis
    by (auto simp: create_poll_result_def reports_stream_def win_tcp_get_state_def Let_def split: prod.splits)
next
  case (WinUdp st)
  with assms show ?thesis
    by (auto simp: win_tun_get_state_def create_poll_result_def reports_stream_def win_udp_get_state_def Let_def split: prod.splits)
next
  case (WinTun h)
  with assms show ?thesis by (auto simp: win_tun_get_state_def create_poll_result_def reports_stream_def)
qed

lemma poll_results_report:
  "get_all_streams_as_poll_results win ss w = (rs, ss', w') \<Longrightarrow>
   length ss' = length ss \<and> length rs = length ss \<and> (\<forall>i<length ss. reports_stream (ss ! i) (ss' ! i) (rev rs ! i))"
proof (induction ss arbitrary: rs ss' w')
  case (Cons s ss)
  obtain rs1 ss1 w1 where rest: "get_all_streams_as_poll_results win ss w = (rs1, ss1, w1)"
    by (cases "get_all_streams_as_poll_results win ss w") auto
  obtain p s' w2 where one: "create_poll_result win s w1 = (p, s', w2)" by (cases "create_poll_result win s w1") auto
  from Cons.prems rest one have eq: "rs = rs1 @ [p]" "ss' = s' # ss1" by auto
  from Cons.IH [OF rest] create_poll_result_reports [OF one] show ?case
    by (auto simp: eq nth_Cons split: nat.split)
qed simp

section \<open>Properties\<close>

text \<open>C22: In every run of calls on the streams of Windows the streams that exist are exactly those
  that the calls and their results say: the tun stream and those opened successfully, less
  those closed since; and the thread waits on the waker first and then on the handle of
  every stream.\<close>

theorem win_streams_refine_set:
  assumes "calls_run (streams_call_step (win_ops win ids)) calls (win_streams_new ids tun waker config w) = Some (oks, ws')"
  shows "{j. win_get_stream (wst_streams ws') j \<noteq> None} =
       fold (\<lambda>(c, b). ids_after c b) (zip calls oks) {TUN_STREAM_ID ids} \<and>
     wst_handles ws' = wst_waker ws' # map (\<lambda>s. win_stream_handle (wi_stream s)) (wst_streams ws')"
proof -
  let ?new = "win_streams_new ids tun waker config w"
  have has: "so_has_stream (win_ops win ids) j s \<longleftrightarrow> win_get_stream (wst_streams s) j \<noteq> None" for j s
    by (simp add: win_ops_def)
  have ok: "win_ok ?new" and ids: "{j. win_get_stream (wst_streams ?new) j \<noteq> None} = {TUN_STREAM_ID ids}"
    by (auto simp: win_streams_new_def win_register_stream_def reset_handles_def win_ok_def win_get_stream_def)
  from win.run_refines [OF ok assms] ids show ?thesis unfolding has by (simp add: win_ok_def)
qed

text \<open>The example system: a UDP stream is opened, polled and written to, and closed.\<close>

definition win_example_ids :: stream_ids where
  "win_example_ids = \<lparr>TUN_STREAM_ID = 0, PCAP_STREAM_ID = - 1, PRIVKEY_STREAM_ID = - 2,
     CERT_STREAM_ID = - 3, MUON_AUTH_STREAM_ID = - 4\<rparr>"

definition win_example_start :: "win_world win_streams" where
  "win_example_start = win_streams_new win_example_ids 50 99 \<lparr>send_buffer_size_bytes = 0, receive_buffer_size_bytes = 0\<rparr> ([], 5, [])"

definition win_example_calls :: "streams_call list" where
  "win_example_calls = (let a = \<lparr>sa_ip = V4 (Ipv4Addr 10 0 0 1), sa_port = 443\<rparr>
     in [CallOpenTcp 5 a, CallOpenUdp 6 a, CallPoll None, CallWrite 6 [1, 2], CallClose 5])"

lemma win_example_run:
  "map_option fst (calls_run (streams_call_step (win_ops window_win win_example_ids)) win_example_calls win_example_start) =
     Some [True, True, True, True, True]"
  by code_simp

theorem win_streams_refine_set_witness:
  "\<exists>ws'. calls_run (streams_call_step (win_ops window_win win_example_ids)) win_example_calls win_example_start =
       Some ([True, True, True, True, True], ws') \<and>
     {j. win_get_stream (wst_streams ws') j \<noteq> None} = {0, 6} \<and>
     wst_handles ws' = wst_waker ws' # map (\<lambda>s. win_stream_handle (wi_stream s)) (wst_streams ws')"
proof -
  from win_example_run obtain ws' where
    run: "calls_run (streams_call_step (win_ops window_win win_example_ids)) win_example_calls win_example_start =
       Some ([True, True, True, True, True], ws')" by auto
  note R = win_streams_refine_set [OF run [unfolded win_example_start_def]]
  have "{0, 6, 5} - {5} = {0, 6 :: stream_id}" by auto
  with R [THEN conjunct1] have "{j. win_get_stream (wst_streams ws') j \<noteq> None} = {0, 6}"
    by (simp add: insert_commute win_example_ids_def win_example_calls_def Let_def)
  with run R [THEN conjunct2] show ?thesis by blast
qed



end
