(* ===== verification/Windows_Connection.thy ===== *)
theory Windows_Connection
  imports Connection_Api Wintun_Session Windows_Streams
begin

text \<open>
  The objects that an application uses on Windows: \<^verbatim>\<open>src/api/windows/connection_windows.rs\<close> and
  \<^verbatim>\<open>state_changed_callback.rs\<close>, with \<^verbatim>\<open>src/connection/windows/helpers/winsock.rs\<close> and the
  constructor of the tun stream in \<^verbatim>\<open>tun_windows.rs\<close>. The connection itself is that of
  \<^verbatim>\<open>Connection_Api\<close>, on the streams of Windows.
\<close>

section \<open>Environment\<close>

text \<open>\<open>wt_get_read_wait_event\<close> is a call of a session of the crate \<^verbatim>\<open>wintun\<close>.\<close>

record 'w windows_env =
  we_session :: "'w session_env"
  we_sys :: "'w win_sys"
  WSAStartup :: "u16 \<Rightarrow> 'w \<Rightarrow> int \<times> 'w"
  WSACleanup :: "'w \<Rightarrow> 'w"
  wt_get_read_wait_event :: "wintun_handle \<Rightarrow> 'w \<Rightarrow> string + win_handle"

section \<open>Winsock (\<^verbatim>\<open>winsock.rs\<close>) and the library object\<close>

definition i32_to_string :: "int \<Rightarrow> string" where
  "i32_to_string n = (if n < 0 then ''-'' @ to_decimal (nat (- n)) else to_decimal (nat n))"

definition winsock_create :: "'w windows_env \<Rightarrow> 'w \<Rightarrow> (protun_fatal_error + unit) \<times> 'w" where
  "winsock_create env w =
     (case WSAStartup env 0x202 w of (result, w) \<Rightarrow>
        if result = 0 then (Inr (), w)
        else (Inl (WinsockStartFailed (''Winsock startup (WSAStartup) failed. Error code: '' @ i32_to_string result)), w))"

definition winsock_drop :: "'w windows_env \<Rightarrow> 'w \<Rightarrow> 'w" where
  "winsock_drop env w = WSACleanup env w"

text \<open>\<^verbatim>\<open>ProTun\<close> owns nothing but Winsock; the logger it initialises is not part of the model.\<close>

definition protun_initialize :: "'w windows_env \<Rightarrow> 'w \<Rightarrow> (protun_fatal_error + unit) \<times> 'w" where
  "protun_initialize env w = winsock_create env w"

definition protun_delete_routes :: "'w windows_env \<Rightarrow> 'w \<Rightarrow> 'w" where
  "protun_delete_routes env = delete_created_routes (sv_routes (we_session env))"

section \<open>The status of the adapter (\<^verbatim>\<open>state_changed_callback.rs\<close>)\<close>

definition disconnected_to_string :: "disconnect_reason option \<Rightarrow> string" where
  "disconnected_to_string err = (case err of Some _ \<Rightarrow> ''Disconnected with error'' | None \<Rightarrow> ''Disconnected'')"

definition connecting_to_string :: "peer_connection_info list \<Rightarrow> peer_connection_wait_reason list \<Rightarrow> string" where
  "connecting_to_string peers wait_reasons =
     (let waiting_label = (case wait_reasons of WaitingForNetwork # _ \<Rightarrow> '' Waiting for network'' | [] \<Rightarrow> '''');
          num_peers = length peers
      in if num_peers > 1 then ''Connecting ('' @ to_decimal num_peers @ '' peers)'' @ waiting_label
         else if num_peers = 1 then ''Connecting to '' @ pci_peer_id (peers ! 0) @ waiting_label
         else ''Connecting'' @ waiting_label)"

definition connected_to_string :: "peer_connection_info \<Rightarrow> string" where
  "connected_to_string peer = ''Connected to '' @ pci_peer_id peer"

definition connecting_local_agent_to_string :: "peer_connection_info \<Rightarrow> agent_connection_wait_reason option \<Rightarrow> string" where
  "connecting_local_agent_to_string peer wait_reason =
     (let waiting_label = (case wait_reason of
          Some SoftJailed \<Rightarrow> '' (Soft jailed)'' | Some (HardJailed _) \<Rightarrow> '' (Hard jailed)'' | None \<Rightarrow> '''')
      in ''Connecting to '' @ pci_peer_id peer @ waiting_label)"

fun connection_state_to_string :: "connection_state \<Rightarrow> string" where
  "connection_state_to_string (Disconnected err) = disconnected_to_string err"
| "connection_state_to_string (Connecting peers wait_reasons) = connecting_to_string peers wait_reasons"
| "connection_state_to_string (ConnectingToLocalAgent peer wait_reason) = connecting_local_agent_to_string peer wait_reason"
| "connection_state_to_string (Connected peer _) = connected_to_string peer"

definition windows_on_state_changed ::
  "'w registry \<Rightarrow> (vpn_state \<Rightarrow> 'w \<Rightarrow> 'w) \<Rightarrow> vpn_state \<Rightarrow> 'w \<Rightarrow> 'w" where
  "windows_on_state_changed reg client_callback state w =
     client_callback state
       (set_network_adapter_status_text reg (connection_state_to_string (vs_connection_state state)) w)"

section \<open>The connection object (\<^verbatim>\<open>connection_windows.rs\<close>)\<close>

record network_config =
  nc_tun_adapter :: adapter_config
  nc_udp_socket :: socket_config

record protun_adapter_details =
  pd_interface_index :: u32
  pd_client_ipv4_addr :: string
  pd_server_ipv4_addr :: string
  pd_client_ipv6_addr :: string
  pd_server_ipv6_addr :: string

record ('c, 's, 'w) windows_connection =
  wc_connection :: "('c, 's, 'w) connection"
  wc_tun :: wintun_session

definition tun_stream_windows_new :: "'w windows_env \<Rightarrow> wintun_session \<Rightarrow> 'w \<Rightarrow> protun_fatal_error + win_stream" where
  "tun_stream_windows_new env tun w =
     (case wt_get_read_wait_event env (wn_session tun) w of
        Inr event \<Rightarrow> Inr (WinTun event)
      | Inl e \<Rightarrow> Inl (WintunSessionHandleCreationFailed (''Failed to create the Wintun session handle: '' @ e)))"

text \<open>The texts of the fatal errors, as \<^verbatim>\<open>thiserror\<close> derives them from \<^verbatim>\<open>protun_error.rs\<close>.\<close>

fun fatal_error_to_string :: "protun_fatal_error \<Rightarrow> string" where
  "fatal_error_to_string (NoLocalIp s) = ''Local IP address not found: '' @ s"
| "fatal_error_to_string (HandleCreationFailed s) = ''Failed to create a Windows HANDLE: '' @ s"
| "fatal_error_to_string (WinsockStartFailed s) = ''Failed to start Winsock: '' @ s"
| "fatal_error_to_string (WintunLibraryLoadingFailed s) = ''Failed to load the Wintun library: '' @ s"
| "fatal_error_to_string (WintunInterfaceCreationFailed s) = ''Failed to create Wintun interface: '' @ s"
| "fatal_error_to_string (WintunAdapterIndexFetchFailed s) = ''Failed to get the Wintun adapter index: '' @ s"
| "fatal_error_to_string (WintunSessionCreationFailed s) = ''Failed to create Wintun session: '' @ s"
| "fatal_error_to_string (WintunIpAddressSetupFailed s) = ''Could not set a valid IP address for the Wintun interface: '' @ s"
| "fatal_error_to_string (WintunSessionHandleCreationFailed s) = ''Failed to create the Wintun stream handle: '' @ s"

definition create_windows_dependencies ::
  "'w windows_env \<Rightarrow> stream_ids \<Rightarrow> ('a, 't, 'm) secret_parsers \<Rightarrow> (cache_key \<Rightarrow> bytes option) \<Rightarrow>
   (instant \<Rightarrow> system_time \<Rightarrow> ('a, 't, 'm) pvpn_client_mode \<Rightarrow> 'l io_result) \<Rightarrow> 'k clocks \<Rightarrow>
   win_handle \<Rightarrow> initial_connection_config \<Rightarrow> socket_config \<Rightarrow> wintun_session \<Rightarrow> 'w \<Rightarrow> 'k
     \<Rightarrow> (('l, 'k) pvpn_client_impl \<times> 'w win_streams) io_result" where
  "create_windows_dependencies env ids parsers cache_get lib_build clk waker config udp_config tun w k =
     (case tun_stream_windows_new env tun w of
        Inl e \<Rightarrow> Inl (io_error_new OtherKind (''Failed to create streams: '' @ fatal_error_to_string e))
      | Inr tun_stream \<Rightarrow>
          (let streams = win_streams_new ids (win_stream_handle tun_stream) waker udp_config w in
           case to_pvpn_client_mode parsers cache_get (ic_connection_mode config) of
             Inl e \<Rightarrow> Inl e
           | Inr mode \<Rightarrow>
               (case fst (client_impl_new lib_build clk mode k) of
                  Inl e \<Rightarrow> Inl e
                | Inr client \<Rightarrow> Inr (client, streams))))"

text \<open>
  The streams of Windows for the connection loop. Without the feature \<^verbatim>\<open>mio\<close> there is neither the
  operation that replaces the tun device nor the part of a message that asks for it, so the
  field for it is never used.
\<close>

definition win_loop_ops :: "'w win_sys \<Rightarrow> stream_ids \<Rightarrow> 'w win_streams tun_streams_ops" where
  "win_loop_ops win ids = streams_ops.extend (win_ops win ids) (tun_streams_ops.fields (\<lambda>_ ws. (Inr (), ws)))"

text \<open>
  Opening a connection. The dependencies are created by the thread of the connection and are a
  parameter of the last step, as a function of the waker and the session. When the waker cannot
  be created the session is dropped.
\<close>

definition windows_connect ::
  "'w windows_env \<Rightarrow> ('c, 's, 'v) conn_env \<Rightarrow> (win_handle \<Rightarrow> wintun_session \<Rightarrow> 'w \<Rightarrow> ('c \<times> 's) io_result) \<Rightarrow>
   initial_connection_config \<Rightarrow> network_config \<Rightarrow> 'v \<Rightarrow> 'w \<Rightarrow>
     ((protun_fatal_error + ('c, 's, 'v) windows_connection) \<times> 'w) option" where
  "windows_connect env conn_env dependencies config net v w =
     (let server_ips = map pi_server_ip (ic_peers config) in
      Option.bind (wintun_session_create (we_session env) server_ips (nc_tun_adapter net) w) (\<lambda>(r, w).
        case r of
          Inl e \<Rightarrow> Some (Inl e, w)
        | Inr tun \<Rightarrow>
            (case waker_new (we_sys env) w of
               (Inl e, w) \<Rightarrow> Some (Inl e, wintun_session_drop (we_session env) tun w)
             | (Inr waker, w) \<Rightarrow>
                 Some (Inr \<lparr>wc_connection = start_pvpn_connection conn_env config v (dependencies waker tun w),
                   wc_tun = tun\<rparr>, w))))"

definition get_adapter_details :: "('c, 's, 'v) windows_connection \<Rightarrow> protun_adapter_details" where
  "get_adapter_details c =
     (let tun = wc_tun c in
      \<lparr>pd_interface_index = wn_interface_index tun,
       pd_client_ipv4_addr = ipv4_to_string (wn_client_ipv4_addr tun),
       pd_server_ipv4_addr = ipv4_to_string (wn_server_ipv4_addr tun),
       pd_client_ipv6_addr = option_ipv6addr_to_string (wn_client_ipv6_addr tun),
       pd_server_ipv6_addr = option_ipv6addr_to_string (wn_server_ipv6_addr tun)\<rparr>)"

definition windows_set_ipv6 :: "'w windows_env \<Rightarrow> bool \<Rightarrow> 'w \<Rightarrow> (bool \<times> 'w) option" where
  "windows_set_ipv6 env is_enabled w =
     map_option (\<lambda>(r, w). (\<not> isl r, w))
       (if is_enabled then session_enable_ipv6 (we_session env) w else session_disable_ipv6 (we_session env) w)"

definition windows_set_dns ::
  "'w windows_env \<Rightarrow> ('c, 's, 'v) windows_connection \<Rightarrow> ip_addr list \<Rightarrow> 'w \<Rightarrow> bool \<times> 'w" where
  "windows_set_dns env c custom w =
     (case session_set_dns_servers (we_session env) (wc_tun c) custom w of (r, w) \<Rightarrow> (\<not> isl r, w))"

section \<open>The registry behind the status\<close>

text \<open>
  The values of the registry by key and name, and the profiles of networks it lists. Reading and
  writing succeed, and a write changes the one value.
\<close>

definition status_contract :: "'w registry \<Rightarrow> ('w \<Rightarrow> reg_path \<Rightarrow> string \<Rightarrow> string option) \<Rightarrow> string list \<Rightarrow> bool" where
  "status_contract reg vals profiles \<longleftrightarrow>
     (\<forall>p w. reg_open_all_access reg p w = Inr ()) \<and>
     (\<forall>w. reg_enum_keys reg get_profiles_path w = map Inr profiles) \<and>
     (\<forall>p n s w. reg_get_string reg p n w = Inr s \<longleftrightarrow> vals w p n = Some s) \<and>
     (\<forall>p n s w. vals (snd (reg_set_string reg p n s w)) = (vals w)(p := (vals w p)(n \<mapsto> s)))"

text \<open>The profiles of the adapter are known by their description.\<close>

definition adapter_profile :: "(reg_path \<Rightarrow> string \<Rightarrow> string option) \<Rightarrow> string list \<Rightarrow> reg_path \<Rightarrow> bool" where
  "adapter_profile v profiles p \<longleftrightarrow>
     p \<in> (\<lambda>x. get_profiles_path @ [x]) ` set profiles \<and> v p ''Description'' = Some ADAPTER_NAME"

definition status_written ::
  "(reg_path \<Rightarrow> string \<Rightarrow> string option) \<Rightarrow> string list \<Rightarrow> string \<Rightarrow> reg_path \<Rightarrow> string \<Rightarrow> string option" where
  "status_written v profiles txt p n =
     (if adapter_profile v profiles p \<and> n = ''ProfileName'' then Some txt else v p n)"

lemma adapter_profile_written [simp]:
  "adapter_profile (status_written v ps txt) qs p \<longleftrightarrow> adapter_profile v qs p"
  by (auto simp: adapter_profile_def status_written_def)

lemma status_written_twice [simp]: "status_written (status_written v ps txt) ps txt' = status_written v ps txt'"
  by (rule ext, rule ext) (simp add: status_written_def [of "status_written v ps txt"], simp add: status_written_def)

lemma set_status_text:
  assumes "status_contract reg vals profiles"
  shows "vals (set_network_adapter_status_text reg txt w) = status_written (vals w) profiles txt"
proof -
  let ?step = "\<lambda>x w. let path = get_profiles_path @ [x] in
      if vals w path ''Description'' = Some ADAPTER_NAME then snd (reg_set_string reg path ''ProfileName'' txt w) else w"
  note C = assms [unfolded status_contract_def]
  have step: "vals (?step x w) p n = (if p = get_profiles_path @ [x] \<and> vals w p ''Description'' = Some ADAPTER_NAME \<and>
      n = ''ProfileName'' then Some txt else vals w p n)" for x w p n
    using C by (simp add: Let_def)
  have "vals (fold ?step xs w) p n = status_written (vals w) xs txt p n" for xs p n
  proof (induction xs arbitrary: w)
    case Nil
    show ?case by (simp add: status_written_def adapter_profile_def)
  next
    case (Cons x xs)
    have "vals (fold ?step (x # xs) w) p n = status_written (vals (?step x w)) xs txt p n"
      using Cons.IH [of "?step x w"] by simp
    also have "\<dots> = status_written (vals w) (x # xs) txt p n"
      unfolding status_written_def adapter_profile_def step by auto
    finally show ?case .
  qed
  moreover have "set_network_adapter_status_text reg txt w = fold ?step profiles w"
    using C by (simp add: set_network_adapter_status_text_def fold_map comp_def Let_def)
  ultimately show ?thesis by (intro ext) simp
qed

text \<open>What the reports of a thread do on Windows; events and the cache go to other callbacks.\<close>

definition windows_outputs :: "'w registry \<Rightarrow> (vpn_state \<Rightarrow> 'w \<Rightarrow> 'w) \<Rightarrow> out list \<Rightarrow> 'w \<Rightarrow> 'w" where
  "windows_outputs reg client_callback =
     fold (\<lambda>out w. case out of StateChanged v \<Rightarrow> windows_on_state_changed reg client_callback v w | _ \<Rightarrow> w)"

lemma windows_outputs_status:
  assumes "status_contract reg vals profiles" and "\<And>v w. vals (client v w) = vals w"
  shows "vals (windows_outputs reg client os w) = (if state_reports os = [] then vals w
     else status_written (vals w) profiles (connection_state_to_string (last (state_reports os))))"
proof (induction os rule: rev_induct)
  case Nil
  show ?case by (simp add: windows_outputs_def)
next
  case (snoc out os)
  have "windows_outputs reg client (os @ [out]) w =
      (case out of StateChanged v \<Rightarrow> windows_on_state_changed reg client v (windows_outputs reg client os w)
       | _ \<Rightarrow> windows_outputs reg client os w)" by (cases out) (simp_all add: windows_outputs_def)
  with snoc show ?case
    by (cases out) (simp_all add: windows_on_state_changed_def set_status_text [OF assms(1)] assms(2))
qed

section \<open>Properties\<close>


text \<open>A registry with the profile of the adapter and that of another network.\<close>

definition example_registry :: "(reg_path \<Rightarrow> string \<Rightarrow> string option) registry" where
  "example_registry =
     \<lparr>reg_open_read = (\<lambda>_ _. Inr ()), reg_open_all_access = (\<lambda>_ _. Inr ()), reg_create = (\<lambda>_ v. (Inr (), v)),
      reg_enum_keys = (\<lambda>_ _. map Inr [''{1}'', ''{2}'']),
      reg_get_string = (\<lambda>p n v. case v p n of Some s \<Rightarrow> Inr s | None \<Rightarrow> Inl (io_error_new NotFound [])),
      reg_set_string = (\<lambda>p n s v. (Inr (), v(p := (v p)(n \<mapsto> s)))),
      reg_get_strings = (\<lambda>_ _ _. Inr []), reg_set_strings = (\<lambda>_ _ _ v. (Inr (), v))\<rparr>"

definition example_profiles :: "reg_path \<Rightarrow> string \<Rightarrow> string option" where
  "example_profiles = (\<lambda>p. Map.empty)(get_profiles_path @ [''{2}''] := [''Description'' \<mapsto> ADAPTER_NAME])"

lemma example_end_reports:
  "state_reports (cn_outputs example_end) \<noteq> []" "cn_connection_state example_end = Disconnected None"
  by (simp_all add: example_end_def example_start_def pvpn_connection_new_def on_connection_loop_end_def
      state_reports_def map_filter_simps set_state_def client_do_def network_recovery_new_def is_network_available_def Let_def sanitized_peers_eq
      best_peers_def best_in_def)


text \<open>A connection that could be opened describes its adapter consistently: for one number from 2
  to 255 the texts of its own address and of the server's are 10.n.0.2 and 10.n.0.1, the texts of
  the IPv6 addresses are both empty or those of the two addresses with that number, and the
  routes were created for the described interface.\<close>

theorem windows_connect_details:
  assumes "windows_connect env cenv dependencies config net v w = Some (Inr c, w')"
  shows "\<exists>i\<ge>(2 :: u8). let d = get_adapter_details c in
     pd_client_ipv4_addr d = ipv4_to_string (Ipv4Addr 10 i 0 2) \<and> pd_server_ipv4_addr d = ipv4_to_string (Ipv4Addr 10 i 0 1) \<and>
     (pd_client_ipv6_addr d = [] \<and> pd_server_ipv6_addr d = [] \<or>
      pd_client_ipv6_addr d = ipv6_to_string (Ipv6Addr 0x2a07 0xb944 0 0 0 0 (ucast i) 2) \<and>
      pd_server_ipv6_addr d = ipv6_to_string (Ipv6Addr 0x2a07 0xb944 0 0 0 0 (ucast i) 1)) \<and>
     pd_interface_index d = routes_interface_index (wn_routes (wc_tun c))"
proof -
  let ?create = "wintun_session_create (we_session env) (map pi_server_ip (ic_peers config)) (nc_tun_adapter net) w"
  from assms obtain r w1 where r: "?create = Some (r, w1)"
    by (auto simp: windows_connect_def Let_def bind_eq_Some_conv)
  obtain k w2 where k: "waker_new (we_sys env) w1 = (k, w2)" by (cases "waker_new (we_sys env) w1")
  from assms r k obtain s where create: "?create = Some (Inr s, w1)" and s: "wc_tun c = s"
    by (cases r; cases k) (auto simp: windows_connect_def Let_def)
  from session_addresses [OF create] show ?thesis
    by (auto simp: get_adapter_details_def Let_def s option_ipv6addr_to_string_def)
qed

text \<open>A system on which sockets give and take nothing, for the example of a whole connection.\<close>

definition idle_win :: "'w ip_helper \<Rightarrow> 'w win_sys" where
  "idle_win ih =
     \<lparr>ws_ip = ih, ws_read = (\<lambda>_ _ w. (Inr [], w)), ws_write = (\<lambda>_ _ w. (Inr 0, w)), ws_recv = (\<lambda>_ _ w. (Inr [], w)),
      ws_send = (\<lambda>_ _ w. (Inr 0, w)), ws_shutdown_write = (\<lambda>_ w. w), ws_take_error = (\<lambda>_ w. (Inr None, w)),
      ws_stream_socket = (\<lambda>_ w. (Inr 7, w)), ws_bind = (\<lambda>_ _ w. (Inr (), w)), ws_udp_bind = (\<lambda>_ w. (Inr 8, w)),
      ws_set_nonblocking = (\<lambda>_ w. (Inr (), w)), ws_connect = (\<lambda>_ _ w. (Inr (), w)),
      ws_ioctl_connreset = (\<lambda>_ _ w. (0, w)), ws_last_os_error = (\<lambda>_. io_error_new OtherKind []),
      ws_set_send_buffer_size = (\<lambda>_ _ w. (Inr (), w)), ws_set_recv_buffer_size = (\<lambda>_ _ w. (Inr (), w)),
      ws_closesocket = (\<lambda>_ w. w), WSACreateEvent = (\<lambda>w. (Inr 100, w)), WSAEventSelect = (\<lambda>_ _ _ w. (0, w)),
      WSAEnumNetworkEvents = (\<lambda>_ _ w. (0, w)), WSACloseEvent = (\<lambda>_ w. w), FD_READ = 1, FD_WRITE = 2,
      wintun_try_receive = (\<lambda>w. (Inr None, w)), wintun_allocate_send_packet = (\<lambda>n w. (Inr (unat n), w)),
      wintun_send_packet = (\<lambda>_ w. w), WSAWaitForMultipleEvents = (\<lambda>_ _ w. (258, w)),
      CreateEventW = (\<lambda>w. (Inr 101, w)), ResetEvent = (\<lambda>_ w. w), SetEvent = (\<lambda>_ w. w),
      WSA_INFINITE = 0xffffffff, WAIT_TIMEOUT = 258, WAIT_OBJECT_0 = 0\<rparr>"

definition example_windows_env :: "session_world windows_env" where
  "example_windows_env =
     \<lparr>we_session = example_session_env, we_sys = idle_win (re_ip (sv_routes example_session_env)),
      WSAStartup = (\<lambda>_ w. (0, w)), WSACleanup = (\<lambda>w. w), wt_get_read_wait_event = (\<lambda>_ _. Inr 55)\<rparr>"

definition example_initial_config :: initial_connection_config where
  "example_initial_config =
     \<lparr>ic_peers = [example_peer ''a'' (V4 (Ipv4Addr 1 2 3 4)) 1], ic_network_available = True, ic_pcap_file = None,
      ic_connection_mode = NoLocalAgent (WgClientPrivateKey [])\<rparr>"

definition example_network_config :: network_config where
  "example_network_config =
     \<lparr>nc_tun_adapter = example_config, nc_udp_socket = \<lparr>send_buffer_size_bytes = 0, receive_buffer_size_bytes = 0\<rparr>\<rparr>"

theorem windows_connect_details_witness:
  "\<exists>c w'. windows_connect example_windows_env example_env (\<lambda>_ _ _. Inr (Map.empty, example_streams))
       example_initial_config example_network_config [] example_session_world = Some (Inr c, w') \<and>
     (\<exists>i\<ge>(2 :: u8). pd_client_ipv4_addr (get_adapter_details c) = ipv4_to_string (Ipv4Addr 10 i 0 2) \<and>
       pd_server_ipv4_addr (get_adapter_details c) = ipv4_to_string (Ipv4Addr 10 i 0 1))"
proof -
  from example_session_created obtain s w1 where create: "wintun_session_create example_session_env
      [V4 (Ipv4Addr 1 2 3 4)] example_config example_session_world = Some (Inr s, w1)"
    by (auto simp: map_sum_def split: sum.splits) (metis sum.exhaust)
  let ?deps = "\<lambda>_ _ _. Inr (Map.empty, example_streams)"
  have "map pi_server_ip (ic_peers example_initial_config) = [V4 (Ipv4Addr 1 2 3 4)]"
    by (simp add: example_initial_config_def example_peer_def)
  with create have run: "windows_connect example_windows_env example_env ?deps example_initial_config example_network_config []
      example_session_world = Some (Inr \<lparr>wc_connection = start_pvpn_connection example_env example_initial_config []
        (Inr (Map.empty, example_streams)), wc_tun = s\<rparr>, w1)"
    by (simp add: windows_connect_def example_windows_env_def example_network_config_def waker_new_def idle_win_def)
  from windows_connect_details [OF run] run show ?thesis by (auto simp: Let_def)
qed

end
