(* ===== verification/Session_Lifetime.thy ===== *)
theory Session_Lifetime
  imports Windows_Connection
begin

text \<open>
  The life of a connection on Windows, as far as it concerns the routes of the system:
  \<^verbatim>\<open>WindowsConnection::connect\<close>, any changes of the settings through \<^verbatim>\<open>set_ipv6\<close> and \<^verbatim>\<open>set_dns\<close>, and
  the end, when the application and the thread have both given up the session and it is dropped, or a
  crash, after which the next start of the application calls \<^verbatim>\<open>ProTun::delete_routes\<close>.
\<close>

section \<open>Changes of an open connection\<close>

datatype session_op = SetIpv6 bool | SetDns "ip_addr list"

fun session_step ::
  "'w windows_env \<Rightarrow> ('c, 's, 'v) windows_connection \<Rightarrow> session_op \<Rightarrow> 'w \<Rightarrow> 'w option" where
  "session_step env c (SetIpv6 b) w = map_option snd (windows_set_ipv6 env b w)"
| "session_step env c (SetDns ips) w = Some (snd (windows_set_dns env c ips w))"

fun session_run ::
  "'w windows_env \<Rightarrow> ('c, 's, 'v) windows_connection \<Rightarrow> session_op list \<Rightarrow> 'w \<Rightarrow> 'w option" where
  "session_run env c [] w = Some w"
| "session_run env c (x # ops) w = Option.bind (session_step env c x w) (session_run env c ops)"

text \<open>Creating the event of the waker changes no route and no record either.\<close>

definition windows_contract :: "'w windows_env \<Rightarrow> ('k \<Rightarrow> u32) \<Rightarrow> u32 \<Rightarrow> ('w \<Rightarrow> 'k set) \<Rightarrow> bool" where
  "windows_contract env ifx index keys \<longleftrightarrow>
     session_contract (we_session env) ifx index keys \<and>
     (\<forall>w. session_obs (we_session env) ifx index keys (snd (CreateEventW (we_sys env) w)) =
          session_obs (we_session env) ifx index keys w)"

lemma waker_new_keeps:
  assumes "windows_contract env ifx index keys" "waker_new (we_sys env) w = (r, w')"
  shows "session_obs (we_session env) ifx index keys w' = session_obs (we_session env) ifx index keys w"
proof -
  obtain h w1 where h: "CreateEventW (we_sys env) w = (h, w1)" by (cases "CreateEventW (we_sys env) w")
  with assms(2) have "w' = w1" by (cases h) (auto simp: waker_new_def)
  with assms(1) h show ?thesis unfolding windows_contract_def by (metis snd_conv)
qed

lemma session_step_keeps:
  assumes "windows_contract env ifx index keys" "session_step env c x w = Some w'"
  shows "session_obs (we_session env) ifx index keys w' = session_obs (we_session env) ifx index keys w"
proof -
  have F: "adapter_frame (sv_adapter (we_session env)) (session_obs (we_session env) ifx index keys)"
    using assms(1) session_calls(1) unfolding windows_contract_def by blast
  show ?thesis
  proof (cases x)
    case (SetIpv6 b)
    with assms(2) obtain r where "toggle_adapter_ipv6 (sv_adapter (we_session env)) b w = Some (r, w')"
      by (auto simp: windows_set_ipv6_def session_enable_ipv6_def session_disable_ipv6_def enable_adapter_ipv6_def
          disable_adapter_ipv6_def split: if_splits)
    then show ?thesis by (rule toggle_adapter_ipv6_keeps [OF F])
  next
    case (SetDns ips)
    with assms(2) set_dns_servers_keeps [OF F] show ?thesis
      by (auto simp: windows_set_dns_def session_set_dns_servers_def case_prod_beta)
  qed
qed

lemma session_run_keeps:
  assumes "windows_contract env ifx index keys"
  shows "session_run env c ops w = Some w' \<Longrightarrow>
    session_obs (we_session env) ifx index keys w' = session_obs (we_session env) ifx index keys w"
  by (induction ops arbitrary: w) (auto simp: bind_eq_Some_conv dest: session_step_keeps [OF assms])

section \<open>Opening and closing\<close>

text \<open>An open connection: its routes were created once, and nothing else has changed since.\<close>

lemma connection_routes:
  assumes "windows_contract env ifx index keys"
    and "windows_connect env cenv dependencies config net v w = Some (Inr c, w1)"
    and "session_run env c ops w1 = Some w2"
  shows "\<exists>v4 v6 wa wb. session_obs (we_session env) ifx index keys wa = session_obs (we_session env) ifx index keys w \<and>
     routes_create (sv_routes (we_session env)) v4 v6 index (map pi_server_ip (ic_peers config)) wa =
       (Inr (wn_routes (wc_tun c)), wb) \<and>
     session_obs (we_session env) ifx index keys w2 = session_obs (we_session env) ifx index keys wb"
proof -
  let ?obs = "session_obs (we_session env) ifx index keys"
  let ?create = "wintun_session_create (we_session env) (map pi_server_ip (ic_peers config)) (nc_tun_adapter net) w"
  from assms(2) obtain r u where r: "?create = Some (r, u)"
    by (auto simp: windows_connect_def Let_def bind_eq_Some_conv)
  obtain k u' where k: "waker_new (we_sys env) u = (k, u')" by (cases "waker_new (we_sys env) u")
  from assms(2) r k have create: "?create = Some (Inr (wc_tun c), u)" and w1: "w1 = u'"
    by (cases r; cases k; auto simp: windows_connect_def Let_def)+
  have w2: "?obs w2 = ?obs u"
    using session_run_keeps [OF assms(1,3)] waker_new_keeps [OF assms(1) k] w1 by simp
  have "session_contract (we_session env) ifx index keys" using assms(1) by (simp add: windows_contract_def)
  from session_create_routes [OF this create] show ?thesis
  proof (elim disjE exE conjE)
    fix v4 v6 wa q wb
    assume wa: "?obs wa = ?obs w"
      and q: "routes_create (sv_routes (we_session env)) v4 v6 index (map pi_server_ip (ic_peers config)) wa = (q, wb)"
      and wb: "?obs u = ?obs wb" and "\<forall>s. Inr (wc_tun c) = Inr s \<longrightarrow> q = Inr (wn_routes s)"
    then have "q = Inr (wn_routes (wc_tun c))" by simp
    with wa q wb w2 show ?thesis by metis
  qed simp
qed

lemma closing_keeps:
  assumes "session_contract env ifx index keys"
  shows "session_obs env ifx index keys (wintun_session_drop env s w) =
      session_obs env ifx index keys (routes_delete (sv_routes env) (wn_routes s) w)"
    and "keys (wintun_session_drop env s w) \<subseteq> keys (routes_delete (sv_routes env) (wn_routes s) w)"
proof -
  have shutdown: "session_obs env ifx index keys (snd (wt_session_shutdown env h v)) = session_obs env ifx index keys v"
    "keys (snd (wt_session_shutdown env h v)) \<subseteq> keys v" for h v
    using assms unfolding session_contract_def Let_def by auto
  have drop: "session_obs env ifx index keys (wt_session_drop env h v) = session_obs env ifx index keys v"
    "keys (wt_session_drop env h v) \<subseteq> keys v"
    "session_obs env ifx index keys (wt_adapter_drop env a v) = session_obs env ifx index keys v"
    "keys (wt_adapter_drop env a v) \<subseteq> keys v" for h a v
    using assms unfolding session_contract_def Let_def by auto
  show "session_obs env ifx index keys (wintun_session_drop env s w) =
      session_obs env ifx index keys (routes_delete (sv_routes env) (wn_routes s) w)"
    by (simp add: wintun_session_drop_def Let_def drop shutdown)
  show "keys (wintun_session_drop env s w) \<subseteq> keys (routes_delete (sv_routes env) (wn_routes s) w)"
    unfolding wintun_session_drop_def Let_def by (meson drop shutdown(2) order_trans)
qed

text \<open>C23: A connection on Windows gives the routing table back. Over its whole life, from
  \<^verbatim>\<open>connect\<close> through any changes of IPv6 and of the name servers to the end of the session, each route that
  is there afterwards and was not before is still recorded in the registry for the next clean-up, or it
  is a route of the adapter and the deletion of one of these reported an error; and no route was removed
  but those of the adapter and those recorded.\<close>

theorem connection_life_routes:
  assumes "route_contract (re_ip (sv_routes (we_session env))) rk ifx keys"
    and "registry_contract (sv_routes (we_session env)) keys" and "json_contract (sv_routes (we_session env))"
    and "windows_contract env ifx index keys"
    and "windows_connect env cenv dependencies config net v w = Some (Inr c, w1)"
    and "session_run env c ops w1 = Some w2"
    and "GetIpForwardTable2 (re_ip (sv_routes (we_session env))) w2 = Inr (Some rows)"
    and "w3 = wintun_session_drop (we_session env) (wc_tun c) w2"
  shows "(\<forall>k\<in>keys w3. k \<in> keys w \<or>
       k \<in> (\<lambda>r. rk (route_row (re_ip (sv_routes (we_session env))) r)) ` recorded (sv_routes (we_session env)) w3 \<or>
       ifx k = index \<and> (\<exists>e. Inl e \<in> set (fst (delete_routes (re_ip (sv_routes (we_session env))) index w2)))) \<and>
     (\<forall>k\<in>keys w. k \<in> keys w3 \<or> ifx k = index \<or>
       k \<in> (\<lambda>r. rk (route_row (re_ip (sv_routes (we_session env))) r)) ` recorded (sv_routes (we_session env)) w2)"
proof -
  let ?renv = "sv_routes (we_session env)" and ?rs = "wn_routes (wc_tun c)"
  from connection_routes [OF assms(4-6)] obtain v4 v6 wa wb where
    wa: "session_obs (we_session env) ifx index keys wa = session_obs (we_session env) ifx index keys w"
    and create: "routes_create ?renv v4 v6 index (map pi_server_ip (ic_peers config)) wa = (Inr ?rs, wb)"
    and w2: "session_obs (we_session env) ifx index keys w2 = session_obs (we_session env) ifx index keys wb" by blast
  note C = routes_create_tracked [OF assms(1-3) create] and A = session_obs_eqD [OF wa] and B = session_obs_eqD [OF w2]
  have "routes_interface_index ?rs = index" using C by simp
  note D = routes_delete_tracked [OF assms(1,2,7) this]
  have "session_contract (we_session env) ifx index keys" using assms(4) by (simp add: windows_contract_def)
  note E = closing_keeps [OF this, of "wc_tun c" w2, folded assms(8)]
  note E1 = session_obs_eqD [OF E(1)]
  have left: "k \<in> keys w \<or> k \<in> row_keys ?renv rk (recorded ?renv w3) \<or>
      ifx k = index \<and> (\<exists>e. Inl e \<in> set (fst (delete_routes (re_ip ?renv) index w2)))" if k: "k \<in> keys w3" for k
  proof (cases "ifx k = index")
    case True
    then show ?thesis using D E(2) k by blast
  next
    case False
    have kd: "k \<in> keys (routes_delete ?renv ?rs w2)" using E(2) k by blast
    with D B(1) [OF False] have "k \<in> keys wb" by blast
    with C A(1) [OF False] False have "k \<in> keys w \<or> k \<in> row_keys ?renv rk (recorded ?renv w2)"
      using B(2) by auto
    with D kd E1(2) show ?thesis by auto
  qed
  have "k \<in> keys w3 \<or> ifx k = index \<or> k \<in> row_keys ?renv rk (recorded ?renv w2)" if "k \<in> keys w" for k
    using that C D A(1) [of k] B(1) [of k] E1(1) [of k] by blast
  with left show ?thesis by blast
qed



section \<open>Examples\<close>

lemma example_windows_contract:
  "windows_contract example_windows_env (\<lambda>(_, _, _, i). i) 17 (\<lambda>w. example_keys (fst w))"
  using example_session_contracts(4) by (simp add: windows_contract_def example_windows_env_def idle_win_def)

text \<open>A connection to one server, during which the name server is changed.\<close>

definition example_connect where
  "example_connect = windows_connect example_windows_env example_env (\<lambda>_ _ _. Inr (Map.empty, example_streams))
     example_initial_config example_network_config [] example_session_world"

lemma example_connect_opens: "\<exists>c w1. example_connect = Some (Inr c, w1)"
proof -
  from example_session_created obtain s w1 where create: "wintun_session_create example_session_env
      [V4 (Ipv4Addr 1 2 3 4)] example_config example_session_world = Some (Inr s, w1)"
    by (auto simp: map_sum_def split: sum.splits) (metis sum.exhaust)
  have "map pi_server_ip (ic_peers example_initial_config) = [V4 (Ipv4Addr 1 2 3 4)]"
    by (simp add: example_initial_config_def example_peer_def)
  with create show ?thesis
    by (simp add: example_connect_def windows_connect_def example_windows_env_def example_network_config_def Let_def
        waker_new_def idle_win_def)
qed

theorem connection_life_routes_witness:
  "\<exists>c w1. example_connect = Some (Inr c, w1) \<and>
     (\<exists>w2 w3. session_run example_windows_env c [SetDns [V4 (Ipv4Addr 8 8 8 8)]] w1 = Some w2 \<and>
        w3 = wintun_session_drop example_session_env (wc_tun c) w2 \<and>
        example_keys (fst w3) \<subseteq> example_keys (fst example_session_world) \<union>
          (\<lambda>r. route_key (route_row (re_ip (sv_routes example_session_env)) r)) ` recorded (sv_routes example_session_env) w3 \<union>
          {k. (\<lambda>(_, _, _, i). i) k = 17})"
proof -
  from example_connect_opens obtain c w1 where c: "example_connect = Some (Inr c, w1)" by blast
  define w2 where "w2 = snd (windows_set_dns example_windows_env c [V4 (Ipv4Addr 8 8 8 8)] w1)"
  have run: "session_run example_windows_env c [SetDns [V4 (Ipv4Addr 8 8 8 8)]] w1 = Some w2" by (simp add: w2_def)
  have env: "we_session example_windows_env = example_session_env" by (simp add: example_windows_env_def)
  have table: "GetIpForwardTable2 (re_ip (sv_routes (we_session example_windows_env))) w2 = Inr (Some (fst (fst w2)))"
    by (simp add: env example_session_env_def route_system_def table_system_def Let_def)
  note W = connection_life_routes [OF example_session_contracts(1-3) [folded env] example_windows_contract c [unfolded example_connect_def]
      run table refl]
  from W have "example_keys (fst (wintun_session_drop example_session_env (wc_tun c) w2)) \<subseteq> example_keys (fst example_session_world) \<union>
      (\<lambda>r. route_key (route_row (re_ip (sv_routes example_session_env)) r)) ` recorded (sv_routes example_session_env)
        (wintun_session_drop example_session_env (wc_tun c) w2) \<union> {k. (\<lambda>(_, _, _, i). i) k = 17}"
    unfolding env by blast
  with c run show ?thesis by blast
qed


end
