(* ===== verification/Build_Version.thy ===== *)
theory Build_Version
  imports Config_File
begin

unbundle bit_operations_syntax

text \<open>
  \<^verbatim>\<open>build/windows_build.rs\<close>: the version and the description of the library for Windows, which the
  build derives from the last tag of the repository. The output of \<^verbatim>\<open>git describe\<close>, the target of the
  build and the compiler of the crate \<^verbatim>\<open>winresource\<close> are parameters. A panic, which fails the build, is the value
  \<open>None\<close>; the lines that the script prints to the log of the build are left out.
\<close>

section \<open>The output of git describe\<close>

text \<open>\<^verbatim>\<open>str::rsplitn\<close>: at most \<open>n\<close> parts, from the right; the last part is what remains.\<close>

fun rsplitn :: "nat \<Rightarrow> char \<Rightarrow> string \<Rightarrow> string list" where
  "rsplitn 0 sep s = []"
| "rsplitn (Suc 0) sep s = [s]"
| "rsplitn (Suc (Suc n)) sep s =
     (if sep \<in> set s
      then rev (takeWhile (\<lambda>ch. ch \<noteq> sep) (rev s)) #
           rsplitn (Suc n) sep (rev (tl (dropWhile (\<lambda>ch. ch \<noteq> sep) (rev s))))
      else [s])"

definition trim_start_matches :: "char \<Rightarrow> string \<Rightarrow> string" where
  "trim_start_matches ch s = dropWhile (\<lambda>x. x = ch) s"

fun version_of_tag :: "u16 list \<Rightarrow> u16 \<Rightarrow> u16 \<times> u16 \<times> u16 \<times> u16" where
  "version_of_tag (x # y # z # _) commits_since = (x, y, z, commits_since)"
| "version_of_tag [x, y] commits_since = (x, y, commits_since, 0)"
| "version_of_tag [x] commits_since = (x, 0, commits_since, 0)"
| "version_of_tag [] commits_since = (0, 0, commits_since, 0)"

text \<open>The version and the hash that the output stands for.\<close>

definition parse_describe :: "string \<Rightarrow> ((u16 \<times> u16 \<times> u16 \<times> u16) \<times> string) option" where
  "parse_describe describe =
     (case rsplitn 3 (CHR ''-'') describe of
        hash_raw # count_str # tag_raw # _ \<Rightarrow>
          let tag = trim_start_matches (CHR ''v'') tag_raw;
              hash = trim_start_matches (CHR ''g'') hash_raw;
              commits_since = (case parse_unsigned count_str of Some n \<Rightarrow> n | None \<Rightarrow> 0);
              tag_parts = List.map_filter parse_unsigned (split_on (CHR ''.'') tag)
          in Some (version_of_tag tag_parts commits_since, hash)
      | _ \<Rightarrow> None)"

section \<open>The resource\<close>

definition architecture_name :: "string \<Rightarrow> string option" where
  "architecture_name architecture =
     (if architecture = ''x86_64'' then Some ''x64''
      else if architecture = ''x86'' then Some ''x32''
      else if architecture = ''aarch64'' then Some ''arm64''
      else if architecture = ''arm'' then Some ''arm32''
      else None)"

fun file_version :: "u16 \<times> u16 \<times> u16 \<times> u16 \<Rightarrow> u64" where
  "file_version (major, minor, patch, release) =
     push_bit 48 (ucast major) OR push_bit 32 (ucast minor) OR push_bit 16 (ucast patch) OR ucast release"

fun product_version_string :: "u16 \<times> u16 \<times> u16 \<times> u16 \<Rightarrow> string \<Rightarrow> string" where
  "product_version_string (major, minor, patch, release) hash =
     to_decimal (unat major) @ ''.'' @ to_decimal (unat minor) @ ''.'' @ to_decimal (unat patch) @ ''.'' @
     to_decimal (unat release) @ ''-'' @ hash"

text \<open>What the script sets, on top of what the crate takes from the manifest of the package.\<close>

record windows_resource =
  wr_FILEVERSION :: u64
  wr_properties :: "(string \<times> string) list"

definition dll_resource :: "u16 \<times> u16 \<times> u16 \<times> u16 \<Rightarrow> string \<Rightarrow> string \<Rightarrow> windows_resource" where
  "dll_resource version hash architecture =
     \<lparr>wr_FILEVERSION = file_version version,
      wr_properties =
        [(''ProductVersion'', product_version_string version hash),
         (''FileDescription'', ''ProTUN Windows '' @ architecture),
         (''ProductName'', ''Proton VPN''),
         (''LegalCopyright'', ''Copyright '' @ [char_of (0xA9 :: nat)] @ '' 2026 Proton AG'')]\<rparr>"

definition set_dll_properties ::
  "('w \<Rightarrow> string option) \<Rightarrow> (string \<Rightarrow> string option) \<Rightarrow> (windows_resource \<Rightarrow> 'w \<Rightarrow> unit io_result \<times> 'w) \<Rightarrow> 'w \<Rightarrow> 'w option" where
  "set_dll_properties git_describe var compile w =
     do {
       stdout \<leftarrow> git_describe w;
       (version, hash) \<leftarrow> parse_describe (trim stdout);
       architecture \<leftarrow> architecture_name (case var ''CARGO_CFG_TARGET_ARCH'' of Some a \<Rightarrow> a | None \<Rightarrow> []);
       case compile (dll_resource version hash architecture) w of
         (Inr _, w) \<Rightarrow> Some w
       | (Inl _, _) \<Rightarrow> None
     }"

section \<open>Reading a description\<close>

lemma rsplitn_part:
  assumes "sep \<notin> set p"
  shows "rsplitn (Suc (Suc n)) sep (s @ sep # p) = p # rsplitn (Suc n) sep s"
proof -
  have "takeWhile (\<lambda>ch. ch \<noteq> sep) (rev p @ sep # rev s) = rev p"
    "dropWhile (\<lambda>ch. ch \<noteq> sep) (rev p @ sep # rev s) = sep # rev s"
    using assms by (auto simp: takeWhile_append dropWhile_append)
  then show ?thesis by simp
qed

lemma rsplitn_three:
  "sep \<notin> set commits \<Longrightarrow> sep \<notin> set hash \<Longrightarrow> rsplitn 3 sep (tag @ sep # commits @ sep # hash) = [hash, commits, tag]"
  using rsplitn_part [of sep hash 1 "tag @ sep # commits"] rsplitn_part [of sep commits 0 tag]
  by (simp add: numeral_3_eq_3)

text \<open>How \<^verbatim>\<open>git describe --long\<close> writes a tag such as \<^verbatim>\<open>v1.2.3\<close>, the number of commits since and the hash.\<close>

definition tag_text :: "bool \<Rightarrow> u16 list \<Rightarrow> string" where
  "tag_text v parts = (if v then ''v'' else []) @ join_strings ''.'' (map (\<lambda>p. to_decimal (unat p)) parts)"

definition describe_text :: "string \<Rightarrow> nat \<Rightarrow> string \<Rightarrow> string" where
  "describe_text tag commits hash = tag @ ''-'' @ to_decimal commits @ ''-g'' @ hash"

definition is_hex :: "string \<Rightarrow> bool" where
  "is_hex s \<longleftrightarrow> list_all (\<lambda>ch. to_digit 16 ch \<noteq> None) s"

definition commits_word :: "nat \<Rightarrow> u16" where
  "commits_word n = (if n < 2 ^ 16 then word_of_nat n else 0)"

lemma not_version_chars [simp]: "to_digit 10 (CHR ''.'') = None" "to_digit 10 (CHR ''v'') = None"
  by (simp_all add: to_digit_def digit_value_def)

lemma parse_count: "(case parse_unsigned (to_decimal n) of Some n \<Rightarrow> n | None \<Rightarrow> 0) = commits_word n"
  by (simp add: parse_unsigned_def commits_word_def)

lemma parse_tag_parts:
  assumes "parts \<noteq> []"
  shows "List.map_filter parse_unsigned
    (split_on (CHR ''.'') (join_strings ''.'' (map (\<lambda>p. to_decimal (unat p)) parts))) = (parts :: u16 list)"
proof -
  have "split_on (CHR ''.'') (join_strings ''.'' (map (\<lambda>p. to_decimal (unat p)) parts)) =
      map (\<lambda>p. to_decimal (unat p)) parts"
    using assms by (intro split_on_join) (auto simp: to_decimal_digits)
  then show ?thesis by (simp add: List.map_filter_def comp_def)
qed

lemma join_strings_notin:
  "list_all (\<lambda>x. ch \<notin> set x) (sep # xs) \<Longrightarrow> ch \<notin> set (join_strings sep xs)"
  by (induction sep xs rule: join_strings.induct) simp_all

lemma join_decimal_start:
  "trim_start_matches (CHR ''v'') (join_strings ''.'' (map (\<lambda>p. to_decimal (unat p)) parts)) =
     join_strings ''.'' (map (\<lambda>p. to_decimal (unat p)) (parts :: u16 list))"
proof -
  have "CHR ''v'' \<notin> set (join_strings ''.'' (map (\<lambda>p. to_decimal (unat p)) parts))"
    by (rule join_strings_notin) (simp add: list_all_iff to_decimal_digits)
  then show ?thesis
    unfolding trim_start_matches_def by (cases "join_strings ''.'' (map (\<lambda>p. to_decimal (unat p)) parts)") auto
qed

lemma hex_chars:
  assumes "is_hex s"
  shows "CHR ''-'' \<notin> set s" "CHR ''g'' \<notin> set s"
proof -
  have "to_digit 16 (CHR ''-'') = None" "to_digit 16 (CHR ''g'') = None"
    by (simp_all add: to_digit_def digit_value_def)
  with assms show "CHR ''-'' \<notin> set s" "CHR ''g'' \<notin> set s" by (auto simp: is_hex_def list_all_iff)
qed

lemma trim_tag:
  "trim_start_matches (CHR ''v'') (tag_text v parts) = join_strings ''.'' (map (\<lambda>p. to_decimal (unat p)) parts)"
  using join_decimal_start [of parts] by (auto simp: tag_text_def trim_start_matches_def)

lemma parse_describe_text:
  assumes "is_hex hash"
  shows "parse_describe (describe_text tag n hash) =
    Some (version_of_tag (List.map_filter parse_unsigned (split_on (CHR ''.'') (trim_start_matches (CHR ''v'') tag)))
      (commits_word n), hash)"
proof -
  have "rsplitn 3 (CHR ''-'') (describe_text tag n hash) = [''g'' @ hash, to_decimal n, tag]"
    using rsplitn_three [of "CHR ''-''" "to_decimal n" "''g'' @ hash" tag] hex_chars [OF assms]
    by (simp add: describe_text_def to_decimal_digits)
  moreover have "trim_start_matches (CHR ''g'') (''g'' @ hash) = hash"
    using hex_chars(2) [OF assms] by (cases hash) (auto simp: trim_start_matches_def)
  ultimately show ?thesis by (simp add: parse_describe_def Let_def parse_count)
qed

section \<open>The packed version\<close>

lemma fields_disjoint:
  "push_bit 16 (ucast (c :: u16)) AND (ucast (d :: u16) :: u64) = 0"
  "push_bit 32 (ucast (b :: u16)) AND (push_bit 16 (ucast c) OR ucast d :: u64) = 0"
  "push_bit 48 (ucast (a :: u16)) AND (push_bit 32 (ucast b) OR push_bit 16 (ucast c) OR ucast d :: u64) = 0"
  by (rule bit_eqI; auto simp: bit_simps dest: bit_imp_le_length)+

lemma u16_less: "unat (x :: u16) < 2 ^ 16"
  using unsigned_less [of x, where 'a = nat] by simp

lemma file_version_value:
  "unat (file_version (a, b, c, d)) = ((unat a * 2 ^ 16 + unat b) * 2 ^ 16 + unat c) * 2 ^ 16 + unat d"
proof -
  let ?n = "((unat a * 2 ^ 16 + unat b) * 2 ^ 16 + unat c) * 2 ^ 16 + unat d"
  have "file_version (a, b, c, d) = push_bit 48 (ucast a) + (push_bit 32 (ucast b) + (push_bit 16 (ucast c) + ucast d))"
    using fields_disjoint by (simp only: file_version.simps disjunctive_add_eq_or)
  also have "\<dots> = word_of_nat ?n"
    by (simp add: push_bit_eq_mult algebra_simps)
  finally have "file_version (a, b, c, d) = word_of_nat ?n" .
  moreover have "?n < 2 ^ LENGTH(64)" using u16_less [of a] u16_less [of b] u16_less [of c] u16_less [of d] by simp
  ultimately show ?thesis by (simp only: unat_of_nat mod_less)
qed

lemma pair_less:
  fixes a b a' b' :: nat
  assumes "b < 2 ^ 16" "b' < 2 ^ 16"
  shows "a * 2 ^ 16 + b < a' * 2 ^ 16 + b' \<longleftrightarrow> a < a' \<or> a = a' \<and> b < b'"
  using assms by auto

lemma pair_eq:
  fixes a b a' b' :: nat
  assumes "b < 2 ^ 16" "b' < 2 ^ 16"
  shows "a * 2 ^ 16 + b = a' * 2 ^ 16 + b' \<longleftrightarrow> a = a' \<and> b = b'"
  using pair_less [OF assms, of a a'] pair_less [OF assms(2,1), of a' a] by (metis nat_neq_iff)

text \<open>The packed versions are ordered as the versions are, field by field.\<close>

lemma file_version_less:
  "file_version (a, b, c, d) < file_version (a', b', c', d') \<longleftrightarrow>
     a < a' \<or> a = a' \<and> (b < b' \<or> b = b' \<and> (c < c' \<or> c = c' \<and> d < d'))"
  by (auto simp only: word_less_nat_alt file_version_value pair_less pair_eq u16_less word_unat_eq_iff)

section \<open>Properties\<close>

lemma trim_line:
  assumes "s \<noteq> []" "\<not> is_whitespace (hd s)" "\<not> is_whitespace (last s)"
  shows "trim (s @ [CHR 0x0A]) = s"
proof -
  have "is_whitespace (CHR 0x0A)" by (simp add: is_whitespace_def)
  moreover have "dropWhile is_whitespace (s @ [CHR 0x0A]) = s @ [CHR 0x0A]" using assms by (cases s) auto
  moreover have "dropWhile is_whitespace (rev s) = rev s" using assms by (cases s rule: rev_cases) auto
  ultimately show ?thesis by (simp add: trim_def)
qed

lemma digit_not_whitespace:
  assumes "to_digit r ch \<noteq> None" "r \<le> 36"
  shows "\<not> is_whitespace ch"
  using assms by (auto simp: to_digit_def digit_value_def is_whitespace_def Let_def split: if_splits)

lemma to_decimal_all_digits: "ch \<in> set (to_decimal n) \<Longrightarrow> to_digit 10 ch \<noteq> None"
  using to_decimal_digits by blast

lemma hd_tag_text:
  assumes "parts \<noteq> []"
  shows "tag_text v parts \<noteq> []" "\<not> is_whitespace (hd (tag_text v parts))"
proof -
  obtain p ps where parts: "parts = p # ps" using assms by (cases parts) simp_all
  have ne: "to_decimal (unat p) \<noteq> []" using parse_digits_to_decimal [of "unat p"] by (auto simp: parse_digits_def)
  then obtain s where s: "tag_text v parts = (if v then ''v'' else []) @ to_decimal (unat p) @ s"
    by (cases ps) (auto simp: tag_text_def parts)
  have "hd (to_decimal (unat p)) \<in> set (to_decimal (unat p))" using ne by simp
  from to_decimal_all_digits [OF this] have "\<not> is_whitespace (hd (to_decimal (unat p)))"
    by (rule digit_not_whitespace) simp
  moreover have "\<not> is_whitespace (CHR ''v'')" by (simp add: is_whitespace_def)
  ultimately show "tag_text v parts \<noteq> []" "\<not> is_whitespace (hd (tag_text v parts))"
    using ne by (auto simp: s)
qed

lemma trim_describe:
  assumes "parts \<noteq> []" "is_hex hash" "hash \<noteq> []"
  shows "trim (describe_text (tag_text v parts) n hash @ [CHR 0x0A]) = describe_text (tag_text v parts) n hash"
proof (rule trim_line)
  have "last hash \<in> set hash" using assms(3) by simp
  with assms(2) have "to_digit 16 (last hash) \<noteq> None" by (auto simp: is_hex_def list_all_iff)
  then have "\<not> is_whitespace (last hash)" by (rule digit_not_whitespace) simp
  with assms(3) show "\<not> is_whitespace (last (describe_text (tag_text v parts) n hash))" by (simp add: describe_text_def)
qed (use hd_tag_text [OF assms(1), of v] in \<open>simp_all add: describe_text_def\<close>)



text \<open>C34: The file version grows with the builds: with the number of commits since a tag, as
  long as that fits 16 bits, and, whatever these numbers are, from one tag of three numbers to a greater one.\<close>

theorem later_build_greater:
  assumes "commits < commits'" and "commits' < 2 ^ 16" and "x < x' \<or> x = x' \<and> (y < y' \<or> y = y' \<and> z < z')"
  shows "file_version (version_of_tag parts (commits_word commits)) < file_version (version_of_tag parts (commits_word commits')) \<and>
     file_version (version_of_tag [x, y, z] (commits_word n)) < file_version (version_of_tag [x', y', z'] (commits_word m))"
proof -
  have "commits_word commits < commits_word commits'"
    using assms(1,2) by (simp add: commits_word_def word_less_nat_alt unat_of_nat)
  then have "file_version (version_of_tag parts (commits_word commits)) < file_version (version_of_tag parts (commits_word commits'))"
    by (cases "(parts, commits_word commits)" rule: version_of_tag.cases) (simp_all only: version_of_tag.simps file_version_less prod.inject, auto)
  moreover have "file_version (version_of_tag [x, y, z] (commits_word n)) < file_version (version_of_tag [x', y', z'] (commits_word m))"
    using assms(3) by (auto simp only: version_of_tag.simps file_version_less)
  ultimately show ?thesis ..
qed

theorem later_build_greater_witness:
  "file_version (version_of_tag [0, 1] (commits_word 31)) < file_version (version_of_tag [0, 1] (commits_word 40)) \<and>
     file_version (version_of_tag [0, 1, 9] (commits_word 31)) < file_version (version_of_tag [0, 2, 0] (commits_word 0))"
  by (rule later_build_greater) simp_all

text \<open>
  The limits of the scheme. Without a tag \<^verbatim>\<open>git describe --always\<close> prints the hash alone and the build
  fails. A part of the tag that is not a number is left out, so that a tag with a dash loses its last number. And
  commits after a tag of two numbers overtake later tags of three.
\<close>

lemma untagged_build_fails: "parse_describe ''c364e3f0'' = None"
  by code_simp

lemma dashed_tag_version:
  "parse_describe (describe_text ''v0.2-rc1'' 5 ''c364e3f0'') = Some ((0, 0, 5, 0), ''c364e3f0'')"
proof -
  have "is_hex ''c364e3f0''" "commits_word 5 = 5"
    by (simp_all add: is_hex_def to_digit_def digit_value_def commits_word_def)
  moreover have "parse_unsigned ''0'' = Some (0 :: u16)" "parse_unsigned ''2-rc1'' = (None :: u16 option)"
    by (simp_all add: parse_unsigned_def parse_digits_def to_digit_def digit_value_def)
  ultimately show ?thesis by (simp add: parse_describe_text trim_start_matches_def List.map_filter_def)
qed

lemma two_part_tag_overtakes:
  "file_version (version_of_tag [0, 1, 2] (commits_word 0)) < file_version (version_of_tag [0, 1] (commits_word 31))"
  by (simp only: version_of_tag.simps file_version_less) (simp add: commits_word_def)

end
