(* ===== verification/Spec2Isabelle.thy ===== *)
theory Spec2Isabelle
  imports Sample_App Test_Login Session_Lifetime Build_Version
begin

text \<open>
  This development models protun, a library that keeps a VPN connection up on Unix, Apple
  systems and Windows. Paths below are those of the repository.

  \<^bold>\<open>The program.\<close> An application creates a \<^verbatim>\<open>Connection\<close> (\<^verbatim>\<open>src/api\<close>), which starts a thread and sends
  it messages: new peers, settings, a new tun device, a change of connectivity, a packet
  capture, the end. The thread (\<^verbatim>\<open>src/connection/pvpn_connection.rs\<close>) owns a client of the
  \<^verbatim>\<open>pvpnclient\<close> crate, which speaks the VPN protocol without doing any input or output, and a
  set of streams, which does it: the tun device and the sockets to the servers. In each
  round the thread handles its messages, pulls what the client wants done (open, close,
  write, report), polls the streams and pushes what they deliver to the client, and derives the
  connection state that it reports to the application through callbacks. Around this loop stand the network
  recovery (when to tell the client that the network is back), the local agent handler
  (what the VPN server says about the session), the capture file, and the sanitised list
  of peers. The streams exist twice, on mio for Unix and on events for Windows; on Windows
  the library also creates the network adapter, its addresses, name servers and routes.

  \<^bold>\<open>Theories, in the order of their imports.\<close>
    \<^item> \<open>Protun_Prelude\<close>: machine integers as words, durations and instants as nanoseconds,
      the loop combinator \<open>iterate\<close> with its rules, runs of a machine (\<open>run_machine\<close>) with the
      locale \<open>op_machine\<close>, lemmas on lists. \<open>Net_Types\<close>: errors, addresses and their text, as the
      sources use them from the standard library. \<open>Vec_Utils\<close>: \<^verbatim>\<open>src/utils/vector.rs\<close> and \<^verbatim>\<open>common.rs\<close>.
    \<^item> \<open>Api_Types\<close>: the public structs and enums of \<^verbatim>\<open>src/api/connection.rs\<close>, \<^verbatim>\<open>state.rs\<close>,
      \<^verbatim>\<open>events.rs\<close> and \<^verbatim>\<open>local_agent.rs\<close>. \<open>Pvpn_Types\<close>: the types and the trait through which the
      sources see the client. \<open>Type_Conversions\<close>: \<^verbatim>\<open>src/api/type_conversions.rs\<close> and
      \<^verbatim>\<open>src/connection/util.rs\<close>.
    \<^item> \<open>Network_Recovery\<close>, \<open>Sanitized_Peers\<close>, \<open>Local_Agent_Handler\<close>, \<open>Pcap_Stream\<close>,
      \<open>Pvpn_Client_Impl\<close>: the files of the same names in \<^verbatim>\<open>src/connection\<close>, with \<^verbatim>\<open>constants.rs\<close> and
      \<^verbatim>\<open>time.rs\<close>. Each has a record for the struct and one definition per method.
    \<^item> \<open>Streams\<close>: the traits of \<^verbatim>\<open>src/connection/streams.rs\<close>. \<open>Write_Queue\<close>: the loop that the TCP
      streams of both platforms share. \<open>Mio_Sockets\<close> and \<open>Mio_Streams\<close>: \<^verbatim>\<open>src/connection/mio\<close>.
      \<open>Windows_Sockets\<close> and \<open>Windows_Streams\<close>: \<^verbatim>\<open>tcp.rs\<close>, \<^verbatim>\<open>udp.rs\<close>, \<^verbatim>\<open>tun_windows.rs\<close> and \<^verbatim>\<open>streams.rs\<close> of
      \<^verbatim>\<open>src/connection/windows\<close>, with \<^verbatim>\<open>helpers/socket_handle.rs\<close>, \<^verbatim>\<open>helpers/poll_waker.rs\<close> and
      \<^verbatim>\<open>src/utils/windows/io_error.rs\<close>.
    \<^item> \<open>Pvpn_Connection\<close>: the thread; its state is the record \<open>conn\<close>, what it calls is \<open>conn_env\<close>, one
      round is \<open>loop_iteration\<close> and the whole thread \<open>run\<close>. \<open>Connection_Invariants\<close>: the thread as a
      step relation, and its invariants. \<open>Connection_Properties\<close>: the properties of whole runs.
      \<open>Connection_Api\<close>: the object \<^verbatim>\<open>Connection\<close> with its Unix constructor (\<^verbatim>\<open>src/api/connection.rs\<close>,
      \<^verbatim>\<open>connection_unix.rs\<close>).
    \<^item> \<open>Windows_Net\<close>, \<open>Internet_Interface\<close>, \<open>Routing_Table\<close>, \<open>Windows_Routes\<close>, \<open>Windows_Adapter\<close>,
      \<open>Windows_Ipv6\<close>, \<open>Adapter_Frame\<close>, \<open>Wintun_Session\<close>: \<^verbatim>\<open>src/connection/windows/helpers\<close> (\<^verbatim>\<open>local_ip_finder.rs\<close>,
      \<^verbatim>\<open>routing_table.rs\<close>, \<^verbatim>\<open>routes.rs\<close>, \<^verbatim>\<open>windows_api\<close>, \<^verbatim>\<open>wintun\<close>) and
      \<^verbatim>\<open>src/utils/windows/registry_editor.rs\<close>. \<open>Windows_Connection\<close>: the objects of
      \<^verbatim>\<open>src/api/windows\<close>. \<open>Adapter_Frame\<close> carries an observation of the system that the calls on the adapter
      leave alone, such as the routing table, through all functions that use them, and \<open>Session_Lifetime\<close>
      follows it over the life of a connection. \<open>Logger\<close>: \<^verbatim>\<open>src/api/logger.rs\<close>.
    \<^item> \<open>Ip_Text\<close>: reading an address from text, with the parser of the standard library.
      \<open>Config_File\<close> and \<open>Test_Login\<close>: the configuration file and the log-in of \<^verbatim>\<open>src/api/test_utils\<close>.
      \<open>Sample_App\<close>: the persistent cache, the tun device, the set-up and the event thread of \<^verbatim>\<open>src/example\<close>.
      \<open>Build_Version\<close>: \<^verbatim>\<open>build/windows_build.rs\<close>, the version of the library for Windows.
    \<^item> This theory: the properties that need the loop and one of the stream sets together.

  \<^bold>\<open>How code becomes definitions.\<close> A struct is a record, an enum a datatype, a method a function
  that takes the object and returns it changed, with the result first. Results are values of a
  sum type, \<open>Inl\<close> the error. Integers are words of their width where the code computes with
  them. \<open>None\<close> in the result of an operation that has loops or assertions means that the
  code does not come back: it loops for ever or panics (each operation says which). There
  is no fuel: a loop is \<open>iterate\<close>, a partial function in the option monad, and where the code
  returns, that is proved as such. Callbacks to the application and the cache are
  appended to the list of outputs of the thread, and the channel is its inbox, to which other threads
  append between any two rounds.

  \<^bold>\<open>Parameters.\<close> Code that is not in the repository is a record of functions over an abstract
  state: the client library (\<open>pvpn_lib\<close>, seen by the loop as \<open>pvpn_client\<close>), its stream
  identifiers (\<open>stream_ids\<close>), the parsers of secrets, the clocks, the file system, the system
  calls of mio, socket2 and libc (\<open>sys\<close>), Winsock and the Wintun driver (\<open>win_sys\<close>,
  \<open>session_env\<close>), the tables and settings of Windows (\<open>ip_helper\<close>, \<open>adapter_api\<close>), the registry
  and \<^verbatim>\<open>serde_json\<close> (\<open>route_env\<close>), the crates \<^verbatim>\<open>log\<close>, \<^verbatim>\<open>ini\<close>, \<^verbatim>\<open>base64\<close> and \<^verbatim>\<open>muon\<close>, git and the compiler of resources. They may answer anything, errors and partial
  writes included; a theorem that needs more of one names it as a hypothesis
  or a predicate on the parameter, and its witness has a concrete instance.

  \<^bold>\<open>Interfaces.\<close> \<open>op_machine\<close> (an invariant that all operations keep) is interpreted for the recovery
  handler and the local agent handler; \<open>write_queue\<close> for the TCP streams of mio and of Windows;
  \<open>stream_set\<close>, the contract of the trait \<^verbatim>\<open>Streams\<close>, for the Windows streams and its extension
  \<open>tun_stream_set\<close> for those of mio; \<open>route_table\<close> for the functions of the routing
  table; \<open>conn_invariant\<close>, which carries a property of the thread through every handler, for
  four invariants: the reports, the mode, the offline state and the resources;
  \<open>persistent_cache\<close>, the contract of the trait \<^verbatim>\<open>PersistentCache\<close>, for the cache of the example program.

  \<^bold>\<open>What is proved.\<close>
    \<^item> The thread: every change of the state is reported once and in order, a finished thread
      has reported a disconnected state, a disconnect message ends it, it never claims a tunnel without
      network, agent information is reported in agent mode only, the peers of the library
      are those of the configuration, and its resources stay within bounds.
    \<^item> Streams: both sets implement the same abstract set of identifiers; both TCP streams are FIFO
      queues under any partial writes and errors; packets go through the tun devices
      whole, framed where the platform frames them; a packet of the tun device reaches the client
      unchanged; the poll of Windows reports every stream.
    \<^item> Components: sanitising equals its specification, the delays of the recovery double up to
      the limit, the agent state is a function of the message history, the six values of
      the statistics give one event, a capture holds the longest prefix of packets that fits.
    \<^item> Windows: the chosen interface is the best usable one, rows of the forwarding table
      round-trip, no route is lost from both the table and the record: neither after a failed start, nor over
      the whole life of a connection with all changes of its settings, nor by a crash and the clean-up
      after it; IPv6 switching gives back the lock and the library on
      every path, the adapter shows the connection state, addresses and name servers are
      well formed, the ring size is the least valid one. The version of the library is that of the tag, and
      grows from build to build.
    \<^item> Texts and files: every address is read back from its text, a configuration from its file, a
      secret from the cache by the next start; a log-in hands over the first cookie of each name.
    \<^item> Behaviour that a reader of the code may not expect: a priority over 16 bits can reverse the order
      of peers, the restrictions of the agent are never reported, statistics that arrive over two
      rounds are lost, overwriting a capture does not truncate it, the Unix tun stream does not return on a
      device that takes zero bytes, and after a failed start every call panics; a tag with a dash loses a
      number of the version.

  \<^bold>\<open>Not modelled.\<close> Tests with their stand-ins for the client and the clocks; \<^verbatim>\<open>build.rs\<close>, which only calls
  the script for Windows; the bindings that \<^verbatim>\<open>uniffi\<close> generates; the end of \<^verbatim>\<open>main\<close> of the example, which prints
  the states it receives, and the capabilities to sleep, connect and spawn that \<^verbatim>\<open>muon\<close> is given, which only forward to \<^verbatim>\<open>tokio\<close>; log messages, which no
  decision depends on (of these only the warning of \<^verbatim>\<open>init_logger\<close> is kept), and the panic hook; waking a poll from
  another thread, which only shortens a wait that the model does not measure; the reference counts
  of the network configuration objects of Windows; the interplay of two connections in one process, which share
  the registry and the logger and which nothing in the code coordinates; module files and attributes. What is left of the implementation are
  these parts, imports and comments.
\<close>

section \<open>Properties that span components\<close>

subsection \<open>From the tun device to the client\<close>

text \<open>What a tun device delivers for a packet: on Apple systems behind a four-byte header.\<close>

definition tun_frame :: "bool \<Rightarrow> u8 \<Rightarrow> bytes \<Rightarrow> bytes" where
  "tun_frame apple af packet = (if apple then [0, 0, 0, af] @ packet else packet)"

fun tun_device :: "bool \<Rightarrow> mio_stream \<Rightarrow> bool" where
  "tun_device apple (MioTunApple _) = apple"
| "tun_device apple (MioTunUnix _) = (\<not> apple)"
| "tun_device apple _ = False"

lemma mio_read_tun:
  assumes "get_stream_by_id (ms_streams ms) i = Some s" and "tun_device apple (mi_stream s)"
    and "packet \<noteq> []" and "length (tun_frame apple af packet) \<le> length buf"
    and "sys_read sys (source (mi_stream s)) (length buf) (ms_world ms) = (Inr (tun_frame apple af packet), w)"
  shows "\<exists>off buf' ms'. mio_read sys i buf ms = (StreamOk (length packet) off WouldBlockNo PendingNo, buf', ms') \<and>
     take (length packet) (drop off buf') = packet \<and> off + length packet \<le> length buf'"
proof (cases "mi_stream s")
  case (MioTunApple st)
  with assms have "length packet \<le> length buf - 4" "Suc (Suc (Suc (Suc (length buf - 4)))) = length buf"
    by (simp_all add: tun_frame_def)
  with assms MioTunApple show ?thesis
    by (simp add: mio_read_def tun_frame_def tun_apple_read_def APPLE_TUN_PACKET_HEADER_LEN_def
        stream_ok_def read_into_def Let_def)
next
  case (MioTunUnix st)
  with assms show ?thesis
    by (simp add: mio_read_def tun_frame_def tun_unix_read_def stream_ok_def read_into_def Let_def)
qed (use assms(2) in simp_all)

text \<open>C5: An IP packet that the tun device delivers reaches the client unchanged and once, on both
  families of systems: the framing of the device is taken off, the client is given exactly
  the bytes of the packet for the tun stream, and the stream is read again.\<close>

theorem tun_packet_reaches_client:
  assumes "ce_streams env = mio_ops sys apple (ce_ids env)"
    and "get_stream_by_id (ms_streams (cn_streams c)) (TUN_STREAM_ID (ce_ids env)) = Some s"
    and "tun_device apple (mi_stream s)"
    and "is_network_available (cn_network_recovery_handler c)"
    and "packet \<noteq> []" and "length (tun_frame apple af packet) \<le> length (cn_stream_read_buffer c)"
    and "sys_read sys (source (mi_stream s)) (length (cn_stream_read_buffer c)) (ms_world (cn_streams c)) =
           (Inr (tun_frame apple af packet), w)"
  shows "\<exists>c1. read_one_stream env (TUN_STREAM_ID (ce_ids env)) (ids, c) =
       map_option (Pair (ids @ [TUN_STREAM_ID (ce_ids env)])) (pull_from_client env c1) \<and>
     cn_client c1 = pc_push (ce_client env) (Action (TUN_STREAM_ID (ce_ids env)) (ActRead packet)) (cn_client c) \<and>
     cn_current_tun_error c1 = None"
proof -
  let ?i = "TUN_STREAM_ID (ce_ids env)"
  from mio_read_tun [OF assms(2,3,5,6,7)] obtain off buf' ms' where
    rd: "mio_read sys ?i (cn_stream_read_buffer c) (cn_streams c) =
      (StreamOk (length packet) off WouldBlockNo PendingNo, buf', ms')" and
    slice: "take (length packet) (drop off buf') = packet" "off + length packet \<le> length buf'"
    by blast
  have "so_has_stream (ce_streams env) ?i (cn_streams c)"
    using assms(1,2) by (simp add: mio_ops_def)
  moreover have "so_read (ce_streams env) = mio_read sys" by (simp add: assms(1) mio_ops_def)
  ultimately show ?thesis
    using rd slice assms(4,5)
    by (auto simp: read_one_stream_def handle_read_result_def client_do_def Let_def)
qed

text \<open>The example thread with a network, its tun device holding what it has to deliver.\<close>

definition online_start :: "bytes \<Rightarrow> example_conn" where
  "online_start pending_bytes =
     (pvpn_connection_new example_env Map.empty (example_streams\<lparr>ms_world := (pending_bytes, 5)\<rparr>) [] True [] None None)"

lemma online_fields:
  "cn_streams (online_start p) = example_streams\<lparr>ms_world := (p, 5)\<rparr>"
  "is_network_available (cn_network_recovery_handler (online_start p))"
  "length (cn_stream_read_buffer (online_start p)) = 65536"
  by (simp_all add: online_start_def pvpn_connection_new_def sanitized_peers_eq best_peers_def
      network_recovery_new_def is_network_available_def STREAM_BUFFER_SIZE_def Let_def)

lemma example_tun:
  "get_stream_by_id (ms_streams example_streams) 0 =
     Some \<lparr>mi_stream_id = 0, mi_stream = MioTunUnix (tun_unix_new 3), mi_token = 1, mi_interest = Readable\<rparr>"
  "TUN_STREAM_ID (ce_ids example_env) = 0"
  "ce_streams example_env = mio_ops window_sys False (ce_ids example_env)"
  by (simp_all add: example_streams_def mio_new_def register_stream_def window_sys_def get_stream_by_id_def
      example_ids_def POLL_WAKER_TOKEN_def example_env_def Let_def)

theorem tun_packet_reaches_client_witness:
  "\<exists>c1. read_one_stream example_env 0 ([], online_start [69, 1, 2]) =
       map_option (Pair [0]) (pull_from_client example_env c1) \<and>
     cn_client c1 = pc_push (ce_client example_env) (Action 0 (ActRead [69, 1, 2])) (cn_client (online_start [69, 1, 2]))"
proof -
  let ?c = "online_start [69, 1, 2]"
  let ?s = "\<lparr>mi_stream_id = 0, mi_stream = MioTunUnix (tun_unix_new 3), mi_token = 1, mi_interest = Readable\<rparr>"
  have get: "get_stream_by_id (ms_streams (cn_streams ?c)) (TUN_STREAM_ID (ce_ids example_env)) = Some ?s"
    by (simp add: online_fields example_tun)
  have rd: "sys_read window_sys (source (mi_stream ?s)) (length (cn_stream_read_buffer ?c)) (ms_world (cn_streams ?c)) =
      (Inr (tun_frame False 2 [69, 1, 2]), ([], 5))"
    by (simp add: window_sys_def online_fields tun_frame_def)
  have "tun_device False (mi_stream ?s)" by simp
  moreover have "length (tun_frame False 2 [69, 1, 2]) \<le> length (cn_stream_read_buffer ?c)"
    by (simp add: online_fields tun_frame_def)
  ultimately show ?thesis
    using tun_packet_reaches_client [OF example_tun(3) get _ online_fields(2) _ _ rd, of "[]"]
    by (auto simp: example_tun(2))
qed

text \<open>C21: On Windows a packet that the driver delivers reaches the client unchanged and once: the
  client is given exactly the bytes of the packet for the tun stream, and the stream is read
  again.\<close>

theorem win_packet_reaches_client:
  assumes "ce_streams env = win_loop_ops win (ce_ids env)"
    and "win_get_stream (wst_streams (cn_streams c)) (TUN_STREAM_ID (ce_ids env)) = Some s"
    and "wi_stream s = WinTun h"
    and "is_network_available (cn_network_recovery_handler c)"
    and "packet \<noteq> []" and "length packet \<le> length (cn_stream_read_buffer c)"
    and "wintun_try_receive win (wst_world (cn_streams c)) = (Inr (Some packet), w)"
  shows "\<exists>c1. read_one_stream env (TUN_STREAM_ID (ce_ids env)) (ids, c) =
       map_option (Pair (ids @ [TUN_STREAM_ID (ce_ids env)])) (pull_from_client env c1) \<and>
     cn_client c1 = pc_push (ce_client env) (Action (TUN_STREAM_ID (ce_ids env)) (ActRead packet)) (cn_client c) \<and>
     cn_current_tun_error c1 = None"
proof -
  let ?i = "TUN_STREAM_ID (ce_ids env)" and ?buf = "read_into (cn_stream_read_buffer c) packet"
  obtain ws' where rd: "win_read win ?i (cn_stream_read_buffer c) (cn_streams c) =
      (StreamOk (length packet) 0 WouldBlockNo PendingNo, ?buf, ws')"
    using assms(2,3,6,7) by (simp add: win_read_def win_tun_read_def stream_ok_def Let_def)
  have "take (length packet) ?buf = packet" "length packet \<le> length ?buf"
    using assms(6) by (simp_all add: read_into_def)
  moreover have "so_has_stream (ce_streams env) ?i (cn_streams c)" "so_read (ce_streams env) = win_read win"
    using assms(1,2) by (simp_all add: win_loop_ops_def win_ops_def streams_ops.defs)
  ultimately show ?thesis
    using rd assms(4,5) by (auto simp: read_one_stream_def handle_read_result_def client_do_def Let_def)
qed

text \<open>The example thread on the streams of Windows, with a driver that has a packet.\<close>

definition packet_win :: "win_world win_sys" where
  "packet_win = window_win\<lparr>wintun_try_receive := (\<lambda>(s, k, p). (Inr (Some [69, 1, 2]), (s, k, p)))\<rparr>"

definition win_example_env :: "(peer_addr \<rightharpoonup> peer, win_world win_streams, bytes) conn_env" where
  "win_example_env =
     \<lparr>ce_client = table_client, ce_streams = win_loop_ops packet_win win_example_ids, ce_fs = one_file_fs,
      ce_realtime_clock = (\<lambda>w. (0, w)), ce_ids = win_example_ids, ce_android = False\<rparr>"

definition win_online_start :: "(peer_addr \<rightharpoonup> peer, win_world win_streams, bytes) conn" where
  "win_online_start = pvpn_connection_new win_example_env Map.empty win_example_start [] True [] None None"

lemma win_online_fields:
  "cn_streams win_online_start = win_example_start"
  "is_network_available (cn_network_recovery_handler win_online_start)"
  "length (cn_stream_read_buffer win_online_start) = 65536"
  by (simp_all add: win_online_start_def pvpn_connection_new_def sanitized_peers_eq best_peers_def
      network_recovery_new_def is_network_available_def STREAM_BUFFER_SIZE_def Let_def)

theorem win_packet_reaches_client_witness:
  "\<exists>c1. read_one_stream win_example_env 0 ([], win_online_start) =
       map_option (Pair [0]) (pull_from_client win_example_env c1) \<and>
     cn_client c1 = pc_push (ce_client win_example_env) (Action 0 (ActRead [69, 1, 2])) (cn_client win_online_start)"
proof -
  have env: "ce_ids win_example_env = win_example_ids" "ce_streams win_example_env = win_loop_ops packet_win (ce_ids win_example_env)"
    "TUN_STREAM_ID win_example_ids = 0"
    by (simp_all add: win_example_env_def win_example_ids_def)
  have get: "win_get_stream (wst_streams (cn_streams win_online_start)) (TUN_STREAM_ID (ce_ids win_example_env)) =
      Some \<lparr>wi_stream_id = 0, wi_stream = WinTun 50\<rparr>"
    by (simp add: win_online_fields win_example_start_def win_streams_new_def win_register_stream_def reset_handles_def
        win_get_stream_def env)
  have rd: "wintun_try_receive packet_win (wst_world (cn_streams win_online_start)) = (Inr (Some [69, 1, 2]), ([], 5, []))"
    by (simp add: packet_win_def win_online_fields win_example_start_def win_streams_new_def win_register_stream_def reset_handles_def)
  show ?thesis
    using win_packet_reaches_client [OF env(2) get _ win_online_fields(2) _ _ rd, where h = 50 and ids = "[]"]
    by (auto simp: env win_online_fields(3))
qed

subsection \<open>From the TCP write buffer to the poll\<close>



subsection \<open>The state of the interface\<close>

text \<open>Replacing the tun device shows in the next report: the interface is reported up, with
  its errors forgotten, exactly when a device was given and could be registered, and down
  otherwise.\<close>

theorem update_tun_reported:
  assumes "ce_streams env = mio_ops sys apple (ce_ids env)" and "mio_ok (cn_streams c)"
    and "mio_update_tun sys apple (ce_ids env) info (cn_streams c) = (r, ms')"
    and "new_state \<noteq> cn_connection_state c"
  shows "last (cn_outputs (set_state env new_state (update_tun env info c))) = StateChanged
     \<lparr>vs_interface_state =
        (if r = Inr () \<and> info \<noteq> NoTun then InterfaceUp None
         else InterfaceDown (if r = Inr () then None else cn_current_tun_error c)),
      vs_connection_state = new_state\<rparr>"
proof -
  have upd: "so_update_tun (ce_streams env) info (cn_streams c) = (r, ms')"
    using assms(1,3) by (simp add: mio_ops_def)
  note state = mio.interface_after_update_tun [OF assms(2) upd [unfolded assms(1)], folded assms(1)]
  show ?thesis
    using assms(4) state by (cases r) (simp_all add: update_tun_def streams_get_def upd set_state_def Let_def)
qed

theorem update_tun_reported_witness:
  "last (cn_outputs (set_state example_env (Connecting [] []) (update_tun example_env (TunFd 9) example_start))) =
     StateChanged \<lparr>vs_interface_state = InterfaceUp None, vs_connection_state = Connecting [] []\<rparr>"
proof -
  have st: "cn_streams example_start = example_streams" "cn_connection_state example_start = Connecting [] [WaitingForNetwork]"
    by (simp_all add: example_start_def pvpn_connection_new_def set_state_def client_do_def
        network_recovery_new_def is_network_available_def Let_def sanitized_peers_eq best_peers_def best_in_def)
  have "mio_ok example_streams"
    by (simp add: example_streams_def mio_new_def register_stream_def window_sys_def mio_ok_def POLL_WAKER_TOKEN_def Let_def)
  moreover obtain ms' where "mio_update_tun window_sys False (ce_ids example_env) (TunFd 9) example_streams = (Inr (), ms')"
    by (simp add: mio_update_tun_def register_stream_def window_sys_def Let_def)
  ultimately show ?thesis
    using update_tun_reported [OF example_tun(3), of example_start "TunFd 9" "Inr ()" ms' "Connecting [] []"] st
    by simp
qed

end
